(* ===== verification/Relay_Prelude.thy ===== *)
theory Relay_Prelude
  imports Complex_Main
begin

text \<open>
  Shared vocabulary of the development: the string operations of the JavaScript standard
  library that the relay's code calls (trimming, lower-casing, splitting, searching), decimal
  digits, and a few facts on lists and finite maps that several components use.

  A source string is a \<^typ>\<open>string\<close> of ASCII characters; source numbers that are always whole
  (ids, row numbers, epoch milliseconds, counters) are \<^typ>\<open>int\<close> or \<^typ>\<open>nat\<close>, the others are
  \<^typ>\<open>rat\<close> (an idealised double: no rounding, no overflow).
\<close>

named_theorems relay_defs \<open>definitions the component proofs unfold\<close>
named_theorems relay_inv \<open>preservation lemmas: one operation keeps one invariant\<close>

type_synonym tenant = string
type_synonym millis = int

section \<open>Strings\<close>

definition js_space :: "char \<Rightarrow> bool" where
  "js_space c \<longleftrightarrow> c \<in> set [CHR '' '', CHR 0x09, CHR 0x0A, CHR 0x0B, CHR 0x0C, CHR 0x0D]"

definition is_digit :: "char \<Rightarrow> bool" where
  "is_digit c \<longleftrightarrow> 48 \<le> (of_char c :: nat) \<and> (of_char c :: nat) \<le> 57"

definition all_digits :: "string \<Rightarrow> bool" where
  "all_digits s \<longleftrightarrow> s \<noteq> [] \<and> list_all is_digit s"

definition js_trim_left :: "string \<Rightarrow> string" where
  "js_trim_left s = dropWhile js_space s"

definition js_trim :: "string \<Rightarrow> string" where
  "js_trim s = rev (dropWhile js_space (rev (dropWhile js_space s)))"

definition lower_char :: "char \<Rightarrow> char" where
  "lower_char c = (case map_of (zip ''ABCDEFGHIJKLMNOPQRSTUVWXYZ'' ''abcdefghijklmnopqrstuvwxyz'') c of
     Some d \<Rightarrow> d | None \<Rightarrow> c)"

definition upper_char :: "char \<Rightarrow> char" where
  "upper_char c = (case map_of (zip ''abcdefghijklmnopqrstuvwxyz'' ''ABCDEFGHIJKLMNOPQRSTUVWXYZ'') c of
     Some d \<Rightarrow> d | None \<Rightarrow> c)"

definition lower :: "string \<Rightarrow> string" where
  "lower s = map lower_char s"

definition upper :: "string \<Rightarrow> string" where
  "upper s = map upper_char s"

fun starts_with :: "string \<Rightarrow> string \<Rightarrow> bool" where
  "starts_with _ [] = True"
| "starts_with [] (_ # _) = False"
| "starts_with (c # cs) (p # ps) = (c = p \<and> starts_with cs ps)"

fun has_substr :: "string \<Rightarrow> string \<Rightarrow> bool" where
  "has_substr [] p = (p = [])"
| "has_substr (c # cs) p = (starts_with (c # cs) p \<or> has_substr cs p)"

fun split_on :: "(char \<Rightarrow> bool) \<Rightarrow> string \<Rightarrow> string list" where
  "split_on sep [] = [[]]"
| "split_on sep (c # cs) =
     (if sep c then [] # split_on sep cs
      else case split_on sep cs of [] \<Rightarrow> [[c]] | w # ws \<Rightarrow> (c # w) # ws)"

fun join_with :: "string \<Rightarrow> string list \<Rightarrow> string" where
  "join_with sep [] = []"
| "join_with sep [x] = x"
| "join_with sep (x # y # xs) = x @ sep @ join_with sep (y # xs)"

text \<open>\<open>/\bw\b/\<close>: the word \<open>w\<close> stands alone in the text; \<open>prev\<close> says whether a word character precedes.\<close>

definition word_char :: "char \<Rightarrow> bool" where
  "word_char c \<longleftrightarrow> is_digit c \<or> lower_char c \<in> set ''abcdefghijklmnopqrstuvwxyz'' \<or> c = CHR ''_''"

fun has_word :: "bool \<Rightarrow> string \<Rightarrow> string \<Rightarrow> bool" where
  "has_word prev [] w = False"
| "has_word prev (c # cs) w =
     ((\<not> prev \<and> starts_with (c # cs) w \<and> (let r = drop (length w) (c # cs) in r = [] \<or> \<not> word_char (hd r)))
      \<or> has_word (word_char c) cs w)"

lemma starts_with_iff: "starts_with s p \<longleftrightarrow> (\<exists>t. s = p @ t)"
  by (induction s p rule: starts_with.induct) auto

lemma includes_iff: "has_substr s p \<longleftrightarrow> (\<exists>a b. s = a @ p @ b)"
proof (induction s)
  case Nil
  then show ?case by auto
next
  case (Cons c cs)
  show ?case
  proof
    assume "has_substr (c # cs) p"
    then consider "starts_with (c # cs) p" | "has_substr cs p" by auto
    then show "\<exists>a b. c # cs = a @ p @ b"
    proof cases
      case 1
      then obtain t where "c # cs = [] @ p @ t" by (auto simp: starts_with_iff)
      then show ?thesis by blast
    next
      case 2
      with Cons.IH obtain a b where "c # cs = (c # a) @ p @ b" by auto
      then show ?thesis by blast
    qed
  next
    assume "\<exists>a b. c # cs = a @ p @ b"
    then obtain a b where eq: "c # cs = a @ p @ b" by blast
    show "has_substr (c # cs) p"
    proof (cases a)
      case Nil
      with eq have "starts_with (c # cs) p" by (auto simp: starts_with_iff)
      then show ?thesis by simp
    next
      case (Cons x a')
      with eq have "cs = a' @ p @ b" by simp
      with Cons.IH have "has_substr cs p" by blast
      then show ?thesis by simp
    qed
  qed
qed

lemma includes_append_left [intro]: "has_substr s p \<Longrightarrow> has_substr (t @ s) p"
  by (metis append.assoc includes_iff)

lemma includes_append_right [intro]: "has_substr s p \<Longrightarrow> has_substr (s @ t) p"
  by (metis append.assoc includes_iff)

lemma includes_self [simp]: "has_substr s s"
  by (metis append_Nil append_Nil2 includes_iff)

lemma starts_with_self_append [simp]: "starts_with (p @ s) p"
  by (simp add: starts_with_iff)

lemma split_on_not_Nil [simp]: "split_on p s \<noteq> []"
  by (induction s) (auto split: list.splits)

lemma lower_idem [simp]: "lower (lower s) = lower s"
proof -
  have "lower_char (lower_char c) = lower_char c" for c
    by (simp add: lower_char_def)
  then show ?thesis by (simp add: lower_def)
qed

section \<open>Decimal numerals\<close>

definition digit_char :: "nat \<Rightarrow> char" where
  "digit_char n = char_of (48 + n mod 10)"

definition digit_val :: "char \<Rightarrow> nat" where
  "digit_val c = of_char c - 48"

function nat_to_str :: "nat \<Rightarrow> string" where
  "nat_to_str n = (if n < 10 then [digit_char n] else nat_to_str (n div 10) @ [digit_char (n mod 10)])"
  by pat_completeness auto
termination by (relation "measure id") auto

declare nat_to_str.simps [simp del]

definition int_to_str :: "int \<Rightarrow> string" where
  "int_to_str i = (if i < 0 then CHR ''-'' # nat_to_str (nat (- i)) else nat_to_str (nat i))"

definition str_to_nat :: "string \<Rightarrow> nat" where
  "str_to_nat s = foldl (\<lambda>a c. 10 * a + digit_val c) 0 s"

lemma digit_val_char [simp]: "digit_val (digit_char n) = n mod 10"
  by (simp add: digit_char_def digit_val_def)

lemma is_digit_char [simp]: "is_digit (digit_char n)"
  by (simp add: digit_char_def is_digit_def)

lemma str_to_nat_snoc: "str_to_nat (s @ [c]) = 10 * str_to_nat s + digit_val c"
  by (simp add: str_to_nat_def)

lemma str_to_nat_roundtrip [simp]: "str_to_nat (nat_to_str n) = n"
proof (induction n rule: nat_to_str.induct)
  case (1 n)
  show ?case
  proof (cases "n < 10")
    case True
    then show ?thesis by (subst nat_to_str.simps) (simp add: str_to_nat_def)
  next
    case False
    with "1.IH" show ?thesis by (subst nat_to_str.simps) (simp add: str_to_nat_snoc)
  qed
qed

lemma all_digits_nat_to_str [simp]: "all_digits (nat_to_str n)"
proof (induction n rule: nat_to_str.induct)
  case (1 n)
  then show ?case by (subst nat_to_str.simps) (auto simp: all_digits_def)
qed

section \<open>Lists and maps\<close>

text \<open>JavaScript's \<open>Set\<close> built from a sequence keeps the first occurrence of each element.\<close>

definition uniq :: "'a list \<Rightarrow> 'a list" where
  "uniq xs = rev (remdups (rev xs))"

lemma set_uniq [simp]: "set (uniq xs) = set xs"
  by (simp add: uniq_def)

lemma distinct_uniq [simp]: "distinct (uniq xs)"
  by (simp add: uniq_def)

fun upsert :: "('k \<times> 'v) list \<Rightarrow> 'k \<Rightarrow> 'v \<Rightarrow> ('k \<times> 'v) list" where
  "upsert [] k v = [(k, v)]"
| "upsert ((k', v') # m) k v = (if k' = k then (k, v) # m else (k', v') # upsert m k v)"

text \<open>A list cut into slices of at most \<open>n\<close>; the fuel is the length of the list.\<close>

fun chunks_of :: "nat \<Rightarrow> nat \<Rightarrow> 'a list \<Rightarrow> 'a list list" where
  "chunks_of 0 n xs = []"
| "chunks_of (Suc fuel) n xs = (if xs = [] then [] else take n xs # chunks_of fuel n (drop n xs))"

lemma concat_chunks_of: "0 < n \<Longrightarrow> length xs \<le> k \<Longrightarrow> concat (chunks_of k n xs) = xs"
proof (induction k arbitrary: xs)
  case (Suc k)
  then have "concat (chunks_of k n (drop n xs)) = drop n xs" by (intro Suc.IH) auto
  then show ?case by simp
qed simp

lemma chunks_of_length: "c \<in> set (chunks_of k n xs) \<Longrightarrow> length c \<le> n"
  by (induction k arbitrary: xs) (auto split: if_splits)

lemma Suc_length_remove1: "x \<in> set xs \<Longrightarrow> Suc (length (remove1 x xs)) = length xs"
  by (simp add: length_remove1) (metis Suc_pred length_pos_if_in_set)

definition remove_key :: "('k \<times> 'v) list \<Rightarrow> 'k \<Rightarrow> ('k \<times> 'v) list" where
  "remove_key m k = filter (\<lambda>(k', _). k' \<noteq> k) m"

lemma map_of_upsert [simp]: "map_of (upsert m k v) x = (if x = k then Some v else map_of m x)"
  by (induction m k v rule: upsert.induct) auto

lemma map_of_remove_key [simp]: "map_of (remove_key m k) x = (if x = k then None else map_of m x)"
  by (induction m) (auto simp: remove_key_def)

lemma keys_upsert: "fst ` set (upsert m k v) = insert k (fst ` set m)"
  by (induction m k v rule: upsert.induct) auto

lemma distinct_keys_upsert [simp]: "distinct (map fst m) \<Longrightarrow> distinct (map fst (upsert m k v))"
  by (induction m k v rule: upsert.induct) (auto simp: keys_upsert image_iff)

lemma distinct_keys_remove [simp]: "distinct (map fst m) \<Longrightarrow> distinct (map fst (remove_key m k))"
  by (simp add: remove_key_def distinct_map_filter)

lemma remove_key_absent: "k \<notin> fst ` set m \<Longrightarrow> remove_key m k = m"
  by (induction m) (auto simp: remove_key_def)

lemma length_remove_key_le: "length (remove_key m k) \<le> length m"
  by (simp add: remove_key_def)

end
