(* ===== verification/Keyed_Store.thy ===== *)
theory Keyed_Store
  imports Relay_Prelude
begin

text \<open>
  The contract shared by the relay's bounded in-memory stores: the read cache
  (\<open>services/http-cache.ts\<close>), the replay store of mutating calls (\<open>utils/idempotency.ts\<close>) and the
  picklist cache (\<open>services/picklist.cache.ts\<close>). A store may forget (eviction, expiry), but it
  never invents or mixes up values. The clients' facts are proved here once, from the laws.
\<close>

locale keyed_store =
  fixes lookup :: "'s \<Rightarrow> 'k \<Rightarrow> 'v option"
    and put :: "'k \<Rightarrow> 'v \<Rightarrow> 's \<Rightarrow> 's"
    and ok :: "'s \<Rightarrow> bool"
  assumes lookup_put_same: "ok s \<Longrightarrow> lookup (put k v s) k = Some v"
    and lookup_put_other: "ok s \<Longrightarrow> k' \<noteq> k \<Longrightarrow> lookup (put k v s) k' \<in> {lookup s k', None}"
    and ok_put: "ok s \<Longrightarrow> ok (put k v s)"
begin

definition put_all :: "('k \<times> 'v) list \<Rightarrow> 's \<Rightarrow> 's" where
  "put_all kvs s = fold (\<lambda>(k, v). put k v) kvs s"

lemma ok_put_all: "ok s \<Longrightarrow> ok (put_all kvs s)"
  by (induction kvs arbitrary: s) (auto simp: put_all_def intro: ok_put)

lemma lookup_put_cases:
  "ok s \<Longrightarrow> lookup (put k v s) k' = Some w \<Longrightarrow> (k' = k \<and> w = v) \<or> (k' \<noteq> k \<and> lookup s k' = Some w)"
  using lookup_put_same [of s k v] lookup_put_other [of s k' k v] by (cases "k' = k") auto

lemma no_invention:
  "ok s \<Longrightarrow> lookup (put_all kvs s) k = Some v \<Longrightarrow> (k, v) \<in> set kvs \<or> lookup s k = Some v"
proof (induction kvs arbitrary: s)
  case Nil
  then show ?case by (simp add: put_all_def)
next
  case (Cons kv kvs)
  obtain k0 v0 where kv: "kv = (k0, v0)" by (cases kv)
  have "lookup (put_all kvs (put k0 v0 s)) k = Some v"
    using Cons.prems kv by (simp add: put_all_def)
  with Cons.IH [of "put k0 v0 s"] Cons.prems(1)
  have "(k, v) \<in> set kvs \<or> lookup (put k0 v0 s) k = Some v"
    by (auto intro: ok_put)
  with lookup_put_cases [OF Cons.prems(1), of k0 v0 k v] kv show ?case by auto
qed

text \<open>With unique keys per value source, what is found is the latest value put under that key.\<close>

lemma latest_or_forgotten:
  assumes "ok s"
  shows "lookup (put_all kvs s) k = None \<or>
    lookup (put_all kvs s) k = (case map_of (rev kvs) k of Some v \<Rightarrow> Some v | None \<Rightarrow> lookup s k)"
  using assms
proof (induction kvs arbitrary: s)
  case Nil
  then show ?case by (simp add: put_all_def)
next
  case (Cons kv kvs)
  obtain k0 v0 where kv: "kv = (k0, v0)" by (cases kv)
  let ?s = "put k0 v0 s"
  have eq: "put_all ((k0, v0) # kvs) s = put_all kvs ?s" by (simp add: put_all_def)
  have ih: "lookup (put_all kvs ?s) k = None \<or>
      lookup (put_all kvs ?s) k = (case map_of (rev kvs) k of Some v \<Rightarrow> Some v | None \<Rightarrow> lookup ?s k)"
    using Cons.IH [of ?s] Cons.prems by (auto intro: ok_put)
  have "lookup ?s k = None \<or> lookup ?s k = (if k = k0 then Some v0 else lookup s k)"
    using lookup_put_same [OF Cons.prems, of k0 v0] lookup_put_other [OF Cons.prems, of k k0 v0] by auto
  with ih show ?case
    by (auto simp: eq kv map_add_def split: option.splits if_splits)
qed

end

text \<open>
  The store the JavaScript \<open>Map\<close> gives when entries are only added and the oldest ones dropped:
  an association list in insertion order, cut from the front to a capacity.
\<close>

definition keep_newest :: "nat \<Rightarrow> ('k \<times> 'v) list \<Rightarrow> ('k \<times> 'v) list" where
  "keep_newest cap m = drop (length m - cap) m"

lemma length_keep_newest: "length (keep_newest cap m) \<le> cap"
  by (simp add: keep_newest_def)

lemma distinct_keep_newest [simp]: "distinct (map fst m) \<Longrightarrow> distinct (map fst (keep_newest cap m))"
  by (simp add: keep_newest_def drop_map [symmetric] distinct_drop)

lemma map_of_drop_sub:
  "distinct (map fst m) \<Longrightarrow> map_of (drop n m) k \<in> {map_of m k, None}"
proof (induction m arbitrary: n)
  case Nil
  then show ?case by simp
next
  case (Cons kv m)
  have d: "distinct (map fst m)" using Cons.prems by simp
  show ?case
  proof (cases n)
    case 0
    then show ?thesis by simp
  next
    case (Suc n')
    have "fst kv = k \<Longrightarrow> map_of (drop n' m) k = None"
      using Cons.prems by (auto simp: map_of_eq_None_iff dest: in_set_dropD)
    with Cons.IH [OF d, of n'] Suc show ?thesis by auto
  qed
qed

lemma set_keep_newest: "set (keep_newest cap m) \<subseteq> set m"
  by (simp add: keep_newest_def set_drop_subset)

end
