(* ===== verification/Js_Values.thy ===== *)
theory Js_Values
  imports Relay_Prelude
begin

text \<open>
  JSON values as the relay's \<open>unknown\<close> / \<open>Record<string, unknown>\<close> fields hold them, and the
  conversions of the language the code applies to them: \<open>Number(v)\<close>, \<open>String(v)\<close>, truthiness and
  property access. \<open>Number(v)\<close> is \<^const>\<open>None\<close> when the result is not a finite number
  (\<open>NaN\<close> or an infinity): every caller tests it with \<open>Number.isFinite\<close> / \<open>isInteger\<close>, or
  compares it, and both outcomes read the same.
\<close>

datatype jsv = JUndef | JNull | JBool bool | JNum rat | JStr string | JArr "jsv list"
  | JObj "(string \<times> jsv) list"

type_synonym fields = "(string \<times> jsv) list"

definition nullish :: "jsv \<Rightarrow> bool" where
  "nullish v \<longleftrightarrow> v = JUndef \<or> v = JNull"

definition coalesce :: "jsv \<Rightarrow> jsv \<Rightarrow> jsv" where
  "coalesce a b = (if nullish a then b else a)"

definition truthy :: "jsv \<Rightarrow> bool" where
  "truthy v = (case v of JUndef \<Rightarrow> False | JNull \<Rightarrow> False | JBool b \<Rightarrow> b | JNum r \<Rightarrow> r \<noteq> 0
     | JStr s \<Rightarrow> s \<noteq> [] | JArr _ \<Rightarrow> True | JObj _ \<Rightarrow> True)"

definition get_prop :: "fields \<Rightarrow> string \<Rightarrow> jsv" where
  "get_prop m k = (case map_of m k of None \<Rightarrow> JUndef | Some v \<Rightarrow> v)"

definition has_prop :: "fields \<Rightarrow> string \<Rightarrow> bool" where
  "has_prop m k \<longleftrightarrow> k \<in> fst ` set m"

text \<open>\<open>v.k\<close> on any value: only objects have properties here (\<open>null\<close> is read with \<open>?.\<close>).\<close>

definition get_member :: "jsv \<Rightarrow> string \<Rightarrow> jsv" where
  "get_member v k = (case v of JObj m \<Rightarrow> get_prop m k | _ \<Rightarrow> JUndef)"

definition is_whole :: "rat \<Rightarrow> bool" where
  "is_whole r \<longleftrightarrow> of_int \<lfloor>r\<rfloor> = r"

section \<open>Strings to numbers\<close>

fun radix_digit :: "nat \<Rightarrow> char \<Rightarrow> nat option" where
  "radix_digit b c =
     (let n = of_char (lower_char c) :: nat;
          d = (if 48 \<le> n \<and> n \<le> 57 then Some (n - 48) else if 97 \<le> n \<and> n \<le> 122 then Some (n - 87) else None)
      in case d of Some k \<Rightarrow> if k < b then Some k else None | None \<Rightarrow> None)"

fun radix_val :: "nat \<Rightarrow> nat \<Rightarrow> string \<Rightarrow> nat option" where
  "radix_val b a [] = Some a"
| "radix_val b a (c # cs) = (case radix_digit b c of None \<Rightarrow> None | Some d \<Rightarrow> radix_val b (b * a + d) cs)"

definition exponent_part :: "rat \<Rightarrow> string \<Rightarrow> rat option" where
  "exponent_part m s =
     (if s = [] then Some m
      else if hd s \<noteq> CHR ''e'' \<and> hd s \<noteq> CHR ''E'' then None
      else if starts_with (tl s) ''-'' then (if all_digits (drop 2 s) then Some (m / 10 ^ str_to_nat (drop 2 s)) else None)
      else if starts_with (tl s) ''+'' then (if all_digits (drop 2 s) then Some (m * 10 ^ str_to_nat (drop 2 s)) else None)
      else if all_digits (tl s) then Some (m * 10 ^ str_to_nat (tl s)) else None)"

definition decimal_val :: "string \<Rightarrow> rat option" where
  "decimal_val s =
     (let ip = takeWhile is_digit s; r1 = dropWhile is_digit s;
          pt = (r1 \<noteq> [] \<and> hd r1 = CHR ''.'');
          fp = (if pt then takeWhile is_digit (tl r1) else []);
          r2 = (if pt then dropWhile is_digit (tl r1) else r1)
      in if ip = [] \<and> fp = [] then None
         else exponent_part (of_nat (str_to_nat (ip @ fp)) / 10 ^ length fp) r2)"

definition str_to_num :: "string \<Rightarrow> rat option" where
  "str_to_num s0 =
     (let s = js_trim s0; p = lower (take 2 s); d = drop 2 s in
      if s = [] then Some 0
      else if p = ''0x'' \<and> d \<noteq> [] then map_option of_nat (radix_val 16 0 d)
      else if p = ''0o'' \<and> d \<noteq> [] then map_option of_nat (radix_val 8 0 d)
      else if p = ''0b'' \<and> d \<noteq> [] then map_option of_nat (radix_val 2 0 d)
      else if hd s = CHR ''-'' then map_option uminus (decimal_val (tl s))
      else if hd s = CHR ''+'' then decimal_val (tl s)
      else decimal_val s)"

section \<open>Numbers to strings\<close>

fun frac_digits :: "nat \<Rightarrow> rat \<Rightarrow> string" where
  "frac_digits 0 f = []"
| "frac_digits (Suc n) f =
     (if f = 0 then [] else digit_char (nat \<lfloor>10 * f\<rfloor>) # frac_digits n (10 * f - of_int \<lfloor>10 * f\<rfloor>))"

text \<open>Whole numbers below \<open>1e21\<close> and decimals of at most 20 places (JSON prices, hours): plain notation.\<close>

definition num_to_str :: "rat \<Rightarrow> string" where
  "num_to_str r =
     (if is_whole r then int_to_str \<lfloor>r\<rfloor>
      else (if r < 0 then ''-'' else []) @ nat_to_str (nat \<lfloor>\<bar>r\<bar>\<rfloor>) @ ''.'' @ frac_digits 20 (\<bar>r\<bar> - of_int \<lfloor>\<bar>r\<bar>\<rfloor>))"

fun to_str :: "jsv \<Rightarrow> string" where
  "to_str JUndef = ''undefined''"
| "to_str JNull = ''null''"
| "to_str (JBool b) = (if b then ''true'' else ''false'')"
| "to_str (JNum r) = num_to_str r"
| "to_str (JStr s) = s"
| "to_str (JArr vs) = join_with '','' (map (\<lambda>v. if nullish v then [] else to_str v) vs)"
| "to_str (JObj _) = ''[object Object]''"

definition to_num :: "jsv \<Rightarrow> rat option" where
  "to_num v = (case v of
     JUndef \<Rightarrow> None | JNull \<Rightarrow> Some 0 | JBool b \<Rightarrow> Some (if b then 1 else 0) | JNum r \<Rightarrow> Some r
   | JStr s \<Rightarrow> str_to_num s | JArr vs \<Rightarrow> str_to_num (to_str (JArr vs)) | JObj _ \<Rightarrow> None)"

definition to_int :: "jsv \<Rightarrow> int option" where
  "to_int v = (case to_num v of Some r \<Rightarrow> if is_whole r then Some \<lfloor>r\<rfloor> else None | None \<Rightarrow> None)"

section \<open>Building values, rounding, comparing text\<close>

definition json_int :: "int \<Rightarrow> jsv" where
  "json_int i = JNum (of_int i)"

definition json_opt :: "('a \<Rightarrow> jsv) \<Rightarrow> 'a option \<Rightarrow> jsv" where
  "json_opt f v = (case v of None \<Rightarrow> JNull | Some x \<Rightarrow> f x)"

text \<open>\<open>Math.round\<close>, and \<open><\<close> on texts.\<close>

definition round_half_up :: "rat \<Rightarrow> int" where
  "round_half_up x = \<lfloor>x + 1 / 2\<rfloor>"

fun str_less :: "string \<Rightarrow> string \<Rightarrow> bool" where
  "str_less s [] = False"
| "str_less [] (d # t) = True"
| "str_less (c # s) (d # t) = ((of_char c :: nat) < of_char d \<or> (c = d \<and> str_less s t))"

section \<open>Facts\<close>

lemma is_whole_of_int [simp]: "is_whole (of_int i)"
  by (simp add: is_whole_def)

lemma is_whole_numeral [simp]: "is_whole (numeral n)" "is_whole 0" "is_whole 1" "is_whole (- numeral n)"
  by (simp_all add: is_whole_def)

lemma num_to_str_int [simp]: "num_to_str (of_int i) = int_to_str i"
  by (simp add: num_to_str_def)

lemma get_prop_Nil [simp]: "get_prop [] k = JUndef"
  by (simp add: get_prop_def)

lemma get_prop_Cons [simp]: "get_prop ((k, v) # m) x = (if x = k then v else get_prop m x)"
  by (simp add: get_prop_def)

lemma get_prop_upsert [simp]: "get_prop (upsert m k v) x = (if x = k then v else get_prop m x)"
  by (simp add: get_prop_def)

lemma nullish_simps [simp]: "nullish JUndef" "nullish JNull" "\<not> nullish (JBool b)" "\<not> nullish (JNum r)"
  "\<not> nullish (JStr s)" "\<not> nullish (JArr vs)" "\<not> nullish (JObj m)"
  by (simp_all add: nullish_def)

lemma to_num_JNum [simp]: "to_num (JNum r) = Some r"
  by (simp add: to_num_def)

lemma to_num_JNull [simp]: "to_num JNull = Some 0"
  by (simp add: to_num_def)

lemma to_num_JUndef [simp]: "to_num JUndef = None"
  by (simp add: to_num_def)

lemma to_num_JBool [simp]: "to_num (JBool b) = Some (if b then 1 else 0)"
  by (simp add: to_num_def)

text \<open>A whole number survives the round trip through its text.\<close>

lemma all_digits_takeWhile: "all_digits s \<Longrightarrow> takeWhile is_digit s = s \<and> dropWhile is_digit s = []"
  by (auto simp: all_digits_def list_all_iff)

lemma decimal_val_digits:
  assumes "all_digits s"
  shows "decimal_val s = Some (of_nat (str_to_nat s))"
proof -
  have tw: "takeWhile is_digit s = s" and dw: "dropWhile is_digit s = []" and ne: "s \<noteq> []"
    using all_digits_takeWhile [OF assms] assms by (auto simp: all_digits_def)
  show ?thesis
    by (simp add: decimal_val_def exponent_part_def Let_def tw dw ne)
qed

end
