(* ===== verification/Http_Cache.thy ===== *)
theory Http_Cache
  imports Keyed_Store Js_Values
begin

text \<open>
  The Autotask read cache, request coalescing and upstream counters of
  \<open>src/src/services/http-cache.ts\<close>.

  The module state is a record: the per-tenant caches (JavaScript \<open>Map\<close>s: association lists in
  insertion order), the reads in flight, and the per-tenant counters. \<open>cachedRead\<close> runs in two
  synchronous segments: \<open>read_begin\<close> up to the first \<open>await\<close> (hit, join a pending read, or start
  one) and \<open>read_settle\<close> when the started fetch answers. \<open>process.env\<close> and the console setting
  \<open>cache.enabled\<close> are arguments. A URL is assumed to be already in normal form (no dot
  segments or escapes in its path).
\<close>

section \<open>Classification\<close>

datatype cache_class = Fields | Reference | SlowReference | Volatile | NeverCached

type_synonym env = "string \<Rightarrow> string option"

definition REFERENCE :: "string list" where
  "REFERENCE = [''Resources'', ''ResourceRoles'', ''Roles'', ''Departments'', ''BillingCodes'', ''InternalLocations'',
     ''Countries'', ''Currencies'', ''Holidays'', ''HolidaySets'', ''WorkTypeModifiers'', ''TaxCategories'',
     ''ServiceBundles'', ''Services'', ''Products'', ''ClassificationIcons'', ''ShippingTypes'', ''Skills'']"

definition SLOW_REFERENCE :: "string list" where
  "SLOW_REFERENCE = [''Companies'', ''CompanyLocations'', ''Contracts'', ''ContractServices'', ''Contacts'']"

definition NEVER :: "string list" where
  "NEVER = [''ThresholdInformation'', ''Version'', ''zoneInformation'']"

definition MAX_ENTRIES :: nat where
  "MAX_ENTRIES = 1500"

definition MAX_CACHEABLE_BYTES :: nat where
  "MAX_CACHEABLE_BYTES = 2000000"

definition envSeconds :: "env \<Rightarrow> string \<Rightarrow> rat \<Rightarrow> rat" where
  "envSeconds env name fallback =
     (case Option.bind (env name) str_to_num of
        Some v \<Rightarrow> if v \<ge> 0 then v else fallback
      | None \<Rightarrow> fallback)"

fun ttlMs :: "env \<Rightarrow> cache_class \<Rightarrow> rat" where
  "ttlMs env Fields = envSeconds env ''AUTOTASK_CACHE_TTL_FIELDS_SECONDS'' 3600 * 1000"
| "ttlMs env Reference = envSeconds env ''AUTOTASK_CACHE_TTL_REFERENCE_SECONDS'' 900 * 1000"
| "ttlMs env SlowReference = envSeconds env ''AUTOTASK_CACHE_TTL_SLOW_REFERENCE_SECONDS'' 300 * 1000"
| "ttlMs env Volatile = envSeconds env ''AUTOTASK_CACHE_TTL_VOLATILE_SECONDS'' 30 * 1000"
| "ttlMs env NeverCached = 0"

text \<open>\<open>.replace(/^.*?\/v1\.0/i, '')\<close>: drop through the first \<open>/v1.0\<close>, if there is one.\<close>

fun after_v1 :: "string \<Rightarrow> string option" where
  "after_v1 [] = None"
| "after_v1 (c # cs) = (if starts_with (lower (c # cs)) ''/v1.0'' then Some (drop 5 (c # cs)) else after_v1 cs)"

fun after_scheme :: "string \<Rightarrow> string" where
  "after_scheme [] = []"
| "after_scheme (c # cs) = (if starts_with (c # cs) ''://'' then drop 3 (c # cs) else after_scheme cs)"

definition url_pathname :: "string \<Rightarrow> string" where
  "url_pathname u = takeWhile (\<lambda>c. c \<notin> set ''?#'') (dropWhile (\<lambda>c. c \<notin> set ''/?#'') (after_scheme u))"

definition entityOf :: "string \<Rightarrow> string" where
  "entityOf path =
     (let p = (if starts_with path ''http''
               then (let q = url_pathname path in case after_v1 q of Some r \<Rightarrow> r | None \<Rightarrow> q)
               else path)
      in takeWhile (\<lambda>c. c \<notin> set ''/?'') (dropWhile (\<lambda>c. c = CHR ''/'') p))"

text \<open>A match of \<open>/word(\/|stop|$)/i\<close> anywhere in a path.\<close>

fun has_segment :: "string \<Rightarrow> char list \<Rightarrow> string \<Rightarrow> bool" where
  "has_segment word stops [] = False"
| "has_segment word stops (c # cs) =
     ((starts_with (lower (c # cs)) word \<and>
        (let rest = drop (length word) (c # cs) in rest = [] \<or> hd rest \<in> set stops)) \<or>
      has_segment word stops cs)"

definition isRead :: "string \<Rightarrow> string \<Rightarrow> bool" where
  "isRead method path =
     (let m = upper method in m = ''GET'' \<or> (m = ''POST'' \<and> has_segment ''/query'' ''/?'' path))"

definition classify :: "string \<Rightarrow> cache_class" where
  "classify path =
     (let entity = entityOf path in
      if entity = [] \<or> entity \<in> set NEVER then NeverCached
      else if has_segment ''/entityinformation'' ''/'' path then Fields
      else if entity \<in> set REFERENCE then Reference
      else if entity \<in> set SLOW_REFERENCE then SlowReference
      else Volatile)"

definition isCacheableValue :: "jsv \<Rightarrow> bool" where
  "isCacheableValue v = (case v of
     JObj m \<Rightarrow> (if has_prop m ''item'' then \<not> nullish (get_prop m ''item'')
               else if has_prop m ''items'' then (case get_prop m ''items'' of JArr xs \<Rightarrow> xs \<noteq> [] | _ \<Rightarrow> False)
               else True)
   | JArr _ \<Rightarrow> True
   | _ \<Rightarrow> False)"

section \<open>State\<close>

record entry =
  e_value :: jsv
  e_expires :: rat
  e_cls :: cache_class
  e_entity :: string

record stats =
  st_since :: millis
  st_upstream :: "(string \<times> nat) list"
  st_cacheHits :: nat
  st_coalesced :: nat
  st_rateLimited :: nat
  st_minutes :: "(int \<times> nat) list"

record http_state =
  caches :: "tenant \<Rightarrow> (string \<times> entry) list"
  inFlight :: "(tenant \<times> string) list"
  http_stats :: "tenant \<Rightarrow> stats option"

definition empty_http :: http_state where
  "empty_http = \<lparr>caches = (\<lambda>_. []), inFlight = [], http_stats = (\<lambda>_. None)\<rparr>"

definition statsFor :: "millis \<Rightarrow> tenant \<Rightarrow> http_state \<Rightarrow> stats" where
  "statsFor now t s = (case http_stats s t of Some st \<Rightarrow> st
     | None \<Rightarrow> \<lparr>st_since = now, st_upstream = [], st_cacheHits = 0, st_coalesced = 0, st_rateLimited = 0, st_minutes = []\<rparr>)"

definition with_stats :: "millis \<Rightarrow> tenant \<Rightarrow> (stats \<Rightarrow> stats) \<Rightarrow> http_state \<Rightarrow> http_state" where
  "with_stats now t f s = s\<lparr>http_stats := (http_stats s)(t := Some (f (statsFor now t s)))\<rparr>"

definition set_cache :: "tenant \<Rightarrow> (string \<times> entry) list \<Rightarrow> http_state \<Rightarrow> http_state" where
  "set_cache t c s = s\<lparr>caches := (caches s)(t := c)\<rparr>"

section \<open>Upstream counters\<close>

definition bump_minute :: "int \<Rightarrow> (int \<times> nat) list \<Rightarrow> (int \<times> nat) list" where
  "bump_minute minute ms =
     dropWhile (\<lambda>(m, _). m \<le> minute - 60)
       (if ms \<noteq> [] \<and> fst (last ms) = minute then butlast ms @ [(minute, snd (last ms) + 1)]
        else ms @ [(minute, 1)])"

definition recordUpstream :: "millis \<Rightarrow> tenant \<Rightarrow> string \<Rightarrow> string \<Rightarrow> http_state \<Rightarrow> http_state" where
  "recordUpstream now t method path =
     with_stats now t (\<lambda>st.
       let key = upper method @ '' '' @ (if entityOf path = [] then ''?'' else entityOf path);
           n = (case map_of (st_upstream st) key of Some n \<Rightarrow> n | None \<Rightarrow> 0)
       in st\<lparr>st_upstream := upsert (st_upstream st) key (n + 1),
             st_minutes := bump_minute (now div 60000) (st_minutes st)\<rparr>)"

definition recordRateLimited :: "millis \<Rightarrow> tenant \<Rightarrow> http_state \<Rightarrow> http_state" where
  "recordRateLimited now t = with_stats now t (\<lambda>st. st\<lparr>st_rateLimited := st_rateLimited st + 1\<rparr>)"

section \<open>Reads through the cache\<close>

datatype read_start = Hit jsv | Joined | Started

definition read_begin :: "bool \<Rightarrow> millis \<Rightarrow> tenant \<Rightarrow> string \<Rightarrow> string \<Rightarrow> http_state \<Rightarrow> read_start \<times> http_state" where
  "read_begin enabled now t key path s =
     (let cls = classify path; cache = caches s t;
          consult = (cls \<noteq> NeverCached \<and> enabled);
          hit = (if consult then map_of cache key else None)
      in case hit of
           Some e \<Rightarrow>
             (if e_expires e > of_int now
              then (Hit (e_value e),
                    with_stats now t (\<lambda>st. st\<lparr>st_cacheHits := st_cacheHits st + 1\<rparr>)
                      (set_cache t (remove_key cache key @ [(key, e)]) s))
              else (let s1 = set_cache t (remove_key cache key) s in
                    if (t, key) \<in> set (inFlight s1)
                    then (Joined, with_stats now t (\<lambda>st. st\<lparr>st_coalesced := st_coalesced st + 1\<rparr>) s1)
                    else (Started, s1\<lparr>inFlight := inFlight s1 @ [(t, key)]\<rparr>)))
         | None \<Rightarrow>
             (if (t, key) \<in> set (inFlight s)
              then (Joined, with_stats now t (\<lambda>st. st\<lparr>st_coalesced := st_coalesced st + 1\<rparr>) s)
              else (Started, s\<lparr>inFlight := inFlight s @ [(t, key)]\<rparr>)))"

definition cache_put :: "string \<Rightarrow> entry \<Rightarrow> (string \<times> entry) list \<Rightarrow> (string \<times> entry) list" where
  "cache_put key e m = keep_newest MAX_ENTRIES (upsert m key e)"

text \<open>The fetch answered: \<^const>\<open>None\<close> an error, otherwise the value and its size in bytes.\<close>

definition read_settle :: "env \<Rightarrow> bool \<Rightarrow> millis \<Rightarrow> tenant \<Rightarrow> string \<Rightarrow> string \<Rightarrow> (jsv \<times> nat) option \<Rightarrow>
    http_state \<Rightarrow> http_state" where
  "read_settle env enabled now t key path answer s =
     (let s1 = (case answer of
          Some (value, bytes) \<Rightarrow>
            (let cls = classify path; ttl = ttlMs env cls in
             if cls \<noteq> NeverCached \<and> ttl > 0 \<and> enabled \<and> bytes \<le> MAX_CACHEABLE_BYTES \<and> isCacheableValue value
             then set_cache t (cache_put key \<lparr>e_value = value, e_expires = of_int now + ttl, e_cls = cls,
                                              e_entity = entityOf path\<rparr> (caches s t)) s
             else s)
        | None \<Rightarrow> s)
      in s1\<lparr>inFlight := removeAll (t, key) (inFlight s1)\<rparr>)"

definition invalidateAfterWrite :: "tenant \<Rightarrow> string \<Rightarrow> http_state \<Rightarrow> http_state" where
  "invalidateAfterWrite t path s =
     set_cache t (filter (\<lambda>(_, e). \<not> (e_cls e = Volatile \<or> e_entity e = entityOf path)) (caches s t)) s"

section \<open>Usage snapshot\<close>

definition js_round :: "rat \<Rightarrow> int" where
  "js_round r = \<lfloor>r + 1 / 2\<rfloor>"

definition in_window :: "int \<Rightarrow> int \<Rightarrow> (int \<times> nat) list \<Rightarrow> nat" where
  "in_window minute mins ms = sum_list (map snd (filter (\<lambda>(m, _). m > minute - mins) ms))"

record usage_snapshot =
  us_since :: millis
  us_cacheEnabled :: bool
  us_upstreamCalls :: nat
  us_upstreamLastHour :: nat
  us_upstreamLastFiveMinutes :: nat
  us_cacheHits :: nat
  us_coalesced :: nat
  us_rateLimited :: nat
  us_savedPct :: "rat option"
  us_cachedEntries :: nat
  us_topUpstream :: "(string \<times> nat) list"

definition usageSnapshot :: "bool \<Rightarrow> millis \<Rightarrow> tenant \<Rightarrow> nat \<Rightarrow> http_state \<Rightarrow> usage_snapshot" where
  "usageSnapshot enabled now t limit s =
     (let st = statsFor now t s; minute = (now div 60000 :: int);
          upstreamCalls = (sum_list (map snd (st_upstream st)) :: nat);
          saved = (st_cacheHits st + st_coalesced st :: nat)
      in \<lparr>us_since = st_since st, us_cacheEnabled = enabled, us_upstreamCalls = upstreamCalls,
          us_upstreamLastHour = in_window minute 60 (st_minutes st),
          us_upstreamLastFiveMinutes = in_window minute 5 (st_minutes st),
          us_cacheHits = st_cacheHits st, us_coalesced = st_coalesced st, us_rateLimited = st_rateLimited st,
          us_savedPct = (if upstreamCalls + saved > 0
             then Some ((of_int (js_round (of_nat saved / of_nat (upstreamCalls + saved) * 1000)) :: rat) / 10) else None),
          us_cachedEntries = length (caches s t),
          us_topUpstream = take limit (sort_key (\<lambda>kv. - int (snd kv)) (st_upstream st))\<rparr>)"

section \<open>The store contract\<close>

definition cache_shape :: "(string \<times> entry) list \<Rightarrow> bool" where
  "cache_shape c \<longleftrightarrow> distinct (map fst c) \<and> length c \<le> MAX_ENTRIES"

lemma length_upsert: "length (upsert m k v) = (if k \<in> fst ` set m then length m else Suc (length m))"
  by (induction m k v rule: upsert.induct) auto

lemma upsert_new: "k \<notin> fst ` set m \<Longrightarrow> upsert m k v = m @ [(k, v)]"
  by (induction m k v rule: upsert.induct) auto

lemma set_upsert: "set (upsert m k v) \<subseteq> insert (k, v) (set m)"
  by (induction m k v rule: upsert.induct) auto

lemma cache_shape_put: "cache_shape c \<Longrightarrow> cache_shape (cache_put k e c)"
  by (simp add: cache_shape_def cache_put_def length_keep_newest)

lemma cache_put_lookup_same:
  assumes "cache_shape c"
  shows "map_of (cache_put k e c) k = Some e"
proof (cases "k \<in> fst ` set c")
  case True
  with assms have "length (upsert c k e) \<le> MAX_ENTRIES"
    by (simp add: cache_shape_def length_upsert)
  then show ?thesis by (simp add: cache_put_def keep_newest_def)
next
  case False
  then have "map_of c k = None" by (simp add: map_of_eq_None_iff)
  then have "map_of (drop n c) k = None" for n
    using map_of_drop_sub [of c n k] assms by (auto simp: cache_shape_def)
  moreover have "length (upsert c k e) - MAX_ENTRIES \<le> length c"
    by (simp add: length_upsert False MAX_ENTRIES_def)
  ultimately show ?thesis
    using False by (simp add: cache_put_def keep_newest_def upsert_new map_add_def)
qed

interpretation http_store: keyed_store map_of cache_put cache_shape
proof unfold_locales
  fix c :: "(string \<times> entry) list" and k k' :: string and e :: entry
  assume ok: "cache_shape c"
  show "map_of (cache_put k e c) k = Some e" by (rule cache_put_lookup_same [OF ok])
  show "cache_shape (cache_put k e c)" by (rule cache_shape_put [OF ok])
  have d: "distinct (map fst (upsert c k e))" using ok by (simp add: cache_shape_def)
  show "map_of (cache_put k e c) k' \<in> {map_of c k', None}" if "k' \<noteq> k"
    using map_of_drop_sub [OF d, of "length (upsert c k e) - MAX_ENTRIES" k'] that
    by (simp add: cache_put_def keep_newest_def)
qed

section \<open>Runs and their invariant\<close>

text \<open>
  Between awaits the module state moves by one of these steps. \<open>pth\<close> gives the path a cache key
  was built from (\<open>request\<close> puts method, path, body and impersonated id into the key).
\<close>

inductive http_reach :: "env \<Rightarrow> (string \<Rightarrow> string) \<Rightarrow> http_state \<Rightarrow> bool" for env pth where
  hr_start: "http_reach env pth empty_http"
| hr_begin: "http_reach env pth s \<Longrightarrow> http_reach env pth (snd (read_begin en now t key (pth key) s))"
| hr_settle: "http_reach env pth s \<Longrightarrow> (t, key) \<in> set (inFlight s) \<Longrightarrow>
     http_reach env pth (read_settle env en now t key (pth key) ans s)"
| hr_write: "http_reach env pth s \<Longrightarrow> http_reach env pth (invalidateAfterWrite t path s)"
| hr_upstream: "http_reach env pth s \<Longrightarrow> http_reach env pth (recordUpstream now t meth path s)"
| hr_limited: "http_reach env pth s \<Longrightarrow> http_reach env pth (recordRateLimited now t s)"

definition entry_ok :: "(string \<Rightarrow> string) \<Rightarrow> string \<times> entry \<Rightarrow> bool" where
  "entry_ok pth ke \<longleftrightarrow> isCacheableValue (e_value (snd ke)) \<and> e_cls (snd ke) = classify (pth (fst ke)) \<and>
     e_entity (snd ke) = entityOf (pth (fst ke)) \<and> e_cls (snd ke) \<noteq> NeverCached"

definition http_inv :: "(string \<Rightarrow> string) \<Rightarrow> http_state \<Rightarrow> bool" where
  "http_inv pth s \<longleftrightarrow> distinct (inFlight s) \<and>
     (\<forall>t. cache_shape (caches s t) \<and> (\<forall>ke \<in> set (caches s t). entry_ok pth ke))"

lemma set_cache_simps [simp]:
  "caches (set_cache t c s) t' = (if t' = t then c else caches s t')"
  "inFlight (set_cache t c s) = inFlight s" "http_stats (set_cache t c s) = http_stats s"
  by (simp_all add: set_cache_def)

lemma with_stats_simps [simp]:
  "caches (with_stats now t f s) = caches s" "inFlight (with_stats now t f s) = inFlight s"
  by (simp_all add: with_stats_def)

lemma cache_shape_filter: "cache_shape c \<Longrightarrow> cache_shape (filter p c)"
  by (auto simp: cache_shape_def distinct_map_filter intro: order_trans [OF length_filter_le])

lemma cache_shape_touch:
  assumes "cache_shape c" and "map_of c k = Some e"
  shows "cache_shape (remove_key c k @ [(k, e)])"
proof -
  have "(k, e) \<in> set c" using assms(2) by (rule map_of_SomeD)
  then have "length (remove_key c k) < length c"
    unfolding remove_key_def by (intro length_filter_less) auto
  then show ?thesis
    using assms(1) by (auto simp: cache_shape_def remove_key_def distinct_map_filter)
qed

lemma set_remove_key: "set (remove_key c k) \<subseteq> set c"
  by (auto simp: remove_key_def)

lemma http_inv_begin [relay_inv]:
  assumes inv: "http_inv pth s"
  shows "http_inv pth (snd (read_begin en now t key (pth key) s))"
proof -
  have sh: "cache_shape (caches s t)" and ok: "\<And>ke. ke \<in> set (caches s t) \<Longrightarrow> entry_ok pth ke"
    using inv by (auto simp: http_inv_def)
  have rm: "cache_shape (remove_key (caches s t) key)"
    using sh by (simp add: remove_key_def cache_shape_filter)
  show ?thesis
  proof (cases "if classify (pth key) \<noteq> NeverCached \<and> en then map_of (caches s t) key else None")
    case None
    then show ?thesis using inv by (auto simp: read_begin_def Let_def http_inv_def)
  next
    case (Some e)
    then have e: "map_of (caches s t) key = Some e" by (simp split: if_splits)
    then have "entry_ok pth (key, e)" by (auto intro: ok dest: map_of_SomeD)
    with Some rm cache_shape_touch [OF sh e] inv set_remove_key [of "caches s t" key] show ?thesis
      by (auto simp: read_begin_def Let_def http_inv_def)
  qed
qed

lemma http_inv_settle [relay_inv]:
  assumes inv: "http_inv pth s"
  shows "http_inv pth (read_settle env en now t key (pth key) ans s)"
proof -
  have "set (cache_put key e (caches s t)) \<subseteq> insert (key, e) (set (caches s t))" for e
    using set_keep_newest set_upsert unfolding cache_put_def by (metis order_trans)
  then have ok: "entry_ok pth (key, e) \<Longrightarrow> \<forall>ke \<in> set (cache_put key e (caches s t)). entry_ok pth ke" for e
    using inv by (auto simp: http_inv_def)
  have sh: "cache_shape (cache_put key e (caches s t))" for e
    using inv by (auto simp: http_inv_def intro: cache_shape_put)
  show ?thesis
  proof (cases ans)
    case None
    then show ?thesis using inv by (simp add: read_settle_def http_inv_def distinct_removeAll)
  next
    case (Some vb)
    obtain v b where vb: "vb = (v, b)" by (cases vb)
    let ?e = "\<lparr>e_value = v, e_expires = of_int now + ttlMs env (classify (pth key)),
      e_cls = classify (pth key), e_entity = entityOf (pth key)\<rparr>"
    have "\<forall>ke \<in> set (cache_put key ?e (caches s t)). entry_ok pth ke"
      if "isCacheableValue v" "classify (pth key) \<noteq> NeverCached"
      by (rule ok) (simp add: entry_ok_def that)
    with Some vb inv sh [of ?e] show ?thesis
      by (simp add: read_settle_def Let_def http_inv_def distinct_removeAll)
  qed
qed

lemma http_inv_write [relay_inv]: "http_inv pth s \<Longrightarrow> http_inv pth (invalidateAfterWrite t path s)"
  by (auto simp: http_inv_def invalidateAfterWrite_def intro: cache_shape_filter)

lemma http_inv_stats [relay_inv]:
  "http_inv pth s \<Longrightarrow> http_inv pth (recordUpstream now t meth path s)"
  "http_inv pth s \<Longrightarrow> http_inv pth (recordRateLimited now t s)"
  by (simp_all add: http_inv_def recordUpstream_def recordRateLimited_def)

lemma http_inv_empty: "http_inv pth empty_http"
  by (simp add: http_inv_def empty_http_def cache_shape_def)

lemma http_reach_inv: "http_reach env pth s \<Longrightarrow> http_inv pth s"
  by (induction rule: http_reach.induct) (auto intro: relay_inv http_inv_empty)

section \<open>Properties of the cache\<close>

text \<open>C13. In every reachable state of the read cache each tenant holds at most 1500 entries under distinct
  keys, no entry is a miss, an empty result, an error or of a class that is never cached, every
  entry carries the class and entity of the path its key was built from, and identical reads
  share one upstream call (no key is in flight twice).\<close>

theorem http_cache_invariant:
  assumes "http_reach env pth s"
  shows "length (caches s t) \<le> 1500 \<and> distinct (map fst (caches s t)) \<and> distinct (inFlight s) \<and>
    (\<forall>ke \<in> set (caches s t). isCacheableValue (e_value (snd ke)) \<and> e_cls (snd ke) \<noteq> NeverCached \<and>
       e_cls (snd ke) = classify (pth (fst ke)) \<and> e_entity (snd ke) = entityOf (pth (fst ke)))"
  using http_reach_inv [OF assms] unfolding http_inv_def cache_shape_def entry_ok_def MAX_ENTRIES_def by blast

definition sample_path :: "string \<Rightarrow> string" where
  "sample_path _ = ''/Tickets/7''"

lemma sample_path_class: "classify (sample_path k) = Volatile \<and> entityOf (sample_path k) = ''Tickets''"
  by code_simp

definition ticket_body :: "rat \<Rightarrow> jsv" where
  "ticket_body st = JObj [(''item'', JObj [(''status'', JNum st)])]"

lemma ticket_body_cacheable: "isCacheableValue (ticket_body st)"
  by (simp add: isCacheableValue_def ticket_body_def has_prop_def)

definition no_env :: env where
  "no_env _ = None"

lemma volatile_ttl: "ttlMs no_env Volatile = 30000"
  by (simp add: envSeconds_def no_env_def)

definition one_read :: "http_state" where
  "one_read = read_settle no_env True 1000 ''acme'' ''K'' (sample_path ''K'') (Some (ticket_body 1, 20))
     (snd (read_begin True 900 ''acme'' ''K'' (sample_path ''K'') empty_http))"

lemma one_read_eq: "caches one_read ''acme'' = [(''K'', \<lparr>e_value = ticket_body 1, e_expires = 31000,
    e_cls = Volatile, e_entity = ''Tickets''\<rparr>)] \<and> inFlight one_read = []"
  using sample_path_class [of "''K''"] volatile_ttl ticket_body_cacheable [of 1]
  by (simp add: one_read_def read_begin_def read_settle_def empty_http_def Let_def cache_put_def keep_newest_def
      MAX_ENTRIES_def MAX_CACHEABLE_BYTES_def)

lemma one_read_reach: "http_reach no_env sample_path one_read"
  unfolding one_read_def
  by (rule hr_settle [OF hr_begin [OF hr_start]])
    (simp add: read_begin_def empty_http_def Let_def sample_path_class)

theorem http_cache_invariant_witness:
  "length (caches one_read ''acme'') = 1 \<and> distinct (map fst (caches one_read ''acme''))"
  using http_cache_invariant [OF one_read_reach, of "''acme''"] one_read_eq by simp

text \<open>A read is answered from the cache only while caching is on, from an unexpired entry stored for
  that very tenant and key, never for a never-cached path; whatever a read does, the caches of the
  other tenants are untouched.\<close>

theorem cached_read_hit_sound:
  assumes "fst (read_begin en now t key path s) = Hit v"
  shows "en \<and> classify path \<noteq> NeverCached \<and>
    (\<exists>e. map_of (caches s t) key = Some e \<and> e_value e = v \<and> of_int now < e_expires e) \<and>
    (\<forall>t'. t' \<noteq> t \<longrightarrow> caches (snd (read_begin en now t key path s)) t' = caches s t')"
proof -
  have "(if classify path \<noteq> NeverCached \<and> en then map_of (caches s t) key else None) \<noteq> None"
    using assms by (auto simp: read_begin_def Let_def split: if_splits option.splits)
  then obtain e where e: "classify path \<noteq> NeverCached" "en" "map_of (caches s t) key = Some e"
    by (auto split: if_splits)
  with assms show ?thesis
    by (auto simp: read_begin_def Let_def split: if_splits)
qed

theorem cached_read_hit_sound_witness:
  "of_int 2000 < e_expires (snd (hd (caches one_read ''acme'')))"
proof -
  have "fst (read_begin True 2000 ''acme'' ''K'' (sample_path ''K'') one_read) = Hit (ticket_body 1)"
    using one_read_eq sample_path_class [of "''K''"] by (simp add: read_begin_def Let_def)
  from cached_read_hit_sound [OF this] one_read_eq show ?thesis by auto
qed

text \<open>C14. Read-your-writes for reads that start after the write: once a write through the relay has
  invalidated the cache, a read of a short-lived path, or of any path of the written entity, that is
  not already in flight goes upstream; cached data of other entities stays.\<close>

theorem read_after_write_goes_upstream:
  assumes "http_reach env pth s"
    and "classify (pth key) = Volatile \<or> entityOf (pth key) = entityOf w"
    and "(t, key) \<notin> set (inFlight s)"
  shows "fst (read_begin en now t key (pth key) (invalidateAfterWrite t w s)) = Started \<and>
    (\<forall>k e. map_of (caches s t) k = Some e \<and> e_cls e \<noteq> Volatile \<and> e_entity e \<noteq> entityOf w \<longrightarrow>
       map_of (caches (invalidateAfterWrite t w s) t) k = Some e)"
proof -
  have inv: "http_inv pth s" using assms(1) by (rule http_reach_inv)
  let ?c = "filter (\<lambda>(_, e). \<not> (e_cls e = Volatile \<or> e_entity e = entityOf w)) (caches s t)"
  have c: "caches (invalidateAfterWrite t w s) t = ?c" by (simp add: invalidateAfterWrite_def)
  have d: "distinct (map fst (caches s t))" using inv by (simp add: http_inv_def cache_shape_def)
  have "key \<notin> fst ` set ?c"
  proof
    assume "key \<in> fst ` set ?c"
    then obtain e where e: "(key, e) \<in> set (caches s t)" "e_cls e \<noteq> Volatile" "e_entity e \<noteq> entityOf w"
      by auto
    with inv have "entry_ok pth (key, e)" by (auto simp: http_inv_def)
    with e(2,3) assms(2) show False by (auto simp: entry_ok_def)
  qed
  then have "map_of ?c key = None" by (simp add: map_of_eq_None_iff)
  with assms(3) have "fst (read_begin en now t key (pth key) (invalidateAfterWrite t w s)) = Started"
    by (simp add: read_begin_def Let_def c) (simp add: invalidateAfterWrite_def)
  moreover have "map_of ?c k = Some e"
    if "map_of (caches s t) k = Some e" "e_cls e \<noteq> Volatile" "e_entity e \<noteq> entityOf w" for k e
    using that d by (auto simp: map_of_eq_Some_iff distinct_map_filter)
  ultimately show ?thesis by (simp add: c)
qed

theorem read_after_write_goes_upstream_witness:
  "fst (read_begin True 2000 ''acme'' ''K'' (sample_path ''K'') (invalidateAfterWrite ''acme'' ''/Tickets'' one_read)) = Started"
  using read_after_write_goes_upstream [OF one_read_reach, of "''K''" "''/Tickets''" "''acme''" True 2000]
    one_read_eq sample_path_class [of "''K''"] by simp

text \<open>A read that was in flight across a write defeats the invalidation: its answer, fetched before
  the write, is stored after it, and the next read is answered with the old ticket from the cache
  for up to thirty seconds.\<close>

theorem stale_read_cached_across_write:
  "\<exists>s0 s1 s2. s0 = snd (read_begin True 900 ''acme'' ''K'' (sample_path ''K'') empty_http) \<and>
     s1 = invalidateAfterWrite ''acme'' ''/Tickets'' s0 \<and>
     s2 = read_settle no_env True 1000 ''acme'' ''K'' (sample_path ''K'') (Some (ticket_body 1, 20)) s1 \<and>
     http_reach no_env sample_path s2 \<and>
     fst (read_begin True 30999 ''acme'' ''K'' (sample_path ''K'') s2) = Hit (ticket_body 1)"
proof -
  let ?s0 = "snd (read_begin True 900 ''acme'' ''K'' (sample_path ''K'') empty_http)"
  let ?s1 = "invalidateAfterWrite ''acme'' ''/Tickets'' ?s0"
  let ?s2 = "read_settle no_env True 1000 ''acme'' ''K'' (sample_path ''K'') (Some (ticket_body 1, 20)) ?s1"
  have "http_reach no_env sample_path ?s2"
    by (rule hr_settle [OF hr_write [OF hr_begin [OF hr_start]]])
      (simp add: read_begin_def empty_http_def Let_def sample_path_class invalidateAfterWrite_def)
  moreover have "fst (read_begin True 30999 ''acme'' ''K'' (sample_path ''K'') ?s2) = Hit (ticket_body 1)"
    using sample_path_class [of "''K''"] volatile_ttl ticket_body_cacheable [of 1]
    by (simp add: read_begin_def read_settle_def empty_http_def Let_def cache_put_def keep_newest_def
        MAX_ENTRIES_def MAX_CACHEABLE_BYTES_def invalidateAfterWrite_def)
  ultimately show ?thesis by blast
qed

section \<open>Properties of the upstream counters\<close>

definition window_count :: "(int \<Rightarrow> bool) \<Rightarrow> (int \<times> nat) list \<Rightarrow> nat" where
  "window_count p ms = sum_list (map snd (filter (\<lambda>mc. p (fst mc)) ms))"

lemma window_count_dropWhile:
  "(\<forall>m. q m \<longrightarrow> \<not> p m) \<Longrightarrow> window_count p (dropWhile (\<lambda>(m, _). q m) ms) = window_count p ms"
  by (induction ms) (auto simp: window_count_def)

lemma window_count_append: "window_count p (xs @ ys) = window_count p xs + window_count p ys"
  by (simp add: window_count_def)

lemma window_count_bump:
  assumes "\<forall>m. p m \<longrightarrow> x - 60 < m"
  shows "window_count p (bump_minute x ms) = window_count p ms + (if p x then 1 else 0)"
proof -
  let ?l = "if ms \<noteq> [] \<and> fst (last ms) = x then butlast ms @ [(x, snd (last ms) + 1)] else ms @ [(x, 1)]"
  have "window_count p (bump_minute x ms) = window_count p ?l"
    unfolding bump_minute_def using assms by (intro window_count_dropWhile) force
  also have "\<dots> = window_count p ms + (if p x then 1 else 0)"
  proof (cases "ms \<noteq> [] \<and> fst (last ms) = x")
    case True
    then have "ms = butlast ms @ [(x, snd (last ms))]"
      by (metis append_butlast_last_id prod.collapse)
    then have "window_count p ms = window_count p (butlast ms) + window_count p [(x, snd (last ms))]"
      by (metis window_count_append)
    with True show ?thesis by (simp add: window_count_append) (simp add: window_count_def)
  next
    case False
    then show ?thesis by (auto simp: window_count_append) (simp_all add: window_count_def)
  qed
  finally show ?thesis .
qed

lemma window_count_fold:
  "sorted xs \<Longrightarrow> \<forall>x \<in> set xs. x \<le> m0 \<Longrightarrow> \<forall>m. p m \<longrightarrow> m0 - 60 < m \<Longrightarrow>
   window_count p (fold bump_minute xs []) = length (filter p xs)"
proof (induction xs rule: rev_induct)
  case Nil
  then show ?case by (simp add: window_count_def)
next
  case (snoc x xs)
  have "\<forall>m. p m \<longrightarrow> x - 60 < m" using snoc.prems by force
  then have "window_count p (bump_minute x (fold bump_minute xs [])) =
      window_count p (fold bump_minute xs []) + (if p x then 1 else 0)"
    by (rule window_count_bump)
  with snoc show ?case by (simp add: sorted_append)
qed

definition ring_ok :: "int \<Rightarrow> (int \<times> nat) list \<Rightarrow> bool" where
  "ring_ok x ms \<longleftrightarrow> sorted_wrt (<) (map fst ms) \<and> (\<forall>m \<in> set ms. x - 60 < fst m \<and> fst m \<le> x)"

lemma sorted_wrt_dropWhile_fst:
  "sorted_wrt (<) (map fst ms) \<Longrightarrow>
   sorted_wrt (<) (map fst (dropWhile (\<lambda>(k, _). k \<le> (b :: int)) ms)) \<and>
   (\<forall>m \<in> set (dropWhile (\<lambda>(k, _). k \<le> b) ms). m \<in> set ms \<and> b < fst m)"
proof (induction ms)
  case Nil
  then show ?case by simp
next
  case (Cons a ms)
  show ?case
  proof (cases "fst a \<le> b")
    case True
    with Cons show ?thesis by (simp add: case_prod_beta)
  next
    case False
    with Cons.prems show ?thesis by (auto simp: case_prod_beta)
  qed
qed

lemma ring_ok_bump:
  assumes ok: "ring_ok y ms" and yx: "y \<le> x"
  shows "ring_ok x (bump_minute x ms)"
proof -
  let ?l = "if ms \<noteq> [] \<and> fst (last ms) = x then butlast ms @ [(x, snd (last ms) + 1)] else ms @ [(x, 1)]"
  have le: "\<forall>m \<in> set ms. fst m \<le> x" and ss: "sorted_wrt (<) (map fst ms)"
    using ok yx by (auto simp: ring_ok_def intro: order_trans)
  have "sorted_wrt (<) (map fst ?l) \<and> (\<forall>m \<in> set ?l. fst m \<le> x)"
  proof (cases ms rule: rev_cases)
    case Nil
    then show ?thesis by simp
  next
    case (snoc as a)
    with ss have lt: "\<forall>m \<in> set as. fst m < fst a" and sa: "sorted_wrt (<) (map fst as)"
      by (auto simp: sorted_wrt_append)
    show ?thesis
    proof (cases "fst a = x")
      case True
      with snoc lt sa show ?thesis by (auto simp: sorted_wrt_append)
    next
      case False
      with snoc le have "fst a < x" by force
      with snoc lt sa False show ?thesis by (fastforce simp: sorted_wrt_append)
    qed
  qed
  then have l: "sorted_wrt (<) (map fst ?l)" and lx: "\<forall>m \<in> set ?l. fst m \<le> x" by blast+
  show ?thesis
    using sorted_wrt_dropWhile_fst [OF l, of "x - 60"] lx
    unfolding ring_ok_def bump_minute_def by blast
qed

lemma ring_ok_fold:
  "sorted xs \<Longrightarrow> xs \<noteq> [] \<Longrightarrow> ring_ok (last xs) (fold bump_minute xs [])"
proof (induction xs rule: rev_induct)
  case Nil
  then show ?case by simp
next
  case (snoc x xs)
  show ?case
  proof (cases "xs = []")
    case True
    have "ring_ok x []" by (simp add: ring_ok_def)
    then have "ring_ok x (bump_minute x [])" by (rule ring_ok_bump) simp
    with True show ?thesis by simp
  next
    case False
    with snoc have "ring_ok (last xs) (fold bump_minute xs [])" "last xs \<le> x"
      by (auto simp: sorted_append)
    then have "ring_ok x (bump_minute x (fold bump_minute xs []))" by (rule ring_ok_bump)
    then show ?thesis by simp
  qed
qed

lemma ring_ok_length:
  assumes "ring_ok x ms"
  shows "length ms \<le> 60"
proof -
  have "distinct (map fst ms)"
    using assms by (simp add: ring_ok_def strict_sorted_iff)
  then have "length ms = card (fst ` set ms)" by (metis distinct_card length_map set_map)
  also have "\<dots> \<le> card {x - 59 .. x}"
    using assms by (intro card_mono) (auto simp: ring_ok_def)
  finally show ?thesis by simp
qed

text \<open>The per-minute ring behind \<open>upstreamLastHour\<close> / \<open>upstreamLastFiveMinutes\<close>: after any
  sequence of upstream calls at non-decreasing times it has at most 60 slots, and a window of at
  most 60 minutes ending at the last call counts exactly the calls made in it.\<close>

theorem upstream_window_exact:
  assumes "sorted minutes" and "minutes \<noteq> []" and "mins \<le> 60"
  shows "in_window (last minutes) mins (fold bump_minute minutes []) =
      length (filter (\<lambda>m. last minutes - mins < m) minutes) \<and>
    length (fold bump_minute minutes []) \<le> 60"
proof -
  have "\<forall>x \<in> set minutes. x \<le> last minutes"
    using assms(1,2) by (metis append_butlast_last_id in_set_conv_decomp_last order_refl set_ConsD
        sorted_append list.set_intros(1) rotate1.simps(2) set_rotate1)
  then have "window_count (\<lambda>m. last minutes - mins < m) (fold bump_minute minutes []) =
      length (filter (\<lambda>m. last minutes - mins < m) minutes)"
    using assms by (intro window_count_fold [where ?m0.0 = "last minutes"]) auto
  then show ?thesis
    using ring_ok_length [OF ring_ok_fold [OF assms(1,2)]]
    by (simp add: in_window_def window_count_def case_prod_unfold)
qed

theorem upstream_window_exact_witness:
  "in_window 70 5 (fold bump_minute [1, 64, 66, 66, 70] []) = 3"
  using upstream_window_exact [of "[1, 64, 66, 66, 70]" 5] by simp

end
