(* ===== verification/Endpoint_Gate.thy ===== *)
theory Endpoint_Gate
  imports Js_Values
begin

text \<open>
  The per-endpoint concurrency gate of \<open>src/src/services/autotask-http.ts\<close>
  (\<open>acquireEndpointSlot\<close>, \<open>endpointQueueDepth\<close>, \<open>maxPerEndpoint\<close>) and the bounded fan-out of
  \<open>src/src/utils/concurrency.ts\<close> (\<open>mapWithConcurrency\<close>).

  One gate is the record \<open>{ active, waiting }\<close> of one endpoint key. JavaScript runs each
  synchronous segment to completion, so the segments are the steps: the call up to its
  \<open>await\<close> (\<open>acquire\<close>), the continuation after the \<open>await\<close> (\<open>resume\<close>) and the release closure
  (\<open>release\<close>). \<open>waiting\<close> holds the callers whose promise is unresolved; \<open>woken\<close> those whose
  promise a release resolved but whose continuation has not run yet (the microtask queue);
  \<open>holders\<close> the callers whose release closure has not run (\<open>released = false\<close>).
\<close>

section \<open>The gate\<close>

record gate =
  active :: nat
  waiting :: "nat list"
  woken :: "nat list"
  holders :: "nat list"

definition empty_gate :: gate where
  "empty_gate = \<lparr>active = 0, waiting = [], woken = [], holders = []\<rparr>"

definition maxPerEndpoint :: "string option \<Rightarrow> nat" where
  "maxPerEndpoint env =
     (case env of None \<Rightarrow> 2
      | Some s \<Rightarrow> (case str_to_num s of
          Some n \<Rightarrow> if is_whole n \<and> 1 \<le> n \<and> n \<le> 3 then nat \<lfloor>n\<rfloor> else 2
        | None \<Rightarrow> 2))"

text \<open>\<open>if (g.active >= max) await ...; g.active++\<close>: the synchronous part of the call.\<close>

definition acquire :: "nat \<Rightarrow> nat \<Rightarrow> gate \<Rightarrow> gate" where
  "acquire mx i g =
     (if active g \<ge> mx then g\<lparr>waiting := waiting g @ [i]\<rparr>
      else g\<lparr>active := active g + 1, holders := i # holders g\<rparr>)"

text \<open>The continuation of a resolved \<open>await\<close>: no second look at \<open>g.active\<close>.\<close>

definition resume :: "nat \<Rightarrow> gate \<Rightarrow> gate" where
  "resume i g = g\<lparr>active := active g + 1, woken := remove1 i (woken g), holders := i # holders g\<rparr>"

text \<open>The release closure: a second call does nothing; \<open>waiting.shift()?.()\<close> resolves the oldest.\<close>

definition release :: "nat \<Rightarrow> gate \<Rightarrow> gate" where
  "release i g =
     (if i \<notin> set (holders g) then g
      else (case waiting g of
          [] \<Rightarrow> g\<lparr>active := active g - 1, holders := remove1 i (holders g)\<rparr>
        | w # ws \<Rightarrow> g\<lparr>active := active g - 1, holders := remove1 i (holders g),
                       waiting := ws, woken := woken g @ [w]\<rparr>))"

definition endpointQueueDepth :: "(string \<times> gate) list \<Rightarrow> nat" where
  "endpointQueueDepth gs = sum_list (map (\<lambda>(_, g). length (waiting g)) gs)"

definition callers :: "gate \<Rightarrow> nat list" where
  "callers g = waiting g @ woken g @ holders g"

section \<open>Runs of the gate\<close>

datatype gate_event = Acquire nat | Resume nat | Release nat

inductive gate_step :: "nat \<Rightarrow> gate \<Rightarrow> gate_event \<Rightarrow> gate \<Rightarrow> bool" for mx where
  gs_acquire: "i \<notin> set (callers g) \<Longrightarrow> gate_step mx g (Acquire i) (acquire mx i g)"
| gs_resume: "i \<in> set (woken g) \<Longrightarrow> gate_step mx g (Resume i) (resume i g)"
| gs_release: "i \<in> set (holders g) \<Longrightarrow> gate_step mx g (Release i) (release i g)"

inductive_cases gate_acquireE: "gate_step mx g (Acquire i) g'"
inductive_cases gate_resumeE: "gate_step mx g (Resume i) g'"
inductive_cases gate_releaseE: "gate_step mx g (Release i) g'"

inductive gate_reach :: "nat \<Rightarrow> gate \<Rightarrow> bool" for mx where
  gr_start: "gate_reach mx empty_gate"
| gr_step: "gate_reach mx g \<Longrightarrow> gate_step mx g e g' \<Longrightarrow> gate_reach mx g'"

text \<open>
  The same runs when no new call starts while a woken caller has yet to continue: the promise
  jobs of a release are drained before the next call arrives.
\<close>

inductive gate_reach_drained :: "nat \<Rightarrow> gate \<Rightarrow> bool" for mx where
  gd_start: "gate_reach_drained mx empty_gate"
| gd_step: "gate_reach_drained mx g \<Longrightarrow> gate_step mx g e g' \<Longrightarrow>
     (\<forall>i. e = Acquire i \<longrightarrow> woken g = []) \<Longrightarrow> gate_reach_drained mx g'"

definition gate_inv :: "nat \<Rightarrow> gate \<Rightarrow> bool" where
  "gate_inv mx g \<longleftrightarrow> active g = length (holders g) \<and> distinct (callers g) \<and>
     (waiting g \<noteq> [] \<longrightarrow> mx \<le> active g + length (woken g))"

lemma gate_inv_empty [relay_inv]: "gate_inv mx empty_gate"
  by (simp add: gate_inv_def empty_gate_def callers_def)

lemma gate_inv_acquire [relay_inv]:
  "gate_inv mx g \<Longrightarrow> i \<notin> set (callers g) \<Longrightarrow> gate_inv mx (acquire mx i g)"
  by (auto simp: gate_inv_def acquire_def callers_def)

lemma gate_inv_resume [relay_inv]:
  "gate_inv mx g \<Longrightarrow> i \<in> set (woken g) \<Longrightarrow> gate_inv mx (resume i g)"
  by (auto simp: gate_inv_def resume_def callers_def length_remove1 distinct_remove1
      dest: in_set_remove1 [THEN iffD1, rotated] intro: Suc_pred split: if_splits)

lemma gate_inv_release [relay_inv]:
  "gate_inv mx g \<Longrightarrow> i \<in> set (holders g) \<Longrightarrow> gate_inv mx (release i g)"
  by (cases "waiting g") (auto simp: gate_inv_def release_def callers_def length_remove1)



section \<open>What the gate guarantees\<close>

text \<open>With the promise jobs drained, the woken callers count towards the limit too.\<close>

definition gate_bound :: "nat \<Rightarrow> gate \<Rightarrow> bool" where
  "gate_bound mx g \<longleftrightarrow> gate_inv mx g \<and> active g + length (woken g) \<le> mx"

lemma gate_bound_step:
  "gate_step mx g e g' \<Longrightarrow> gate_bound mx g \<Longrightarrow> (\<forall>i. e = Acquire i \<longrightarrow> woken g = []) \<Longrightarrow> gate_bound mx g'"
proof (induction rule: gate_step.induct)
  case (gs_acquire i g)
  then show ?case
    using gate_inv_acquire [of mx g i] by (auto simp: gate_bound_def acquire_def)
next
  case (gs_resume i g)
  then have "Suc (length (remove1 i (woken g))) = length (woken g)" by (simp add: Suc_length_remove1)
  with gs_resume show ?case
    using gate_inv_resume [of mx g i] by (auto simp: gate_bound_def resume_def)
next
  case (gs_release i g)
  then have "gate_inv mx g" "0 < active g"
    by (auto simp: gate_bound_def gate_inv_def intro: Nat.gr0I)
  with gs_release show ?case
    using gate_inv_release [of mx g i]
    by (cases "waiting g") (auto simp: gate_bound_def release_def)
qed

lemma gate_reach_drained_bound: "gate_reach_drained mx g \<Longrightarrow> gate_bound mx g"
proof (induction rule: gate_reach_drained.induct)
  case gd_start
  show ?case by (simp add: gate_bound_def gate_inv_empty) (simp add: empty_gate_def)
next
  case (gd_step g e g')
  then show ?case by (blast intro: gate_bound_step)
qed

lemma gate_reach_drained_reach: "gate_reach_drained mx g \<Longrightarrow> gate_reach mx g"
  by (induction rule: gate_reach_drained.induct) (auto intro: gate_reach.intros)

lemma maxPerEndpoint_range: "1 \<le> maxPerEndpoint env \<and> maxPerEndpoint env \<le> 3"
proof -
  have "1 \<le> nat \<lfloor>n\<rfloor> \<and> nat \<lfloor>n\<rfloor> \<le> 3" if "1 \<le> n" "n \<le> 3" for n :: rat
  proof -
    have "1 \<le> \<lfloor>n\<rfloor>" using that by (simp add: le_floor_iff)
    moreover have "\<lfloor>n\<rfloor> \<le> 3" using that by (simp add: floor_le_iff)
    ultimately show ?thesis by linarith
  qed
  then show ?thesis
    by (auto simp: maxPerEndpoint_def split: option.splits)
qed

section \<open>Bounded fan-out\<close>

text \<open>
  \<open>mapWithConcurrency\<close>: the workers share \<open>nextIndex\<close>; each takes an index, awaits \<open>fn\<close> and stores
  the settled result. \<open>running\<close> holds the indices in flight; a step is one \<open>fn\<close> settling, after
  which its worker takes the next index or stops. Settled: \<^const>\<open>Inl\<close> rejected, \<^const>\<open>Inr\<close> fulfilled.
\<close>

record ('e, 'r) pool =
  next_index :: nat
  running :: "nat list"
  results :: "('e + 'r) option list"

definition max_concurrency :: "rat option \<Rightarrow> nat" where
  "max_concurrency limit =
     (case limit of None \<Rightarrow> 1 | Some l \<Rightarrow> if \<lfloor>l\<rfloor> = 0 then 1 else nat (max 1 \<lfloor>l\<rfloor>))"

definition pool_start :: "rat option \<Rightarrow> 'a list \<Rightarrow> ('e, 'r) pool" where
  "pool_start limit items =
     (let n = min (max_concurrency limit) (length items)
      in \<lparr>next_index = n, running = [0..<n], results = replicate (length items) None\<rparr>)"

definition pool_settle :: "('a \<Rightarrow> nat \<Rightarrow> 'e + 'r) \<Rightarrow> 'a list \<Rightarrow> nat \<Rightarrow> ('e, 'r) pool \<Rightarrow> ('e, 'r) pool" where
  "pool_settle fn items i s =
     s\<lparr>results := (results s)[i := Some (fn (items ! i) i)],
       running := remove1 i (running s) @ (if next_index s < length items then [next_index s] else []),
       next_index := next_index s + 1\<rparr>"

inductive pool_reach :: "('a \<Rightarrow> nat \<Rightarrow> 'e + 'r) \<Rightarrow> 'a list \<Rightarrow> rat option \<Rightarrow> nat \<Rightarrow> ('e, 'r) pool \<Rightarrow> bool"
  for fn items limit where
  pr_start: "pool_reach fn items limit 0 (pool_start limit items)"
| pr_settle: "pool_reach fn items limit k s \<Longrightarrow> i \<in> set (running s) \<Longrightarrow>
     pool_reach fn items limit (Suc k) (pool_settle fn items i s)"

text \<open>The value the caller awaits: the results in input order.\<close>

definition mapWithConcurrency :: "('a \<Rightarrow> 'e + 'r) \<Rightarrow> 'a list \<Rightarrow> ('e + 'r) list" where
  "mapWithConcurrency fn items = map fn items"

definition pool_inv :: "('a \<Rightarrow> nat \<Rightarrow> 'e + 'r) \<Rightarrow> 'a list \<Rightarrow> rat option \<Rightarrow> nat \<Rightarrow> ('e, 'r) pool \<Rightarrow> bool" where
  "pool_inv fn items limit k s \<longleftrightarrow>
     distinct (running s) \<and> length (running s) \<le> max_concurrency limit \<and>
     length (results s) = length items \<and>
     (\<forall>i \<in> set (running s). i < min (next_index s) (length items)) \<and>
     (\<forall>i < length items. results s ! i =
        (if i < next_index s \<and> i \<notin> set (running s) then Some (fn (items ! i) i) else None)) \<and>
     (next_index s < length items \<longrightarrow> running s \<noteq> []) \<and>
     k + length (running s) = min (next_index s) (length items)"

lemma max_concurrency_pos: "0 < max_concurrency limit"
  by (auto simp: max_concurrency_def split: option.splits)

lemma pool_inv_start: "pool_inv fn items limit 0 (pool_start limit items)"
  using max_concurrency_pos [of limit]
  by (auto simp: pool_inv_def pool_start_def Let_def)

lemma pool_inv_settle:
  assumes inv: "pool_inv fn items limit k s" and i: "i \<in> set (running s)"
  shows "pool_inv fn items limit (Suc k) (pool_settle fn items i s)"
proof -
  let ?n = "next_index s"
  have d: "distinct (running s)" and len: "length (results s) = length items"
    and lt: "\<And>j. j \<in> set (running s) \<Longrightarrow> j < ?n \<and> j < length items"
    and res: "\<And>j. j < length items \<Longrightarrow> results s ! j =
        (if j < ?n \<and> j \<notin> set (running s) then Some (fn (items ! j) j) else None)"
    and cnt: "k + length (running s) = min ?n (length items)"
    and bnd: "length (running s) \<le> max_concurrency limit"
    using inv by (auto simp: pool_inv_def)
  have n: "?n \<notin> set (running s)" using lt by blast
  have rl: "Suc (length (remove1 i (running s))) = length (running s)"
    using i by (rule Suc_length_remove1)
  have rs: "set (remove1 i (running s)) = set (running s) - {i}"
    using d by simp
  have step: "results (pool_settle fn items i s) ! j =
      (if j < ?n + 1 \<and> j \<notin> set (running (pool_settle fn items i s))
       then Some (fn (items ! j) j) else None)" if j: "j < length items" for j
  proof -
    have nn: "j = ?n \<Longrightarrow> j \<notin> set (running s) - {i}" using n by blast
    show ?thesis
      using j res [OF j] lt [OF i] len rs nn by (auto simp: pool_settle_def nth_list_update)
  qed
  have "distinct (running (pool_settle fn items i s))"
    using d n rs by (auto simp: pool_settle_def distinct_remove1)
  moreover have "length (running (pool_settle fn items i s)) \<le> max_concurrency limit"
    using bnd rl by (auto simp: pool_settle_def)
  moreover have "\<forall>j \<in> set (running (pool_settle fn items i s)). j < min (?n + 1) (length items)"
    using lt rs by (auto simp: pool_settle_def less_Suc_eq)
  moreover have "Suc k + length (running (pool_settle fn items i s)) = min (?n + 1) (length items)"
    using cnt rl by (auto simp: pool_settle_def)
  moreover have "?n + 1 < length items \<longrightarrow> running (pool_settle fn items i s) \<noteq> []"
    by (auto simp: pool_settle_def)
  moreover have nx: "next_index (pool_settle fn items i s) = ?n + 1"
    and "length (results (pool_settle fn items i s)) = length items"
    using len by (simp_all add: pool_settle_def)
  ultimately show ?thesis
    unfolding pool_inv_def nx using step by blast
qed

lemma pool_reach_inv: "pool_reach fn items limit k s \<Longrightarrow> pool_inv fn items limit k s"
  by (induction rule: pool_reach.induct) (auto intro: pool_inv_start pool_inv_settle)

lemma pool_inv_counts:
  assumes "pool_inv fn items limit k s"
  shows "length (running s) \<le> max_concurrency limit" "k \<le> length items" "k = length items \<Longrightarrow> running s = []"
proof -
  have "length (running s) \<le> max_concurrency limit \<and> k + length (running s) = min (next_index s) (length items)"
    using assms by (simp add: pool_inv_def)
  then have "length (running s) \<le> max_concurrency limit" "k + length (running s) \<le> length items"
    by simp_all
  then show "length (running s) \<le> max_concurrency limit" "k \<le> length items" "k = length items \<Longrightarrow> running s = []"
    by simp_all
qed

lemma pool_finished_results:
  assumes inv: "pool_inv fn items limit k s" and idle: "running s = []"
  shows "results s = map (\<lambda>i. Some (fn (items ! i) i)) [0..<length items] \<and> k = length items"
proof -
  have n: "length items \<le> next_index s" using assms by (auto simp: pool_inv_def)
  have len: "length (results s) = length items" using inv by (simp add: pool_inv_def)
  have nth: "results s ! j = Some (fn (items ! j) j)" if "j < length items" for j
    using inv idle n that by (simp add: pool_inv_def)
  have "results s = map (\<lambda>i. Some (fn (items ! i) i)) [0..<length items]"
    by (rule nth_equalityI) (simp_all add: len nth)
  moreover have "k = length items"
    using inv idle n by (simp add: pool_inv_def)
  ultimately show ?thesis by simp
qed

section \<open>Properties\<close>



lemma reach_two_and_one_queued:
  "gate_reach 2 \<lparr>active = 2, waiting = [3], woken = [], holders = [2, 1]\<rparr>"
proof -
  have 1: "gate_reach 2 (acquire 2 1 empty_gate)"
    by (rule gr_step [OF gr_start gs_acquire]) (simp add: empty_gate_def callers_def)
  have 2: "gate_reach 2 (acquire 2 2 (acquire 2 1 empty_gate))"
    by (rule gr_step [OF 1 gs_acquire]) (simp add: empty_gate_def callers_def acquire_def)
  have "gate_reach 2 (acquire 2 3 (acquire 2 2 (acquire 2 1 empty_gate)))"
    by (rule gr_step [OF 2 gs_acquire]) (simp add: empty_gate_def callers_def acquire_def)
  then show ?thesis by (simp add: acquire_def empty_gate_def eval_nat_numeral)
qed


text \<open>C18. When the promise jobs of a release run before the next call arrives, at most
  \<open>AUTOTASK_MAX_CONCURRENT_PER_ENDPOINT\<close> callers hold a slot of an endpoint, and never more than
  the three concurrent requests Autotask allows, whatever the environment variable says.\<close>

theorem endpoint_gate_bound:
  assumes "gate_reach_drained (maxPerEndpoint env) g"
  shows "length (holders g) \<le> maxPerEndpoint env \<and> length (holders g) \<le> 3"
proof -
  have "gate_bound (maxPerEndpoint env) g" using assms by (rule gate_reach_drained_bound)
  then have "length (holders g) \<le> maxPerEndpoint env"
    by (simp add: gate_bound_def gate_inv_def)
  with maxPerEndpoint_range [of env] show ?thesis by linarith
qed

theorem endpoint_gate_bound_witness:
  "length (holders (acquire (maxPerEndpoint None) 1 empty_gate)) = 1 \<and>
   length (holders (acquire (maxPerEndpoint None) 1 empty_gate)) \<le> 3"
proof -
  have "gate_reach_drained (maxPerEndpoint None) (acquire (maxPerEndpoint None) 1 empty_gate)"
    by (rule gd_step [OF gd_start gs_acquire]) (simp_all add: empty_gate_def callers_def)
  from endpoint_gate_bound [OF this] show ?thesis
    by (simp add: acquire_def empty_gate_def maxPerEndpoint_def)
qed

text \<open>Without that scheduling assumption the limit is not kept: a release followed by a new call
  before the woken caller continues lets three callers hold the two slots, because the
  continuation after the \<open>await\<close> increments \<open>g.active\<close> without testing it again.\<close>

theorem endpoint_gate_overadmits:
  "\<exists>g. gate_reach 2 g \<and> length (holders g) = 3"
proof -
  let ?g = "\<lparr>active = 2, waiting = [3], woken = [], holders = [2, 1]\<rparr>"
  have 1: "gate_reach 2 (release 1 ?g)"
    by (rule gr_step [OF reach_two_and_one_queued gs_release]) simp
  have 2: "gate_reach 2 (acquire 2 4 (release 1 ?g))"
    by (rule gr_step [OF 1 gs_acquire]) (simp add: callers_def release_def)
  have "gate_reach 2 (resume 3 (acquire 2 4 (release 1 ?g)))"
    by (rule gr_step [OF 2 gs_resume]) (simp add: acquire_def release_def)
  moreover have "length (holders (resume 3 (acquire 2 4 (release 1 ?g)))) = 3"
    by (simp add: resume_def acquire_def release_def)
  ultimately show ?thesis by blast
qed

text \<open>C19. \<open>mapWithConcurrency\<close>: however the mappers settle, at most the limit (at least one) runs at
  once, it ends after exactly one settlement per item, and then the results stand in input
  order, a rejected mapper being an entry and not the end of the batch.\<close>

theorem mapWithConcurrency_correct:
  assumes "pool_reach (\<lambda>x _. fn x) items limit k s"
  shows "length (running s) \<le> max_concurrency limit \<and> k \<le> length items \<and>
    (running s = [] \<longleftrightarrow> k = length items) \<and>
    (running s = [] \<longrightarrow> results s = map Some (mapWithConcurrency fn items))"
proof -
  have inv: "pool_inv (\<lambda>x _. fn x) items limit k s" using assms by (rule pool_reach_inv)
  have "results s = map Some (mapWithConcurrency fn items)" if "running s = []"
  proof -
    have "map (\<lambda>i. Some (fn (items ! i))) [0..<length items] = map Some (mapWithConcurrency fn items)"
      by (rule nth_equalityI) (simp_all add: mapWithConcurrency_def)
    with pool_finished_results [OF inv that] show ?thesis by simp
  qed
  moreover have "running s = [] \<longleftrightarrow> k = length items"
    using pool_finished_results [OF inv] pool_inv_counts (3) [OF inv] by blast
  ultimately show ?thesis
    using pool_inv_counts (1,2) [OF inv] by blast
qed

theorem mapWithConcurrency_correct_witness:
  "results (pool_settle (\<lambda>x _. Inr (x + 1)) [10, 20 :: nat] 0
      (pool_settle (\<lambda>x _. Inr (x + 1)) [10, 20 :: nat] 1 (pool_start (Some 2) [10, 20 :: nat]))) =
   [Some (Inr 11), Some (Inr 21 :: unit + nat)]"
proof -
  let ?f = "\<lambda>x (_ :: nat). (Inr (x + 1) :: unit + nat)"
  let ?s = "pool_settle ?f [10, 20 :: nat] 0 (pool_settle ?f [10, 20 :: nat] 1 (pool_start (Some 2) [10, 20 :: nat]))"
  have 0: "pool_reach ?f [10, 20 :: nat] (Some 2) 0 (pool_start (Some 2) [10, 20 :: nat])" by (rule pr_start)
  have 1: "pool_reach ?f [10, 20 :: nat] (Some 2) (Suc 0) (pool_settle ?f [10, 20 :: nat] 1 (pool_start (Some 2) [10, 20 :: nat]))"
    by (rule pr_settle [OF 0]) (simp add: pool_start_def max_concurrency_def)
  have 2: "pool_reach ?f [10, 20 :: nat] (Some 2) (Suc (Suc 0)) ?s"
    by (rule pr_settle [OF 1]) (simp add: pool_start_def pool_settle_def max_concurrency_def)
  from mapWithConcurrency_correct [OF 2] show ?thesis
    by (simp add: mapWithConcurrency_def pool_start_def pool_settle_def max_concurrency_def)
qed

end
