(* ===== verification/Auth_Breaker.thy ===== *)
theory Auth_Breaker
  imports Js_Values
begin

text \<open>
  The two local gates in front of every Autotask call, from
  \<open>src/src/services/autotask-http.ts\<close>: the per-tenant 429 cooldown (\<open>parseRetryAfter\<close>,
  \<open>rateLimitCooldowns\<close>) and the auth-failure pause or circuit breaker (\<open>AuthBlock\<close>,
  \<open>tripAuthBlock\<close>, \<open>authBlockStatus\<close>, \<open>clearAuthBlock\<close>, \<open>persist\<close>, \<open>restoreAuthBlocks\<close>), with the
  saved rows of \<open>src/src/db/auth-block-store.ts\<close>.

  An instant is a JavaScript number of epoch milliseconds (\<^typ>\<open>rat\<close>). \<open>Date.parse\<close> of a header
  that is no whole number is the argument \<open>date_parse\<close> (its result on free text is left to the
  implementation by the language standard).
\<close>

type_synonym instant = rat
type_synonym env = "string \<Rightarrow> string option"

definition ceil_seconds :: "rat \<Rightarrow> int" where
  "ceil_seconds ms = \<lceil>ms / 1000\<rceil>"

section \<open>State\<close>

record auth_block =
  ab_since :: instant
  ab_until :: instant
  ab_failures :: nat
  ab_lastError :: string
  ab_probeAt :: "instant option"
  ab_held :: bool
  ab_provisional :: bool
  ab_fp :: "string option"

record saved_block =
  sb_since :: instant
  sb_until :: "instant option"
  sb_failures :: nat
  sb_lastError :: string
  sb_held :: bool
  sb_fp :: "string option"

record gates =
  cooldowns :: "tenant \<Rightarrow> instant option"
  authBlocks :: "tenant \<Rightarrow> auth_block option"
  persistence :: bool
  saved :: "tenant \<Rightarrow> saved_block option"

definition empty_gates :: "bool \<Rightarrow> gates" where
  "empty_gates p = \<lparr>cooldowns = (\<lambda>_. None), authBlocks = (\<lambda>_. None), persistence = p, saved = (\<lambda>_. None)\<rparr>"

definition PROBE_WINDOW_MS :: rat where "PROBE_WINDOW_MS = 90000"
definition PROVISIONAL_MS :: rat where "PROVISIONAL_MS = 60000"
definition HELD_UNTIL :: rat where "HELD_UNTIL = 9007199254740991"
definition AUTH_PAUSE_MAX_MS :: rat where "AUTH_PAUSE_MAX_MS = 3600000"
definition MAX_COOLDOWN_MS :: rat where "MAX_COOLDOWN_MS = 300000"
definition DEFAULT_RETRY_AFTER_SECONDS :: int where "DEFAULT_RETRY_AFTER_SECONDS = 60"

section \<open>The 429 cooldown\<close>

text \<open>\<open>Number.parseInt(s, 10)\<close>: leading blanks, a sign, then the longest run of digits.\<close>

definition parse_int10 :: "string \<Rightarrow> int option" where
  "parse_int10 s0 =
     (let s = js_trim_left s0;
          neg = starts_with s ''-'';
          r = (if neg \<or> starts_with s ''+'' then tl s else s);
          ds = takeWhile is_digit r
      in if ds = [] then None else Some (if neg then - int (str_to_nat ds) else int (str_to_nat ds)))"

definition parseRetryAfter :: "(string \<Rightarrow> rat option) \<Rightarrow> instant \<Rightarrow> string option \<Rightarrow> int" where
  "parseRetryAfter date_parse now header =
     (case header of
        None \<Rightarrow> DEFAULT_RETRY_AFTER_SECONDS
      | Some h \<Rightarrow>
          if h = [] then DEFAULT_RETRY_AFTER_SECONDS
          else (case parse_int10 h of
              Some n \<Rightarrow> if n \<ge> 0 then n else
                (case date_parse h of Some d \<Rightarrow> max 0 (ceil_seconds (d - now)) | None \<Rightarrow> DEFAULT_RETRY_AFTER_SECONDS)
            | None \<Rightarrow> (case date_parse h of Some d \<Rightarrow> max 0 (ceil_seconds (d - now)) | None \<Rightarrow> DEFAULT_RETRY_AFTER_SECONDS)))"

definition arm_cooldown :: "instant \<Rightarrow> tenant \<Rightarrow> int \<Rightarrow> gates \<Rightarrow> gates" where
  "arm_cooldown now t retryAfter g =
     g\<lparr>cooldowns := (cooldowns g)(t := Some (now + min (of_int retryAfter * 1000) MAX_COOLDOWN_MS))\<rparr>"

definition rateLimitCooldownSeconds :: "instant \<Rightarrow> tenant \<Rightarrow> gates \<Rightarrow> int" where
  "rateLimitCooldownSeconds now tenant g =
     (case cooldowns g (lower tenant) of
        Some u \<Rightarrow> if u \<noteq> 0 \<and> u > now then ceil_seconds (u - now) else 0
      | None \<Rightarrow> 0)"

section \<open>The auth pause\<close>

definition authPauseBaseMs :: "env \<Rightarrow> rat" where
  "authPauseBaseMs env =
     (case Option.bind (env ''AUTOTASK_AUTH_PAUSE_SECONDS'') str_to_num of
        Some v \<Rightarrow> if v \<ge> 0 then v * 1000 else 300 * 1000
      | None \<Rightarrow> 300 * 1000)"

definition authMaxProbes :: "env \<Rightarrow> nat" where
  "authMaxProbes env =
     (case Option.bind (env ''AUTOTASK_AUTH_MAX_PROBES'') str_to_num of
        Some v \<Rightarrow> if v \<ge> 0 then nat \<lfloor>v\<rfloor> else 2
      | None \<Rightarrow> 2)"

definition set_block :: "tenant \<Rightarrow> auth_block option \<Rightarrow> gates \<Rightarrow> gates" where
  "set_block t b g = g\<lparr>authBlocks := (authBlocks g)(t := b)\<rparr>"

definition saved_of :: "auth_block \<Rightarrow> saved_block" where
  "saved_of b = \<lparr>sb_since = ab_since b, sb_until = (if ab_held b then None else Some (ab_until b)),
     sb_failures = ab_failures b, sb_lastError = ab_lastError b, sb_held = ab_held b, sb_fp = ab_fp b\<rparr>"

definition persist :: "tenant \<Rightarrow> gates \<Rightarrow> gates" where
  "persist t g =
     (if \<not> persistence g then g
      else (case authBlocks g t of
          Some b \<Rightarrow> if \<not> ab_provisional b then g\<lparr>saved := (saved g)(t := Some (saved_of b))\<rparr>
                    else g\<lparr>saved := (saved g)(t := None)\<rparr>
        | None \<Rightarrow> g\<lparr>saved := (saved g)(t := None)\<rparr>))"

definition restore_block :: "saved_block \<Rightarrow> auth_block" where
  "restore_block e = \<lparr>ab_since = sb_since e,
     ab_until = (if sb_held e then HELD_UNTIL else case sb_until e of Some u \<Rightarrow> u | None \<Rightarrow> 0),
     ab_failures = sb_failures e, ab_lastError = sb_lastError e, ab_probeAt = None, ab_held = sb_held e,
     ab_provisional = False,
     ab_fp = (case sb_fp e of Some f \<Rightarrow> if f = [] then None else Some f | None \<Rightarrow> None)\<rparr>"

definition restoreAuthBlocks :: "(tenant \<times> saved_block) list \<Rightarrow> gates \<Rightarrow> gates" where
  "restoreAuthBlocks entries g = fold (\<lambda>(t, e). set_block (lower t) (Some (restore_block e))) entries g"

text \<open>Result: the pause in seconds, \<open>-1\<close> when now held, 0 when the breaker is disabled.\<close>

definition tripAuthBlock :: "env \<Rightarrow> instant \<Rightarrow> tenant \<Rightarrow> string \<Rightarrow> string option \<Rightarrow> gates \<Rightarrow> int \<times> gates" where
  "tripAuthBlock env now t detail fp g =
     (let base = authPauseBaseMs env; prev = authBlocks g t;
          confirmed = (case prev of Some b \<Rightarrow> \<not> ab_provisional b | None \<Rightarrow> False) in
      if base = 0 then (0, set_block t None g)
      else (case prev of
          Some b \<Rightarrow>
            if \<not> ab_provisional b \<and> ab_until b > now \<and> ab_probeAt b = None
            then (if ab_held b then - 1 else ceil_seconds (ab_until b - now), g)
            else (let failures = (if confirmed then ab_failures b else 0) + 1;
                      held = (failures > authMaxProbes env);
                      ms = min (base * 2 ^ (failures - 1)) AUTH_PAUSE_MAX_MS
                  in (if held then - 1 else ceil_seconds ms,
                      persist t (set_block t (Some \<lparr>ab_since = (if confirmed then ab_since b else now),
                        ab_until = (if held then HELD_UNTIL else now + ms), ab_failures = failures,
                        ab_lastError = take 300 detail, ab_probeAt = None, ab_held = held,
                        ab_provisional = False, ab_fp = fp\<rparr>) g)))
        | None \<Rightarrow>
            (let held = (1 > authMaxProbes env); ms = min base AUTH_PAUSE_MAX_MS
             in (if held then - 1 else ceil_seconds ms,
                 persist t (set_block t (Some \<lparr>ab_since = now, ab_until = (if held then HELD_UNTIL else now + ms),
                   ab_failures = 1, ab_lastError = take 300 detail, ab_probeAt = None, ab_held = held,
                   ab_provisional = False, ab_fp = fp\<rparr>) g)))))"

record auth_status =
  as_tenant :: tenant
  as_blockedUntil :: "instant option"
  as_since :: instant
  as_failures :: nat
  as_lastError :: string
  as_probing :: bool
  as_held :: bool

definition authBlockStatus :: "instant \<Rightarrow> tenant \<Rightarrow> gates \<Rightarrow> auth_status option" where
  "authBlockStatus now tenant g =
     (case authBlocks g (lower tenant) of
        None \<Rightarrow> None
      | Some b \<Rightarrow>
          if ab_provisional b then None
          else (let active = (ab_until b > now) in
            Some \<lparr>as_tenant = lower tenant,
              as_blockedUntil = (if active \<and> \<not> ab_held b then Some (ab_until b) else None),
              as_since = ab_since b, as_failures = ab_failures b, as_lastError = ab_lastError b,
              as_probing = (\<not> active), as_held = ab_held b\<rparr>))"

definition clearAuthBlock :: "tenant \<Rightarrow> gates \<Rightarrow> bool \<times> gates" where
  "clearAuthBlock tenant g =
     (let t = lower tenant in (authBlocks g t \<noteq> None, persist t (set_block t None g)))"

section \<open>Facts\<close>

lemma set_block_simps [simp]:
  "authBlocks (set_block t b g) t' = (if t' = t then b else authBlocks g t')"
  "cooldowns (set_block t b g) = cooldowns g" "persistence (set_block t b g) = persistence g"
  "saved (set_block t b g) = saved g"
  by (simp_all add: set_block_def)

lemma persist_simps [simp]:
  "authBlocks (persist t g) = authBlocks g" "cooldowns (persist t g) = cooldowns g"
  "persistence (persist t g) = persistence g"
  by (simp_all add: persist_def split: option.splits)

lemma saved_persist: "saved (persist t g) t' =
  (if persistence g \<and> t' = t then
     (case authBlocks g t of Some b \<Rightarrow> if ab_provisional b then None else Some (saved_of b) | None \<Rightarrow> None)
   else saved g t')"
  by (auto simp: persist_def split: option.splits)

lemma trip_frame:
  "t' \<noteq> t \<Longrightarrow> authBlocks (snd (tripAuthBlock env now t d fp g)) t' = authBlocks g t'"
  "cooldowns (snd (tripAuthBlock env now t d fp g)) = cooldowns g"
  "persistence (snd (tripAuthBlock env now t d fp g)) = persistence g"
  by (auto simp: tripAuthBlock_def Let_def split: option.splits)

lemma authPauseBaseMs_nonneg: "0 \<le> authPauseBaseMs env"
  by (auto simp: authPauseBaseMs_def split: option.splits)

lemma ceil_seconds_mono: "a \<le> b \<Longrightarrow> ceil_seconds a \<le> ceil_seconds b"
  by (simp add: ceil_seconds_def ceiling_mono divide_right_mono)

lemma ceil_seconds_bounds: "ms \<le> of_int (ceil_seconds ms) * 1000 \<and> of_int (ceil_seconds ms) * 1000 < ms + 1000"
proof -
  have "ms / 1000 \<le> of_int (ceil_seconds ms)" "of_int (ceil_seconds ms) < ms / 1000 + 1"
    unfolding ceil_seconds_def by linarith+
  then show ?thesis by (simp add: field_simps)
qed

end
