(* ===== verification/Http_Send.thy ===== *)
theory Http_Send
  imports Auth_Breaker
begin

text \<open>
  One upstream call: \<open>AutotaskHttpClient.sendUngated\<close> of \<open>src/src/services/autotask-http.ts\<close>.

  The method awaits the fetch, and on a 401 the zone lookup and the login check, and other calls
  run in between. Its synchronous segments are separate definitions over the shared \<^typ>\<open>gates\<close>:
  \<open>admit\<close> (up to the fetch), \<open>on_reply\<close> (from the answer to the next await or the result),
  \<open>on_zone\<close> and \<open>on_login_check\<close>. \<open>sendUngated\<close> composes them for a call that runs alone.
  A reply carries its text and what \<open>JSON.parse\<close> makes of it (\<^const>\<open>None\<close>: it throws).
\<close>

record call =
  c_method :: string
  c_path :: string
  c_tenant :: tenant
  c_fp :: string
  c_zoneRetry :: bool
  c_allowEmpty :: bool

record reply =
  r_status :: nat
  r_text :: "string option"
  r_json :: "jsv option"
  r_retryAfter :: "string option"

datatype fetch_result = NetFail string string | Reply reply

datatype http_error =
    AuthChecking
  | AuthPaused int bool nat string
  | CooldownNotSent int
  | NetworkError string string string
  | RateLimited int string
  | AuthInFlight
  | LoginRejected int bool string
  | HttpFailed string string nat string
  | BadPayload string string nat string
  | ClientError string

text \<open>The numeric \<open>status\<close> property of the thrown error (\<^const>\<open>None\<close>: it has none).\<close>

fun err_status :: "http_error \<Rightarrow> nat option" where
  "err_status AuthChecking = Some 401"
| "err_status (AuthPaused _ _ _ _) = Some 401"
| "err_status (CooldownNotSent _) = Some 429"
| "err_status (NetworkError _ _ _) = None"
| "err_status (RateLimited _ _) = Some 429"
| "err_status AuthInFlight = Some 401"
| "err_status (LoginRejected _ _ _) = Some 401"
| "err_status (HttpFailed _ _ s _) = Some s"
| "err_status (BadPayload _ _ s _) = Some s"
| "err_status (ClientError _) = None"

text \<open>The message text: its fixed part in brief, its variable parts in full and in order.\<close>

fun err_message :: "http_error \<Rightarrow> string" where
  "err_message AuthChecking = ''Autotask just rejected a request with HTTP 401; checking - this call was NOT sent''"
| "err_message (AuthPaused w h n e) =
     ''Autotask rejected this MCP credentials (HTTP 401), calls are '' @
     (if h then ''HELD ('' @ nat_to_str n @ '' rejected logins) '' else ''paused for '' @ int_to_str w @ ''s '') @
     ''- this call was NOT sent. Last error: '' @ e"
| "err_message (CooldownNotSent s) =
     ''Autotask API threshold exceeded (HTTP 429) - this tenant is in a '' @ int_to_str s @ ''s cooldown''"
| "err_message (NetworkError m u e) = ''Autotask '' @ m @ '' '' @ u @ '' network error: '' @ e"
| "err_message (RateLimited s d) =
     ''Autotask API threshold exceeded (HTTP 429). Do NOT retry for '' @ int_to_str s @ ''s. Detail: '' @ d"
| "err_message AuthInFlight = ''Autotask rejected this request (HTTP 401) while the API login is being checked or is paused''"
| "err_message (LoginRejected s h d) = ''Autotask rejected this MCP credentials (HTTP 401): '' @ d"
| "err_message (HttpFailed m p s d) = ''Autotask '' @ m @ '' '' @ p @ '' failed: HTTP '' @ nat_to_str s @ '': '' @ d"
| "err_message (BadPayload m p s w) =
     ''Autotask '' @ m @ '' '' @ p @ '' returned HTTP '' @ nat_to_str s @ '' but the response payload was unusable: '' @ w"
| "err_message (ClientError m) = m"

section \<open>Before the fetch\<close>

definition cooldown_gate :: "instant \<Rightarrow> tenant \<Rightarrow> bool \<Rightarrow> gates \<Rightarrow> (http_error + bool) \<times> gates" where
  "cooldown_gate now t probing g =
     (case cooldowns g t of
        None \<Rightarrow> (Inr probing, g)
      | Some u \<Rightarrow>
          (let remaining = ceil_seconds (u - now) in
           if remaining > 0 then (Inl (CooldownNotSent remaining), g)
           else (Inr probing, g\<lparr>cooldowns := (cooldowns g)(t := None)\<rparr>)))"

definition drop_foreign_block :: "call \<Rightarrow> gates \<Rightarrow> gates" where
  "drop_foreign_block c g =
     (case authBlocks g (c_tenant c) of
        Some b \<Rightarrow>
          (case ab_fp b of
             Some f \<Rightarrow> if f \<noteq> [] \<and> f \<noteq> c_fp c then persist (c_tenant c) (set_block (c_tenant c) None g) else g
           | None \<Rightarrow> g)
      | None \<Rightarrow> g)"

definition probe_busy :: "instant \<Rightarrow> auth_block \<Rightarrow> bool" where
  "probe_busy now b = (case ab_probeAt b of Some p \<Rightarrow> now - p < PROBE_WINDOW_MS | None \<Rightarrow> False)"

definition admit :: "instant \<Rightarrow> call \<Rightarrow> gates \<Rightarrow> (http_error + bool) \<times> gates" where
  "admit now c g0 =
     (let t = c_tenant c; g = drop_foreign_block c g0 in
      case authBlocks g t of
        None \<Rightarrow> cooldown_gate now t False g
      | Some b \<Rightarrow>
          if ab_until b > now \<or> probe_busy now b
          then (Inl (if ab_provisional b then AuthChecking
              else AuthPaused
                (if ab_held b then 0
                 else max 1 (ceil_seconds (max (ab_until b) ((case ab_probeAt b of Some p \<Rightarrow> p | None \<Rightarrow> 0) + PROBE_WINDOW_MS) - now)))
                (ab_held b) (ab_failures b) (ab_lastError b)), g)
          else cooldown_gate now t True (set_block t (Some (b\<lparr>ab_probeAt := Some now\<rparr>)) g))"

section \<open>After the answer\<close>

definition error_detail :: "reply \<Rightarrow> string" where
  "error_detail r =
     (case r_text r of
        None \<Rightarrow> []
      | Some text \<Rightarrow>
          (case (case r_json r of Some (JObj m) \<Rightarrow> get_prop m ''errors'' | _ \<Rightarrow> JUndef) of
             JArr es \<Rightarrow> if es \<noteq> [] then join_with ''; '' (map (\<lambda>v. if nullish v then [] else to_str v) es)
                        else take 1000 text
           | _ \<Rightarrow> take 1000 text))"

definition response_ok :: "nat \<Rightarrow> bool" where
  "response_ok s \<longleftrightarrow> 200 \<le> s \<and> s \<le> 299"

definition names_threshold :: "string \<Rightarrow> bool" where
  "names_threshold path = has_substr (lower path) ''thresholdinformation''"

datatype reply_step = Final "http_error + (jsv \<times> nat)" | CheckZone | CheckLogin

definition on_login_check :: "env \<Rightarrow> instant \<Rightarrow> call \<Rightarrow> bool \<Rightarrow> string \<Rightarrow> gates \<Rightarrow> (http_error + (jsv \<times> nat)) \<times> gates" where
  "on_login_check env now c rejected detail g =
     (if rejected
      then (let (pause, g') = tripAuthBlock env now (c_tenant c)
                  (''HTTP 401 on '' @ c_method c @ '' '' @ takeWhile (\<lambda>ch. ch \<noteq> CHR ''?'') (c_path c) @ '': '' @ detail)
                  (Some (c_fp c)) g
            in (Inl (if pause \<noteq> 0 then LoginRejected (if pause < 0 then 0 else pause) (pause < 0) detail
                     else HttpFailed (c_method c) (c_path c) 401 detail), g'))
      else (Inl (HttpFailed (c_method c) (c_path c) 401 detail),
            (case authBlocks g (c_tenant c) of
               Some b \<Rightarrow> if ab_provisional b then set_block (c_tenant c) None g else g
             | None \<Rightarrow> g)))"

definition provisional_block :: "instant \<Rightarrow> auth_block" where
  "provisional_block now = \<lparr>ab_since = now, ab_until = now + PROVISIONAL_MS, ab_failures = 0, ab_lastError = ''checking'',
     ab_probeAt = None, ab_held = False, ab_provisional = True, ab_fp = None\<rparr>"

definition login_works :: "tenant \<Rightarrow> bool \<Rightarrow> gates \<Rightarrow> gates" where
  "login_works t probing g =
     (case authBlocks g t of
        None \<Rightarrow> g
      | Some b \<Rightarrow> if probing then persist t (set_block t None g)
                  else if ab_provisional b then set_block t None g else g)"

definition payload :: "call \<Rightarrow> reply \<Rightarrow> http_error + (jsv \<times> nat)" where
  "payload c r =
     (case r_text r of
        None \<Rightarrow> Inl (BadPayload (c_method c) (c_path c) (r_status r) ''response body could not be read'')
      | Some s \<Rightarrow>
          if s = [] then (if c_allowEmpty c then Inr (JUndef, 0)
            else Inl (BadPayload (c_method c) (c_path c) (r_status r) ''empty response body on a successful (non-204) response''))
          else (case r_json r of
              Some v \<Rightarrow> Inr (v, length s)
            | None \<Rightarrow> Inl (BadPayload (c_method c) (c_path c) (r_status r) ''response body was not valid JSON - likely truncated'')))"

definition on_401 :: "env \<Rightarrow> instant \<Rightarrow> call \<Rightarrow> bool \<Rightarrow> string \<Rightarrow> gates \<Rightarrow> reply_step \<times> gates" where
  "on_401 env now c probing detail g =
     (let t = c_tenant c in
      if authBlocks g t \<noteq> None \<and> \<not> probing then (Final (Inl AuthInFlight), g)
      else (let g1 = (if probing then g else set_block t (Some (provisional_block now)) g) in
        if \<not> probing \<and> \<not> c_zoneRetry c \<and> \<not> starts_with (c_path c) ''http'' then (CheckZone, g1)
        else if probing \<or> names_threshold (c_path c)
        then (let (r, g2) = on_login_check env now c True detail g1 in (Final r, g2))
        else (CheckLogin, g1)))"

definition on_reply :: "env \<Rightarrow> (string \<Rightarrow> rat option) \<Rightarrow> instant \<Rightarrow> call \<Rightarrow> bool \<Rightarrow> fetch_result \<Rightarrow> gates \<Rightarrow> reply_step \<times> gates" where
  "on_reply env date_parse now c probing fr g =
     (case fr of
        NetFail url msg \<Rightarrow> (Final (Inl (NetworkError (c_method c) url msg)), g)
      | Reply r \<Rightarrow>
          if r_status r = 204 then (Final (Inr (JUndef, 0)), g)
          else if \<not> response_ok (r_status r)
          then (let detail = error_detail r in
            if r_status r = 429
            then (let retryAfter = parseRetryAfter date_parse now (r_retryAfter r)
                  in (Final (Inl (RateLimited retryAfter detail)), arm_cooldown now (c_tenant c) retryAfter g))
            else if r_status r = 401 \<and> authPauseBaseMs env > 0 then on_401 env now c probing detail g
            else (Final (Inl (HttpFailed (c_method c) (c_path c) (r_status r) detail)), g))
          else (Final (payload c r), login_works (c_tenant c) probing g))"

text \<open>After the zone lookup: \<^const>\<open>None\<close> asks for the one retry against the new zone.\<close>

definition on_zone :: "env \<Rightarrow> instant \<Rightarrow> call \<Rightarrow> bool \<Rightarrow> string \<Rightarrow> gates \<Rightarrow> reply_step option \<times> gates" where
  "on_zone env now c changed detail g =
     (if changed then (None, set_block (c_tenant c) None g)
      else if names_threshold (c_path c)
      then (let (r, g2) = on_login_check env now c True detail g in (Some (Final r), g2))
      else (Some CheckLogin, g))"

section \<open>A call that runs alone\<close>

record attempt_world =
  x_start :: instant
  x_answered :: instant
  x_fetch :: fetch_result
  x_zoneChanged :: bool
  x_loginRejected :: bool

definition reply_detail :: "fetch_result \<Rightarrow> string" where
  "reply_detail fr = (case fr of Reply r \<Rightarrow> error_detail r | NetFail _ _ \<Rightarrow> [])"

definition send_attempt :: "env \<Rightarrow> (string \<Rightarrow> rat option) \<Rightarrow> call \<Rightarrow> attempt_world \<Rightarrow> gates \<Rightarrow>
    (http_error + (jsv \<times> nat)) option \<times> gates" where
  "send_attempt env date_parse c w g =
     (case admit (x_start w) c g of
        (Inl e, g1) \<Rightarrow> (Some (Inl e), g1)
      | (Inr probing, g1) \<Rightarrow>
          (let now = x_answered w; d = reply_detail (x_fetch w);
               login = (\<lambda>g. let (r, g') = on_login_check env now c (x_loginRejected w) d g in (Some r, g'))
           in case on_reply env date_parse now c probing (x_fetch w) g1 of
                (Final r, g2) \<Rightarrow> (Some r, g2)
              | (CheckLogin, g2) \<Rightarrow> login g2
              | (CheckZone, g2) \<Rightarrow>
                  (case on_zone env now c (x_zoneChanged w) d g2 of
                     (None, g3) \<Rightarrow> (None, g3)
                   | (Some (Final r), g3) \<Rightarrow> (Some r, g3)
                   | (Some _, g3) \<Rightarrow> login g3)))"

text \<open>The retry runs with \<open>isZoneRetry = true\<close> and cannot ask for another (\<open>send_retry_final\<close>).\<close>

definition sendUngated :: "env \<Rightarrow> (string \<Rightarrow> rat option) \<Rightarrow> call \<Rightarrow> attempt_world \<Rightarrow> attempt_world \<Rightarrow> gates \<Rightarrow>
    (http_error + (jsv \<times> nat)) \<times> gates" where
  "sendUngated env date_parse c w w2 g =
     (case send_attempt env date_parse c w g of
        (Some r, g1) \<Rightarrow> (r, g1)
      | (None, g1) \<Rightarrow>
          (case send_attempt env date_parse (c\<lparr>c_zoneRetry := True\<rparr>) w2 g1 of
             (Some r, g2) \<Rightarrow> (r, g2)
           | (None, g2) \<Rightarrow> (Inl AuthInFlight, g2)))"

section \<open>Frame and shape facts\<close>

definition same_elsewhere :: "tenant \<Rightarrow> gates \<Rightarrow> gates \<Rightarrow> bool" where
  "same_elsewhere t g g' \<longleftrightarrow> (\<forall>t'. t' \<noteq> t \<longrightarrow> authBlocks g' t' = authBlocks g t' \<and>
     cooldowns g' t' = cooldowns g t' \<and> saved g' t' = saved g t')"

lemma same_elsewhere_refl [simp]: "same_elsewhere t g g"
  by (simp add: same_elsewhere_def)

lemma same_elsewhere_trans: "same_elsewhere t g g' \<Longrightarrow> same_elsewhere t g' g'' \<Longrightarrow> same_elsewhere t g g''"
  by (simp add: same_elsewhere_def)

lemma same_elsewhere_set_block [simp]: "same_elsewhere t g (set_block t b g)"
  by (simp add: same_elsewhere_def)

lemma same_elsewhere_persist [simp]: "same_elsewhere t g (persist t g)"
  by (simp add: same_elsewhere_def saved_persist)

lemma same_elsewhere_persist_set [simp]: "same_elsewhere t g (persist t (set_block t b g))"
  by (rule same_elsewhere_trans [OF same_elsewhere_set_block same_elsewhere_persist])

lemma same_elsewhere_trip: "same_elsewhere t g (snd (tripAuthBlock env now t d fp g))"
  by (simp add: tripAuthBlock_def Let_def split: option.splits)

lemma same_elsewhere_cooldown_gate: "same_elsewhere t g (snd (cooldown_gate now t p g))"
  by (auto simp: cooldown_gate_def Let_def same_elsewhere_def split: option.splits)

lemma same_elsewhere_drop: "same_elsewhere (c_tenant c) g (drop_foreign_block c g)"
  by (simp add: drop_foreign_block_def split: option.splits)

lemma same_elsewhere_admit: "same_elsewhere (c_tenant c) g (snd (admit now c g))"
proof -
  let ?t = "c_tenant c" and ?g = "drop_foreign_block c g"
  have "same_elsewhere ?t ?g (snd (admit now c g))"
    using same_elsewhere_trans [OF same_elsewhere_set_block same_elsewhere_cooldown_gate]
    by (simp add: admit_def Let_def same_elsewhere_cooldown_gate split: option.splits)
  with same_elsewhere_drop show ?thesis by (rule same_elsewhere_trans)
qed

lemma same_elsewhere_login_check:
  "same_elsewhere (c_tenant c) g (snd (on_login_check env now c rej d g))"
  using same_elsewhere_trip
  by (simp add: on_login_check_def Let_def split_beta split: option.splits)

lemma same_elsewhere_401: "same_elsewhere (c_tenant c) g (snd (on_401 env now c p d g))"
  using same_elsewhere_trans [OF same_elsewhere_set_block same_elsewhere_login_check]
    same_elsewhere_login_check
  by (simp add: on_401_def Let_def split_beta)

lemma same_elsewhere_login_works: "same_elsewhere t g (login_works t p g)"
  by (simp add: login_works_def split: option.splits)

lemma same_elsewhere_reply: "same_elsewhere (c_tenant c) g (snd (on_reply env dp now c p fr g))"
  using same_elsewhere_401 same_elsewhere_login_works
  by (simp add: on_reply_def Let_def split: fetch_result.splits)
    (simp add: arm_cooldown_def same_elsewhere_def)

lemma same_elsewhere_zone: "same_elsewhere (c_tenant c) g (snd (on_zone env now c ch d g))"
  using same_elsewhere_login_check by (simp add: on_zone_def split_beta Let_def)

lemma same_elsewhere_attempt: "same_elsewhere (c_tenant c) g (snd (send_attempt env dp c w g))"
proof -
  obtain r1 g1 where a: "admit (x_start w) c g = (r1, g1)" by fastforce
  have 1: "same_elsewhere (c_tenant c) g g1" using same_elsewhere_admit [of c g "x_start w"] a by simp
  show ?thesis
  proof (cases r1)
    case (Inl e)
    with a 1 show ?thesis by (simp add: send_attempt_def)
  next
    case (Inr p)
    obtain r2 g2 where b: "on_reply env dp (x_answered w) c p (x_fetch w) g1 = (r2, g2)" by fastforce
    have 2: "same_elsewhere (c_tenant c) g g2"
      using same_elsewhere_trans [OF 1 same_elsewhere_reply] b by (metis snd_conv)
    obtain r3 g3 where z: "on_zone env (x_answered w) c (x_zoneChanged w) (reply_detail (x_fetch w)) g2 = (r3, g3)"
      by fastforce
    have 3: "same_elsewhere (c_tenant c) g g3"
      using same_elsewhere_trans [OF 2 same_elsewhere_zone] z by (metis snd_conv)
    show ?thesis
      using a Inr b z 1 2 3 same_elsewhere_trans [OF 2 same_elsewhere_login_check]
        same_elsewhere_trans [OF 3 same_elsewhere_login_check]
      by (auto simp: send_attempt_def Let_def split_beta split: reply_step.splits option.splits)
  qed
qed

lemma send_retry_final: "c_zoneRetry c \<Longrightarrow> fst (send_attempt env dp c w g) \<noteq> None"
  by (auto simp: send_attempt_def on_reply_def on_401_def Let_def split_beta
      split: sum.splits reply_step.splits fetch_result.splits if_splits prod.splits)

end
