(* ===== verification/Login_Guard.thy ===== *)
theory Login_Guard
  imports Http_Send
begin

text \<open>
  What the two gates in front of Autotask guarantee: a paused tenant sends nothing, one probe at a
  time, a bounded number of failed logins until an administrator steps in, tenants kept apart, a
  pause that survives a restart, and the length of the 429 cooldown.
\<close>

section \<open>A paused tenant sends nothing\<close>

definition block_applies :: "call \<Rightarrow> auth_block \<Rightarrow> bool" where
  "block_applies c b \<longleftrightarrow> (case ab_fp b of Some f \<Rightarrow> f = [] \<or> f = c_fp c | None \<Rightarrow> True)"

lemma drop_foreign_applies:
  "authBlocks g (c_tenant c) = Some b \<Longrightarrow> block_applies c b \<Longrightarrow> drop_foreign_block c g = g"
  by (auto simp: drop_foreign_block_def block_applies_def split: option.splits)

lemma drop_foreign_none: "authBlocks g (c_tenant c) = None \<Longrightarrow> drop_foreign_block c g = g"
  by (simp add: drop_foreign_block_def)

lemma admit_refused:
  assumes "authBlocks g (c_tenant c) = Some b" "block_applies c b" "ab_until b > now \<or> probe_busy now b"
  shows "\<exists>e. admit now c g = (Inl e, g) \<and> err_status e = Some 401"
  using assms by (auto simp: admit_def Let_def drop_foreign_applies)

lemma send_refused:
  "admit (x_start w) c g = (Inl e, g1) \<Longrightarrow> sendUngated env dp c w w2 g = (Inl e, g1)"
  by (simp add: sendUngated_def send_attempt_def)

text \<open>C8. While a tenant is paused or held, a call with the same credentials is refused before
  the fetch with a 401 error, whatever Autotask would have answered, and no gate changes.\<close>

theorem paused_call_not_sent:
  assumes "authBlocks g (c_tenant c) = Some b" "block_applies c b" "ab_until b > x_start w"
  shows "\<exists>e. sendUngated env dp c w w2 g = (Inl e, g) \<and> err_status e = Some 401"
  using admit_refused [of g c b "x_start w"] send_refused assms by blast

definition ex_call :: call where
  "ex_call = \<lparr>c_method = ''GET'', c_path = ''/Tickets/7'', c_tenant = ''api@msp'', c_fp = ''f1'',
     c_zoneRetry = False, c_allowEmpty = False\<rparr>"

definition ex_401 :: reply where
  "ex_401 = \<lparr>r_status = 401, r_text = Some ''denied'', r_json = None, r_retryAfter = None\<rparr>"

definition ex_rejecting :: "instant \<Rightarrow> attempt_world" where
  "ex_rejecting n = \<lparr>x_start = n, x_answered = n + 100, x_fetch = Reply ex_401, x_zoneChanged = False, x_loginRejected = True\<rparr>"

definition ex_block :: auth_block where
  "ex_block = \<lparr>ab_since = 0, ab_until = 300000, ab_failures = 1, ab_lastError = ''HTTP 401'', ab_probeAt = None,
     ab_held = False, ab_provisional = False, ab_fp = Some ''f1''\<rparr>"

definition ex_paused :: gates where
  "ex_paused = (empty_gates True)\<lparr>authBlocks := (\<lambda>t. if t = ''api@msp'' then Some ex_block else None),
     saved := (\<lambda>t. if t = ''api@msp'' then Some (saved_of ex_block) else None)\<rparr>"

lemmas ex_defs = ex_call_def ex_401_def ex_rejecting_def ex_block_def ex_paused_def empty_gates_def

theorem paused_call_not_sent_witness:
  "\<exists>e. sendUngated (\<lambda>_. None) (\<lambda>_. None) ex_call (ex_rejecting 1000) (ex_rejecting 2000) ex_paused = (Inl e, ex_paused)
     \<and> err_status e = Some 401"
  by (rule paused_call_not_sent [of _ _ ex_block]) (simp_all add: ex_defs block_applies_def)

section \<open>One probe at a time\<close>

lemma cooldown_gate_blocks [simp]: "authBlocks (snd (cooldown_gate now t p g)) = authBlocks g"
  by (auto simp: cooldown_gate_def Let_def split: option.splits)

lemma cooldown_gate_probing: "fst (cooldown_gate now t p g) = Inr q \<Longrightarrow> q = p"
  by (auto simp: cooldown_gate_def Let_def split: option.splits if_splits)

lemma admit_probe_block:
  assumes "admit n c g = (Inr True, g1)"
  shows "\<exists>b. authBlocks g (c_tenant c) = Some b \<and> block_applies c b
    \<and> authBlocks g1 (c_tenant c) = Some (b\<lparr>ab_probeAt := Some n\<rparr>)"
proof (cases "authBlocks (drop_foreign_block c g) (c_tenant c)")
  case None
  then have "fst (cooldown_gate n (c_tenant c) False (drop_foreign_block c g)) = Inr True"
    using assms by (simp add: admit_def Let_def)
  then show ?thesis using cooldown_gate_probing by fastforce
next
  case (Some b)
  then have g: "authBlocks g (c_tenant c) = Some b" "block_applies c b"
    by (auto simp: drop_foreign_block_def block_applies_def split: option.splits if_splits)
  let ?g = "set_block (c_tenant c) (Some (b\<lparr>ab_probeAt := Some n\<rparr>)) (drop_foreign_block c g)"
  have "cooldown_gate n (c_tenant c) True ?g = (Inr True, g1)"
    using assms Some by (auto simp: admit_def Let_def split: if_splits)
  then have "authBlocks g1 = authBlocks ?g" using cooldown_gate_blocks by (metis snd_conv)
  then show ?thesis using g by simp
qed

text \<open>C9. A call let through as the probe of an expired pause holds back every other call of
  the same credentials for the 90 seconds after it: they are refused with a 401 error and change
  nothing, so a still bad credential costs one failed login.\<close>

theorem one_probe_at_a_time:
  assumes "admit n c g = (Inr True, g1)" "n \<le> m" "m < n + PROBE_WINDOW_MS"
    and "c_tenant c' = c_tenant c" "c_fp c' = c_fp c"
  shows "\<exists>e. admit m c' g1 = (Inl e, g1) \<and> err_status e = Some 401"
proof -
  obtain b where "block_applies c b" "authBlocks g1 (c_tenant c) = Some (b\<lparr>ab_probeAt := Some n\<rparr>)"
    using admit_probe_block [OF assms(1)] by blast
  then show ?thesis
    using assms by (intro admit_refused [of _ _ "b\<lparr>ab_probeAt := Some n\<rparr>"])
      (auto simp: block_applies_def probe_busy_def split: option.splits)
qed

theorem one_probe_at_a_time_witness:
  "\<exists>g1 e. admit 300000 ex_call ex_paused = (Inr True, g1) \<and> admit 389999 ex_call g1 = (Inl e, g1)
     \<and> err_status e = Some 401"
proof -
  have "fst (admit 300000 ex_call ex_paused) = Inr True"
    by (simp add: ex_defs admit_def Let_def drop_foreign_block_def probe_busy_def cooldown_gate_def)
  then obtain g1 where a: "admit 300000 ex_call ex_paused = (Inr True, g1)" by (metis prod.collapse)
  show ?thesis using a one_probe_at_a_time [OF a, of 389999 ex_call] by (auto simp: PROBE_WINDOW_MS_def)
qed

section \<open>Failed logins are bounded\<close>

text \<open>
  The failed logins one call alone costs against a tenant whose every answer is 401: one when the
  call is let through, one more when the login check (\<open>credentialsRejected\<close>) is sent.
\<close>

definition attempt_logins :: "env \<Rightarrow> (string \<Rightarrow> rat option) \<Rightarrow> call \<Rightarrow> attempt_world \<Rightarrow> gates \<Rightarrow> nat" where
  "attempt_logins env dp c w g =
     (case admit (x_start w) c g of
        (Inl _, _) \<Rightarrow> 0
      | (Inr probing, g1) \<Rightarrow>
          1 + (case on_reply env dp (x_answered w) c probing (x_fetch w) g1 of
                 (Final _, _) \<Rightarrow> 0
               | (CheckLogin, _) \<Rightarrow> 1
               | (CheckZone, g2) \<Rightarrow>
                   (case fst (on_zone env (x_answered w) c (x_zoneChanged w) (reply_detail (x_fetch w)) g2) of
                      Some CheckLogin \<Rightarrow> 1 | _ \<Rightarrow> 0)))"

fun failed_logins :: "env \<Rightarrow> (string \<Rightarrow> rat option) \<Rightarrow> (call \<times> attempt_world) list \<Rightarrow> gates \<Rightarrow> nat" where
  "failed_logins env dp [] g = 0"
| "failed_logins env dp ((c, w) # rest) g =
     attempt_logins env dp c w g + failed_logins env dp rest (snd (sendUngated env dp c w w g))"

definition rejects :: "attempt_world \<Rightarrow> bool" where
  "rejects w \<longleftrightarrow> (\<exists>r. x_fetch w = Reply r \<and> r_status r = 401) \<and> \<not> x_zoneChanged w \<and> x_loginRejected w
     \<and> x_start w < HELD_UNTIL"

definition counting_block :: "nat \<Rightarrow> string \<Rightarrow> auth_block \<Rightarrow> bool" where
  "counting_block M fp b \<longleftrightarrow> \<not> ab_provisional b \<and> ab_fp b = Some fp \<and> ab_failures b \<le> M + 1
     \<and> (ab_held b \<longrightarrow> ab_until b = HELD_UNTIL) \<and> (ab_failures b = M + 1 \<longrightarrow> ab_held b)"

definition logins_left :: "nat \<Rightarrow> auth_block option \<Rightarrow> nat" where
  "logins_left M b = (case b of None \<Rightarrow> M + 2 | Some b \<Rightarrow> M + 1 - ab_failures b)"

definition counted :: "nat \<Rightarrow> string \<Rightarrow> auth_block option \<Rightarrow> bool" where
  "counted M fp b \<longleftrightarrow> (case b of None \<Rightarrow> True | Some b \<Rightarrow> counting_block M fp b)"

lemma trip_fresh:
  assumes "authPauseBaseMs env > 0" "authBlocks g t = Some b" "ab_provisional b"
  shows "\<exists>p b'. tripAuthBlock env now t d (Some fp) g = (p, persist t (set_block t (Some b') g)) \<and> p \<noteq> 0
    \<and> counting_block (authMaxProbes env) fp b' \<and> ab_failures b' = 1"
proof -
  have "0 < min (authPauseBaseMs env) AUTH_PAUSE_MAX_MS" using assms by (simp add: AUTH_PAUSE_MAX_MS_def)
  then have "0 < ceil_seconds (min (authPauseBaseMs env) AUTH_PAUSE_MAX_MS)" by (simp add: ceil_seconds_def)
  then show ?thesis using assms by (auto simp: tripAuthBlock_def Let_def counting_block_def)
qed

lemma trip_probe:
  assumes "authPauseBaseMs env > 0" "authBlocks g t = Some b" "counting_block (authMaxProbes env) fp b"
    and "ab_probeAt b \<noteq> None" "\<not> ab_held b"
  shows "\<exists>p b'. tripAuthBlock env now t d (Some fp) g = (p, persist t (set_block t (Some b') g)) \<and> p \<noteq> 0
    \<and> counting_block (authMaxProbes env) fp b' \<and> ab_failures b' = ab_failures b + 1"
proof -
  let ?ms = "min (authPauseBaseMs env * 2 ^ ab_failures b) AUTH_PAUSE_MAX_MS"
  have "0 < ?ms" using assms by (simp add: AUTH_PAUSE_MAX_MS_def)
  then have "0 < ceil_seconds ?ms" by (simp add: ceil_seconds_def)
  moreover have "ab_failures b \<le> authMaxProbes env"
    using assms by (auto simp: counting_block_def le_Suc_eq)
  ultimately show ?thesis using assms by (auto simp: tripAuthBlock_def Let_def counting_block_def)
qed

lemma login_check_fresh:
  assumes "authPauseBaseMs env > 0" "authBlocks g (c_tenant c) = Some b" "ab_provisional b"
  shows "\<exists>b'. authBlocks (snd (on_login_check env now c True d g)) (c_tenant c) = Some b'
    \<and> counting_block (authMaxProbes env) (c_fp c) b' \<and> ab_failures b' = 1"
  using trip_fresh [OF assms, of now "''HTTP 401 on '' @ c_method c @ '' '' @
      takeWhile (\<lambda>ch. ch \<noteq> CHR ''?'') (c_path c) @ '': '' @ d" "c_fp c"]
  by (auto simp: on_login_check_def Let_def)

lemma login_check_probe:
  assumes "authPauseBaseMs env > 0" "authBlocks g (c_tenant c) = Some b"
    and "counting_block (authMaxProbes env) (c_fp c) b" "ab_probeAt b \<noteq> None" "\<not> ab_held b"
  shows "\<exists>b'. authBlocks (snd (on_login_check env now c True d g)) (c_tenant c) = Some b'
    \<and> counting_block (authMaxProbes env) (c_fp c) b' \<and> ab_failures b' = ab_failures b + 1"
  using trip_probe [OF assms, of now "''HTTP 401 on '' @ c_method c @ '' '' @
      takeWhile (\<lambda>ch. ch \<noteq> CHR ''?'') (c_path c) @ '': '' @ d"]
  by (auto simp: on_login_check_def Let_def)

lemma on_reply_401:
  "authPauseBaseMs env > 0 \<Longrightarrow> r_status r = 401 \<Longrightarrow>
   on_reply env dp now c p (Reply r) g = on_401 env now c p (error_detail r) g"
  by (simp add: on_reply_def response_ok_def Let_def)

text \<open>The step of a rejected first call, from no pause at all.\<close>

lemma rejected_first:
  assumes "authPauseBaseMs env > 0" "rejects w" "admit (x_start w) c g = (Inr False, g1)"
    and "authBlocks g1 (c_tenant c) = None"
  shows "(\<exists>b'. authBlocks (snd (sendUngated env dp c w w2 g)) (c_tenant c) = Some b'
      \<and> counting_block (authMaxProbes env) (c_fp c) b' \<and> ab_failures b' = 1)
    \<and> attempt_logins env dp c w g \<le> 2"
proof -
  obtain r where r: "x_fetch w = Reply r" "r_status r = 401" "\<not> x_zoneChanged w" "x_loginRejected w"
    using assms by (auto simp: rejects_def)
  let ?now = "x_answered w" and ?d = "error_detail r"
  let ?g2 = "set_block (c_tenant c) (Some (provisional_block ?now)) g1"
  have "authBlocks ?g2 (c_tenant c) = Some (provisional_block ?now)" "ab_provisional (provisional_block ?now)"
    by (simp_all add: provisional_block_def)
  note fresh = login_check_fresh [OF assms(1) this, of ?now ?d]
  have 401: "on_reply env dp ?now c False (x_fetch w) g1 = on_401 env ?now c False ?d g1"
    using r assms by (simp add: on_reply_401)
  have send: "snd (sendUngated env dp c w w2 g) = snd (on_login_check env ?now c True ?d ?g2)"
    using assms r by (simp add: sendUngated_def send_attempt_def on_reply_401 on_401_def on_zone_def
        reply_detail_def Let_def split_beta)
  have "attempt_logins env dp c w g \<le> 2"
    using assms r by (simp add: attempt_logins_def on_reply_401 on_401_def on_zone_def
        reply_detail_def Let_def split_beta)
  with fresh send show ?thesis by simp
qed

lemma rejected_probe:
  assumes "authPauseBaseMs env > 0" "rejects w" "admit (x_start w) c g = (Inr True, g1)"
    and "authBlocks g1 (c_tenant c) = Some b" "counting_block (authMaxProbes env) (c_fp c) b"
    and "ab_probeAt b \<noteq> None" "\<not> ab_held b"
  shows "(\<exists>b'. authBlocks (snd (sendUngated env dp c w w2 g)) (c_tenant c) = Some b'
      \<and> counting_block (authMaxProbes env) (c_fp c) b' \<and> ab_failures b' = ab_failures b + 1)
    \<and> attempt_logins env dp c w g = 1"
proof -
  obtain r where r: "x_fetch w = Reply r" "r_status r = 401" "\<not> x_zoneChanged w" "x_loginRejected w"
    using assms by (auto simp: rejects_def)
  let ?now = "x_answered w" and ?d = "error_detail r"
  note probe = login_check_probe [OF assms(1) assms(4-7), of ?now ?d]
  have send: "snd (sendUngated env dp c w w2 g) = snd (on_login_check env ?now c True ?d g1)"
    using assms r by (simp add: sendUngated_def send_attempt_def on_reply_401 on_401_def
        Let_def split_beta)
  have "attempt_logins env dp c w g = 1"
    using assms r by (simp add: attempt_logins_def on_reply_401 on_401_def Let_def split_beta)
  with probe send show ?thesis by simp
qed

lemma admit_blocks:
  assumes "admit n c g = (a, g1)" "counted M (c_fp c) (authBlocks g (c_tenant c))"
  shows "(case authBlocks g (c_tenant c) of None \<Rightarrow> authBlocks g1 (c_tenant c) = None \<and> a \<noteq> Inr True
    | Some b \<Rightarrow> a \<noteq> Inr False \<and> (\<exists>p. authBlocks g1 (c_tenant c) = Some (b\<lparr>ab_probeAt := p\<rparr>) \<and> (a = Inr True \<longrightarrow> p \<noteq> None)))"
proof (cases "authBlocks g (c_tenant c)")
  case None
  then have "cooldown_gate n (c_tenant c) False g = (a, g1)"
    using assms by (simp add: admit_def Let_def drop_foreign_none)
  then have "authBlocks g1 = authBlocks g" "a \<noteq> Inr True"
    using cooldown_gate_blocks [of n "c_tenant c" False g] cooldown_gate_probing [of n "c_tenant c" False g]
    by auto
  then show ?thesis using None by simp
next
  case (Some b)
  then have app: "drop_foreign_block c g = g" using assms
    by (auto simp: counted_def counting_block_def drop_foreign_block_def)
  show ?thesis
  proof (cases "ab_until b > n \<or> probe_busy n b")
    case True
    then have "g1 = g" "\<exists>e. a = Inl e" using assms(1) app Some by (auto simp: admit_def Let_def)
    moreover have "b\<lparr>ab_probeAt := ab_probeAt b\<rparr> = b" by simp
    ultimately show ?thesis using Some by (auto intro: exI [of _ "ab_probeAt b"])
  next
    case False
    let ?g = "set_block (c_tenant c) (Some (b\<lparr>ab_probeAt := Some n\<rparr>)) g"
    have "cooldown_gate n (c_tenant c) True ?g = (a, g1)"
      using assms(1) app Some False by (simp add: admit_def Let_def)
    then have "authBlocks g1 = authBlocks ?g" "a \<noteq> Inr False"
      using cooldown_gate_blocks [of n "c_tenant c" True ?g] cooldown_gate_probing [of n "c_tenant c" True ?g]
      by auto
    then show ?thesis using Some by auto
  qed
qed

lemma counting_probeAt [simp]: "counting_block M fp (b\<lparr>ab_probeAt := p\<rparr>) = counting_block M fp b"
  by (simp add: counting_block_def)

lemma not_held_when_let_through:
  assumes "admit n c g = (Inr True, g1)" "authBlocks g (c_tenant c) = Some b"
    and "counting_block M (c_fp c) b" "n < HELD_UNTIL"
  shows "\<not> ab_held b"
proof
  assume "ab_held b"
  then have "ab_until b > n" "block_applies c b"
    using assms by (auto simp: counting_block_def block_applies_def)
  then show False using admit_refused [of g c b n] assms by auto
qed

lemma rejected_step:
  assumes base: "authPauseBaseMs env > 0" and rej: "rejects w"
    and inv: "counted (authMaxProbes env) (c_fp c) (authBlocks g (c_tenant c))"
  shows "counted (authMaxProbes env) (c_fp c) (authBlocks (snd (sendUngated env dp c w w2 g)) (c_tenant c))
    \<and> attempt_logins env dp c w g
        + logins_left (authMaxProbes env) (authBlocks (snd (sendUngated env dp c w w2 g)) (c_tenant c))
      \<le> logins_left (authMaxProbes env) (authBlocks g (c_tenant c))"
proof -
  let ?M = "authMaxProbes env" and ?t = "c_tenant c"
  obtain a g1 where a: "admit (x_start w) c g = (a, g1)" by fastforce
  note adm = admit_blocks [OF a inv]
  show ?thesis
  proof (cases a)
    case (Inl e)
    then have "snd (sendUngated env dp c w w2 g) = g1" "attempt_logins env dp c w g = 0"
      using a by (simp_all add: sendUngated_def send_attempt_def attempt_logins_def)
    then show ?thesis using adm inv by (auto simp: counted_def logins_left_def split: option.splits)
  next
    case (Inr p)
    show ?thesis
    proof (cases "authBlocks g ?t")
      case None
      then have "authBlocks g1 ?t = None" "a = Inr False" using adm Inr by (auto split: bool.splits)
      then obtain b' where "authBlocks (snd (sendUngated env dp c w w2 g)) ?t = Some b'"
        "counting_block ?M (c_fp c) b'" "ab_failures b' = 1" "attempt_logins env dp c w g \<le> 2"
        using rejected_first [OF base rej, of c g g1 dp w2] a by auto
      then show ?thesis using None by (simp add: counted_def logins_left_def)
    next
      case (Some b)
      then obtain q where q: "authBlocks g1 ?t = Some (b\<lparr>ab_probeAt := q\<rparr>)" "a = Inr True" "q \<noteq> None"
        using adm Inr by auto
      have cb: "counting_block ?M (c_fp c) b" using inv Some by (simp add: counted_def)
      have nh: "\<not> ab_held b"
        using not_held_when_let_through [OF _ Some cb] a q rej by (simp add: rejects_def)
      with cb have "ab_failures b \<le> ?M" by (auto simp: counting_block_def le_Suc_eq)
      then show ?thesis
        using rejected_probe [OF base rej _ q(1), of g dp w2] a q cb nh Some
        by (auto simp: counted_def logins_left_def)
    qed
  qed
qed

lemma failed_logins_left:
  assumes "authPauseBaseMs env > 0"
    and "\<And>c w. (c, w) \<in> set cws \<Longrightarrow> c_tenant c = t \<and> c_fp c = fp \<and> rejects w"
    and "counted (authMaxProbes env) fp (authBlocks g t)"
  shows "failed_logins env dp cws g \<le> logins_left (authMaxProbes env) (authBlocks g t)"
  using assms(2-)
proof (induction cws arbitrary: g)
  case (Cons cw rest)
  obtain c w where cw: "cw = (c, w)" by fastforce
  then have c: "c_tenant c = t" "c_fp c = fp" "rejects w" using Cons.prems(1) [of c w] by auto
  have "\<And>c w. (c, w) \<in> set rest \<Longrightarrow> c_tenant c = t \<and> c_fp c = fp \<and> rejects w"
    by (rule Cons.prems(1)) simp
  note IH = Cons.IH [OF this]
  let ?g' = "snd (sendUngated env dp c w w g)"
  have "counted (authMaxProbes env) fp (authBlocks ?g' t)
      \<and> attempt_logins env dp c w g + logins_left (authMaxProbes env) (authBlocks ?g' t)
        \<le> logins_left (authMaxProbes env) (authBlocks g t)"
    using rejected_step [OF assms(1) c(3), of c g dp w] c Cons.prems(2) by simp
  then show ?case using IH [of ?g'] cw by fastforce
qed simp

text \<open>C7. Whatever calls a client makes one after the other while Autotask rejects the login, the
  tenant costs at most \<open>AUTOTASK_AUTH_MAX_PROBES + 2\<close> failed logins (the first call, its login check
  and the probes) before every further call is held back for an administrator.\<close>

theorem failed_logins_bounded:
  assumes "authPauseBaseMs env > 0" "authBlocks g t = None"
    and "\<And>c w. (c, w) \<in> set cws \<Longrightarrow> c_tenant c = t \<and> c_fp c = fp \<and> rejects w"
  shows "failed_logins env dp cws g \<le> authMaxProbes env + 2"
  using failed_logins_left [of env cws t fp g dp] assms by (simp add: counted_def logins_left_def)

definition ex_storm :: "(call \<times> attempt_world) list" where
  "ex_storm = map (\<lambda>n. (ex_call, ex_rejecting n)) [0, 1000, 300200, 300300, 900400, 5000000, 50000000]"

theorem failed_logins_bounded_witness:
  "failed_logins (\<lambda>_. None) (\<lambda>_. None) ex_storm (empty_gates False) \<le> 4"
proof -
  have "authMaxProbes (\<lambda>_. None) + 2 = 4" by (simp add: authMaxProbes_def)
  moreover have "failed_logins (\<lambda>_. None) (\<lambda>_. None) ex_storm (empty_gates False) \<le> authMaxProbes (\<lambda>_. None) + 2"
    by (rule failed_logins_bounded [of _ _ "''api@msp''" _ "''f1''"])
      (auto simp: authPauseBaseMs_def ex_storm_def ex_defs rejects_def HELD_UNTIL_def)
  ultimately show ?thesis by simp
qed

section \<open>Tenants are kept apart\<close>

lemma same_elsewhere_send: "same_elsewhere (c_tenant c) g (snd (sendUngated env dp c w w2 g))"
  using same_elsewhere_attempt [of c g env dp w]
    same_elsewhere_trans [OF same_elsewhere_attempt [of c g env dp w] same_elsewhere_attempt [of "c\<lparr>c_zoneRetry := True\<rparr>", simplified]]
  by (auto simp: sendUngated_def split_beta split: option.splits)

text \<open>A call of one tenant never touches another tenant's pause, its saved pause or its 429
  cooldown, whatever Autotask answers.\<close>

theorem tenants_isolated:
  assumes "t \<noteq> c_tenant c"
  shows "authBlocks (snd (sendUngated env dp c w w2 g)) t = authBlocks g t
    \<and> cooldowns (snd (sendUngated env dp c w w2 g)) t = cooldowns g t
    \<and> saved (snd (sendUngated env dp c w w2 g)) t = saved g t"
  using same_elsewhere_send assms by (simp add: same_elsewhere_def)

theorem tenants_isolated_witness:
  "authBlocks (snd (sendUngated (\<lambda>_. None) (\<lambda>_. None) (ex_call\<lparr>c_tenant := ''other''\<rparr>) (ex_rejecting 5) (ex_rejecting 6) ex_paused)) ''api@msp''
     = Some ex_block"
  using tenants_isolated [of "''api@msp''" "ex_call\<lparr>c_tenant := ''other''\<rparr>" "\<lambda>_. None" "\<lambda>_. None" "ex_rejecting 5" "ex_rejecting 6" ex_paused]
  by (simp add: ex_paused_def ex_call_def)

section \<open>The saved pause mirrors the running one\<close>

definition saved_mirrors :: "tenant \<Rightarrow> gates \<Rightarrow> bool" where
  "saved_mirrors t g \<longleftrightarrow> persistence g
     \<and> saved g t = (case authBlocks g t of Some b \<Rightarrow> if ab_provisional b then None else Some (saved_of b) | None \<Rightarrow> None)"

definition held_until_max :: "tenant \<Rightarrow> gates \<Rightarrow> bool" where
  "held_until_max t g \<longleftrightarrow> (\<forall>b. authBlocks g t = Some b \<longrightarrow> ab_held b \<longrightarrow> ab_until b = HELD_UNTIL)"

definition pause_inv :: "tenant \<Rightarrow> gates \<Rightarrow> bool" where
  "pause_inv t g \<longleftrightarrow> saved_mirrors t g \<and> held_until_max t g"




















text \<open>C20. A restart loses no confirmed pause: the process that loads the tenant's saved row
  (\<open>restoreAuthBlocks\<close>) still refuses, with the same count and last error, until the saved end.\<close>

theorem pause_survives_restart:
  assumes "pause_inv t g" "lower t = t" "authBlocks g t = Some b" "\<not> ab_provisional b"
    and "c_tenant c = t" "block_applies c b" "ab_until b > now"
  shows "saved g t = Some (saved_of b)
    \<and> (\<exists>w. fst (admit now c (restoreAuthBlocks [(t, saved_of b)] (empty_gates True)))
         = Inl (AuthPaused w (ab_held b) (ab_failures b) (ab_lastError b)))"
proof
  show "saved g t = Some (saved_of b)" using assms by (simp add: pause_inv_def saved_mirrors_def)
  let ?r = "restore_block (saved_of b)" and ?g = "restoreAuthBlocks [(t, saved_of b)] (empty_gates True)"
  have r: "ab_until ?r = ab_until b" "ab_held ?r = ab_held b" "\<not> ab_provisional ?r"
    "ab_failures ?r = ab_failures b" "ab_lastError ?r = ab_lastError b"
    using assms by (auto simp: restore_block_def saved_of_def pause_inv_def held_until_max_def)
  have app: "block_applies c ?r" using assms
    by (auto simp: restore_block_def saved_of_def block_applies_def split: option.splits)
  have g: "authBlocks ?g (c_tenant c) = Some ?r" using assms by (simp add: restoreAuthBlocks_def)
  show "\<exists>w. fst (admit now c ?g) = Inl (AuthPaused w (ab_held b) (ab_failures b) (ab_lastError b))"
    using drop_foreign_applies [OF g app] g r assms by (simp add: admit_def Let_def)
qed

theorem pause_survives_restart_witness:
  "\<exists>w. fst (admit 1000 ex_call (restoreAuthBlocks [(''api@msp'', saved_of ex_block)] (empty_gates True)))
     = Inl (AuthPaused w False 1 ''HTTP 401'')"
proof -
  have "pause_inv ''api@msp'' ex_paused" "lower ''api@msp'' = ''api@msp''"
    by (simp_all add: ex_defs pause_inv_def saved_mirrors_def held_until_max_def lower_def lower_char_def)
  from pause_survives_restart [OF this, of ex_block ex_call 1000] show ?thesis
    by (simp add: ex_defs block_applies_def)
qed

section \<open>The 429 cooldown\<close>

lemma parseRetryAfter_nonneg: "0 \<le> parseRetryAfter dp now h"
  by (auto simp: parseRetryAfter_def DEFAULT_RETRY_AFTER_SECONDS_def split: option.splits)

lemma on_reply_429:
  "r_status r = 429 \<Longrightarrow> on_reply env dp now c p (Reply r) g =
     (Final (Inl (RateLimited (parseRetryAfter dp now (r_retryAfter r)) (error_detail r))),
      arm_cooldown now (c_tenant c) (parseRetryAfter dp now (r_retryAfter r)) g)"
  by (simp add: on_reply_def response_ok_def Let_def)

lemma remaining_positive: "now < u \<Longrightarrow> 0 < ceil_seconds (u - now)"
  by (simp add: ceil_seconds_def)

lemma remaining_over: "u \<le> now \<Longrightarrow> \<not> 0 < ceil_seconds (u - now)"
  by (simp add: ceil_seconds_def not_less)

text \<open>After a 429 answered at \<open>t\<close>, every call of the tenant that no pause covers is refused
  unsent with a 429 error before \<open>t + min (Retry-After, 300 s)\<close>, and goes out from then on: a hostile
  header cannot lock a tenant out for more than five minutes.\<close>

theorem cooldown_window:
  assumes "r_status r = 429" "c_tenant c' = c_tenant c" "authBlocks g (c_tenant c) = None"
    and "g' = snd (on_reply env dp now c False (Reply r) g)"
    and "wait = min (of_int (parseRetryAfter dp now (r_retryAfter r)) * 1000) MAX_COOLDOWN_MS"
  shows "0 \<le> wait \<and> wait \<le> 300000
    \<and> (m < now + wait \<longrightarrow> (\<exists>s. admit m c' g' = (Inl (CooldownNotSent s), g') \<and> s > 0))
    \<and> (m \<ge> now + wait \<longrightarrow> fst (admit m c' g') = Inr False)"
proof (intro conjI impI)
  have g': "authBlocks g' (c_tenant c) = None" "cooldowns g' (c_tenant c) = Some (now + wait)"
    using assms by (simp_all add: on_reply_429 arm_cooldown_def)
  then have adm: "admit m c' g' = cooldown_gate m (c_tenant c) False g'"
    using assms(2) by (simp add: admit_def Let_def drop_foreign_none)
  have "(0::rat) \<le> of_int (parseRetryAfter dp now (r_retryAfter r))" using parseRetryAfter_nonneg by simp
  then show "0 \<le> wait" "wait \<le> 300000" using assms by (auto simp: MAX_COOLDOWN_MS_def)
  show "\<exists>s. admit m c' g' = (Inl (CooldownNotSent s), g') \<and> s > 0" if "m < now + wait"
    using remaining_positive [OF that] adm g' by (simp add: cooldown_gate_def Let_def)
  show "fst (admit m c' g') = Inr False" if "m \<ge> now + wait"
    using remaining_over [of "now + wait" m] that adm g' by (simp add: cooldown_gate_def Let_def)
qed

definition ex_429 :: reply where
  "ex_429 = \<lparr>r_status = 429, r_text = Some [], r_json = None, r_retryAfter = Some ''86400''\<rparr>"

theorem cooldown_window_witness:
  "\<exists>s. fst (admit 299999 ex_call (snd (on_reply (\<lambda>_. None) (\<lambda>_. None) 0 ex_call False (Reply ex_429) (empty_gates True))))
     = Inl (CooldownNotSent s)"
proof -
  have h: "parseRetryAfter (\<lambda>_. None) 0 (Some ''86400'') = 86400"
    by (simp add: parseRetryAfter_def parse_int10_def Let_def js_trim_left_def js_space_def is_digit_def
        str_to_nat_def digit_val_def)
  let ?g' = "snd (on_reply (\<lambda>_. None) (\<lambda>_. None) 0 ex_call False (Reply ex_429) (empty_gates True))"
  have wait: "300000 = min (of_int (parseRetryAfter (\<lambda>_. None) 0 (r_retryAfter ex_429)) * 1000) MAX_COOLDOWN_MS"
    using h by (simp add: ex_429_def MAX_COOLDOWN_MS_def)
  have "\<exists>s. admit 299999 ex_call ?g' = (Inl (CooldownNotSent s), ?g') \<and> s > 0"
    using cooldown_window [OF _ _ _ refl wait, where c = ex_call and c' = ex_call and g = "empty_gates True"
        and env = "\<lambda>_. None" and m = 299999]
    by (simp add: ex_429_def empty_gates_def)
  then show ?thesis by auto
qed

section \<open>Answers fail closed\<close>

definition usable :: "call \<Rightarrow> jsv \<times> nat \<Rightarrow> reply \<Rightarrow> bool" where
  "usable c res r \<longleftrightarrow>
     (if r_status r = 204 then res = (JUndef, 0)
      else response_ok (r_status r) \<and>
        ((r_text r = Some [] \<and> c_allowEmpty c \<and> res = (JUndef, 0))
         \<or> (\<exists>s v. r_text r = Some s \<and> s \<noteq> [] \<and> r_json r = Some v \<and> res = (v, length s))))"

lemma login_check_fails: "\<exists>e. fst (on_login_check env now c rej d g) = Inl e"
  by (simp add: on_login_check_def split_beta Let_def)

lemma on_401_fails: "on_401 env now c p d g = (Final x, g') \<Longrightarrow> \<exists>e. x = Inl e"
  using login_check_fails by (auto simp: on_401_def Let_def split_beta split: if_splits)

lemma payload_usable:
  "payload c r = Inr res \<Longrightarrow> response_ok (r_status r) \<Longrightarrow> r_status r \<noteq> 204 \<Longrightarrow> usable c res r"
  by (auto simp: payload_def usable_def split: option.splits if_splits)

lemma on_reply_success:
  assumes "on_reply env dp now c p fr g = (Final (Inr res), g')"
  shows "\<exists>r. fr = Reply r \<and> usable c res r"
proof (cases fr)
  case (Reply r)
  have n401: "on_401 env now c p (error_detail r) g \<noteq> (Final (Inr res), g')"
    using on_401_fails by blast
  show ?thesis
  proof (cases "r_status r = 204")
    case True
    then show ?thesis using assms Reply by (simp add: on_reply_def usable_def)
  next
    case False
    then have "response_ok (r_status r)" using assms Reply n401
      by (auto simp: on_reply_def Let_def split: if_splits)
    then show ?thesis using assms Reply False payload_usable [of c r res] by (simp add: on_reply_def)
  qed
qed (use assms in \<open>simp add: on_reply_def\<close>)

lemma on_zone_fails: "on_zone env now c ch d g = (Some (Final x), g') \<Longrightarrow> \<exists>e. x = Inl e"
  using login_check_fails by (auto simp: on_zone_def Let_def split_beta split: if_splits)

lemma attempt_success:
  assumes "send_attempt env dp c w g = (Some (Inr res), g')"
  shows "\<exists>r. x_fetch w = Reply r \<and> usable c res r"
proof -
  obtain r1 g1 where a: "admit (x_start w) c g = (r1, g1)" by fastforce
  then obtain p where p: "r1 = Inr p" using assms by (cases r1) (auto simp: send_attempt_def)
  obtain r2 g2 where b: "on_reply env dp (x_answered w) c p (x_fetch w) g1 = (r2, g2)" by fastforce
  have chk: "fst (on_login_check env now c rej d h) \<noteq> Inr res" for now rej d h
    using login_check_fails [of env now c rej d h] by auto
  show ?thesis
  proof (cases r2)
    case (Final x)
    then have "x = Inr res" using assms a b p by (simp add: send_attempt_def)
    then show ?thesis using on_reply_success b Final by blast
  next
    case CheckLogin
    then show ?thesis using assms a b p chk by (auto simp: send_attempt_def Let_def split_beta)
  next
    case CheckZone
    obtain z g3 where z: "on_zone env (x_answered w) c (x_zoneChanged w) (reply_detail (x_fetch w)) g2 = (z, g3)"
      by fastforce
    have "z \<noteq> Some (Final (Inr res))" using on_zone_fails [of env "x_answered w" c] z by fastforce
    then show ?thesis using assms a b p z chk CheckZone
      by (auto simp: send_attempt_def Let_def split_beta split: option.splits reply_step.splits)
  qed
qed

text \<open>C22. A call succeeds only with what the answer of its one fetch, or of the one retry after a
  zone change, carries: a 204, an empty 2xx where the caller allows it, or a 2xx body that parses. A
  truncated, unreadable or missing body is an error, never an empty result.\<close>

theorem success_is_backed_by_answer:
  assumes "fst (sendUngated env dp c w w2 g) = Inr res"
  shows "(\<exists>r. x_fetch w = Reply r \<and> usable c res r) \<or> (\<exists>r. x_fetch w2 = Reply r \<and> usable c res r)"
proof -
  obtain a g1 where s: "send_attempt env dp c w g = (a, g1)" by fastforce
  show ?thesis
  proof (cases a)
    case (Some r)
    then have "send_attempt env dp c w g = (Some (Inr res), g1)" using s assms by (simp add: sendUngated_def)
    then show ?thesis using attempt_success by blast
  next
    case None
    let ?c = "c\<lparr>c_zoneRetry := True\<rparr>"
    obtain a2 g2 where s2: "send_attempt env dp ?c w2 g1 = (a2, g2)" by fastforce
    then have "send_attempt env dp ?c w2 g1 = (Some (Inr res), g2)"
      using None s assms by (auto simp: sendUngated_def split: option.splits)
    then have "\<exists>r. x_fetch w2 = Reply r \<and> usable ?c res r" by (rule attempt_success)
    moreover have "usable ?c res = usable c res" by (simp add: usable_def fun_eq_iff)
    ultimately show ?thesis by simp
  qed
qed

definition ex_ok :: attempt_world where
  "ex_ok = \<lparr>x_start = 0, x_answered = 50, x_fetch = Reply \<lparr>r_status = 200, r_text = Some ''{}'', r_json = Some (JObj []), r_retryAfter = None\<rparr>,
     x_zoneChanged = False, x_loginRejected = False\<rparr>"

theorem success_is_backed_by_answer_witness:
  "fst (sendUngated (\<lambda>_. None) (\<lambda>_. None) ex_call ex_ok ex_ok (empty_gates True)) = Inr (JObj [], 2)
    \<and> (\<exists>r. x_fetch ex_ok = Reply r \<and> usable ex_call (JObj [], 2) r)"
proof -
  have *: "fst (sendUngated (\<lambda>_. None) (\<lambda>_. None) ex_call ex_ok ex_ok (empty_gates True)) = Inr (JObj [], 2)"
    by (simp add: sendUngated_def send_attempt_def ex_defs ex_ok_def admit_def drop_foreign_block_def cooldown_gate_def
        on_reply_def response_ok_def payload_def)
  then show ?thesis using success_is_backed_by_answer [OF *] by auto
qed

end
