(* ===== verification/Http_Client.thy ===== *)
theory Http_Client
  imports Http_Cache Endpoint_Gate Login_Guard
begin

text \<open>
  The operations of \<open>AutotaskHttpClient\<close> (\<open>src/src/services/autotask-http.ts\<close>): \<open>request\<close> (cache in
  front of the call, invalidation and listeners after a write) and the entity operations built on
  it: \<open>get\<close>, \<open>query\<close> with its page walk, \<open>queryByIds\<close>, \<open>create\<close>, \<open>update\<close>, the child operations and
  \<open>rawRequest\<close>.

  The entity operations take \<open>request\<close> as an argument (\<open>'w requester\<close>), a state-passing
  function; the Postgres read mirror (\<open>readInterceptor\<close>) and the caller's impersonated id are a
  \<open>mirror\<close> record. Bodies and answers are JSON values.
\<close>

section \<open>request\<close>

record client_state =
  cl_http :: http_state
  cl_gates :: gates
  cl_writes :: "(string \<times> string \<times> jsv \<times> jsv) list"

datatype outcome = Answered "http_error + jsv" | Shared

definition sent :: "instant \<Rightarrow> call \<Rightarrow> gates \<Rightarrow> bool" where
  "sent now c g = (case fst (admit now c g) of Inl _ \<Rightarrow> False | Inr _ \<Rightarrow> True)"

definition was_limited :: "http_error + 'a \<Rightarrow> bool" where
  "was_limited r = (case r of Inl (RateLimited _ _) \<Rightarrow> True | _ \<Rightarrow> False)"

definition resent :: "env \<Rightarrow> (string \<Rightarrow> rat option) \<Rightarrow> call \<Rightarrow> attempt_world \<Rightarrow> attempt_world \<Rightarrow> gates \<Rightarrow> bool" where
  "resent env dp c w w2 g =
     (case send_attempt env dp c w g of
        (None, g1) \<Rightarrow> sent (x_start w2) (c\<lparr>c_zoneRetry := True\<rparr>) g1
      | _ \<Rightarrow> False)"

text \<open>\<open>recordUpstream\<close> before each fetch (one, or two after a zone change), \<open>recordRateLimited\<close> on a 429.\<close>

definition count_call :: "millis \<Rightarrow> call \<Rightarrow> nat \<Rightarrow> http_error + 'a \<Rightarrow> http_state \<Rightarrow> http_state" where
  "count_call now c fetches r h =
     (let h1 = (recordUpstream now (c_tenant c) (c_method c) (c_path c) ^^ fetches) h
      in if was_limited r then recordRateLimited now (c_tenant c) h1 else h1)"

definition send_counted :: "env \<Rightarrow> (string \<Rightarrow> rat option) \<Rightarrow> millis \<Rightarrow> call \<Rightarrow> attempt_world \<Rightarrow> attempt_world \<Rightarrow>
    client_state \<Rightarrow> (http_error + (jsv \<times> nat)) \<times> client_state" where
  "send_counted env dp now c w w2 s =
     (let (r, g) = sendUngated env dp c w w2 (cl_gates s);
          n = (if sent (x_start w) c (cl_gates s) then 1 else 0) + (if resent env dp c w w2 (cl_gates s) then 1 else 0)
      in (r, s\<lparr>cl_http := count_call now c n r (cl_http s), cl_gates := g\<rparr>))"

text \<open>\<open>Shared\<close>: the call waits for an identical read in flight and takes its answer.\<close>

definition request :: "env \<Rightarrow> (string \<Rightarrow> rat option) \<Rightarrow> bool \<Rightarrow> millis \<Rightarrow> call \<Rightarrow> jsv \<Rightarrow> string \<Rightarrow> bool \<Rightarrow>
    attempt_world \<Rightarrow> attempt_world \<Rightarrow> client_state \<Rightarrow> outcome \<times> client_state" where
  "request env dp cacheOn now c body key noCache w w2 s =
     (let t = c_tenant c in
      if isRead (c_method c) (c_path c) \<and> \<not> noCache
      then (case read_begin cacheOn now t key (c_path c) (cl_http s) of
              (Hit v, h) \<Rightarrow> (Answered (Inr v), s\<lparr>cl_http := h\<rparr>)
            | (Joined, h) \<Rightarrow> (Shared, s\<lparr>cl_http := h\<rparr>)
            | (Started, h) \<Rightarrow>
                (let (r, s1) = send_counted env dp now c w w2 (s\<lparr>cl_http := h\<rparr>);
                     ans = (case r of Inr a \<Rightarrow> Some a | Inl _ \<Rightarrow> None)
                 in (Answered (map_sum id fst r),
                     s1\<lparr>cl_http := read_settle env cacheOn now t key (c_path c) ans (cl_http s1)\<rparr>)))
      else (let (r, s1) = send_counted env dp now c w w2 s in
            case r of
              Inl e \<Rightarrow> (Answered (Inl e), s1)
            | Inr (v, _) \<Rightarrow>
                (Answered (Inr v), s1\<lparr>cl_http := invalidateAfterWrite t (c_path c) (cl_http s1),
                   cl_writes := cl_writes s1 @ [(upper (c_method c), c_path c, body, v)]\<rparr>)))"

section \<open>Requests of the entity operations\<close>

record req =
  q_method :: string
  q_path :: string
  q_body :: jsv
  q_allowEmpty :: bool
  q_noCache :: bool

type_synonym 'w requester = "req \<Rightarrow> 'w \<Rightarrow> (http_error + jsv) \<times> 'w"

definition mk_req :: "string \<Rightarrow> string \<Rightarrow> jsv \<Rightarrow> req" where
  "mk_req m p b = \<lparr>q_method = m, q_path = p, q_body = b, q_allowEmpty = False, q_noCache = False\<rparr>"

definition mk_write :: "string \<Rightarrow> string \<Rightarrow> jsv \<Rightarrow> req" where
  "mk_write m p b = \<lparr>q_method = m, q_path = p, q_body = b, q_allowEmpty = True, q_noCache = False\<rparr>"

record mirror =
  mi_impersonating :: bool
  mi_query :: "(string \<Rightarrow> jsv \<Rightarrow> int \<Rightarrow> jsv list option) option"
  mi_get :: "(string \<Rightarrow> int \<Rightarrow> jsv) option"

definition SHADOW_MAX_ROWS :: int where "SHADOW_MAX_ROWS = 5000"
definition AUTOTASK_MAX_PAGE_SIZE :: int where "AUTOTASK_MAX_PAGE_SIZE = 500"

definition project :: "jsv list \<Rightarrow> string list \<Rightarrow> jsv list" where
  "project rows flds =
     (if flds = [] then rows
      else map (\<lambda>r. case r of JObj m \<Rightarrow> JObj (filter (\<lambda>(k, _). k \<in> set flds \<or> k = ''id'') m) | _ \<Rightarrow> JObj []) rows)"

definition unwrapEntity :: "jsv \<Rightarrow> jsv" where
  "unwrapEntity res =
     (case res of
        JObj m \<Rightarrow>
          if has_prop m ''item'' then coalesce (get_prop m ''item'') JNull
          else (case get_prop m ''items'' of
             JArr xs \<Rightarrow> if has_prop m ''pageDetails'' then (case xs of [] \<Rightarrow> JNull | x # _ \<Rightarrow> coalesce x JNull) else res
           | _ \<Rightarrow> res)
      | _ \<Rightarrow> coalesce res JNull)"

definition entity_path :: "string \<Rightarrow> int \<Rightarrow> string" where
  "entity_path entity rid = ''/'' @ entity @ ''/'' @ int_to_str rid"

section \<open>Reads\<close>

text \<open>A by-id read: \<^const>\<open>JNull\<close> is "not found".\<close>

definition null_on_404 :: "(http_error + jsv) \<times> 'w \<Rightarrow> (http_error + jsv) \<times> 'w" where
  "null_on_404 rw =
     (case rw of
        (Inr res, w) \<Rightarrow> (Inr (unwrapEntity res), w)
      | (Inl e, w) \<Rightarrow> if has_substr (err_message e) ''HTTP 404'' then (Inr JNull, w) else (Inl e, w))"

definition get_entity :: "'w requester \<Rightarrow> mirror \<Rightarrow> string \<Rightarrow> int \<Rightarrow> 'w \<Rightarrow> (http_error + jsv) \<times> 'w" where
  "get_entity rq mi entity rid w =
     (let hit = (case mi_get mi of Some f \<Rightarrow> if mi_impersonating mi then JUndef else f entity rid | None \<Rightarrow> JUndef)
      in if \<not> nullish hit then (Inr hit, w)
         else null_on_404 (rq (mk_req ''GET'' (entity_path entity rid) JUndef) w))"

fun retry_reads :: "'w requester \<Rightarrow> mirror \<Rightarrow> string \<Rightarrow> int \<Rightarrow> nat \<Rightarrow> 'w \<Rightarrow> (http_error + jsv) \<times> 'w" where
  "retry_reads rq mi entity rid 0 w = (Inr JNull, w)"
| "retry_reads rq mi entity rid (Suc n) w =
     (case get_entity rq mi entity rid w of
        (Inl e, w1) \<Rightarrow> (Inl e, w1)
      | (Inr v, w1) \<Rightarrow> if v \<noteq> JNull then (Inr v, w1) else retry_reads rq mi entity rid n w1)"

definition getWithRetry :: "'w requester \<Rightarrow> mirror \<Rightarrow> string \<Rightarrow> int \<Rightarrow> int option \<Rightarrow> 'w \<Rightarrow> (http_error + jsv) \<times> 'w" where
  "getWithRetry rq mi entity rid attempts w =
     retry_reads rq mi entity rid (nat (max 1 (case attempts of Some n \<Rightarrow> n | None \<Rightarrow> 4))) w"

record query_options =
  qo_maxRecords :: "int option"
  qo_includeFields :: "string list"
  qo_noCache :: bool

text \<open>\<open>xs.slice(0, n)\<close>: a negative end counts from the back.\<close>

definition slice_to :: "int \<Rightarrow> 'a list \<Rightarrow> 'a list" where
  "slice_to n xs = (if n \<ge> 0 then take (nat n) xs else take (length xs - nat (- n)) xs)"

definition query_body :: "jsv \<Rightarrow> int \<Rightarrow> string list \<Rightarrow> jsv" where
  "query_body flt pageSize flds =
     JObj ([(''filter'', flt), (''MaxRecords'', JNum (of_int pageSize))] @
       (if flds = [] then [] else [(''IncludeFields'', JArr (map JStr flds))]))"

text \<open>\<open>if (resp?.items) items.push(...resp.items)\<close>\<close>

definition page_items :: "jsv \<Rightarrow> http_error + jsv list" where
  "page_items resp =
     (let v = get_member resp ''items'' in
      if \<not> truthy v then Inr []
      else (case v of JArr xs \<Rightarrow> Inr xs | JStr s \<Rightarrow> Inr (map (\<lambda>c. JStr [c]) s)
            | _ \<Rightarrow> Inl (ClientError ''items is not iterable'')))"

definition next_page :: "jsv \<Rightarrow> string option" where
  "next_page resp =
     (let v = get_member (get_member resp ''pageDetails'') ''nextPageUrl''
      in if truthy v then Some (to_str v) else None)"

definition page_req :: "string \<Rightarrow> jsv \<Rightarrow> bool \<Rightarrow> req" where
  "page_req path body noCache = \<lparr>q_method = ''POST'', q_path = path, q_body = body, q_allowEmpty = False, q_noCache = noCache\<rparr>"

text \<open>The page walk. It need not end, so a walk that never returns is \<^const>\<open>None\<close>.\<close>

partial_function (option) query_pages ::
  "'w requester \<Rightarrow> jsv \<Rightarrow> bool \<Rightarrow> int \<Rightarrow> string \<Rightarrow> jsv list \<Rightarrow> 'w \<Rightarrow> ((http_error + jsv list) \<times> 'w) option" where
  "query_pages rq body noCache cap path items w =
     (case rq (page_req path body noCache) w of
        (Inl e, w1) \<Rightarrow> Some (Inl e, w1)
      | (Inr resp, w1) \<Rightarrow>
          (case page_items resp of
             Inl e \<Rightarrow> Some (Inl e, w1)
           | Inr new \<Rightarrow>
               (case next_page resp of
                  Some url \<Rightarrow>
                    if int (length (items @ new)) < cap
                    then query_pages rq body noCache cap url (items @ new) w1
                    else Some (Inr (items @ new), w1)
                | None \<Rightarrow> Some (Inr (items @ new), w1))))"

definition query :: "'w requester \<Rightarrow> mirror \<Rightarrow> string \<Rightarrow> jsv \<Rightarrow> query_options \<Rightarrow> 'w \<Rightarrow>
    ((http_error + jsv list) \<times> 'w) option" where
  "query rq mi entity flt opts w =
     (let totalCap = (case qo_maxRecords opts of Some n \<Rightarrow> n | None \<Rightarrow> AUTOTASK_MAX_PAGE_SIZE);
          pageSize = min totalCap AUTOTASK_MAX_PAGE_SIZE;
          body = query_body flt pageSize (qo_includeFields opts);
          rows = (case mi_query mi of
             Some f \<Rightarrow> if \<not> qo_noCache opts \<and> totalCap \<le> SHADOW_MAX_ROWS \<and> \<not> mi_impersonating mi
                      then f entity flt totalCap else None
           | None \<Rightarrow> None)
      in case rows of
           Some rs \<Rightarrow> Some (Inr (project rs (qo_includeFields opts)), w)
         | None \<Rightarrow>
             map_option (\<lambda>(r, w'). (map_sum id (slice_to totalCap) r, w'))
               (query_pages rq body (qo_noCache opts) totalCap (''/'' @ entity @ ''/query'') [] w))"

section \<open>queryByIds\<close>

text \<open>
  \<open>Array.prototype.sort\<close> with a comparator: stable; \<open>cmp a b > 0\<close> puts \<open>b\<close> first.
  \<open>localeCompare\<close> is the argument \<open>locale\<close>.
\<close>

fun insert_cmp :: "('a \<Rightarrow> 'a \<Rightarrow> rat) \<Rightarrow> 'a \<Rightarrow> 'a list \<Rightarrow> 'a list" where
  "insert_cmp cmp x [] = [x]"
| "insert_cmp cmp x (y # ys) = (if cmp x y > 0 then y # insert_cmp cmp x ys else x # y # ys)"

definition sort_cmp :: "('a \<Rightarrow> 'a \<Rightarrow> rat) \<Rightarrow> 'a list \<Rightarrow> 'a list" where
  "sort_cmp cmp xs = foldr (insert_cmp cmp) xs []"

definition id_compare :: "(string \<Rightarrow> string \<Rightarrow> rat) \<Rightarrow> jsv \<Rightarrow> jsv \<Rightarrow> rat" where
  "id_compare localeCompare a b =
     (case (a, b) of (JNum x, JNum y) \<Rightarrow> x - y | _ \<Rightarrow> localeCompare (to_str a) (to_str b))"

text \<open>The merge of the settled chunks: rows already seen by \<open>id\<close> are skipped.\<close>

fun merge_rows :: "jsv list \<Rightarrow> jsv list \<Rightarrow> jsv list \<times> jsv list" where
  "merge_rows seen [] = ([], seen)"
| "merge_rows seen (row # rows) =
     (let rowId = get_member row ''id'' in
      if rowId \<noteq> JUndef \<and> rowId \<in> set seen then merge_rows seen rows
      else (let (out, seen') = merge_rows (if rowId = JUndef then seen else rowId # seen) rows
            in (row # out, seen')))"

fun collect_chunks :: "jsv list \<Rightarrow> (jsv list \<times> (http_error + jsv list)) list \<Rightarrow> jsv list \<times> (jsv list \<times> string) list" where
  "collect_chunks seen [] = ([], [])"
| "collect_chunks seen ((ids, Inr rows) # rest) =
     (let (out, seen') = merge_rows seen rows; (items, failed) = collect_chunks seen' rest
      in (out @ items, failed))"
| "collect_chunks seen ((ids, Inl e) # rest) =
     (let (items, failed) = collect_chunks seen rest in (items, (ids, err_message e) # failed))"

text \<open>\<open>run\<close> is the query of one chunk (\<open>query\<close> with the filter \<open>chunk_filter\<close>).\<close>

definition chunk_filter :: "string \<Rightarrow> jsv list \<Rightarrow> jsv" where
  "chunk_filter fld chunk = JArr [JObj [(''op'', JStr ''in''), (''field'', JStr fld), (''value'', JArr chunk)]]"

definition queryByIds :: "(string \<Rightarrow> string \<Rightarrow> rat) \<Rightarrow> (jsv \<Rightarrow> http_error + jsv list) \<Rightarrow> string \<Rightarrow> jsv list \<Rightarrow> int option \<Rightarrow>
    jsv list \<times> (jsv list \<times> string) list" where
  "queryByIds localeCompare run fld ids chunkSize =
     (let unique = sort_cmp (id_compare localeCompare) (uniq ids);
          n = nat (max 1 (case chunkSize of Some k \<Rightarrow> k | None \<Rightarrow> 200));
          chunks = chunks_of (length unique) n unique;
          settled = mapWithConcurrency (\<lambda>chunk. run (chunk_filter fld chunk)) chunks
      in collect_chunks [] (zip chunks settled))"

section \<open>Writes\<close>

definition created_id :: "jsv \<Rightarrow> jsv" where
  "created_id res = coalesce (get_member res ''itemId'')
     (coalesce (get_member (get_member res ''item'') ''id'') (get_member res ''id''))"

definition number_or_error :: "string \<Rightarrow> jsv \<Rightarrow> http_error + rat" where
  "number_or_error msg v = (case v of JNum n \<Rightarrow> Inr n | _ \<Rightarrow> Inl (ClientError msg))"

definition create :: "'w requester \<Rightarrow> string \<Rightarrow> jsv \<Rightarrow> 'w \<Rightarrow> (http_error + rat) \<times> 'w" where
  "create rq entity body w =
     (case rq (mk_req ''POST'' (''/'' @ entity) body) w of
        (Inl e, w1) \<Rightarrow> (Inl e, w1)
      | (Inr res, w1) \<Rightarrow>
          (number_or_error (''Autotask create '' @ entity @ '': response did not include an itemId'') (created_id res), w1))"

definition createWithoutId :: "'w requester \<Rightarrow> string \<Rightarrow> jsv \<Rightarrow> 'w \<Rightarrow> (http_error + (rat option \<times> jsv)) \<times> 'w" where
  "createWithoutId rq entity body w =
     (case rq (mk_write ''POST'' (''/'' @ entity) body) w of
        (Inl e, w1) \<Rightarrow> (Inl e, w1)
      | (Inr res, w1) \<Rightarrow>
          (Inr (case created_id res of JNum n \<Rightarrow> Some n | _ \<Rightarrow> None, coalesce res JNull), w1))"

text \<open>\<open>{ id, ...body }\<close>\<close>

definition with_id :: "int \<Rightarrow> fields \<Rightarrow> jsv" where
  "with_id rid body = JObj (fold (\<lambda>(k, v) m. upsert m k v) body [(''id'', JNum (of_int rid))])"

definition update :: "'w requester \<Rightarrow> string \<Rightarrow> int \<Rightarrow> fields \<Rightarrow> 'w \<Rightarrow> (http_error + unit) \<times> 'w" where
  "update rq entity rid body w =
     (case rq (mk_write ''PATCH'' (''/'' @ entity) (with_id rid body)) w of
        (Inr _, w1) \<Rightarrow> (Inr (), w1)
      | (Inl e, w1) \<Rightarrow>
          if err_status e = Some 404
          then (case rq (mk_write ''PUT'' (entity_path entity rid) (JObj body)) w1 of
                  (r, w2) \<Rightarrow> (map_sum id (\<lambda>_. ()) r, w2))
          else (Inl e, w1))"

definition delete :: "'w requester \<Rightarrow> string \<Rightarrow> int \<Rightarrow> 'w \<Rightarrow> (http_error + unit) \<times> 'w" where
  "delete rq entity rid w =
     (case rq (mk_write ''DELETE'' (entity_path entity rid) JUndef) w of (r, w1) \<Rightarrow> (map_sum id (\<lambda>_. ()) r, w1))"

definition count :: "'w requester \<Rightarrow> string \<Rightarrow> jsv \<Rightarrow> 'w \<Rightarrow> (http_error + rat option) \<times> 'w" where
  "count rq entity flt w =
     (case rq (page_req (''/'' @ entity @ ''/query/count'') (JObj [(''filter'', flt)]) True) w of
        (Inl e, w1) \<Rightarrow> (Inl e, w1)
      | (Inr res, w1) \<Rightarrow>
          (Inr (case coalesce (get_member res ''queryCount'') (get_member res ''count'') of JNum n \<Rightarrow> Some n | _ \<Rightarrow> None), w1))"

text \<open>\<open>res?.fields || res?.items || []\<close>\<close>

definition fields_or_items :: "jsv \<Rightarrow> jsv" where
  "fields_or_items res =
     (if truthy (get_member res ''fields'') then get_member res ''fields''
      else if truthy (get_member res ''items'') then get_member res ''items'' else JArr [])"

definition info :: "'w requester \<Rightarrow> string \<Rightarrow> string \<Rightarrow> 'w \<Rightarrow> (http_error + jsv) \<times> 'w" where
  "info rq entity what w =
     (case rq (mk_req ''GET'' (''/'' @ entity @ ''/entityInformation/'' @ what) JUndef) w of
        (r, w1) \<Rightarrow> (map_sum id fields_or_items r, w1))"

definition fieldInfo :: "'w requester \<Rightarrow> string \<Rightarrow> 'w \<Rightarrow> (http_error + jsv) \<times> 'w" where
  "fieldInfo rq entity w = info rq entity ''fields'' w"

definition udfInfo :: "'w requester \<Rightarrow> string \<Rightarrow> 'w \<Rightarrow> (http_error + jsv) \<times> 'w" where
  "udfInfo rq entity w = info rq entity ''userDefinedFields'' w"

definition picklist_of :: "string \<Rightarrow> jsv \<Rightarrow> jsv" where
  "picklist_of name fs =
     (case find (\<lambda>f. get_member f ''name'' = JStr name) (case fs of JArr xs \<Rightarrow> xs | _ \<Rightarrow> []) of
        Some f \<Rightarrow> if truthy (get_member f ''picklistValues'') then get_member f ''picklistValues'' else JArr []
      | None \<Rightarrow> JArr [])"

definition picklistValues :: "'w requester \<Rightarrow> string \<Rightarrow> string \<Rightarrow> 'w \<Rightarrow> (http_error + jsv) \<times> 'w" where
  "picklistValues rq entity name w =
     (case fieldInfo rq entity w of (r, w1) \<Rightarrow> (map_sum id (picklist_of name) r, w1))"

section \<open>Child entities\<close>

definition child_path :: "string \<Rightarrow> int \<Rightarrow> string \<Rightarrow> string" where
  "child_path par pid child = ''/'' @ par @ ''/'' @ int_to_str pid @ ''/'' @ child"

definition childGet :: "'w requester \<Rightarrow> string \<Rightarrow> int \<Rightarrow> string \<Rightarrow> int \<Rightarrow> 'w \<Rightarrow> (http_error + jsv) \<times> 'w" where
  "childGet rq par pid child cid w =
     null_on_404 (rq (mk_req ''GET'' (child_path par pid child @ ''/'' @ int_to_str cid) JUndef) w)"

definition items_or_empty :: "jsv \<Rightarrow> jsv" where
  "items_or_empty res = (if truthy (get_member res ''items'') then get_member res ''items'' else JArr [])"

definition childQuery :: "'w requester \<Rightarrow> string \<Rightarrow> int \<Rightarrow> string \<Rightarrow> jsv \<Rightarrow> query_options \<Rightarrow> 'w \<Rightarrow> (http_error + jsv) \<times> 'w" where
  "childQuery rq par pid child flt opts w =
     (let pageSize = min (case qo_maxRecords opts of Some n \<Rightarrow> n | None \<Rightarrow> AUTOTASK_MAX_PAGE_SIZE) AUTOTASK_MAX_PAGE_SIZE in
      case rq (mk_req ''POST'' (child_path par pid child @ ''/query'') (query_body flt pageSize (qo_includeFields opts))) w of
        (Inr res, w1) \<Rightarrow> (Inr (items_or_empty res), w1)
      | (Inl e, w1) \<Rightarrow>
          if has_substr (err_message e) ''HTTP 404''
          then (case rq (mk_req ''GET'' (child_path par pid child) JUndef) w1 of
                  (r, w2) \<Rightarrow> (map_sum id items_or_empty r, w2))
          else (Inl e, w1))"

definition childCreate :: "'w requester \<Rightarrow> string \<Rightarrow> int \<Rightarrow> string \<Rightarrow> jsv \<Rightarrow> 'w \<Rightarrow> (http_error + rat) \<times> 'w" where
  "childCreate rq par pid child body w =
     (case rq (mk_req ''POST'' (child_path par pid child) body) w of
        (Inl e, w1) \<Rightarrow> (Inl e, w1)
      | (Inr res, w1) \<Rightarrow>
          (number_or_error (''Autotask child create '' @ tl (child_path par pid child) @ '': response did not include an itemId'')
             (created_id res), w1))"

definition childUpdate :: "'w requester \<Rightarrow> string \<Rightarrow> int \<Rightarrow> string \<Rightarrow> int \<Rightarrow> fields \<Rightarrow> 'w \<Rightarrow> (http_error + unit) \<times> 'w" where
  "childUpdate rq par pid child cid body w =
     (case rq (mk_write ''PATCH'' (child_path par pid child) (with_id cid body)) w of
        (r, w1) \<Rightarrow> (map_sum id (\<lambda>_. ()) r, w1))"

definition childDelete :: "'w requester \<Rightarrow> string \<Rightarrow> int \<Rightarrow> string \<Rightarrow> int \<Rightarrow> 'w \<Rightarrow> (http_error + unit) \<times> 'w" where
  "childDelete rq par pid child cid w =
     (case rq (mk_write ''DELETE'' (child_path par pid child @ ''/'' @ int_to_str cid) JUndef) w of
        (r, w1) \<Rightarrow> (map_sum id (\<lambda>_. ()) r, w1))"

section \<open>rawRequest\<close>

definition RAW_REQUEST_METHODS :: "string list" where
  "RAW_REQUEST_METHODS = [''GET'', ''POST'', ''PATCH'', ''PUT'', ''DELETE'']"

definition assertSafeRelativePath :: "string \<Rightarrow> http_error option" where
  "assertSafeRelativePath path =
     (if path = [] then Some (ClientError ''Autotask rawRequest: path must be a non-empty string'')
      else if \<not> starts_with path ''/'' \<or> starts_with path ''//'' \<or> CHR 0x5C \<in> set path
        \<or> has_substr path ''://'' \<or> has_substr path ''..''
      then Some (ClientError ''Autotask rawRequest: path must be a relative path'')
      else None)"

text \<open>\<open>URLSearchParams\<close>: \<open>application/x-www-form-urlencoded\<close> of ASCII text.\<close>

definition hex_char :: "nat \<Rightarrow> char" where
  "hex_char n = (if n < 10 then char_of (48 + n) else char_of (55 + n))"

definition form_char :: "char \<Rightarrow> string" where
  "form_char c =
     (let n = of_char c :: nat in
      if (48 \<le> n \<and> n \<le> 57) \<or> (65 \<le> n \<and> n \<le> 90) \<or> (97 \<le> n \<and> n \<le> 122) \<or> c \<in> set ''*-._'' then [c]
      else if c = CHR '' '' then ''+''
      else [CHR ''%'', hex_char (n div 16), hex_char (n mod 16)])"

definition form_encode :: "string \<Rightarrow> string" where
  "form_encode s = concat (map form_char s)"

definition query_string :: "fields \<Rightarrow> string" where
  "query_string ps = join_with ''&''
     (map (\<lambda>(k, v). form_encode k @ ''='' @ form_encode (to_str v)) (filter (\<lambda>(_, v). \<not> nullish v) ps))"

definition final_path :: "string \<Rightarrow> fields \<Rightarrow> string" where
  "final_path path ps =
     (let qs = query_string ps in
      if qs = [] then path else path @ (if CHR ''?'' \<in> set path then ''&'' else ''?'') @ qs)"

definition url_host :: "string \<Rightarrow> string" where
  "url_host u = takeWhile (\<lambda>c. c \<notin> set ''/?#'') (after_scheme u)"

definition is_letter :: "char \<Rightarrow> bool" where
  "is_letter c \<longleftrightarrow> lower_char c \<in> set ''abcdefghijklmnopqrstuvwxyz''"

text \<open>The two regular expressions \<open>/^\/([A-Za-z]+)\/query$/\<close> and \<open>/^\/([A-Za-z]+)\/(\d+)$/\<close>.\<close>

definition split_path :: "string \<Rightarrow> (string \<times> string) option" where
  "split_path path =
     (if \<not> starts_with path ''/'' then None
      else (let e = takeWhile is_letter (tl path); r = dropWhile is_letter (tl path) in
        if e \<noteq> [] \<and> starts_with r ''/'' then Some (e, tl r) else None))"

definition page_limit :: "jsv \<Rightarrow> int" where
  "page_limit b =
     (let n = to_num (coalesce (get_member b ''MaxRecords'') (get_member b ''maxRecords''));
          m = (case n of Some r \<Rightarrow> if r = 0 then of_int AUTOTASK_MAX_PAGE_SIZE else r | None \<Rightarrow> of_int AUTOTASK_MAX_PAGE_SIZE)
      in \<lfloor>min (max m 1) (of_int AUTOTASK_MAX_PAGE_SIZE)\<rfloor>)"

definition mirrored_page :: "jsv \<Rightarrow> jsv list \<Rightarrow> jsv" where
  "mirrored_page b rows =
     (let fs = coalesce (get_member b ''IncludeFields'') (get_member b ''includeFields'');
          keep = (case fs of JArr xs \<Rightarrow> map to_str xs | _ \<Rightarrow> [])
      in JObj [(''items'', JArr (project rows keep)),
           (''pageDetails'', JObj [(''count'', JNum (of_nat (length rows))), (''requestCount'', JNum (of_int (page_limit b))),
              (''prevPageUrl'', JNull), (''nextPageUrl'', JNull)])])"

text \<open>What the read mirror answers for a plain read, if it answers.\<close>

definition raw_mirror :: "mirror \<Rightarrow> string \<Rightarrow> string \<Rightarrow> jsv \<Rightarrow> jsv option" where
  "raw_mirror mi m path b =
     (case split_path path of
        None \<Rightarrow> None
      | Some (e, rest) \<Rightarrow>
          let q = (case (mi_query mi, get_member b ''filter'') of
                (Some f, JArr flt) \<Rightarrow>
                  if m = ''POST'' \<and> rest = ''query''
                  then (case f e (JArr flt) (page_limit b + 1) of
                     Some rows \<Rightarrow> if int (length rows) \<le> page_limit b then Some (mirrored_page b rows) else None
                   | None \<Rightarrow> None)
                  else None
              | _ \<Rightarrow> None);
              g = (case mi_get mi of
                Some f \<Rightarrow> if m = ''GET'' \<and> all_digits rest
                  then (let hit = f e (int (str_to_nat rest)) in if \<not> nullish hit then Some (JObj [(''item'', hit)]) else None)
                  else None
              | None \<Rightarrow> None)
          in case q of Some v \<Rightarrow> Some v | None \<Rightarrow> g)"

definition rawRequest :: "string \<Rightarrow> 'w requester \<Rightarrow> mirror \<Rightarrow> string \<Rightarrow> string \<Rightarrow> jsv \<Rightarrow> fields \<Rightarrow> 'w \<Rightarrow> (http_error + jsv) \<times> 'w" where
  "rawRequest base rq mi meth path body ps w =
     (if upper meth \<notin> set RAW_REQUEST_METHODS
      then (Inl (ClientError ''Autotask rawRequest: method not allowed''), w)
      else (case assertSafeRelativePath path of
          Some e \<Rightarrow> (Inl e, w)
        | None \<Rightarrow>
            let fp = final_path path ps;
                hit = (if fp = path \<and> \<not> mi_impersonating mi then raw_mirror mi (upper meth) path body else None)
            in case hit of
                 Some v \<Rightarrow> (Inr v, w)
               | None \<Rightarrow>
                   if url_host (base @ fp) \<noteq> url_host base
                   then (Inl (ClientError ''Autotask rawRequest: refusing to send to non-zone host''), w)
                   else rq (mk_req (upper meth) (base @ fp) body) w))"

end
