(* ===== verification/Caller_Context.thy ===== *)
theory Caller_Context
  imports Js_Values "HOL-Library.List_Lexorder" "HOL-Library.Char_ord" "HOL-Library.Multiset"
begin

text \<open>
  Who is calling: \<open>extractCallerContext\<close> and \<open>stripCallerContext\<close> (\<open>src/src/types/context.ts\<close>),
  the gateway headers (\<open>src/src/utils/impersonation.ts\<close>) and the caller-to-resource helpers of
  \<open>src/src/utils/caller-resolution.ts\<close>.
\<close>

type_synonym env = "string \<Rightarrow> string option"

section \<open>The context\<close>

datatype caller_source = Chatgpt | HermesTeams | Telegram | N8n | Cron | UnknownSource

fun source_name :: "caller_source \<Rightarrow> string" where
  "source_name Chatgpt = ''chatgpt''"
| "source_name HermesTeams = ''hermes-teams''"
| "source_name Telegram = ''telegram''"
| "source_name N8n = ''n8n''"
| "source_name Cron = ''cron''"
| "source_name UnknownSource = ''unknown''"

definition VALID_SOURCES :: "caller_source list" where
  "VALID_SOURCES = [Chatgpt, HermesTeams, Telegram, N8n, Cron]"

record caller_context =
  cc_source :: caller_source
  cc_email :: "string option"
  cc_teams :: "string option"
  cc_resourceId :: "rat option"
  cc_conversation :: "string option"
  cc_correlation :: string
  cc_idempotencyKey :: "string option"
  cc_intent :: "string option"
  cc_decision :: "string option"
  cc_refs :: "(string \<times> string) list"
  cc_trustedId :: "rat option"
  cc_trustedEmail :: "string option"

fun firstString :: "jsv list \<Rightarrow> string option" where
  "firstString [] = None"
| "firstString (v # vs) = (case v of JStr s \<Rightarrow> if js_trim s \<noteq> [] then Some s else firstString vs | _ \<Rightarrow> firstString vs)"

fun firstNumber :: "jsv list \<Rightarrow> rat option" where
  "firstNumber [] = None"
| "firstNumber (v # vs) =
     (case v of
        JNum n \<Rightarrow> Some n
      | JStr s \<Rightarrow> if js_trim s \<noteq> [] \<and> str_to_num s \<noteq> None then str_to_num s else firstNumber vs
      | _ \<Rightarrow> firstNumber vs)"

definition source_of :: "string option \<Rightarrow> caller_source" where
  "source_of raw =
     (case raw of
        Some r \<Rightarrow> (case find (\<lambda>s. source_name s = r) VALID_SOURCES of Some s \<Rightarrow> s | None \<Rightarrow> UnknownSource)
      | None \<Rightarrow> UnknownSource)"

definition context_refs :: "fields \<Rightarrow> jsv \<Rightarrow> (string \<times> string) list" where
  "context_refs m c =
     List.map_filter (\<lambda>k.
       case firstString [get_prop m k, get_member c k,
              (case get_prop m k of JNum n \<Rightarrow> JStr (to_str (JNum n)) | _ \<Rightarrow> JUndef)] of
         Some v \<Rightarrow> Some (k, take 200 v) | None \<Rightarrow> None)
       [''workflow'', ''node'', ''executionId'', ''eventId'']"

text \<open>\<open>uuid\<close> is the value of \<open>randomUUID()\<close>; the timestamp of the context is not modelled.\<close>

definition extractCallerContext :: "string \<Rightarrow> fields \<Rightarrow> fields \<Rightarrow> caller_context" where
  "extractCallerContext uuid m args =
     (let c = get_prop args ''_context'';
          pick = (\<lambda>ks. firstString (concat (map (\<lambda>k. [get_prop m k, get_member c k]) ks)))
      in \<lparr>cc_source = source_of (pick [''source'']),
          cc_email = pick [''requestingUserEmail'', ''userEmail''],
          cc_teams = pick [''teamsObjectId'', ''entraObjectId''],
          cc_resourceId = firstNumber [get_prop m ''autotaskResourceId'', get_member c ''autotaskResourceId''],
          cc_conversation = pick [''conversationId'', ''messageId''],
          cc_correlation = (case pick [''correlationId''] of Some s \<Rightarrow> s | None \<Rightarrow> uuid),
          cc_idempotencyKey = pick [''idempotencyKey''],
          cc_intent = pick [''intent''],
          cc_decision = map_option (take 200) (pick [''decisionId'', ''recommendationId'']),
          cc_refs = context_refs m c,
          cc_trustedId = None, cc_trustedEmail = None\<rparr>)"

definition stripCallerContext :: "fields \<Rightarrow> fields" where
  "stripCallerContext args = filter (\<lambda>(k, _). k \<noteq> ''_context'') args"

section \<open>The trusted gateway headers\<close>

text \<open>Headers as received; an array value stands for its first element.\<close>

definition header_value :: "(string \<times> string list) list \<Rightarrow> string \<Rightarrow> string option" where
  "header_value hs name =
     (case map_of (rev (map (\<lambda>(k, v). (lower k, v)) hs)) (lower name) of Some (v # _) \<Rightarrow> Some v | _ \<Rightarrow> None)"

definition parseActingHeaders :: "(string \<times> string list) list \<Rightarrow> (rat option \<times> string option) option" where
  "parseActingHeaders hs =
     (let rid = (case header_value hs ''x-acting-resource-id'' of
            Some raw \<Rightarrow> if js_trim raw \<noteq> [] then str_to_num raw else None | None \<Rightarrow> None);
          mail = (case header_value hs ''x-acting-user-email'' of
            Some e \<Rightarrow> if js_trim e \<noteq> [] then Some (js_trim e) else None | None \<Rightarrow> None)
      in if rid \<noteq> None \<or> mail \<noteq> None then Some (rid, mail) else None)"

definition with_trusted :: "(rat option \<times> string option) option \<Rightarrow> caller_context \<Rightarrow> caller_context" where
  "with_trusted ta ctx =
     (case ta of None \<Rightarrow> ctx
      | Some (rid, mail) \<Rightarrow>
          ctx\<lparr>cc_trustedId := (if rid \<noteq> None then rid else cc_trustedId ctx),
              cc_trustedEmail := (case mail of Some e \<Rightarrow> if e \<noteq> [] then Some e else cc_trustedEmail ctx | None \<Rightarrow> cc_trustedEmail ctx)\<rparr>)"

section \<open>Callers and resources\<close>

record candidate =
  cd_id :: rat
  cd_name :: string
  cd_email :: "string option"

datatype resolution =
    Resolved candidate
  | NoIdentity
  | NotFound string
  | Ambiguous string "candidate list"

definition callerMapKeys :: "caller_context \<Rightarrow> string list" where
  "callerMapKeys ctx =
     (case cc_email ctx of Some e \<Rightarrow> [lower e] | None \<Rightarrow> []) @
     (case cc_teams ctx of Some t \<Rightarrow> [lower (source_name (cc_source ctx) @ '':'' @ t)] | None \<Rightarrow> []) @
     (case cc_conversation ctx of Some c \<Rightarrow> [lower (source_name (cc_source ctx) @ '':'' @ c)] | None \<Rightarrow> [])"

definition classifyEmailMatch :: "string option \<Rightarrow> candidate list \<Rightarrow> resolution" where
  "classifyEmailMatch provided cands =
     (case provided of
        None \<Rightarrow> NoIdentity
      | Some e \<Rightarrow>
          if e = [] then NoIdentity
          else (case cands of [] \<Rightarrow> NotFound e | [c] \<Rightarrow> Resolved c | _ \<Rightarrow> Ambiguous e cands))"

definition ACTING_RESOURCE_TOOLS :: "(string \<times> string) list" where
  "ACTING_RESOURCE_TOOLS =
     [(''autotask_create_time_entry'', ''resourceID''),
      (''autotask_create_company_todo'', ''assignedToResourceID''),
      (''autotask_update_company_todo'', ''assignedToResourceID''),
      (''autotask_create_ticket'', ''assignedResourceID''),
      (''autotask_update_ticket'', ''assignedResourceID''),
      (''autotask_log_my_time'', ''resourceID''),
      (''autotask_get_my_day'', ''resourceID''),
      (''autotask_start_work_on_ticket'', ''resourceID''),
      (''autotask_add_ticket_update'', ''resourceID'')]"

definition CURRENT_USER_DEFAULT_TOOLS :: "(string \<times> string) list" where
  "CURRENT_USER_DEFAULT_TOOLS =
     [(''autotask_log_my_time'', ''resourceID''), (''autotask_get_my_day'', ''resourceID''),
      (''autotask_start_work_on_ticket'', ''resourceID''), (''autotask_add_ticket_update'', ''resourceID'')]"

definition ACTING_ROLE_FIELDS :: "(string \<times> string \<times> string) list" where
  "ACTING_ROLE_FIELDS =
     [(''autotask_create_ticket'', ''assignedResourceID'', ''assignedResourceRoleID''),
      (''autotask_update_ticket'', ''assignedResourceID'', ''assignedResourceRoleID''),
      (''autotask_create_time_entry'', ''resourceID'', ''roleID''),
      (''autotask_log_my_time'', ''resourceID'', ''roleID'')]"

lemma context_never_trusted [simp]:
  "cc_trustedId (extractCallerContext uuid m args) = None"
  "cc_trustedEmail (extractCallerContext uuid m args) = None"
  by (simp_all add: extractCallerContext_def Let_def)

end
