(* ===== verification/Safety_Gates.thy ===== *)
theory Safety_Gates
  imports Caller_Context
begin

text \<open>
  The gates a tool call passes before it runs: functional roles (\<open>src/src/utils/permissions.ts\<close>),
  risk classes and confirmation (\<open>risk.ts\<close>), the raw-request gate (\<open>raw-gate.ts\<close>), the protected
  companies and company names (\<open>company-guard.ts\<close>), the console switches
  (\<open>src/src/admin/tool-gate.ts\<close>) and which tools mutate (\<open>idempotency.ts\<close>, \<open>operations.ts\<close>).
  The tool catalogue (annotations and categories of \<open>tool.definitions.ts\<close>) is an argument.
\<close>

section \<open>Risk levels\<close>

datatype risk_level = ReadOnly | ReversibleUpdate | ExternalCommunication | Financial | InventoryMovement | Destructive

fun RISK_RANK :: "risk_level \<Rightarrow> nat" where
  "RISK_RANK ReadOnly = 0"
| "RISK_RANK ReversibleUpdate = 1"
| "RISK_RANK ExternalCommunication = 2"
| "RISK_RANK Financial = 3"
| "RISK_RANK InventoryMovement = 4"
| "RISK_RANK Destructive = 5"

text \<open>The severity ladder as the order of the type.\<close>

instantiation risk_level :: linorder
begin

definition less_eq_risk_level :: "risk_level \<Rightarrow> risk_level \<Rightarrow> bool" where
  "less_eq_risk_level a b \<longleftrightarrow> RISK_RANK a \<le> RISK_RANK b"

definition less_risk_level :: "risk_level \<Rightarrow> risk_level \<Rightarrow> bool" where
  "less_risk_level a b \<longleftrightarrow> RISK_RANK a < RISK_RANK b"

instance
proof
  fix a b :: risk_level
  show "a = b" if "a \<le> b" "b \<le> a"
    using that by (cases a; cases b) (simp_all add: less_eq_risk_level_def)
qed (auto simp: less_eq_risk_level_def less_risk_level_def)

end

definition FINANCIAL_TOOLS :: "string list" where
  "FINANCIAL_TOOLS =
     [''autotask_create_contract'', ''autotask_create_contracts_bulk'', ''autotask_update_contract'',
      ''autotask_create_contract_service'', ''autotask_update_contract_service'',
      ''autotask_create_contract_milestone'', ''autotask_update_contract_milestone'',
      ''autotask_create_quote'', ''autotask_create_quote_item'', ''autotask_update_quote_item'',
      ''autotask_create_opportunity'', ''autotask_update_opportunity'',
      ''autotask_create_ticket_charge'', ''autotask_update_ticket_charge'', ''autotask_set_ticket_contract'',
      ''autotask_create_expense_report'', ''autotask_create_expense_item'', ''autotask_change_plan_execute'']"

definition EXTERNAL_COMM_TOOLS :: "string list" where
  "EXTERNAL_COMM_TOOLS = []"

definition INVENTORY_MOVEMENT_TOOLS :: "string list" where
  "INVENTORY_MOVEMENT_TOOLS = [''autotask_create_inventory_transfer'', ''autotask_add_inventory_stock'']"

definition classifyRisk :: "string \<Rightarrow> bool \<Rightarrow> bool \<Rightarrow> risk_level" where
  "classifyRisk tool readOnlyHint destructiveHint =
     (if readOnlyHint then ReadOnly
      else if destructiveHint then Destructive
      else if tool \<in> set FINANCIAL_TOOLS then Financial
      else if tool \<in> set INVENTORY_MOVEMENT_TOOLS then InventoryMovement
      else if tool \<in> set EXTERNAL_COMM_TOOLS then ExternalCommunication
      else ReversibleUpdate)"

definition requiresExplicitConfirmation :: "risk_level \<Rightarrow> bool" where
  "requiresExplicitConfirmation r \<longleftrightarrow> r = Destructive \<or> r = Financial \<or> r = InventoryMovement"

section \<open>Roles\<close>

datatype functional_role = Staff | Dispatcher | ProjectManager | Sales | Finance | Executive | Administrator

fun role_name :: "functional_role \<Rightarrow> string" where
  "role_name Staff = ''staff''"
| "role_name Dispatcher = ''dispatcher''"
| "role_name ProjectManager = ''project-manager''"
| "role_name Sales = ''sales''"
| "role_name Finance = ''finance''"
| "role_name Executive = ''executive''"
| "role_name Administrator = ''administrator''"

definition VALID_ROLES :: "functional_role list" where
  "VALID_ROLES = [Staff, Dispatcher, ProjectManager, Sales, Finance, Executive, Administrator]"

fun ROLE_MAX_RISK :: "functional_role \<Rightarrow> risk_level" where
  "ROLE_MAX_RISK Staff = ReversibleUpdate"
| "ROLE_MAX_RISK Dispatcher = ReversibleUpdate"
| "ROLE_MAX_RISK ProjectManager = ReversibleUpdate"
| "ROLE_MAX_RISK Sales = Financial"
| "ROLE_MAX_RISK Finance = Financial"
| "ROLE_MAX_RISK Executive = InventoryMovement"
| "ROLE_MAX_RISK Administrator = Destructive"

definition env_true :: "env \<Rightarrow> string \<Rightarrow> bool" where
  "env_true env name \<longleftrightarrow> (case env name of Some v \<Rightarrow> lower v = ''true'' | None \<Rightarrow> False)"

definition isPermissionsEnabled :: "env \<Rightarrow> bool" where
  "isPermissionsEnabled env \<longleftrightarrow> env_true env ''MCP_PERMISSIONS_ENABLED''"

text \<open>\<open>.replace(/[_\s]+/g, '-')\<close>\<close>

fun dash_runs :: "bool \<Rightarrow> string \<Rightarrow> string" where
  "dash_runs _ [] = []"
| "dash_runs in_run (c # cs) =
     (if c = CHR ''_'' \<or> js_space c then (if in_run then [] else ''-'') @ dash_runs True cs else c # dash_runs False cs)"

definition normalizeRole :: "string option \<Rightarrow> functional_role option" where
  "normalizeRole raw =
     (case raw of None \<Rightarrow> None
      | Some s \<Rightarrow> find (\<lambda>r. role_name r = dash_runs False (lower (js_trim s))) VALID_ROLES)"

definition role_pair :: "string \<Rightarrow> (string \<times> functional_role) option" where
  "role_pair pair =
     (if CHR ''='' \<notin> set pair \<or> hd pair = CHR ''='' then None
      else (let key = lower (js_trim (takeWhile (\<lambda>c. c \<noteq> CHR ''='') pair));
                role = normalizeRole (Some (tl (dropWhile (\<lambda>c. c \<noteq> CHR ''='') pair)))
            in if key = [] then None else map_option (\<lambda>r. (key, r)) role))"

definition parseRoleMap :: "string option \<Rightarrow> (string \<times> functional_role) list" where
  "parseRoleMap raw =
     (case raw of None \<Rightarrow> []
      | Some s \<Rightarrow> fold (\<lambda>(k, r) m. upsert m k r) (List.map_filter role_pair (split_on (\<lambda>c. c = CHR '';'' \<or> c = CHR 0x0A) s)) [])"

definition roleMapKeys :: "caller_context \<Rightarrow> string list" where
  "roleMapKeys ctx =
     (case cc_email ctx of Some e \<Rightarrow> [lower e] | None \<Rightarrow> []) @
     (case cc_teams ctx of Some t \<Rightarrow> [lower t] | None \<Rightarrow> []) @
     (case cc_resourceId ctx of Some n \<Rightarrow> [num_to_str n] | None \<Rightarrow> [])"

definition resolveRole :: "env \<Rightarrow> (string \<times> functional_role) list \<Rightarrow> caller_context \<Rightarrow> functional_role option" where
  "resolveRole env roleMap ctx =
     (case List.map_filter (map_of roleMap) (roleMapKeys ctx) of
        r # _ \<Rightarrow> Some r
      | [] \<Rightarrow> normalizeRole (env ''AUTOTASK_DEFAULT_ROLE''))"

datatype decision = Allowed | DeniedNoRole | DeniedRisk functional_role risk_level

definition evaluatePermission :: "functional_role option \<Rightarrow> risk_level \<Rightarrow> decision" where
  "evaluatePermission role risk =
     (if risk = ReadOnly then Allowed
      else (case role of
          None \<Rightarrow> DeniedNoRole
        | Some r \<Rightarrow> if RISK_RANK risk \<le> RISK_RANK (ROLE_MAX_RISK r) then Allowed else DeniedRisk r risk))"

section \<open>Raw requests\<close>

datatype raw_decision = RawAllowed | RawAdminOnly | RawDeleteOff | RawReadOnly

definition evaluateRawRequest :: "env \<Rightarrow> jsv \<Rightarrow> functional_role option \<Rightarrow> bool \<Rightarrow> raw_decision" where
  "evaluateRawRequest env m role permissionsEnabled =
     (let meth = upper (to_str (coalesce m (JStr []))) in
      if permissionsEnabled \<and> role \<noteq> Some Administrator then RawAdminOnly
      else if meth = ''DELETE'' \<and> \<not> env_true env ''MCP_RAW_ALLOW_DELETE'' then RawDeleteOff
      else if meth \<noteq> ''GET'' \<and> env_true env ''MCP_RAW_READONLY'' then RawReadOnly
      else RawAllowed)"

section \<open>Which tools mutate\<close>

definition READ_TOOL_PREFIXES :: "string list" where
  "READ_TOOL_PREFIXES = [''autotask_get_'', ''autotask_search_'', ''autotask_list_'', ''autotask_find_'',
     ''autotask_query_'', ''autotask_count_'', ''autotask_report_'']"

definition NON_MUTATING_TOOLS :: "string list" where
  "NON_MUTATING_TOOLS =
     [''autotask_router'', ''autotask_whoami'', ''autotask_test_connection'', ''autotask_execute_tool'',
      ''autotask_backfill_history'', ''autotask_vendor_import_invoice'', ''autotask_reconcile_resolve_mapping'',
      ''autotask_vendor_prices'', ''autotask_catalog_plan_standardize'', ''autotask_change_plan_review'',
      ''autotask_reconcile_vendor_to_autotask'', ''autotask_reconcile_get_exceptions'',
      ''autotask_vendor_pricing_policy'', ''autotask_reconcile_export_workbook'',
      ''autotask_pricing_build_change_plan'', ''autotask_reconcile_check_sync_drift'', ''autotask_vendor_sync'',
      ''autotask_contract_plan_move_lines'', ''autotask_contract_plan_wording'', ''autotask_change_plan_revert'',
      ''autotask_vendor_monitor'', ''autotask_change_plan_execute'', ''autotask_raw_request'']"

definition isMutatingTool :: "string \<Rightarrow> bool" where
  "isMutatingTool name \<longleftrightarrow> name \<notin> set NON_MUTATING_TOOLS \<and> \<not> list_ex (starts_with name) READ_TOOL_PREFIXES"

text \<open>\<open>/\/query(?:$|[/?])/i\<close>\<close>

fun query_path :: "string \<Rightarrow> bool" where
  "query_path [] = False"
| "query_path (c # cs) =
     ((starts_with (lower (c # cs)) ''/query'' \<and> (let r = drop 6 (c # cs) in r = [] \<or> hd r \<in> set ''/?'')) \<or> query_path cs)"

definition mayWrite :: "string \<Rightarrow> fields \<Rightarrow> bool" where
  "mayWrite name args \<longleftrightarrow>
     (if name = ''autotask_raw_request''
      then upper (to_str (coalesce (get_prop args ''method'') (JStr ''GET''))) \<noteq> ''GET''
           \<and> \<not> query_path (to_str (coalesce (get_prop args ''path'') (JStr [])))
      else if has_substr name ''_find_or_create_'' then True
      else isMutatingTool name)"

section \<open>Console switches\<close>

definition ALWAYS_ON :: "string list" where
  "ALWAYS_ON = [''autotask_list_categories'', ''autotask_list_category_tools'', ''autotask_execute_tool'', ''autotask_router'',
     ''autotask_test_connection'', ''autotask_whoami'', ''autotask_report_gap'']"

definition WRITE_VERBS :: "string list" where
  "WRITE_VERBS = [''create'', ''update'', ''delete'', ''add'', ''remove'', ''set'', ''log'', ''complete'', ''apply'', ''move'',
     ''start'', ''close'', ''build'', ''extend'', ''link'', ''assign'', ''approve'', ''post'', ''or_create'']"

definition verb_here :: "string \<Rightarrow> bool" where
  "verb_here s \<longleftrightarrow> list_ex (\<lambda>v. starts_with s (''_'' @ v) \<and>
     (let r = drop (1 + length v) s in r = [] \<or> hd r = CHR ''_'')) WRITE_VERBS"

fun has_write_verb :: "string \<Rightarrow> bool" where
  "has_write_verb [] = False"
| "has_write_verb (c # cs) = (verb_here (c # cs) \<or> has_write_verb cs)"

definition isWriteTool :: "(string \<Rightarrow> bool) \<Rightarrow> string \<Rightarrow> bool" where
  "isWriteTool readOnlyHint name \<longleftrightarrow>
     (if name = ''autotask_raw_request'' then True
      else if name \<in> set [''autotask_bulk_inactivate''] then True
      else if name \<in> set [''autotask_shadow_sync''] \<or> readOnlyHint name then False
      else isMutatingTool name \<or> has_write_verb (if starts_with name ''autotask'' then drop 8 name else name))"

datatype block_reason = ReadOnlyMode | GroupOff string

definition toolBlockReason :: "(string \<Rightarrow> bool) \<Rightarrow> (string \<Rightarrow> string list) \<Rightarrow> bool \<Rightarrow> string list \<Rightarrow> string \<Rightarrow> block_reason option" where
  "toolBlockReason readOnlyHint categoriesOf writesEnabled disabled name =
     (if name \<in> set ALWAYS_ON then None
      else if \<not> writesEnabled \<and> isWriteTool readOnlyHint name then Some ReadOnlyMode
      else map_option GroupOff (find (\<lambda>c. c \<in> set disabled) (categoriesOf name)))"

end
