(* ===== verification/Company_Guard.thy ===== *)
theory Company_Guard
  imports Safety_Gates
begin







definition WEBMAIL_PROVIDERS :: "string list" where
  "WEBMAIL_PROVIDERS = [''gmail'', ''googlemail'', ''yahoo'', ''ymail'', ''outlook'', ''hotmail'', ''aol'',
     ''icloud'', ''proton'', ''protonmail'', ''gmx'', ''yandex'', ''live'', ''msn'']"

definition SALUTATIONS :: "string list" where
  "SALUTATIONS = [''hi'', ''hello'', ''hey'', ''dear'', ''greetings'', ''thanks'', ''thank'', ''regards'']"

definition CTA_PHRASES :: "string list" where
  "CTA_PHRASES = [''click here'', ''unsubscribe'', ''learn more'', ''book a demo'', ''buy now'',
     ''sign up'', ''free trial'', ''limited time'', ''act now'', ''contact us today'']"

definition ends_with :: "string \<Rightarrow> string \<Rightarrow> bool" where
  "ends_with s t \<longleftrightarrow> starts_with (rev s) (rev t)"

definition drop_tld :: "string \<Rightarrow> string" where
  "drop_tld s =
     (case find (ends_with s) [''.com'', ''.net'', ''.org'', ''.co'', ''.io'', ''.us''] of
        Some t \<Rightarrow> take (length s - length t) s | None \<Rightarrow> s)"

definition js_words :: "string \<Rightarrow> string list" where
  "js_words s = filter (\<lambda>w. w \<noteq> []) (split_on js_space s)"

datatype name_problem = NotAString | EmptyName | TooLong | Webmail | Greeting | Marketing | SentenceLike | TooManyWords

definition isUnsafeCompanyName :: "jsv \<Rightarrow> name_problem option" where
  "isUnsafeCompanyName name =
     (case name of
        JStr s \<Rightarrow>
          (let trimmed = js_trim s; low = lower trimmed; words = js_words low in
           if trimmed = [] then Some EmptyName
           else if length trimmed > 100 then Some TooLong
           else if drop_tld (filter (\<lambda>c. \<not> js_space c) low) \<in> set WEBMAIL_PROVIDERS then Some Webmail
           else if hd words \<in> set SALUTATIONS then Some Greeting
           else if list_ex (has_substr low) CTA_PHRASES then Some Marketing
           else if last trimmed \<in> set ''.!?'' \<and> length words \<ge> 4 then Some SentenceLike
           else if length words > 8 then Some TooManyWords
           else None)
      | _ \<Rightarrow> Some NotAString)"

definition strip_slashes :: "string \<Rightarrow> string" where
  "strip_slashes s = rev (dropWhile (\<lambda>c. c = CHR ''/'') (rev (dropWhile (\<lambda>c. c = CHR ''/'') s)))"

text \<open>\<open>/^companies(\/\d+)?$/\<close>\<close>

definition company_path :: "string \<Rightarrow> bool" where
  "company_path p \<longleftrightarrow> p = ''companies'' \<or> (starts_with p ''companies/'' \<and> all_digits (drop 10 p))"

definition rawCompanyWriteProblem :: "jsv \<Rightarrow> jsv \<Rightarrow> jsv \<Rightarrow> name_problem option" where
  "rawCompanyWriteProblem meth path body =
     (let m = upper (to_str (coalesce meth (JStr [])));
          p = lower (strip_slashes (takeWhile (\<lambda>c. c \<noteq> CHR ''?'') (to_str (coalesce path (JStr [])))));
          b = (case body of JObj fs \<Rightarrow> fs | _ \<Rightarrow> [])
      in if m \<notin> set [''POST'', ''PUT'', ''PATCH''] then None
         else if \<not> company_path p then None
         else if m = ''POST'' \<and> p = ''companies'' then isUnsafeCompanyName (get_prop b ''companyName'')
         else if has_prop b ''companyName'' then isUnsafeCompanyName (get_prop b ''companyName'')
         else None)"

section \<open>What the gate guarantees\<close>



end
