(* ===== verification/Idempotency.thy ===== *)
theory Idempotency
  imports Safety_Gates Keyed_Store
begin

text \<open>
  Replay protection: the key of a call and the in-memory store (\<open>src/src/utils/idempotency.ts\<close>), and
  the durable claim and finish of the operation log (\<open>src/src/db/operation-store.ts\<close>). One SQL
  statement is one step on the list of \<open>mcp_operation\<close> rows; \<open>JSON.stringify\<close> followed by SHA-256 is
  the argument \<open>sha\<close>.
\<close>

section \<open>Keys\<close>

text \<open>\<open>Object.keys(v).sort()\<close> at every level (keys that are no array index).\<close>

fun sort_deep :: "jsv \<Rightarrow> jsv" where
  "sort_deep (JArr vs) = JArr (map sort_deep vs)"
| "sort_deep (JObj m) = JObj (sort_key fst (map (\<lambda>kv. (fst kv, sort_deep (snd kv))) m))"
| "sort_deep v = v"

definition argsDigest :: "(jsv \<Rightarrow> string) \<Rightarrow> fields \<Rightarrow> string" where
  "argsDigest sha args = take 32 (sha (sort_deep (JObj args)))"

definition deriveIdempotencyKey :: "(jsv \<Rightarrow> string) \<Rightarrow> caller_context \<Rightarrow> string \<Rightarrow> fields \<Rightarrow> string option" where
  "deriveIdempotencyKey sha ctx tool args =
     (case cc_idempotencyKey ctx of
        Some k \<Rightarrow> Some (''k:'' @ k)
      | None \<Rightarrow>
          (case cc_conversation ctx of
             None \<Rightarrow> None
           | Some conv \<Rightarrow>
               (let actor = (case cc_resourceId ctx of Some n \<Rightarrow> num_to_str n
                       | None \<Rightarrow> (case cc_email ctx of Some e \<Rightarrow> e | None \<Rightarrow> ''anon''))
                in Some (''d:'' @ source_name (cc_source ctx) @ ''|'' @ actor @ ''|'' @ conv @ ''|'' @ tool @ ''|'' @ argsDigest sha args))))"

section \<open>The in-memory store\<close>

record 'r idem_record =
  ir_result :: 'r
  ir_at :: millis

type_synonym 'r idem_map = "(string \<times> 'r idem_record) list"

definition idem_get :: "millis \<Rightarrow> millis \<Rightarrow> string \<Rightarrow> 'r idem_map \<Rightarrow> 'r option \<times> 'r idem_map" where
  "idem_get ttl now key m =
     (case map_of m key of
        None \<Rightarrow> (None, m)
      | Some rec \<Rightarrow> if now - ir_at rec > ttl then (None, remove_key m key) else (Some (ir_result rec), m))"

definition idem_insert :: "nat \<Rightarrow> string \<Rightarrow> 'r idem_record \<Rightarrow> 'r idem_map \<Rightarrow> 'r idem_map" where
  "idem_insert maxEntries key rec m =
     upsert (if key \<notin> fst ` set m \<and> length m \<ge> maxEntries then tl m else m) key rec"

definition idem_set :: "nat \<Rightarrow> millis \<Rightarrow> string \<Rightarrow> 'r \<Rightarrow> 'r idem_map \<Rightarrow> 'r idem_map" where
  "idem_set maxEntries now key result m = idem_insert maxEntries key \<lparr>ir_result = result, ir_at = now\<rparr> m"

definition MAX_IDEM_ENTRIES :: nat where "MAX_IDEM_ENTRIES = 1000"
definition IDEM_TTL_MS :: millis where "IDEM_TTL_MS = 24 * 60 * 60 * 1000"

definition idem_shape :: "nat \<Rightarrow> 'r idem_map \<Rightarrow> bool" where
  "idem_shape n m \<longleftrightarrow> distinct (map fst m) \<and> length m \<le> n"

lemma keys_upsert_new: "k \<notin> fst ` set m \<Longrightarrow> upsert m k v = m @ [(k, v)]"
  by (induction m k v rule: upsert.induct) auto

lemma length_upsert_old: "k \<in> fst ` set m \<Longrightarrow> length (upsert m k v) = length m"
  by (induction m k v rule: upsert.induct) auto

lemma idem_shape_insert:
  assumes "idem_shape n m" "0 < n"
  shows "idem_shape n (idem_insert n k r m)"
proof (cases "k \<in> fst ` set m")
  case True
  then show ?thesis using assms by (simp add: idem_shape_def idem_insert_def length_upsert_old)
next
  case False
  then have "k \<notin> fst ` set (tl m)" by (cases m) auto
  then show ?thesis using assms False
    by (auto simp: idem_shape_def idem_insert_def keys_upsert_new map_tl distinct_tl)
qed

text \<open>The store forgets (the oldest entry, when full) but never answers with another key's result.\<close>

interpretation idem_store: keyed_store map_of "idem_insert MAX_IDEM_ENTRIES" "idem_shape MAX_IDEM_ENTRIES"
proof unfold_locales
  fix m :: "(string \<times> 'a idem_record) list" and k k' :: string and r :: "'a idem_record"
  assume ok: "idem_shape MAX_IDEM_ENTRIES m"
  show "map_of (idem_insert MAX_IDEM_ENTRIES k r m) k = Some r"
    by (simp add: idem_insert_def)
  show "idem_shape MAX_IDEM_ENTRIES (idem_insert MAX_IDEM_ENTRIES k r m)"
    using ok by (rule idem_shape_insert) (simp add: MAX_IDEM_ENTRIES_def)
  have "map_of (tl m) k' \<in> {map_of m k', None}"
    using map_of_drop_sub [of m 1 k'] ok by (simp add: idem_shape_def drop_Suc)
  then show "map_of (idem_insert MAX_IDEM_ENTRIES k r m) k' \<in> {map_of m k', None}" if "k' \<noteq> k"
    using that by (simp add: idem_insert_def)
qed

text \<open>The order in which a client lists its arguments never changes the key of a call: the same
  payload, fields permuted, derives the same idempotency key.\<close>

theorem payload_order_irrelevant:
  assumes "mset args = mset args'" "distinct (map fst args)"
  shows "deriveIdempotencyKey sha ctx tool args = deriveIdempotencyKey sha ctx tool args'"
proof -
  let ?f = "\<lambda>kv. (fst kv, sort_deep (snd kv))"
  have d: "distinct (map fst (map ?f args))" using assms(2) by (simp add: comp_def)
  have "sort_key fst (map ?f args) = sort_key fst (map ?f args')"
  proof (rule sort_key_inj_key_eq)
    show "mset (map ?f args) = mset (sort_key fst (map ?f args'))" using assms(1) by simp
    show "inj_on fst (set (map ?f args))" using d distinct_map by blast
    show "sorted (map fst (sort_key fst (map ?f args')))" by simp
  qed
  then have "sort_deep (JObj args) = sort_deep (JObj args')" by simp
  then show ?thesis by (simp add: deriveIdempotencyKey_def argsDigest_def split: option.splits)
qed

definition ex_ctx :: caller_context where
  "ex_ctx = \<lparr>cc_source = Chatgpt, cc_email = Some ''jane@msp.com'', cc_teams = None, cc_resourceId = None,
     cc_conversation = Some ''c1'', cc_correlation = ''r1'', cc_idempotencyKey = None, cc_intent = None,
     cc_decision = None, cc_refs = [], cc_trustedId = None, cc_trustedEmail = None\<rparr>"

theorem payload_order_irrelevant_witness:
  "deriveIdempotencyKey (\<lambda>v. to_str (get_member v ''a'')) ex_ctx ''t'' [(''b'', JNull), (''a'', JStr ''x'')]
   = deriveIdempotencyKey (\<lambda>v. to_str (get_member v ''a'')) ex_ctx ''t'' [(''a'', JStr ''x''), (''b'', JNull)]"
  by (rule payload_order_irrelevant) simp_all

definition idem_puts :: "(string \<times> 'r idem_record) list \<Rightarrow> 'r idem_map" where
  "idem_puts kvs = fold (\<lambda>(k, r). idem_insert MAX_IDEM_ENTRIES k r) kvs []"

lemma idem_puts_all: "idem_puts kvs = idem_store.put_all kvs []"
  by (simp add: idem_puts_def idem_store.put_all_def)

text \<open>C16. Whatever results were stored, a replay answers with the result most recently stored under
  that very key, not older than 24 hours; it never answers another call's result.\<close>

theorem replay_is_own_latest_result:
  assumes "idem_get IDEM_TTL_MS now key (idem_puts kvs) = (Some r, m')"
  shows "\<exists>rec. map_of (rev kvs) key = Some rec \<and> ir_result rec = r \<and> now - ir_at rec \<le> 86400000"
proof -
  obtain rec where rec: "map_of (idem_puts kvs) key = Some rec" "ir_result rec = r" "now - ir_at rec \<le> 86400000"
    using assms by (auto simp: idem_get_def IDEM_TTL_MS_def split: option.splits if_splits)
  have "idem_shape MAX_IDEM_ENTRIES []" by (simp add: idem_shape_def)
  from idem_store.latest_or_forgotten [OF this, of kvs key] rec(1)
  have "map_of (rev kvs) key = Some rec" by (auto simp: idem_puts_all split: option.splits)
  with rec show ?thesis by blast
qed

theorem replay_is_own_latest_result_witness:
  "\<exists>rec. map_of (rev [(''k:1'', \<lparr>ir_result = JNum 7, ir_at = 5\<rparr>)]) ''k:1'' = Some rec \<and> ir_result rec = JNum 7 \<and> 9 - ir_at rec \<le> 86400000"
  by (rule replay_is_own_latest_result [where m' = "idem_puts [(''k:1'', \<lparr>ir_result = JNum 7, ir_at = 5\<rparr>)]"])
    (simp add: idem_get_def idem_puts_def idem_insert_def MAX_IDEM_ENTRIES_def IDEM_TTL_MS_def)

section \<open>The operation log\<close>

definition RUNNING_STALE_MS :: millis where "RUNNING_STALE_MS = 10 * 60000"
definition MAX_RESULT_CHARS :: nat where "MAX_RESULT_CHARS = 200000"

datatype op_status = Running | OkDone | ErrorDone | PartialDone

record op_input =
  oi_id :: nat
  oi_key :: "string option"
  oi_tool :: string
  oi_digest :: "string option"

record op_row =
  or_id :: nat
  or_key :: "string option"
  or_tool :: string
  or_digest :: "string option"
  or_status :: op_status
  or_started :: millis
  or_result :: "jsv option"
  or_error :: "string option"

datatype claim_result = Claimed | Replay nat "jsv option" | Conflict nat | InProgress nat | Incomplete nat | PartialBefore nat

definition row_of :: "op_input \<Rightarrow> op_status \<Rightarrow> millis \<Rightarrow> jsv option \<Rightarrow> string option \<Rightarrow> op_row" where
  "row_of i st now res err = \<lparr>or_id = oi_id i, or_key = oi_key i, or_tool = oi_tool i, or_digest = oi_digest i,
     or_status = st, or_started = now, or_result = res, or_error = err\<rparr>"

definition key_row :: "string \<Rightarrow> op_row list \<Rightarrow> op_row option" where
  "key_row k rows = find (\<lambda>r. or_key r = Some k) rows"

text \<open>The statements: the guarded insert, the guarded delete, the upsert of the outcome (\<^const>\<open>None\<close>:
  the unique index on the key refuses it).\<close>

definition sql_insert :: "millis \<Rightarrow> op_input \<Rightarrow> op_row list \<Rightarrow> bool \<times> op_row list" where
  "sql_insert now i rows =
     (case oi_key i of
        Some k \<Rightarrow> if key_row k rows = None then (True, rows @ [row_of i Running now None None]) else (False, rows)
      | None \<Rightarrow> (True, rows @ [row_of i Running now None None]))"

definition sql_release :: "nat \<Rightarrow> op_row list \<Rightarrow> op_row list" where
  "sql_release opid rows = filter (\<lambda>r. \<not> (or_id r = opid \<and> or_status r = ErrorDone)) rows"

definition sql_finish :: "millis \<Rightarrow> op_input \<Rightarrow> op_status \<Rightarrow> jsv option \<Rightarrow> string option \<Rightarrow> op_row list \<Rightarrow> op_row list option" where
  "sql_finish now i st res err rows =
     (if \<exists>r \<in> set rows. or_id r = oi_id i
      then Some (map (\<lambda>r. if or_id r = oi_id i then r\<lparr>or_status := st, or_result := res, or_error := err\<rparr> else r) rows)
      else (case oi_key i of
          Some k \<Rightarrow> if key_row k rows = None then Some (rows @ [row_of i st now res err]) else None
        | None \<Rightarrow> Some (rows @ [row_of i st now res err])))"

text \<open>\<^const>\<open>None\<close>: both attempts lost the key to a release in between, and the call fails.\<close>

fun claim_attempts :: "nat \<Rightarrow> millis \<Rightarrow> op_input \<Rightarrow> string \<Rightarrow> op_row list \<Rightarrow> claim_result option \<times> op_row list" where
  "claim_attempts 0 now i k rows = (None, rows)"
| "claim_attempts (Suc n) now i k rows =
     (let (ok, rows1) = sql_insert now i rows in
      if ok then (Some Claimed, rows1)
      else (case key_row k rows1 of
          None \<Rightarrow> claim_attempts n now i k rows1
        | Some ex \<Rightarrow>
            if or_status ex = ErrorDone then claim_attempts n now i k (sql_release (or_id ex) rows1)
            else if or_tool ex \<noteq> oi_tool i \<or> or_digest ex \<noteq> oi_digest i then (Some (Conflict (or_id ex)), rows1)
            else if or_status ex = OkDone then (Some (Replay (or_id ex) (or_result ex)), rows1)
            else if or_status ex = PartialDone then (Some (PartialBefore (or_id ex)), rows1)
            else (Some (if now - or_started ex < RUNNING_STALE_MS then InProgress (or_id ex) else Incomplete (or_id ex)), rows1)))"

definition claim :: "millis \<Rightarrow> op_input \<Rightarrow> string \<Rightarrow> op_row list \<Rightarrow> claim_result option \<times> op_row list" where
  "claim now i k rows = claim_attempts 2 now (i\<lparr>oi_key := Some k\<rparr>) k rows"

text \<open>\<open>finish\<close>: \<open>chars\<close> is the length of the result text; a longer one is stored as null.\<close>

definition finish :: "(jsv \<Rightarrow> nat) \<Rightarrow> millis \<Rightarrow> op_input \<Rightarrow> op_status \<Rightarrow> jsv option \<Rightarrow> string option \<Rightarrow> op_row list \<Rightarrow> op_row list option" where
  "finish chars now i st res err rows =
     sql_finish now i st (case res of Some v \<Rightarrow> if chars v \<le> MAX_RESULT_CHARS then Some v else None | None \<Rightarrow> None) err rows"

section \<open>One holder per key\<close>

text \<open>The statements of any number of callers, in any interleaving.\<close>

datatype op_event = Insert millis op_input | Release nat | Finish millis op_input op_status "jsv option" "string option"

fun op_apply :: "op_event \<Rightarrow> op_row list \<Rightarrow> bool \<times> op_row list" where
  "op_apply (Insert now i) rows = sql_insert now i rows"
| "op_apply (Release opid) rows = (True, sql_release opid rows)"
| "op_apply (Finish now i st res err) rows =
     (case sql_finish now i st res err rows of Some rows' \<Rightarrow> (True, rows') | None \<Rightarrow> (False, rows))"

fun op_run :: "op_event list \<Rightarrow> op_row list \<Rightarrow> bool list \<times> op_row list" where
  "op_run [] rows = ([], rows)"
| "op_run (e # es) rows = (let (ok, rows1) = op_apply e rows; (oks, rows2) = op_run es rows1 in (ok # oks, rows2))"

definition holds_key :: "nat \<Rightarrow> string \<Rightarrow> op_row list \<Rightarrow> bool" where
  "holds_key a k rows \<longleftrightarrow> (\<exists>r \<in> set rows. or_id r = a \<and> or_key r = Some k \<and> or_status r \<noteq> ErrorDone)"

definition releases :: "nat \<Rightarrow> op_event \<Rightarrow> bool" where
  "releases a e \<longleftrightarrow> (case e of Finish _ i st _ _ \<Rightarrow> oi_id i = a \<and> st = ErrorDone | _ \<Rightarrow> False)"

lemma key_row_None: "key_row k rows = None \<longleftrightarrow> (\<forall>r \<in> set rows. or_key r \<noteq> Some k)"
  by (auto simp: key_row_def find_None_iff)

lemma key_row_Some: "key_row k rows = Some r \<Longrightarrow> r \<in> set rows \<and> or_key r = Some k"
  by (auto simp: key_row_def find_Some_iff)

lemma holds_key_insert_refused:
  "holds_key a k rows \<Longrightarrow> oi_key i = Some k \<Longrightarrow> sql_insert now i rows = (False, rows)"
  by (auto simp: holds_key_def sql_insert_def key_row_None)

lemma holds_key_apply:
  assumes "holds_key a k rows" "\<not> releases a e"
  shows "holds_key a k (snd (op_apply e rows))"
proof -
  obtain r where r: "r \<in> set rows" "or_id r = a" "or_key r = Some k" "or_status r \<noteq> ErrorDone"
    using assms(1) by (auto simp: holds_key_def)
  show ?thesis
  proof (cases e)
    case (Insert now i)
    have "set rows \<subseteq> set (snd (sql_insert now i rows))"
      by (auto simp: sql_insert_def split: option.splits)
    then show ?thesis using Insert r by (auto simp: holds_key_def)
  next
    case (Release opid)
    then show ?thesis using r by (auto simp: holds_key_def sql_release_def)
  next
    case (Finish now i st res err)
    show ?thesis
    proof (cases "oi_id i = a")
      case True
      then have "sql_finish now i st res err rows =
          Some (map (\<lambda>r. if or_id r = a then r\<lparr>or_status := st, or_result := res, or_error := err\<rparr> else r) rows)"
        using r by (auto simp: sql_finish_def)
      moreover have "st \<noteq> ErrorDone" using assms(2) Finish True by (simp add: releases_def)
      moreover have "r\<lparr>or_status := st, or_result := res, or_error := err\<rparr> \<in>
          set (map (\<lambda>r. if or_id r = a then r\<lparr>or_status := st, or_result := res, or_error := err\<rparr> else r) rows)"
        using r by force
      ultimately show ?thesis using Finish r unfolding holds_key_def
        by (intro bexI [of _ "r\<lparr>or_status := st, or_result := res, or_error := err\<rparr>"]) auto
    next
      case False
      have "r \<in> set rows'" if "sql_finish now i st res err rows = Some rows'" for rows'
        using that r False by (auto simp: sql_finish_def image_iff split: if_splits option.splits)
      then show ?thesis using Finish r by (auto simp: holds_key_def split: option.splits)
    qed
  qed
qed

text \<open>C15. Once a call has claimed an idempotency key, no other caller's claim of that key succeeds,
  in any interleaving of the callers' statements, until the holder itself records that it failed
  before writing.\<close>

theorem claim_exclusive:
  assumes "sql_insert now a rows = (True, rowsA)" "oi_key a = Some k"
    and "\<And>e. e \<in> set evs \<Longrightarrow> \<not> releases (oi_id a) e"
    and "op_run evs rowsA = (oks, rowsB)"
    and "j < length evs" "evs ! j = Insert n i" "oi_key i = Some k"
  shows "\<not> oks ! j"
proof -
  have "holds_key (oi_id a) k rowsA"
    using assms(1,2) by (auto simp: sql_insert_def holds_key_def row_of_def split: option.splits if_splits)
  then show ?thesis using assms(3-6)
  proof (induction evs arbitrary: rowsA rowsB oks j)
    case (Cons e es)
    obtain ok rows' where e: "op_apply e rowsA = (ok, rows')" by fastforce
    obtain oks' rows'' where es: "op_run es rows' = (oks', rows'')" by fastforce
    have oks: "oks = ok # oks'" using Cons.prems(3) e es by simp
    show ?case
    proof (cases j)
      case 0
      then show ?thesis using Cons.prems(1,5) holds_key_insert_refused [OF _ assms(7)] e oks by auto
    next
      case (Suc j')
      have "holds_key (oi_id a) k rows'"
        using holds_key_apply [OF Cons.prems(1), of e] Cons.prems(2) e by auto
      then show ?thesis using Cons.IH [of rows' oks' rows'' j'] Cons.prems es oks Suc by auto
    qed
  qed simp
qed

definition ex_op :: "nat \<Rightarrow> op_input" where
  "ex_op n = \<lparr>oi_id = n, oi_key = Some ''k1'', oi_tool = ''autotask_create_ticket'', oi_digest = Some ''d''\<rparr>"

theorem claim_exclusive_witness:
  "\<not> fst (op_run [Release 7, Insert 5 (ex_op 2)] (snd (sql_insert 0 (ex_op 1) []))) ! 1"
  by (rule claim_exclusive [where now = 0 and a = "ex_op 1" and rows = "[]" and k = "''k1''" and evs = "[Release 7, Insert 5 (ex_op 2)]"
        and rowsA = "snd (sql_insert 0 (ex_op 1) [])" and j = 1 and n = 5 and i = "ex_op 2"
        and rowsB = "snd (op_run [Release 7, Insert 5 (ex_op 2)] (snd (sql_insert 0 (ex_op 1) [])))"])
    (auto simp: sql_insert_def ex_op_def key_row_def releases_def)

end
