(* ===== verification/Tool_Dispatch.thy ===== *)
theory Tool_Dispatch
  imports Company_Guard Idempotency Http_Cache
begin

text \<open>
  One tool call from end to end: \<open>dispatchToolCall\<close> of \<open>src/src/handlers/tool.handler.ts\<close> with
  \<open>resolveCaller\<close>, \<open>claimOperation\<close> and \<open>finishOperation\<close>, the impersonation posture
  (\<open>src/src/utils/request-context.ts\<close>) and the writes a call notes (\<open>src/src/utils/operation-context.ts\<close>).

  The tool's own handler, the response formatting and the tool catalogue are
  fields of \<open>server\<close>; the handler changes the outside world \<open>'w\<close> and reports the Autotask writes it
  made, also when it fails.
\<close>

section \<open>Noted writes\<close>

record op_write =
  ow_method :: string
  ow_path :: string
  ow_entityType :: "string option"
  ow_entityId :: "int option"
  ow_parentType :: "string option"
  ow_parentId :: "int option"

definition WRITE_TYPE :: "(string \<times> string) list" where
  "WRITE_TYPE =
     [(''Tickets'', ''ticket''), (''TicketNotes'', ''ticketNote''), (''Tickets/Notes'', ''ticketNote''),
      (''TimeEntries'', ''timeEntry''), (''Companies'', ''company''), (''Contacts'', ''contact''), (''Companies/Contacts'', ''contact''),
      (''CompanyNotes'', ''companyNote''), (''Companies/Notes'', ''companyNote''), (''CompanyToDos'', ''todo''), (''Companies/ToDos'', ''todo''),
      (''Tasks'', ''task''), (''Projects/Tasks'', ''task''), (''Projects'', ''project''), (''ServiceCalls'', ''serviceCall''),
      (''TicketCharges'', ''ticketCharge''), (''Tickets/Charges'', ''ticketCharge''), (''ConfigurationItems'', ''configurationItem''),
      (''TicketChecklistItems'', ''ticketChecklistItem''), (''Tickets/ChecklistItems'', ''ticketChecklistItem''),
      (''TicketAttachments'', ''ticketAttachment''), (''Tickets/Attachments'', ''ticketAttachment'')]"

definition PARENT_TYPE :: "(string \<times> string) list" where
  "PARENT_TYPE = [(''Tickets'', ''ticket''), (''Companies'', ''company''), (''Projects'', ''project''), (''Tasks'', ''task''), (''Contracts'', ''contract'')]"

definition posInt :: "jsv \<Rightarrow> int option" where
  "posInt v =
     (if nullish v \<or> v = JStr [] then None
      else (case to_int v of Some n \<Rightarrow> if n \<ge> 0 then Some n else None | None \<Rightarrow> None))"

definition or_else :: "'a option \<Rightarrow> 'a option \<Rightarrow> 'a option" where
  "or_else a b = (case a of Some _ \<Rightarrow> a | None \<Rightarrow> b)"

definition type_or_name :: "(string \<times> string) list \<Rightarrow> string \<Rightarrow> string" where
  "type_or_name m k = (case map_of m k of Some t \<Rightarrow> t | None \<Rightarrow> k)"

text \<open>\<open>.replace(/^.*?\/v1\.0(?=\/|$)/i, '')\<close>\<close>

fun after_v1_root :: "string \<Rightarrow> string option" where
  "after_v1_root [] = None"
| "after_v1_root (c # cs) =
     (if starts_with (lower (c # cs)) ''/v1.0'' \<and> (let r = drop 5 (c # cs) in r = [] \<or> hd r = CHR ''/'')
      then Some (drop 5 (c # cs)) else after_v1_root cs)"

definition write_segments :: "string \<Rightarrow> string list" where
  "write_segments path =
     (let p = takeWhile (\<lambda>c. c \<noteq> CHR ''?'') path;
          q = (if starts_with (lower p) ''http://'' \<or> starts_with (lower p) ''https://'' then url_pathname p else p);
          r = (case after_v1_root q of Some s \<Rightarrow> s | None \<Rightarrow> q)
      in filter (\<lambda>s. s \<noteq> []) (split_on (\<lambda>c. c = CHR ''/'') r))"

definition seg :: "string list \<Rightarrow> nat \<Rightarrow> jsv" where
  "seg segs n = (if n < length segs then JStr (segs ! n) else JUndef)"

definition parseWrite :: "string \<Rightarrow> string \<Rightarrow> jsv \<Rightarrow> jsv \<Rightarrow> op_write" where
  "parseWrite meth path body response =
     (let segs = write_segments path;
          base = \<lparr>ow_method = upper meth, ow_path = ''/'' @ join_with ''/'' segs, ow_entityType = None, ow_entityId = None,
                  ow_parentType = None, ow_parentId = None\<rparr>;
          bodyId = or_else (posInt (get_member body ''id'')) (posInt (get_member response ''itemId''))
      in case segs of
           s0 # s1 # s2 # _ \<Rightarrow>
             base\<lparr>ow_entityType := Some (type_or_name WRITE_TYPE (s0 @ ''/'' @ s2)),
                  ow_parentType := Some (type_or_name PARENT_TYPE s0), ow_parentId := posInt (JStr s1),
                  ow_entityId := or_else (posInt (seg segs 3)) bodyId\<rparr>
         | s0 # _ \<Rightarrow>
             (let entity = type_or_name WRITE_TYPE s0; tid = posInt (get_member body ''ticketID'');
                  child = (entity \<in> set [''ticketNote'', ''ticketCharge'', ''ticketChecklistItem'', ''ticketAttachment''] \<and> tid \<noteq> None)
              in base\<lparr>ow_entityType := Some entity, ow_entityId := or_else (posInt (seg segs 1)) bodyId,
                      ow_parentType := (if child then Some ''ticket'' else None), ow_parentId := (if child then tid else None)\<rparr>)
         | [] \<Rightarrow> base)"

section \<open>Impersonation posture\<close>

datatype impersonation_mode = ImpOff | ImpCaller | ImpGateway

definition env_word :: "env \<Rightarrow> string \<Rightarrow> string" where
  "env_word env name = lower (js_trim (case env name of Some s \<Rightarrow> s | None \<Rightarrow> []))"

definition getImpersonationMode :: "env \<Rightarrow> impersonation_mode" where
  "getImpersonationMode env =
     (let m = env_word env ''AUTOTASK_IMPERSONATION_MODE'' in
      if m = ''off'' then ImpOff else if m = ''caller'' then ImpCaller else if m = ''gateway'' then ImpGateway
      else if env_word env ''AUTOTASK_IMPERSONATION'' \<in> set [''on'', ''true'', ''1'', ''yes''] then ImpCaller else ImpOff)"

definition isImpersonationAllowedForSource :: "env \<Rightarrow> caller_source \<Rightarrow> bool" where
  "isImpersonationAllowedForSource env src =
     (let raw = js_trim (case env ''AUTOTASK_IMPERSONATION_SOURCES'' of Some s \<Rightarrow> s | None \<Rightarrow> []) in
      if raw = [] then True
      else lower (source_name src) \<in> set (filter (\<lambda>s. s \<noteq> []) (map (\<lambda>s. lower (js_trim s)) (split_on (\<lambda>c. c = CHR '','') raw))))"

section \<open>The server and its state\<close>

datatype failure = Failure string | RateFailure string int

datatype tool_result =
    TextResult fields
  | PermissionDenied decision
  | RawRequestDenied raw_decision
  | ConfirmationRequired risk_level
  | IdentificationRequired resolution
  | ClaimAnswer claim_result
  | ToolError failure

record 'w handler_out =
  ho_result :: "failure + jsv"
  ho_writes :: "op_write list"
  ho_world :: 'w

record 'w server =
  sv_env :: env
  sv_roleMap :: "(string \<times> functional_role) list"
  sv_userMap :: "(string \<times> rat) list"
  sv_risk :: "string \<Rightarrow> risk_level option"
  sv_known :: "string \<Rightarrow> bool"
  sv_block :: "string \<Rightarrow> block_reason option"
  sv_handler :: "string \<Rightarrow> fields \<Rightarrow> caller_context \<Rightarrow> rat option \<Rightarrow> 'w \<Rightarrow> 'w handler_out"
  sv_searchEmail :: "string \<Rightarrow> candidate list"
  sv_elicit :: "caller_context \<Rightarrow> candidate option"
  sv_defaultRole :: "jsv \<Rightarrow> rat option"
  sv_json :: "jsv \<Rightarrow> string"
  sv_format :: "string \<Rightarrow> fields \<Rightarrow> caller_context \<Rightarrow> jsv \<Rightarrow> failure + fields"
  sv_sha :: "jsv \<Rightarrow> string"
  sv_chars :: "jsv \<Rightarrow> nat"
  sv_opsMigrated :: bool

record 'w call_state =
  cs_world :: 'w
  cs_ops :: "op_row list option"
  cs_opWrites :: "(nat \<times> op_write list) list"
  cs_idem :: "tool_result idem_map"
  cs_cache :: "(string \<times> candidate) list"
  cs_audit :: "(string \<times> string) list"
  cs_notices :: "(string \<times> nat) list"

definition DRY_RUN_FIRST_TOOLS :: "string list" where
  "DRY_RUN_FIRST_TOOLS = [''autotask_delete_time_entry'', ''autotask_delete_task'', ''autotask_delete_task_with_time'', ''autotask_set_ticket_contract'']"

definition audit :: "string \<Rightarrow> string \<Rightarrow> 'w call_state \<Rightarrow> 'w call_state" where
  "audit name outcome st = st\<lparr>cs_audit := cs_audit st @ [(name, outcome)]\<rparr>"

section \<open>Who the caller is\<close>

definition cache_all :: "string list \<Rightarrow> candidate \<Rightarrow> (string \<times> candidate) list \<Rightarrow> (string \<times> candidate) list" where
  "cache_all keys r m = fold (\<lambda>k m. upsert m k r) keys m"

definition resource_of :: "rat \<Rightarrow> candidate" where
  "resource_of n = \<lparr>cd_id = n, cd_name = ''Resource '' @ num_to_str n, cd_email = None\<rparr>"

definition by_email :: "'w server \<Rightarrow> string list \<Rightarrow> string \<Rightarrow> 'w call_state \<Rightarrow> resolution \<times> 'w call_state" where
  "by_email sv keys mail st =
     (case classifyEmailMatch (Some mail) (sv_searchEmail sv mail) of
        Resolved r \<Rightarrow> (Resolved r, st\<lparr>cs_cache := cache_all keys r (cs_cache st)\<rparr>)
      | other \<Rightarrow> (other, st))"

text \<open>\<open>resolveCaller(ctx)\<close> without an explicit resource (the call of \<open>dispatchToolCall\<close>).\<close>

definition resolveCaller :: "'w server \<Rightarrow> caller_context \<Rightarrow> 'w call_state \<Rightarrow> resolution \<times> 'w call_state" where
  "resolveCaller sv ctx st =
     (let keys = callerMapKeys ctx;
          found = (\<lambda>r. (Resolved r, st\<lparr>cs_cache := cache_all keys r (cs_cache st)\<rparr>))
      in case cc_trustedId ctx of
           Some n \<Rightarrow> found (resource_of n)
         | None \<Rightarrow>
             (case cc_trustedEmail ctx of
                Some e \<Rightarrow> by_email sv keys e st
              | None \<Rightarrow>
                  (case List.map_filter (map_of (sv_userMap sv)) keys of
                     n # _ \<Rightarrow> found (resource_of n)
                   | [] \<Rightarrow>
                       (case List.map_filter (map_of (cs_cache st)) keys of
                          r # _ \<Rightarrow> (Resolved r, st)
                        | [] \<Rightarrow>
                            (case cc_email ctx of
                               Some e \<Rightarrow> by_email sv keys e st
                             | None \<Rightarrow> (NoIdentity, st))))))"

section \<open>Gates\<close>

definition risk_of :: "'w server \<Rightarrow> string \<Rightarrow> risk_level" where
  "risk_of sv name = (case sv_risk sv name of Some r \<Rightarrow> r | None \<Rightarrow> ReversibleUpdate)"

definition permission_gate :: "'w server \<Rightarrow> caller_context \<Rightarrow> string \<Rightarrow> tool_result option" where
  "permission_gate sv ctx name =
     (if isPermissionsEnabled (sv_env sv) \<and> isMutatingTool name
      then (case evaluatePermission (resolveRole (sv_env sv) (sv_roleMap sv) ctx) (risk_of sv name) of
          Allowed \<Rightarrow> None | d \<Rightarrow> Some (PermissionDenied d))
      else None)"

definition raw_gate :: "'w server \<Rightarrow> caller_context \<Rightarrow> string \<Rightarrow> fields \<Rightarrow> tool_result option" where
  "raw_gate sv ctx name args =
     (if name = ''autotask_raw_request''
      then (case evaluateRawRequest (sv_env sv) (get_prop args ''method'') (resolveRole (sv_env sv) (sv_roleMap sv) ctx)
                   (isPermissionsEnabled (sv_env sv)) of
          RawAllowed \<Rightarrow> None | d \<Rightarrow> Some (RawRequestDenied d))
      else None)"

definition isDryRunCall :: "string \<Rightarrow> fields \<Rightarrow> bool" where
  "isDryRunCall name args \<longleftrightarrow> get_prop args ''dryRun'' = JBool True
     \<or> (name \<in> set DRY_RUN_FIRST_TOOLS \<and> get_prop args ''dryRun'' \<noteq> JBool False)"

definition confirm_gate :: "'w server \<Rightarrow> string \<Rightarrow> fields \<Rightarrow> tool_result option" where
  "confirm_gate sv name args =
     (if requiresExplicitConfirmation (risk_of sv name) \<and> get_prop args ''confirm'' \<noteq> JBool True \<and> \<not> isDryRunCall name args
      then Some (ConfirmationRequired (risk_of sv name)) else None)"

text \<open>The gates in the order of the code, with the outcome each refusal is audited under.\<close>

definition gate_call :: "'w server \<Rightarrow> caller_context \<Rightarrow> string \<Rightarrow> fields \<Rightarrow> (tool_result \<times> string) option" where
  "gate_call sv ctx name args =
     (if \<not> sv_known sv name then Some (ToolError (Failure (''Unknown tool: '' @ name)), ''error'')
      else case sv_block sv name of
        Some b \<Rightarrow> Some (ToolError (Failure (name @ '' is disabled'')), ''error'')
      | None \<Rightarrow>
          (case permission_gate sv ctx name of
             Some r \<Rightarrow> Some (r, ''permission-denied'')
           | None \<Rightarrow>
               (case raw_gate sv ctx name args of
                  Some r \<Rightarrow> Some (r, ''permission-denied'')
                | None \<Rightarrow>
                    (case confirm_gate sv name args of
                       Some r \<Rightarrow> Some (r, ''confirmation-required'')
                     | None \<Rightarrow> None))))"

section \<open>Acting as the caller\<close>

definition default_current_user :: "string \<Rightarrow> fields \<Rightarrow> fields" where
  "default_current_user name args =
     (case map_of CURRENT_USER_DEFAULT_TOOLS name of
        Some f \<Rightarrow> if nullish (get_prop args f) \<and> nullish (get_prop args ''currentUser'') \<and> nullish (get_prop args ''resourceName'')
                 then upsert args ''currentUser'' (JBool True) else args
      | None \<Rightarrow> args)"

definition fill_acting :: "'w server \<Rightarrow> caller_context \<Rightarrow> string \<Rightarrow> fields \<Rightarrow> 'w call_state \<Rightarrow> (resolution + fields) \<times> 'w call_state" where
  "fill_acting sv ctx name args st =
     (case map_of ACTING_RESOURCE_TOOLS name of
        None \<Rightarrow> (Inr args, st)
      | Some f \<Rightarrow>
          if get_prop args ''currentUser'' = JBool True \<and> nullish (get_prop args f)
          then (let (res, st1) = resolveCaller sv ctx st;
                    final = (case res of Resolved r \<Rightarrow> res
                       | _ \<Rightarrow> (case sv_elicit sv ctx of Some r \<Rightarrow> Resolved r | None \<Rightarrow> res))
                in case final of
                     Resolved r \<Rightarrow> (Inr (remove_key (upsert args f (JNum (cd_id r))) ''currentUser''), st1)
                   | other \<Rightarrow> (Inl other, st1))
          else (Inr (remove_key args ''currentUser''), st))"

definition fill_role :: "'w server \<Rightarrow> string \<Rightarrow> fields \<Rightarrow> fields" where
  "fill_role sv name args =
     (case map_of ACTING_ROLE_FIELDS name of
        Some (f, role) \<Rightarrow>
          if \<not> nullish (get_prop args f) \<and> nullish (get_prop args role)
          then (case sv_defaultRole sv (get_prop args f) of Some n \<Rightarrow> upsert args role (JNum n) | None \<Rightarrow> args)
          else args
      | None \<Rightarrow> args)"

definition impersonate :: "'w server \<Rightarrow> caller_context \<Rightarrow> string \<Rightarrow> 'w call_state \<Rightarrow> rat option \<times> 'w call_state" where
  "impersonate sv ctx name st =
     (let mode = getImpersonationMode (sv_env sv) in
      if mode = ImpOff \<or> \<not> isMutatingTool name then (None, st)
      else (case cc_trustedId ctx of
          Some n \<Rightarrow> (Some n, st)
        | None \<Rightarrow>
            if mode = ImpCaller \<and> isImpersonationAllowedForSource (sv_env sv) (cc_source ctx)
            then (case resolveCaller sv ctx st of
                (Resolved r, st1) \<Rightarrow> (Some (cd_id r), st1) | (_, st1) \<Rightarrow> (None, st1))
            else (None, st)))"

section \<open>The handlers reached through \<open>autotask_execute_tool\<close>\<close>

text \<open>The dispatch table with its meta-tool: \<open>execute_tool\<close> looks the named tool's handler up and calls it.\<close>

definition fail_out :: "string \<Rightarrow> 'w \<Rightarrow> 'w handler_out" where
  "fail_out msg w = \<lparr>ho_result = Inl (Failure msg), ho_writes = [], ho_world = w\<rparr>"

definition table_handler :: "'w server \<Rightarrow> string \<Rightarrow> fields \<Rightarrow> caller_context \<Rightarrow> rat option \<Rightarrow> 'w \<Rightarrow> 'w handler_out" where
  "table_handler sv name args ctx imp w =
     (if name \<noteq> ''autotask_execute_tool'' then sv_handler sv name args ctx imp w
      else (let inner = to_str (get_prop args ''toolName'');
                innerArgs = (case get_prop args ''arguments'' of JObj m \<Rightarrow> m | _ \<Rightarrow> [])
            in if \<not> sv_known sv inner then fail_out (''Unknown tool: '' @ inner) w
               else if inner = ''autotask_execute_tool'' then fail_out ''Cannot recursively execute autotask_execute_tool'' w
               else if sv_block sv inner \<noteq> None then fail_out (inner @ '' is disabled'') w
               else sv_handler sv inner innerArgs ctx imp w))"

section \<open>Not found\<close>

definition drop_prefix :: "string \<Rightarrow> string \<Rightarrow> string" where
  "drop_prefix p s = (if starts_with s p then drop (length p) s else s)"

definition label_of :: "string \<Rightarrow> string \<Rightarrow> string" where
  "label_of p name = map (\<lambda>c. if c = CHR ''_'' then CHR '' '' else c) (drop_prefix p name)"

definition ends_in_id :: "string \<Rightarrow> bool" where
  "ends_in_id k \<longleftrightarrow> ends_with (lower k) ''id''"

definition buildNotFoundMessage :: "(jsv \<Rightarrow> string) \<Rightarrow> string \<Rightarrow> fields \<Rightarrow> jsv \<Rightarrow> string option" where
  "buildNotFoundMessage json name args result =
     (if starts_with name ''autotask_get_'' \<and> nullish result
      then Some (''No '' @ label_of ''autotask_get_'' name @ '' found'' @
        (case find (\<lambda>(k, _). ends_in_id k) args of
           Some (k, v) \<Rightarrow> '' with '' @ k @ '' '' @ to_str v | None \<Rightarrow> []) @ ''. Verify the ID is correct.'')
      else if starts_with name ''autotask_search_'' \<and> result = JArr []
      then (let criteria = join_with '', '' (map (\<lambda>(k, v). k @ ''='' @ json v)
                  (filter (\<lambda>(_, v). \<not> nullish v \<and> v \<noteq> JStr []) args))
            in Some (''No '' @ label_of ''autotask_search_'' name @ '' found matching search criteria'' @
                (if criteria = [] then [] else '': '' @ criteria) @
                ''. The search returned zero results - do not guess or fabricate data.''))
      else None)"

section \<open>The operation log around a call\<close>

definition claimOperation :: "'w server \<Rightarrow> millis \<Rightarrow> op_input \<Rightarrow> string \<Rightarrow> 'w call_state \<Rightarrow>
    (string + claim_result option) \<times> 'w call_state" where
  "claimOperation sv now i k st =
     (case cs_ops st of
        None \<Rightarrow> (Inr None, st)
      | Some rows \<Rightarrow>
          if \<not> sv_opsMigrated sv then (Inr None, st\<lparr>cs_ops := None\<rparr>)
          else (case claim now i k rows of
              (None, rows1) \<Rightarrow> (Inl (''idempotency key '' @ k @ '' could not be claimed''), st\<lparr>cs_ops := Some rows1\<rparr>)
            | (Some c, rows1) \<Rightarrow> (Inr (Some c), st\<lparr>cs_ops := Some rows1\<rparr>)))"

definition finishOperation :: "'w server \<Rightarrow> millis \<Rightarrow> op_input \<Rightarrow> op_status \<Rightarrow> op_write list \<Rightarrow> jsv option \<Rightarrow> string option \<Rightarrow>
    'w call_state \<Rightarrow> 'w call_state" where
  "finishOperation sv now i status writes res err st0 =
     (let st = (if status = PartialDone then st0\<lparr>cs_notices := cs_notices st0 @ [(oi_tool i, oi_id i)]\<rparr> else st0) in
      case cs_ops st of
        None \<Rightarrow> st
      | Some rows \<Rightarrow>
          if \<not> sv_opsMigrated sv then st
          else (case finish (sv_chars sv) now i status res err rows of
              None \<Rightarrow> st
            | Some rows1 \<Rightarrow> st\<lparr>cs_ops := Some rows1,
                cs_opWrites := (if writes = [] then cs_opWrites st else cs_opWrites st @ [(oi_id i, writes)])\<rparr>))"

definition failure_text :: "failure \<Rightarrow> string" where
  "failure_text f = (case f of Failure m \<Rightarrow> m | RateFailure m _ \<Rightarrow> m)"

definition failed_status :: "op_write list \<Rightarrow> op_status" where
  "failed_status writes = (if writes \<noteq> [] then PartialDone else ErrorDone)"

text \<open>The \<open>catch\<close> block, once the operation input exists.\<close>

definition catch_failure :: "'w server \<Rightarrow> millis \<Rightarrow> op_input \<Rightarrow> bool \<Rightarrow> op_write list \<Rightarrow> string \<Rightarrow> failure \<Rightarrow> 'w call_state \<Rightarrow>
    tool_result \<times> 'w call_state" where
  "catch_failure sv now i claimed writes name f st =
     (let st1 = (if claimed \<or> writes \<noteq> []
          then finishOperation sv now i (failed_status writes) writes None (Some (failure_text f)) st else st)
      in (ToolError f, audit name ''error'' st1))"

definition op_json :: "op_input \<Rightarrow> op_write list \<Rightarrow> jsv" where
  "op_json i writes = JObj [(''operationId'', JNum (of_nat (oi_id i))),
     (''writes'', JArr (map (\<lambda>w. JObj [(''method'', JStr (ow_method w)),
        (''entityType'', case ow_entityType w of Some t \<Rightarrow> JStr t | None \<Rightarrow> JNull),
        (''entityId'', case ow_entityId w of Some n \<Rightarrow> JNum (of_int n) | None \<Rightarrow> JNull)]) writes))]"

definition run_handler :: "'w server \<Rightarrow> millis \<Rightarrow> op_input \<Rightarrow> bool \<Rightarrow> string option \<Rightarrow> caller_context \<Rightarrow> string \<Rightarrow> fields \<Rightarrow>
    rat option \<Rightarrow> 'w call_state \<Rightarrow> tool_result \<times> 'w call_state" where
  "run_handler sv now i claimed idemKey ctx name args imp st =
     (let out = table_handler sv name args ctx imp (cs_world st);
          st1 = st\<lparr>cs_world := ho_world out\<rparr>; writes = ho_writes out;
          logged = (claimed \<or> writes \<noteq> [])
      in case ho_result out of
           Inl f \<Rightarrow> catch_failure sv now i claimed writes name f st1
         | Inr raw \<Rightarrow>
             (case buildNotFoundMessage (sv_json sv) name args raw of
                Some msg \<Rightarrow>
                  (ToolError (Failure msg),
                   (let st2 = audit name ''not-found'' st1
                    in if logged then finishOperation sv now i (failed_status writes) writes None (Some msg) st2 else st2))
              | None \<Rightarrow>
                  (case sv_format sv name args ctx raw of
                     Inl f \<Rightarrow> catch_failure sv now i claimed writes name f st1
                   | Inr text0 \<Rightarrow>
                       (let text = (if logged then upsert text0 ''_operation'' (op_json i writes) else text0);
                            st2 = (if logged then finishOperation sv now i OkDone writes (Some (JObj text)) None st1 else st1);
                            st3 = audit name ''ok'' st2
                        in (TextResult text,
                            (case idemKey of
                               Some k \<Rightarrow> st3\<lparr>cs_idem := idem_set MAX_IDEM_ENTRIES now k (TextResult text) (cs_idem st3)\<rparr>
                             | None \<Rightarrow> st3))))))"

section \<open>dispatchToolCall\<close>

text \<open>From the claim on: replay, impersonation, the handler.\<close>

definition claimed_call :: "'w server \<Rightarrow> millis \<Rightarrow> op_input \<Rightarrow> bool \<Rightarrow> caller_context \<Rightarrow> string \<Rightarrow> fields \<Rightarrow> 'w call_state \<Rightarrow>
    tool_result \<times> 'w call_state" where
  "claimed_call sv now i claimed ctx name args st =
     (let key = (if \<not> claimed \<and> isMutatingTool name then deriveIdempotencyKey (sv_sha sv) ctx name args else None);
          (cached, st1) = (case key of
             Some k \<Rightarrow> (let (r, m) = idem_get IDEM_TTL_MS now k (cs_idem st) in (r, st\<lparr>cs_idem := m\<rparr>))
           | None \<Rightarrow> (None, st))
      in case cached of
           Some r \<Rightarrow> (r, audit name ''idempotent-replay'' st1)
         | None \<Rightarrow> (let (imp, st2) = impersonate sv ctx name st1 in run_handler sv now i claimed key ctx name args imp st2))"

definition op_of :: "'w server \<Rightarrow> nat \<Rightarrow> caller_context \<Rightarrow> string \<Rightarrow> fields \<Rightarrow> op_input" where
  "op_of sv opid ctx name args = \<lparr>oi_id = opid, oi_key = cc_idempotencyKey ctx, oi_tool = name,
     oi_digest = Some (argsDigest (sv_sha sv) args)\<rparr>"

definition run_call :: "'w server \<Rightarrow> millis \<Rightarrow> nat \<Rightarrow> caller_context \<Rightarrow> string \<Rightarrow> fields \<Rightarrow> 'w call_state \<Rightarrow> tool_result \<times> 'w call_state" where
  "run_call sv now opid ctx name args st =
     (let i = op_of sv opid ctx name args in
      case (cc_idempotencyKey ctx, cs_ops st) of
        (Some k, Some _) \<Rightarrow>
          if mayWrite name args
          then (case claimOperation sv now i k st of
              (Inl msg, st1) \<Rightarrow> (ToolError (Failure msg), audit name ''error'' st1)
            | (Inr None, st1) \<Rightarrow> claimed_call sv now i False ctx name args st1
            | (Inr (Some Claimed), st1) \<Rightarrow> claimed_call sv now i True ctx name args st1
            | (Inr (Some c), st1) \<Rightarrow>
                (ClaimAnswer c, audit name (case c of Replay _ _ \<Rightarrow> ''idempotent-replay'' | _ \<Rightarrow> ''idempotency-refused'') st1))
          else claimed_call sv now i False ctx name args st
      | _ \<Rightarrow> claimed_call sv now i False ctx name args st)"

text \<open>\<open>opid\<close> and \<open>uuid\<close> are the values of \<open>randomUUID()\<close>; \<open>ta\<close> the trusted gateway identity.\<close>

definition dispatchToolCall :: "'w server \<Rightarrow> millis \<Rightarrow> nat \<Rightarrow> string \<Rightarrow> (rat option \<times> string option) option \<Rightarrow> string \<Rightarrow>
    fields \<Rightarrow> fields \<Rightarrow> 'w call_state \<Rightarrow> tool_result \<times> 'w call_state" where
  "dispatchToolCall sv now opid uuid ta name args0 meta st =
     (let ctx = with_trusted ta (extractCallerContext uuid meta args0); args = stripCallerContext args0 in
      case gate_call sv ctx name args of
        Some (r, outcome) \<Rightarrow> (r, audit name outcome st)
      | None \<Rightarrow>
          (case fill_acting sv ctx name (default_current_user name (remove_key args ''confirm'')) st of
             (Inl res, st1) \<Rightarrow> (IdentificationRequired res, audit name ''identification-required'' st1)
           | (Inr args1, st1) \<Rightarrow> run_call sv now opid ctx name (fill_role sv name args1) st1))"

end
