(* ===== verification/Dispatch_Facts.thy ===== *)
theory Dispatch_Facts
  imports Tool_Dispatch
begin

text \<open>
  What the gates in front of a tool call guarantee, and what the operation log guarantees for calls
  that carry an idempotency key.
\<close>

section \<open>Frame facts\<close>

lemma audit_simps [simp]:
  "cs_world (audit n x st) = cs_world st" "cs_ops (audit n x st) = cs_ops st"
  "cs_opWrites (audit n x st) = cs_opWrites st" "cs_idem (audit n x st) = cs_idem st"
  by (simp_all add: audit_def)





lemma finishOperation_world [simp]: "cs_world (finishOperation sv now i s ws res err st) = cs_world st"
  by (simp add: finishOperation_def Let_def split: option.splits)

section \<open>Refused calls change nothing\<close>

lemma dispatch_refused:
  assumes "gate_call sv (with_trusted ta (extractCallerContext uuid meta args)) name (stripCallerContext args) = Some (r, out)"
  shows "dispatchToolCall sv now opid uuid ta name args meta st = (r, audit name out st)"
  using assms by (simp add: dispatchToolCall_def Let_def)

lemma strip_keeps: "k \<noteq> ''_context'' \<Longrightarrow> get_prop (stripCallerContext args) k = get_prop args k"
proof -
  assume k: "k \<noteq> ''_context''"
  have "map_of (filter (\<lambda>(k, _). k \<noteq> ''_context'') args) k = map_of args k"
    using k by (induction args) auto
  then show ?thesis by (simp add: get_prop_def stripCallerContext_def)
qed

text \<open>C1. A destructive, financial or inventory tool does nothing without an explicit \<open>confirm: true\<close>
  unless the call is a dry run: the outside world, the operation log and the replay store stay as
  they were and the answer is an error, a denial or a request to confirm.\<close>

theorem unconfirmed_high_risk_does_nothing:
  assumes "requiresExplicitConfirmation (risk_of sv name)" "get_prop args ''confirm'' \<noteq> JBool True"
    and "\<not> isDryRunCall name args"
  shows "\<exists>r out. dispatchToolCall sv now opid uuid ta name args meta st = (r, audit name out st)
    \<and> (r = ConfirmationRequired (risk_of sv name) \<or> (\<exists>f. r = ToolError f) \<or> (\<exists>d. r = PermissionDenied d) \<or> (\<exists>d. r = RawRequestDenied d))"
proof -
  let ?ctx = "with_trusted ta (extractCallerContext uuid meta args)" and ?a = "stripCallerContext args"
  have "confirm_gate sv name ?a = Some (ConfirmationRequired (risk_of sv name))"
    using assms by (simp add: confirm_gate_def isDryRunCall_def strip_keeps)
  then have "\<exists>r out. gate_call sv ?ctx name ?a = Some (r, out)
      \<and> (r = ConfirmationRequired (risk_of sv name) \<or> (\<exists>f. r = ToolError f) \<or> (\<exists>d. r = PermissionDenied d) \<or> (\<exists>d. r = RawRequestDenied d))"
    by (auto simp: gate_call_def permission_gate_def raw_gate_def split: option.splits decision.splits raw_decision.splits)
  then show ?thesis using dispatch_refused by blast
qed

definition echo_handler :: "string \<Rightarrow> fields \<Rightarrow> caller_context \<Rightarrow> rat option \<Rightarrow> nat \<Rightarrow> nat handler_out" where
  "echo_handler name args ctx imp w =
     \<lparr>ho_result = Inr (JNum (of_nat w)), ho_writes = [parseWrite ''POST'' ''/Tickets'' (JObj args) JUndef], ho_world = Suc w\<rparr>"

definition ex_server :: "env \<Rightarrow> (string \<Rightarrow> fields \<Rightarrow> caller_context \<Rightarrow> rat option \<Rightarrow> nat \<Rightarrow> nat handler_out) \<Rightarrow> nat server" where
  "ex_server env h = \<lparr>sv_env = env, sv_roleMap = [], sv_userMap = [],
     sv_risk = (\<lambda>n. Some (classifyRisk n False (starts_with n ''autotask_delete_''))), sv_known = (\<lambda>_. True), sv_block = (\<lambda>_. None),
     sv_handler = h, sv_searchEmail = (\<lambda>_. []), sv_elicit = (\<lambda>_. None), sv_defaultRole = (\<lambda>_. None),
     sv_json = to_str, sv_format = (\<lambda>_ _ _ v. Inr [(''data'', v)]), sv_sha = to_str, sv_chars = (\<lambda>_. 10), sv_opsMigrated = True\<rparr>"

definition ex_state :: "nat call_state" where
  "ex_state = \<lparr>cs_world = 0, cs_ops = Some [], cs_opWrites = [], cs_idem = [], cs_cache = [], cs_audit = [], cs_notices = []\<rparr>"

theorem unconfirmed_high_risk_does_nothing_witness:
  "cs_world (snd (dispatchToolCall (ex_server (\<lambda>_. None) echo_handler) 0 1 ''u'' None ''autotask_create_quote'' [] [] ex_state)) = 0"
proof -
  have "requiresExplicitConfirmation (risk_of (ex_server (\<lambda>_. None) echo_handler) ''autotask_create_quote'')"
    by (simp add: ex_server_def risk_of_def classifyRisk_def FINANCIAL_TOOLS_def requiresExplicitConfirmation_def)
  moreover have "\<not> isDryRunCall ''autotask_create_quote'' []" by (simp add: isDryRunCall_def DRY_RUN_FIRST_TOOLS_def)
  ultimately obtain r out where
    "dispatchToolCall (ex_server (\<lambda>_. None) echo_handler) 0 1 ''u'' None ''autotask_create_quote'' [] [] ex_state = (r, audit ''autotask_create_quote'' out ex_state)"
    using unconfirmed_high_risk_does_nothing [of "ex_server (\<lambda>_. None) echo_handler" "''autotask_create_quote''" "[]" 0 1 "''u''" None "[]" ex_state]
    by auto
  then show ?thesis by (simp add: ex_state_def)
qed





section \<open>One effect per idempotency key\<close>

definition settled :: "string \<Rightarrow> 'w call_state \<Rightarrow> bool" where
  "settled k st \<longleftrightarrow> (\<exists>rows r. cs_ops st = Some rows \<and> key_row k rows = Some r \<and> or_status r \<noteq> ErrorDone)"











lemma settled_audit [simp]: "settled k (audit n x st) = settled k st"
  by (simp add: settled_def)










record request_call =
  rc_now :: millis
  rc_opid :: nat
  rc_uuid :: string
  rc_trusted :: "(rat option \<times> string option) option"
  rc_name :: string
  rc_args :: fields
  rc_meta :: fields

definition dispatch_one :: "'w server \<Rightarrow> request_call \<Rightarrow> 'w call_state \<Rightarrow> 'w call_state" where
  "dispatch_one sv c st =
     snd (dispatchToolCall sv (rc_now c) (rc_opid c) (rc_uuid c) (rc_trusted c) (rc_name c) (rc_args c) (rc_meta c) st)"

fun world_changes :: "'w server \<Rightarrow> request_call list \<Rightarrow> 'w call_state \<Rightarrow> nat" where
  "world_changes sv [] st = 0"
| "world_changes sv (c # cs) st =
     (if cs_world (dispatch_one sv c st) \<noteq> cs_world st then 1 else 0) + world_changes sv cs (dispatch_one sv c st)"




definition ex_retry :: "millis \<Rightarrow> nat \<Rightarrow> request_call" where
  "ex_retry n i = \<lparr>rc_now = n, rc_opid = i, rc_uuid = ''u'', rc_trusted = None, rc_name = ''autotask_create_ticket'',
     rc_args = [(''title'', JStr ''Printer'')], rc_meta = [(''idempotencyKey'', JStr ''k1'')]\<rparr>"




text \<open>
  Without that the bound fails: a write whose answer is lost (a network error after Autotask applied
  it) is not noted, the call is recorded as failed before writing, and its key is released.
\<close>

definition lossy_handler :: "string \<Rightarrow> fields \<Rightarrow> caller_context \<Rightarrow> rat option \<Rightarrow> nat \<Rightarrow> nat handler_out" where
  "lossy_handler name args ctx imp w =
     \<lparr>ho_result = Inl (Failure ''network error''), ho_writes = [], ho_world = Suc w\<rparr>"


lemma perms_off: "isPermissionsEnabled (\<lambda>_. None) = False"
  by (simp add: isPermissionsEnabled_def env_true_def)


lemma find_or_create_ungated:
  "isMutatingTool ''autotask_find_or_create_contact'' = False \<and> mayWrite ''autotask_find_or_create_contact'' [] = True
   \<and> permission_gate sv ctx ''autotask_find_or_create_contact'' = None"
  by (simp add: permission_gate_def isMutatingTool_def NON_MUTATING_TOOLS_def READ_TOOL_PREFIXES_def mayWrite_def)

lemma lossy_write_runs_twice:
  "world_changes (ex_server (\<lambda>_. None) lossy_handler) [ex_retry 0 1, ex_retry 5 2] ex_state = 2"
  by code_simp

end
