(* ===== verification/Js_Date.thy ===== *)
theory Js_Date
  imports Js_Values
begin

text \<open>
  Calendar dates as the relay uses them: \<open>YYYY-MM-DD\<close> texts, and the \<open>Date\<close> of the language restricted
  to midnights UTC, which is a day number (days since 1970-01-01, an \<^typ>\<open>int\<close>).

  \<open>Date.parse\<close> of an ISO text is the one of V8: the month must be 1 to 12 and the day 1 to 31; a day past
  the end of its month counts on into the next.
\<close>

section \<open>Texts\<close>

definition iso_day :: "string \<Rightarrow> bool" where
  "iso_day s \<longleftrightarrow> length s = 10 \<and> all_digits (take 4 s) \<and> s ! 4 = CHR ''-'' \<and> all_digits (take 2 (drop 5 s)) \<and> s ! 7 = CHR ''-''
     \<and> all_digits (drop 8 s)"

definition year_of :: "string \<Rightarrow> nat" where
  "year_of d = str_to_nat (take 4 d)"

definition month_of :: "string \<Rightarrow> nat" where
  "month_of d = str_to_nat (take 2 (drop 5 d))"

definition day_of :: "string \<Rightarrow> nat" where
  "day_of d = str_to_nat (take 2 (drop 8 d))"

definition days_in_month :: "nat \<Rightarrow> nat \<Rightarrow> nat" where
  "days_in_month y m = (if m = 2 then (if (y mod 4 = 0 \<and> y mod 100 \<noteq> 0) \<or> y mod 400 = 0 then 29 else 28)
     else if m \<in> {4, 6, 9, 11} then 30 else 31)"

definition two :: "nat \<Rightarrow> string" where
  "two n = (if n < 10 then ''0'' else []) @ nat_to_str n"

definition date_text :: "nat \<Rightarrow> nat \<Rightarrow> nat \<Rightarrow> string" where
  "date_text y m d = replicate (4 - length (nat_to_str y)) (CHR ''0'') @ nat_to_str y @ ''-'' @ two m @ ''-'' @ two d"

section \<open>Day numbers\<close>

text \<open>The days before the first of January of year \<open>y\<close>, counted from year 0, and before a month of it.\<close>

definition days_to_year :: "nat \<Rightarrow> int" where
  "days_to_year y = 365 * int y + (int y + 3) div 4 - (int y + 99) div 100 + (int y + 399) div 400"

definition days_to_month :: "nat \<Rightarrow> nat \<Rightarrow> nat" where
  "days_to_month y m = sum_list (map (days_in_month y) [1..<m])"

definition EPOCH :: int where
  "EPOCH = 719528"

definition day_number :: "nat \<Rightarrow> nat \<Rightarrow> nat \<Rightarrow> int" where
  "day_number y m d = days_to_year y + int (days_to_month y m) + int d - 1 - EPOCH"

definition date_parse :: "string \<Rightarrow> int option" where
  "date_parse s =
     (if 1 \<le> month_of s \<and> month_of s \<le> 12 \<and> 1 \<le> day_of s \<and> day_of s \<le> 31
      then Some (day_number (year_of s) (month_of s) (day_of s)) else None)"

definition year_on :: "int \<Rightarrow> nat" where
  "year_on n =
     (let y = nat (n * 400 div 146097) in
      if days_to_year (y + 1) \<le> n then y + 1 else if days_to_year y \<le> n then y else y - 1)"

function month_on :: "nat \<Rightarrow> nat \<Rightarrow> nat \<Rightarrow> nat \<times> nat" where
  "month_on y m k = (if 1 \<le> m \<and> m < 12 \<and> days_in_month y m \<le> k then month_on y (m + 1) (k - days_in_month y m) else (m, k + 1))"
  by pat_completeness auto
termination by (relation "measure (\<lambda>(_, m, _). 12 - m)") auto

declare month_on.simps [simp del]

text \<open>\<open>toISOString().slice(0, 10)\<close>: a year past 9999 is written with a sign and six digits.\<close>

definition formatISODate :: "int \<Rightarrow> string" where
  "formatISODate t =
     (let n = t + EPOCH; y = year_on n; (m, d) = month_on y 1 (nat (n - days_to_year y)) in
      if y \<le> 9999 then date_text y m d
      else take 10 (''+'' @ replicate (6 - length (nat_to_str y)) (CHR ''0'') @ nat_to_str y @ ''-'' @ two m @ ''-'' @ two d))"

definition isoWeekday :: "int \<Rightarrow> int" where
  "isoWeekday t = (t + 3) mod 7 + 1"

section \<open>The text of a day reads back as that day\<close>

lemma days_in_month_bounds: "28 \<le> days_in_month y m" "days_in_month y m \<le> 31"
  by (auto simp: days_in_month_def)

lemma year_on_bounds:
  assumes "0 \<le> n"
  shows "days_to_year (year_on n) \<le> n \<and> n < days_to_year (year_on n + 1)"
proof -
  have up: "days_to_year (nat (n * 400 div 146097) + 2) > n"
  proof -
    define q where "q = n * 400 div 146097"
    have q: "0 \<le> q" "n * 400 < 146097 * (q + 1)" using assms by (simp_all add: q_def)
    have "4 * ((q + 5) div 4) \<ge> q + 2" "100 * ((q + 101) div 100) \<le> q + 101" "400 * ((q + 401) div 400) \<ge> q + 2" by linarith+
    then show ?thesis using q by (simp add: days_to_year_def flip: q_def)
  qed
  have low: "days_to_year (nat (n * 400 div 146097) - 1) \<le> n"
    using assms unfolding days_to_year_def by (cases "nat (n * 400 div 146097)") simp_all
  have low0: "nat (n * 400 div 146097) = 0 \<Longrightarrow> days_to_year (nat (n * 400 div 146097)) \<le> n"
    using assms by (simp add: days_to_year_def)
  show ?thesis
    using up low low0 by (cases "nat (n * 400 div 146097)") (auto simp: year_on_def Let_def numeral_2_eq_2)
qed

lemma div_step:
  assumes "0 < c"
  shows "(int y + int c) div int c = (int y + (int c - 1)) div int c + (if y mod c = 0 then 1 else 0)"
proof -
  obtain b where c: "c = Suc b" using assms by (cases c) auto
  have "Suc (y + b) mod Suc b = (y + Suc b) mod Suc b" by simp
  then have m: "Suc (y + b) mod Suc b = y mod Suc b" by (simp only: mod_add_self2)
  have "(y + Suc b) div Suc b = (y + b) div Suc b + (if y mod Suc b = 0 then 1 else 0)"
    by (simp only: add_Suc_right div_Suc m split: if_split) simp
  then have "int ((y + Suc b) div Suc b) = int ((y + b) div Suc b) + (if y mod Suc b = 0 then 1 else 0)" by simp
  then show ?thesis by (simp only: c zdiv_int of_nat_add) simp
qed

lemma step_sum: "k + 365 + (a + l) - (b + m) + (c + n) = k + a - b + c + (365 + l - m + (n :: int))"
  by simp

lemma year_length: "days_to_year (y + 1) = days_to_year y + int (days_to_month y 13)"
proof -
  let ?l = "\<lambda>c. if y mod c = 0 then 1 else 0 :: int"
  have i: "y mod 400 = 0 \<Longrightarrow> y mod 100 = 0" "y mod 100 = 0 \<Longrightarrow> y mod 4 = 0"
    by (auto simp: mod_eq_0_iff_dvd elim: dvd_trans [rotated])
  have "days_to_month y 13 = 337 + days_in_month y 2"
    by (simp add: days_to_month_def upt_conv_Cons days_in_month_def)
  then have m: "int (days_to_month y 13) = 365 + ?l 4 - ?l 100 + ?l 400" using i by (auto simp: days_in_month_def)
  have e: "days_to_year (y + 1) = 365 * int y + 365 + (int y + 4) div 4 - (int y + 100) div 100 + (int y + 400) div 400"
    by (simp add: days_to_year_def algebra_simps)
  have s: "(int y + 4) div 4 = (int y + 3) div 4 + ?l 4" "(int y + 100) div 100 = (int y + 99) div 100 + ?l 100"
    "(int y + 400) div 400 = (int y + 399) div 400 + ?l 400"
    using div_step [of 4 y] div_step [of 100 y] div_step [of 400 y] by simp_all
  show ?thesis unfolding e s m unfolding days_to_year_def by (rule step_sum)
qed

lemma days_to_month_Suc: "1 \<le> m \<Longrightarrow> days_to_month y (m + 1) = days_to_month y m + days_in_month y m"
  by (simp add: days_to_month_def)

lemma month_on_correct:
  assumes "1 \<le> m" "m \<le> 12" "k < days_to_month y 13 - days_to_month y m" "month_on y m k = (m', d)"
  shows "m \<le> m' \<and> m' \<le> 12 \<and> 1 \<le> d \<and> d \<le> days_in_month y m' \<and> days_to_month y m + k = days_to_month y m' + d - 1"
  using assms
proof (induction y m k arbitrary: m' d rule: month_on.induct)
  case (1 y m k)
  show ?case
  proof (cases "m < 12 \<and> days_in_month y m \<le> k")
    case True
    have "month_on y (m + 1) (k - days_in_month y m) = (m', d)"
      using "1.prems"(1,4) True by (simp add: month_on.simps [of y m])
    moreover have "k - days_in_month y m < days_to_month y 13 - days_to_month y (m + 1)"
      using "1.prems"(1,3) True days_to_month_Suc [of m y] by linarith
    ultimately show ?thesis using "1.IH" "1.prems"(1) True days_to_month_Suc [of m y] by fastforce
  next
    case False
    then have e: "m' = m" "d = k + 1" using "1.prems"(4) by (auto simp: month_on.simps [of y m])
    have "m = 12 \<Longrightarrow> days_to_month y 13 = days_to_month y m + days_in_month y m"
      using days_to_month_Suc [of 12 y] by simp
    then have "k < days_in_month y m" using False "1.prems"(2,3) by (cases "m = 12") auto
    then show ?thesis using e "1.prems"(2) by simp
  qed
qed

lemma length_nat_to_str: "n < 10 ^ k \<Longrightarrow> 0 < k \<Longrightarrow> length (nat_to_str n) \<le> k"
proof (induction n arbitrary: k rule: nat_to_str.induct)
  case (1 n)
  show ?case
  proof (cases "n < 10")
    case True
    then show ?thesis using "1.prems" by (subst nat_to_str.simps) simp
  next
    case False
    then obtain j where k: "k = Suc j" "0 < j" using "1.prems" by (cases k; cases "k - 1") auto
    then have "n div 10 < 10 ^ j" using "1.prems" by (simp add: less_mult_imp_div_less)
    from "1.IH" [OF False this k(2)] False k show ?thesis by (subst nat_to_str.simps) simp
  qed
qed

lemma str_to_nat_zeros: "str_to_nat (replicate k (CHR ''0'') @ s) = str_to_nat s"
  by (induction k) (simp_all add: str_to_nat_def digit_val_def)

lemma two_digits: "n < 100 \<Longrightarrow> length (two n) = 2 \<and> str_to_nat (two n) = n"
proof -
  assume n: "n < 100"
  have v: "str_to_nat (CHR ''0'' # nat_to_str n) = n" using str_to_nat_zeros [of 1 "nat_to_str n"] by simp
  have "length (nat_to_str n) = (if n < 10 then 1 else 2)"
  proof (cases "n < 10")
    case False
    then have "n div 10 < 10" using n by simp
    then show ?thesis using False by (subst nat_to_str.simps, subst nat_to_str.simps) simp
  qed (subst nat_to_str.simps, simp)
  then show ?thesis using v by (simp add: two_def)
qed

lemma date_text_parts:
  assumes "y \<le> 9999" "m < 100" "d < 100"
  shows "year_of (date_text y m d) = y \<and> month_of (date_text y m d) = m \<and> day_of (date_text y m d) = d"
proof -
  let ?y = "replicate (4 - length (nat_to_str y)) (CHR ''0'') @ nat_to_str y"
  have "length (nat_to_str y) \<le> 4" using length_nat_to_str [of y 4] assms(1) by simp
  then have l: "length ?y = 4" by simp
  have "date_text y m d = ?y @ ''-'' @ two m @ ''-'' @ two d" by (simp add: date_text_def)
  moreover have "str_to_nat ?y = y" by (simp add: str_to_nat_zeros)
  ultimately show ?thesis
    using l two_digits [OF assms(2)] two_digits [OF assms(3)] unfolding year_of_def month_of_def day_of_def by simp
qed

text \<open>\<open>Date.parse(formatISODate(t)) = t\<close> for every day of the years 0 to 9999, so two days never share a text.\<close>

lemma date_roundtrip:
  assumes "0 \<le> t + EPOCH" "year_on (t + EPOCH) \<le> 9999"
  shows "date_parse (formatISODate t) = Some t"
proof -
  let ?n = "t + EPOCH" let ?y = "year_on ?n" let ?k = "nat (?n - days_to_year ?y)"
  obtain m d where md: "month_on ?y 1 ?k = (m, d)" by fastforce
  have b: "days_to_year ?y \<le> ?n" "?n < days_to_year ?y + int (days_to_month ?y 13)"
    using year_on_bounds [OF assms(1)] year_length [of ?y] by auto
  have "days_to_month ?y 1 = 0" by (simp add: days_to_month_def)
  then have c: "1 \<le> m" "m \<le> 12" "1 \<le> d" "d \<le> days_in_month ?y m" "?k = days_to_month ?y m + d - 1"
    using month_on_correct [OF _ _ _ md] b by auto
  have "d \<le> 31" using c(4) days_in_month_bounds(2) [of ?y m] by simp
  moreover have "formatISODate t = date_text ?y m d" using md assms(2) by (simp add: formatISODate_def Let_def)
  ultimately show ?thesis
    using date_text_parts [OF assms(2), of m d] c b(1) by (simp add: date_parse_def day_number_def)
qed

lemma isoWeekday_range: "1 \<le> isoWeekday t" "isoWeekday t \<le> 7"
  by (simp_all add: isoWeekday_def)

end
