(* ===== verification/Change_Plans.thy ===== *)
theory Change_Plans
  imports Js_Date "HOL-Library.List_Lexorder" "HOL-Library.Char_ord"
begin

text \<open>
  Change plans: built read-only, frozen, approved row by row, executed with a re-read before every
  write (\<open>src/src/change-plans/store.ts\<close>, \<open>execute.ts\<close>, \<open>revert.ts\<close>).

  The two tables are records; \<open>sha\<close> is \<open>JSON.stringify\<close> followed by SHA-256. The executor's access to
  Autotask (\<open>EntityIO\<close>) is a record of functions over the outside world \<open>'w\<close>; a thrown error is
  \<^const>\<open>Inl\<close> with its message. Detail texts of the report are not modelled, its rows and counters are.
\<close>

section \<open>Plans and rows\<close>

datatype row_action = Create | Update | Deactivate | Info | Manual
datatype row_status = Pending | Approved | Excluded | Applied | Failed | Stale | Skipped

fun action_name :: "row_action \<Rightarrow> string" where
  "action_name Create = ''create''" | "action_name Update = ''update''" | "action_name Deactivate = ''deactivate''"
| "action_name Info = ''info''" | "action_name Manual = ''manual''"

record plan_input =
  pr_action :: row_action
  pr_entity :: string
  pr_targetId :: "rat option"
  pr_label :: string
  pr_before :: "fields option"
  pr_after :: "fields option"
  pr_reason :: "string option"
  pr_blocked :: "string option"
  pr_meta :: jsv

record plan_row = plan_input +
  pr_no :: int
  pr_status :: row_status
  pr_approvedBy :: "string option"
  pr_result :: "fields option"

datatype plan_status = Open | Executing | Done | Superseded

record plan =
  pl_id :: nat
  pl_kind :: string
  pl_hash :: string
  pl_status :: plan_status
  pl_rows :: "plan_row list"

section \<open>Row numbers\<close>

text \<open>\<open>/^\d+(\s*-\s*\d+)?(\s*,\s*\d+(\s*-\s*\d+)?)*$/\<close> on the trimmed text: comma separated parts,
  each digits or digits - digits with blanks around the separators.\<close>

definition range_part :: "string \<Rightarrow> (nat \<times> nat) option" where
  "range_part part =
     (case split_on (\<lambda>c. c = CHR ''-'') part of
        [a] \<Rightarrow> if all_digits (js_trim a) then Some (str_to_nat (js_trim a), str_to_nat (js_trim a)) else None
      | [a, b] \<Rightarrow> if all_digits (js_trim a) \<and> all_digits (js_trim b)
                 then Some (str_to_nat (js_trim a), str_to_nat (js_trim b)) else None
      | _ \<Rightarrow> None)"

definition range_rows :: "int \<Rightarrow> nat \<times> nat \<Rightarrow> int list" where
  "range_rows mx ab = filter (\<lambda>i. 1 \<le> i \<and> i \<le> mx) [int (fst ab)..int (snd ab)]"

definition whole_numbers :: "jsv list \<Rightarrow> int list option" where
  "whole_numbers vs = (if list_all (\<lambda>v. to_int v \<noteq> None) vs then Some (map (\<lambda>v. the (to_int v)) vs) else None)"

definition parseRows :: "jsv \<Rightarrow> int \<Rightarrow> int list option" where
  "parseRows spec mx =
     (case spec of
        JArr vs \<Rightarrow> map_option (\<lambda>ns. filter (\<lambda>n. 1 \<le> n \<and> n \<le> mx) (uniq ns)) (whole_numbers vs)
      | _ \<Rightarrow>
          (let s = lower (js_trim (to_str (coalesce spec (JStr [])))) in
           if s = ''all'' then Some [1..mx]
           else (let parts = map range_part (split_on (\<lambda>c. c = CHR '','') s) in
             if None \<in> set parts then None
             else Some (sort (remdups (concat (map (range_rows mx) (map the parts))))))))"

section \<open>Building and approving\<close>

definition planHash :: "(string \<Rightarrow> plan_input list \<Rightarrow> string) \<Rightarrow> string \<Rightarrow> plan_input list \<Rightarrow> string" where
  "planHash sha kind rows = take 16 (sha kind rows)"

definition new_row :: "nat \<Rightarrow> plan_input \<Rightarrow> plan_row" where
  "new_row i r = plan_input.extend r \<lparr>pr_no = int (i + 1), pr_status = (if pr_action r = Info then Skipped else Pending),
     pr_approvedBy = None, pr_result = None\<rparr>"

definition create_plan :: "(string \<Rightarrow> plan_input list \<Rightarrow> string) \<Rightarrow> nat \<Rightarrow> string \<Rightarrow> plan_input list \<Rightarrow> bool \<Rightarrow> plan list \<Rightarrow> plan list" where
  "create_plan sha pid kind rows supersedeKind plans =
     (let old = (if supersedeKind
         then map (\<lambda>p. if pl_kind p = kind \<and> pl_status p = Open then p\<lparr>pl_status := Superseded\<rparr> else p) plans else plans)
      in old @ [\<lparr>pl_id = pid, pl_kind = kind, pl_hash = planHash sha kind rows, pl_status = Open,
                pl_rows = map (\<lambda>(i, r). new_row i r) (enumerate 0 rows)\<rparr>])"

definition find_row :: "int \<Rightarrow> plan_row list \<Rightarrow> plan_row option" where
  "find_row n rows = find (\<lambda>r. pr_no r = n) rows"

definition set_row :: "int \<Rightarrow> (plan_row \<Rightarrow> plan_row) \<Rightarrow> plan_row list \<Rightarrow> plan_row list" where
  "set_row n f rows = map (\<lambda>r. if pr_no r = n then f r else r) rows"

datatype refusal = NoSuchRow | BlockedRow string | InfoOnly | Already row_status

text \<open>Why row \<open>n\<close> cannot be approved or excluded.\<close>

definition approval_refusal :: "plan_row list \<Rightarrow> int \<Rightarrow> refusal option" where
  "approval_refusal rows n =
     (case find_row n rows of
        None \<Rightarrow> Some NoSuchRow
      | Some r \<Rightarrow>
          (case pr_blocked r of
             Some b \<Rightarrow> if b \<noteq> [] then Some (BlockedRow b)
               else if pr_action r = Info then Some InfoOnly
               else if pr_status r \<notin> {Pending, Approved, Excluded, Failed} then Some (Already (pr_status r)) else None
           | None \<Rightarrow> if pr_action r = Info then Some InfoOnly
               else if pr_status r \<notin> {Pending, Approved, Excluded, Failed} then Some (Already (pr_status r)) else None))"

datatype approval_error = PlanNotOpen plan_status | HashMismatch

text \<open>The rows are judged on the plan as read at the start, as the code does.\<close>

definition setApproval :: "string \<Rightarrow> int list \<Rightarrow> bool \<Rightarrow> string option \<Rightarrow> plan \<Rightarrow>
    (approval_error + (int list \<times> (int \<times> refusal) list)) \<times> plan" where
  "setApproval hash rowNos approve by p =
     (if pl_status p \<noteq> Open then (Inl (PlanNotOpen (pl_status p)), p)
      else if pl_hash p \<noteq> hash then (Inl HashMismatch, p)
      else (let ok = filter (\<lambda>n. approval_refusal (pl_rows p) n = None) rowNos;
                refused = List.map_filter (\<lambda>n. map_option (\<lambda>w. (n, w)) (approval_refusal (pl_rows p) n)) rowNos;
                st = (if approve then Approved else Excluded)
            in (Inr (ok, refused),
                p\<lparr>pl_rows := fold (\<lambda>n. set_row n (\<lambda>r. r\<lparr>pr_status := st, pr_approvedBy := by\<rparr>)) ok (pl_rows p)\<rparr>)))"

definition setRowResult :: "int \<Rightarrow> row_status \<Rightarrow> fields \<Rightarrow> plan \<Rightarrow> plan" where
  "setRowResult n st res p = p\<lparr>pl_rows := set_row n (\<lambda>r. r\<lparr>pr_status := st, pr_result := Some res\<rparr>) (pl_rows p)\<rparr>"

section \<open>Comparing field values\<close>

text \<open>\<open>/^\d{4}-\d{2}-\d{2}(T[\d:.]+Z?)?$/\<close>\<close>

definition iso_date :: "string \<Rightarrow> bool" where
  "iso_date s \<longleftrightarrow> iso_day (take 10 s) \<and>
     (let t = drop 10 s; body = (if t \<noteq> [] \<and> last t = CHR ''Z'' then butlast t else t) in
      t = [] \<or> (starts_with t ''T'' \<and> tl body \<noteq> [] \<and> list_all (\<lambda>c. is_digit c \<or> c \<in> set '':.'') (tl body)))"

definition blank :: "jsv \<Rightarrow> bool" where
  "blank v \<longleftrightarrow> v = JStr [] \<or> nullish v"

definition is_num :: "jsv \<Rightarrow> bool" where
  "is_num v \<longleftrightarrow> (case v of JNum _ \<Rightarrow> True | _ \<Rightarrow> False)"

definition is_bool :: "jsv \<Rightarrow> bool" where
  "is_bool v \<longleftrightarrow> (case v of JBool _ \<Rightarrow> True | _ \<Rightarrow> False)"

definition both_dates :: "jsv \<Rightarrow> jsv \<Rightarrow> (string \<times> string) option" where
  "both_dates a b =
     (case (a, b) of (JStr x, JStr y) \<Rightarrow> if iso_date x \<and> iso_date y then Some (x, y) else None | _ \<Rightarrow> None)"

definition same :: "jsv \<Rightarrow> jsv \<Rightarrow> bool" where
  "same a b \<longleftrightarrow>
     (if blank a \<or> blank b then blank a \<and> blank b
      else (case both_dates a b of
          Some (x, y) \<Rightarrow> take 10 x = take 10 y
        | None \<Rightarrow>
            if is_num a \<or> is_num b
            then (case (to_num a, to_num b) of (Some x, Some y) \<Rightarrow> \<bar>x - y\<bar> < 1 / 10000 | _ \<Rightarrow> False)
            else if is_bool a \<or> is_bool b then to_str a = to_str b
            else js_trim (to_str a) = js_trim (to_str b)))"

definition fieldsDiffer :: "fields \<Rightarrow> fields \<Rightarrow> string list" where
  "fieldsDiffer cur want = filter (\<lambda>k. \<not> same (get_prop cur k) (get_prop want k)) (map fst want)"

section \<open>References between rows\<close>

definition entries_of :: "jsv \<Rightarrow> fields" where
  "entries_of v = (case v of JObj m \<Rightarrow> m | JArr vs \<Rightarrow> map (\<lambda>(i, x). (nat_to_str i, x)) (enumerate 0 vs) | _ \<Rightarrow> [])"

definition refsOf :: "jsv \<Rightarrow> (string \<times> int) list" where
  "refsOf meta = List.map_filter (\<lambda>(k, v). map_option (\<lambda>n. (k, n)) (to_int v)) (entries_of (get_member meta ''refs''))"

definition dependsOn :: "jsv \<Rightarrow> int list" where
  "dependsOn meta = uniq ((case get_member meta ''dependsOn'' of JArr vs \<Rightarrow> List.map_filter to_int vs | _ \<Rightarrow> []) @ map snd (refsOf meta))"

definition opt_num :: "rat option \<Rightarrow> jsv" where
  "opt_num n = (case n of Some x \<Rightarrow> JNum x | None \<Rightarrow> JNull)"

text \<open>Record ids are numbers.\<close>

definition rowId :: "fields \<Rightarrow> rat option \<Rightarrow> rat option" where
  "rowId res targetId =
     (let v = coalesce (get_prop res ''id'') (coalesce (get_prop res ''existingId'') (opt_num targetId)) in
      if nullish v \<or> to_num v = Some 0 then None else to_num v)"

section \<open>Executing\<close>

record read_back =
  rb_record :: fields
  rb_expect :: fields
  rb_lineId :: "rat option"

type_synonym ('w, 'a) io = "'w \<Rightarrow> (string + 'a) \<times> 'w"

text \<open>\<open>readBack\<close> answers \<^const>\<open>None\<close> (read the record back), \<^const>\<open>Inl\<close> a note why the effect cannot be
  checked yet, or \<^const>\<open>Inr\<close> what Autotask shows and what the row should have caused.\<close>

record 'w entity_io =
  io_get :: "string \<Rightarrow> rat \<Rightarrow> ('w, fields option) io"
  io_update :: "string \<Rightarrow> rat \<Rightarrow> fields \<Rightarrow> ('w, unit) io"
  io_create :: "string \<Rightarrow> fields \<Rightarrow> ('w, rat) io"
  io_findExisting :: "string \<Rightarrow> fields \<Rightarrow> fields option \<Rightarrow> plan_row \<Rightarrow> ('w, rat option) io"
  io_snapshot :: "(plan_row \<Rightarrow> ('w, fields option) io) option"
  io_readBack :: "(plan_row \<Rightarrow> rat \<Rightarrow> fields option \<Rightarrow> ('w, (string + read_back) option) io) option"
  io_onApplied :: "plan_row \<Rightarrow> rat option \<Rightarrow> ('w, unit) io"

datatype report_status = RApplied | RFailed | RStale | RSkipped | RWaiting

record report =
  rp_attempted :: nat
  rp_applied :: nat
  rp_failed :: nat
  rp_stale :: nat
  rp_skipped :: nat
  rp_waiting :: nat
  rp_stoppedBy :: "string option"
  rp_rows :: "(int \<times> report_status \<times> rat option) list"

record 'w exec =
  ex_world :: 'w
  ex_plan :: plan
  ex_status :: "(int \<times> row_status) list"
  ex_ids :: "(int \<times> rat option) list"
  ex_report :: report

definition row_status_of :: "report_status \<Rightarrow> row_status" where
  "row_status_of s = (case s of RApplied \<Rightarrow> Applied | RFailed \<Rightarrow> Failed | RStale \<Rightarrow> Stale | RSkipped \<Rightarrow> Skipped | RWaiting \<Rightarrow> Pending)"

definition count_row :: "report_status \<Rightarrow> report \<Rightarrow> report" where
  "count_row s rp = (case s of
      RApplied \<Rightarrow> rp\<lparr>rp_applied := rp_applied rp + 1\<rparr> | RFailed \<Rightarrow> rp\<lparr>rp_failed := rp_failed rp + 1\<rparr>
    | RStale \<Rightarrow> rp\<lparr>rp_stale := rp_stale rp + 1\<rparr> | RSkipped \<Rightarrow> rp\<lparr>rp_skipped := rp_skipped rp + 1\<rparr>
    | RWaiting \<Rightarrow> rp\<lparr>rp_waiting := rp_waiting rp + 1\<rparr>)"

text \<open>\<open>done(status, result, detail, id)\<close>\<close>

definition done_row :: "plan_row \<Rightarrow> report_status \<Rightarrow> fields \<Rightarrow> rat option \<Rightarrow> 'w exec \<Rightarrow> 'w exec" where
  "done_row r s res rid st =
     st\<lparr>ex_plan := setRowResult (pr_no r) (row_status_of s) res (ex_plan st),
        ex_status := upsert (ex_status st) (pr_no r) (row_status_of s),
        ex_ids := (if s = RApplied \<or> s = RSkipped
          then upsert (ex_ids st) (pr_no r) (rowId res (case rid of Some i \<Rightarrow> Some i | None \<Rightarrow> pr_targetId r)) else ex_ids st),
        ex_report := (count_row s (ex_report st))\<lparr>rp_rows := rp_rows (ex_report st) @ [(pr_no r, s, rid)]\<rparr>\<rparr>"

text \<open>A step that may throw: \<^const>\<open>Some\<close> message ends the row, with the effects so far kept.\<close>

definition io_then :: "(string + 'a) \<times> 'w \<Rightarrow> 'w exec \<Rightarrow> ('a \<Rightarrow> 'w exec \<Rightarrow> string option \<times> 'w exec) \<Rightarrow> string option \<times> 'w exec" where
  "io_then rw st k = (case rw of (Inl m, w) \<Rightarrow> (Some m, st\<lparr>ex_world := w\<rparr>) | (Inr x, w) \<Rightarrow> k x (st\<lparr>ex_world := w\<rparr>))"

definition applied_hook :: "'w entity_io \<Rightarrow> plan_row \<Rightarrow> rat option \<Rightarrow> 'w exec \<Rightarrow> string option \<times> 'w exec" where
  "applied_hook io r rid st = io_then (io_onApplied io r rid (ex_world st)) st (\<lambda>_ st. (None, st))"

definition pick :: "fields \<Rightarrow> string list \<Rightarrow> jsv" where
  "pick o' keys = JObj (map (\<lambda>k. (k, coalesce (get_prop o' k) JNull)) keys)"

definition changed_since :: "fields option \<Rightarrow> fields \<Rightarrow> string list" where
  "changed_since before cur = (case before of None \<Rightarrow> [] | Some b \<Rightarrow> filter (\<lambda>k. \<not> same (get_prop cur k) (get_prop b k)) (map fst b))"

definition or_empty :: "fields option \<Rightarrow> fields" where
  "or_empty f = (case f of Some m \<Rightarrow> m | None \<Rightarrow> [])"

definition str_list :: "string list \<Rightarrow> jsv" where
  "str_list ks = JArr (map JStr ks)"

definition maybe_io :: "('w, 'a option) io option \<Rightarrow> ('w, 'a option) io" where
  "maybe_io f w = (case f of Some g \<Rightarrow> g w | None \<Rightarrow> (Inr None, w))"

text \<open>After the create: verify by effect or by reading the record back.\<close>

definition verify_create :: "'w entity_io \<Rightarrow> plan_row \<Rightarrow> rat \<Rightarrow> (string + read_back) option \<Rightarrow> 'w exec \<Rightarrow> string option \<times> 'w exec" where
  "verify_create io r rid rb st =
     (case rb of
        Some (Inl why) \<Rightarrow>
          applied_hook io r (Some rid) (done_row r RApplied [(''id'', JNum rid), (''verified'', JBool False), (''note'', JStr why)] (Some rid) st)
      | _ \<Rightarrow>
          io_then (case rb of Some (Inr b) \<Rightarrow> (Inr (Some (rb_record b)), ex_world st) | _ \<Rightarrow> io_get io (pr_entity r) rid (ex_world st)) st
            (\<lambda>back st.
              let want = (case rb of Some (Inr b) \<Rightarrow> rb_expect b | _ \<Rightarrow> or_empty (pr_after r));
                  off = (case back of Some m \<Rightarrow> fieldsDiffer m want | None \<Rightarrow> [''(not readable)'']);
                  line = (case rb of Some (Inr b) \<Rightarrow> (case rb_lineId b of Some l \<Rightarrow> [(''lineId'', JNum l)] | None \<Rightarrow> []) | _ \<Rightarrow> [])
              in if off \<noteq> []
                 then (None, done_row r RFailed [(''id'', JNum rid), (''notApplied'', str_list off)] (Some rid) st)
                 else applied_hook io r (Some rid)
                   (done_row r RApplied ([(''id'', JNum rid), (''verified'', JBool True), (''readBack'', pick (or_empty back) (map fst want))] @ line) (Some rid) st)))"

definition run_create :: "'w entity_io \<Rightarrow> plan_row \<Rightarrow> 'w exec \<Rightarrow> string option \<times> 'w exec" where
  "run_create io r st =
     io_then (maybe_io (map_option (\<lambda>f. f r) (io_snapshot io)) (ex_world st)) st (\<lambda>snap st.
       let moved = (if pr_before r \<noteq> None \<and> io_snapshot io \<noteq> None
             then (case snap of Some s \<Rightarrow> changed_since (pr_before r) s | None \<Rightarrow> [''(target not found)'']) else [])
       in if moved \<noteq> [] then (None, done_row r RStale [(''changedSincePlan'', str_list moved)] (pr_targetId r) st)
          else io_then (io_findExisting io (pr_entity r) (or_empty (pr_after r)) snap r (ex_world st)) st (\<lambda>existing st.
            case existing of
              Some e \<Rightarrow> applied_hook io r (Some e) (done_row r RSkipped [(''existingId'', JNum e)] (Some e) st)
            | None \<Rightarrow>
                io_then (io_create io (pr_entity r) (or_empty (pr_after r)) (ex_world st)) st (\<lambda>rid st.
                  io_then (maybe_io (map_option (\<lambda>f. f r rid snap) (io_readBack io)) (ex_world st)) st (\<lambda>rb st.
                    verify_create io r rid rb st))))"

definition run_update :: "'w entity_io \<Rightarrow> plan_row \<Rightarrow> 'w exec \<Rightarrow> string option \<times> 'w exec" where
  "run_update io r st =
     (case pr_targetId r of
        None \<Rightarrow> (None, done_row r RFailed [(''error'', JStr ''no target id'')] None st)
      | Some t \<Rightarrow>
          io_then (io_get io (pr_entity r) t (ex_world st)) st (\<lambda>cur st.
            case cur of
              None \<Rightarrow> (None, done_row r RFailed [(''error'', JStr ''target not found'')] (Some t) st)
            | Some c \<Rightarrow>
                (let moved = changed_since (pr_before r) c; after = or_empty (pr_after r) in
                 if moved \<noteq> []
                 then (if fieldsDiffer c after = []
                   then applied_hook io r (Some t) (done_row r RSkipped [(''current'', pick c (map fst after))] (Some t) st)
                   else (None, done_row r RStale [(''changedSincePlan'', str_list moved), (''current'', pick c moved)] (Some t) st))
                 else io_then (io_update io (pr_entity r) t after (ex_world st)) st (\<lambda>_ st.
                   io_then (io_get io (pr_entity r) t (ex_world st)) st (\<lambda>back st.
                     let off = (case back of Some m \<Rightarrow> fieldsDiffer m after | None \<Rightarrow> [''(not readable)''])
                     in if off \<noteq> [] then (None, done_row r RFailed [(''notApplied'', str_list off)] (Some t) st)
                        else applied_hook io r (Some t)
                          (done_row r RApplied [(''readBack'', pick (or_empty back) (map fst after))] (Some t) st))))))"

text \<open>\<open>/\b401\b|login|rate limit|\b429\b|threshold/i\<close>\<close>

definition stops_run :: "string \<Rightarrow> bool" where
  "stops_run msg \<longleftrightarrow> has_word False msg ''401'' \<or> has_substr (lower msg) ''login'' \<or> has_substr (lower msg) ''rate limit''
     \<or> has_word False msg ''429'' \<or> has_substr (lower msg) ''threshold''"

definition row_done :: "(int \<times> row_status) list \<Rightarrow> int \<Rightarrow> bool" where
  "row_done m n \<longleftrightarrow> map_of m n = Some Applied \<or> map_of m n = Some Skipped"

definition wait_row :: "plan_row \<Rightarrow> 'w exec \<Rightarrow> 'w exec" where
  "wait_row r st = st\<lparr>ex_report := (count_row RWaiting (ex_report st))\<lparr>rp_rows := rp_rows (ex_report st) @ [(pr_no r, RWaiting, None)]\<rparr>\<rparr>"

definition ref_id :: "(int \<times> rat option) list \<Rightarrow> int \<Rightarrow> rat option" where
  "ref_id ids n = (case map_of ids n of Some v \<Rightarrow> v | None \<Rightarrow> None)"

definition fill_refs :: "(int \<times> rat option) list \<Rightarrow> plan_row \<Rightarrow> plan_row" where
  "fill_refs ids r =
     (let refs = refsOf (pr_meta r) in
      if refs \<noteq> [] \<and> list_all (\<lambda>(_, n). ref_id ids n \<noteq> None) refs
      then r\<lparr>pr_after := Some (fold (\<lambda>(f, n) m. upsert m f (opt_num (ref_id ids n))) refs (or_empty (pr_after r)))\<rparr>
      else r)"

text \<open>One row: whether the run stops here, and the state.\<close>

definition exec_row :: "'w entity_io \<Rightarrow> plan_row \<Rightarrow> 'w exec \<Rightarrow> bool \<times> 'w exec" where
  "exec_row io r0 st =
     (let r = fill_refs (ex_ids st) r0 in
      if \<not> list_all (row_done (ex_status st)) (dependsOn (pr_meta r)) then (False, wait_row r st)
      else if \<not> list_all (\<lambda>(_, n). ref_id (ex_ids st) n \<noteq> None) (refsOf (pr_meta r0)) then (False, wait_row r st)
      else (let st1 = st\<lparr>ex_report := (ex_report st)\<lparr>rp_attempted := rp_attempted (ex_report st) + 1\<rparr>\<rparr> in
        case (if pr_action r = Create then run_create io r st1 else run_update io r st1) of
          (None, st2) \<Rightarrow> (False, st2)
        | (Some msg, st2) \<Rightarrow>
            (let st3 = done_row r RFailed [(''error'', JStr (take 500 msg))] (pr_targetId r) st2
             in if stops_run msg
                then (True, st3\<lparr>ex_report := (ex_report st3)\<lparr>rp_stoppedBy := Some (take 200 msg)\<rparr>\<rparr>)
                else (False, st3))))"

fun exec_rows :: "'w entity_io \<Rightarrow> plan_row list \<Rightarrow> 'w exec \<Rightarrow> 'w exec" where
  "exec_rows io [] st = st"
| "exec_rows io (r # rs) st = (let (stop, st1) = exec_row io r st in if stop then st1 else exec_rows io rs st1)"

definition to_run :: "int option \<Rightarrow> int list \<Rightarrow> plan_row list \<Rightarrow> plan_row list" where
  "to_run maxRows rowNos rows =
     take (nat (min (max (case maxRows of Some n \<Rightarrow> n | None \<Rightarrow> 25) 1) 100))
       (filter (\<lambda>r. pr_status r = Approved \<and> pr_action r \<noteq> Manual \<and> (rowNos = [] \<or> pr_no r \<in> set rowNos)) rows)"

definition empty_report :: report where
  "empty_report = \<lparr>rp_attempted = 0, rp_applied = 0, rp_failed = 0, rp_stale = 0, rp_skipped = 0, rp_waiting = 0,
     rp_stoppedBy = None, rp_rows = []\<rparr>"

definition start_exec :: "plan \<Rightarrow> 'w \<Rightarrow> 'w exec" where
  "start_exec p w = \<lparr>ex_world = w, ex_plan = p\<lparr>pl_status := Executing\<rparr>,
     ex_status = map (\<lambda>r. (pr_no r, pr_status r)) (pl_rows p),
     ex_ids = map (\<lambda>r. (pr_no r, rowId (or_empty (pr_result r)) (pr_targetId r)))
       (filter (\<lambda>r. pr_status r = Applied \<or> pr_status r = Skipped) (pl_rows p)),
     ex_report = empty_report\<rparr>"

definition executePlan :: "'w entity_io \<Rightarrow> int option \<Rightarrow> int list \<Rightarrow> plan \<Rightarrow> 'w \<Rightarrow> report \<times> plan \<times> 'w" where
  "executePlan io maxRows rowNos p w =
     (let st = exec_rows io (to_run maxRows rowNos (pl_rows p)) (start_exec p w);
          left = list_ex (\<lambda>r. pr_status r = Approved \<or> pr_status r = Pending) (pl_rows (ex_plan st))
      in (ex_report st, (ex_plan st)\<lparr>pl_status := (if left then Open else Done)\<rparr>, ex_world st))"

section \<open>Undoing a plan\<close>

text \<open>Labels and reasons of the new rows are abbreviated; \<open>planId\<close> is the text of the plan's id.\<close>

definition num_of :: "jsv \<Rightarrow> rat option" where
  "num_of v = (if nullish v \<or> v = JStr [] then None else to_num v)"

definition ADJ :: "(string \<times> string) list" where
  "ADJ = [(''ContractServiceAdjustments'', ''contractServiceID''), (''ContractServiceBundleAdjustments'', ''contractServiceBundleID'')]"

datatype revert_skip = NotApplied row_status | AlreadyAsPlanned | LineUnknown | ServiceIdUnknown | OneTimeCharge | NoAutomaticUndo

definition revert_label :: "plan_row \<Rightarrow> string" where
  "revert_label r = ''REVERT row '' @ int_to_str (pr_no r) @ '': '' @ pr_label r"

definition revert_meta :: "string \<Rightarrow> plan_row \<Rightarrow> fields" where
  "revert_meta planId r = [(''revertsPlan'', JStr planId), (''revertsRow'', JNum (of_int (pr_no r)))]"

definition revert_adjustment :: "string \<Rightarrow> string \<Rightarrow> plan_row \<Rightarrow> string \<Rightarrow> rat \<Rightarrow> plan_input" where
  "revert_adjustment planId effectiveDate r lineField lineId =
     (let a = or_empty (pr_after r); b = or_empty (pr_before r);
          origDate = take 10 (to_str (coalesce (get_prop a ''effectiveDate'') (JStr [])));
          date = (if origDate \<noteq> [] \<and> origDate > effectiveDate then origDate else effectiveDate);
          origUnits = (case num_of (get_prop b ''units'') of Some n \<Rightarrow> n | None \<Rightarrow> 0);
          origPrice = num_of (get_prop b ''unitPrice'');
          change = (case num_of (get_prop a ''unitChange'') of Some n \<Rightarrow> n | None \<Rightarrow> 0);
          changedPrice = num_of (get_prop a ''adjustedUnitPrice'');
          before = (if date > origDate
            then (''units'', JNum (origUnits + change)) #
              (case changedPrice of Some p \<Rightarrow> if origUnits + change > 0 then [(''unitPrice'', JNum p)] else [] | None \<Rightarrow> [])
            else (''units'', JNum origUnits) #
              (case origPrice of Some p \<Rightarrow> if origUnits > 0 then [(''unitPrice'', JNum p)] else [] | None \<Rightarrow> []));
          after = [(''contractID'', get_prop a ''contractID''), (lineField, JNum lineId)] @
            (if \<not> nullish (get_prop a ''serviceID'') \<and> lineField = ''contractServiceID'' then [(''serviceID'', get_prop a ''serviceID'')] else []) @
            (if \<not> nullish (get_prop a ''serviceBundleID'') then [(''serviceBundleID'', get_prop a ''serviceBundleID'')] else []) @
            [(''effectiveDate'', JStr date), (''unitChange'', JNum (- change))] @
            (case origPrice of Some p \<Rightarrow> if origUnits > 0 \<and> changedPrice \<noteq> None then [(''adjustedUnitPrice'', JNum p)] else [] | None \<Rightarrow> [])
      in \<lparr>pr_action = Create, pr_entity = pr_entity r, pr_targetId = None, pr_label = revert_label r,
          pr_before = Some before, pr_after = Some after, pr_reason = Some (''Undoes plan '' @ planId), pr_blocked = None,
          pr_meta = JObj (revert_meta planId r @ [(''expect'', JObj [(''units'', JNum origUnits), (''unitPrice'', opt_num origPrice)])])\<rparr>)"

definition revert_fields :: "fields \<Rightarrow> fields \<Rightarrow> fields" where
  "revert_fields before after = map (\<lambda>k. (k, coalesce (get_prop before k) JNull)) (map fst after)"

text \<open>One row of the old plan: the row that undoes it, or why there is none (\<^const>\<open>None\<close>: say nothing).\<close>

definition revert_row :: "string \<Rightarrow> string \<Rightarrow> plan_row \<Rightarrow> (revert_skip option + plan_input)" where
  "revert_row planId effectiveDate r =
     (if pr_status r \<noteq> Applied
      then Inl (if pr_action r = Info then None
                else Some (if pr_status r = Skipped then AlreadyAsPlanned else NotApplied (pr_status r)))
      else (case map_of ADJ (pr_entity r) of
          Some lineField \<Rightarrow>
            (case (case num_of (get_prop (or_empty (pr_after r)) lineField) of Some n \<Rightarrow> Some n
                   | None \<Rightarrow> num_of (get_prop (or_empty (pr_result r)) ''lineId'')) of
               None \<Rightarrow> Inl (Some LineUnknown)
             | Some lineId \<Rightarrow> Inr (revert_adjustment planId effectiveDate r lineField lineId))
        | None \<Rightarrow>
            if pr_action r = Create \<and> pr_entity r = ''Services''
            then (case num_of (get_prop (or_empty (pr_result r)) ''id'') of
                None \<Rightarrow> Inl (Some ServiceIdUnknown)
              | Some n \<Rightarrow> Inr \<lparr>pr_action = Deactivate, pr_entity = ''Services'', pr_targetId = Some n, pr_label = revert_label r,
                  pr_before = Some [(''isActive'', JBool True)], pr_after = Some [(''isActive'', JBool False)],
                  pr_reason = Some (''Undoes plan '' @ planId), pr_blocked = None, pr_meta = JObj (revert_meta planId r)\<rparr>)
            else (case (pr_targetId r, pr_before r, pr_after r) of
                (Some t, Some b, Some a) \<Rightarrow>
                  if pr_action r = Update \<or> pr_action r = Deactivate
                  then Inr \<lparr>pr_action = Update, pr_entity = pr_entity r, pr_targetId = Some t, pr_label = revert_label r,
                    pr_before = Some a, pr_after = Some (revert_fields b a),
                    pr_reason = Some (''Puts back the values plan '' @ planId), pr_blocked = None, pr_meta = JObj (revert_meta planId r)\<rparr>
                  else Inl (Some (if pr_action r = Create \<and> pr_entity r = ''ContractCharges'' then OneTimeCharge else NoAutomaticUndo))
              | _ \<Rightarrow> Inl (Some (if pr_action r = Create \<and> pr_entity r = ''ContractCharges'' then OneTimeCharge else NoAutomaticUndo)))))"

fun revert_all :: "string \<Rightarrow> string \<Rightarrow> plan_row list \<Rightarrow> (int \<times> plan_input) list \<times> (int \<times> revert_skip) list" where
  "revert_all planId eff [] = ([], [])"
| "revert_all planId eff (r # rs) =
     (let (rows, skipped) = revert_all planId eff rs in
      case revert_row planId eff r of
        Inr x \<Rightarrow> ((pr_no r, x) # rows, skipped)
      | Inl (Some why) \<Rightarrow> (rows, (pr_no r, why) # skipped)
      | Inl None \<Rightarrow> (rows, skipped))"

text \<open>\<open>newNo\<close>: the number of the new row that undoes an old one.\<close>

definition new_numbers :: "(int \<times> plan_input) list \<Rightarrow> (int \<times> nat) list" where
  "new_numbers rows = map (\<lambda>(i, (n, _)). (n, i + 1)) (enumerate 0 rows)"

definition add_dependency :: "nat \<Rightarrow> plan_input \<Rightarrow> plan_input" where
  "add_dependency b x = x\<lparr>pr_meta := (case pr_meta x of
     JObj m \<Rightarrow> JObj (upsert m ''dependsOn'' (JArr (map (\<lambda>n. JNum (of_int n)) (uniq (dependsOn (JObj m) @ [int b])))))
   | v \<Rightarrow> v)\<rparr>"

definition flip_edges :: "(int \<times> nat) list \<Rightarrow> plan_row list \<Rightarrow> (nat \<times> nat) list" where
  "flip_edges newNo rows = concat (map (\<lambda>r.
     case map_of newNo (pr_no r) of
       None \<Rightarrow> []
     | Some b \<Rightarrow> List.map_filter (\<lambda>d. map_option (\<lambda>a. (a, b)) (map_of newNo d)) (dependsOn (pr_meta r))) rows)"

definition buildRevertRows :: "string \<Rightarrow> string \<Rightarrow> int list \<Rightarrow> plan_row list \<Rightarrow> plan_input list \<times> (int \<times> revert_skip) list" where
  "buildRevertRows planId effectiveDate rowNos rows =
     (let src = rev (filter (\<lambda>r. rowNos = [] \<or> pr_no r \<in> set rowNos) rows);
          (new, skipped) = revert_all planId effectiveDate src;
          edges = flip_edges (new_numbers new) rows
      in (fold (\<lambda>(a, b) xs. xs[a - 1 := add_dependency b (xs ! (a - 1))]) edges (map snd new), skipped))"

end
