(* ===== verification/Merge_Model.thy ===== *)
theory Merge_Model
  imports Change_Plans Company_Guard
begin

text \<open>
  Company and contact merges (\<open>src/src/merge/model.ts\<close>): which ids may be merged, what counts as a
  placeholder, what is attached to a record and blocks its merge, the plan of manual steps, the
  verification afterwards, and batches of (old id, correct id) rows.

  Error texts are constructors; the texts that end in plan rows are written out, with the arrows and
  dashes of the source in ASCII and without its quotation marks.
\<close>

section \<open>Ids\<close>

datatype merge_entity = Company | Contact

datatype merge_error = SurvivorNotAnId | SurvivorNotPositive int | SourcesMissing | SourceNotAnId
  | SourceNotPositive int | SourceIsSurvivor int | SourceTwice int | TooManySources nat

definition MAX_SOURCES :: nat where "MAX_SOURCES = 50"

definition asId :: "jsv \<Rightarrow> int option" where
  "asId v = (case v of
     JNum r \<Rightarrow> if is_whole r then Some \<lfloor>r\<rfloor> else None
   | JStr s \<Rightarrow> if all_digits (js_trim s) then Some (int (str_to_nat (js_trim s))) else None
   | _ \<Rightarrow> None)"

fun check_sources :: "int \<Rightarrow> int list \<Rightarrow> jsv list \<Rightarrow> merge_error + int list" where
  "check_sources s ids [] = Inr ids"
| "check_sources s ids (v # vs) =
     (case asId v of
        None \<Rightarrow> Inl SourceNotAnId
      | Some n \<Rightarrow>
          if n \<le> 0 then Inl (SourceNotPositive n)
          else if n = s then Inl (SourceIsSurvivor s)
          else if n \<in> set ids then Inl (SourceTwice n)
          else check_sources s (ids @ [n]) vs)"

definition validateMergeIds :: "jsv \<Rightarrow> jsv \<Rightarrow> merge_error + int \<times> int list" where
  "validateMergeIds survivor sources =
     (case asId survivor of
        None \<Rightarrow> Inl SurvivorNotAnId
      | Some s \<Rightarrow>
          if s \<le> 0 then Inl (SurvivorNotPositive s)
          else (case sources of
              JArr (v # vs) \<Rightarrow>
                (case check_sources s [] (v # vs) of
                   Inl e \<Rightarrow> Inl e
                 | Inr ids \<Rightarrow> if length ids > MAX_SOURCES then Inl (TooManySources (length ids)) else Inr (s, sort ids))
            | _ \<Rightarrow> Inl SourcesMissing))"

section \<open>Placeholders\<close>

datatype placeholder = NotAName name_problem | PlaceholderName | NoName

text \<open>\<open>/^(unknown|n\/?a|none|no company|tbd|test)\b/i\<close>: each alternative ends in a word character.\<close>

definition word_prefix :: "string \<Rightarrow> string \<Rightarrow> bool" where
  "word_prefix s w \<longleftrightarrow> starts_with s w \<and> (drop (length w) s = [] \<or> \<not> word_char (hd (drop (length w) s)))"

definition PLACEHOLDER_COMPANY :: "string list" where
  "PLACEHOLDER_COMPANY = [''unknown'', ''na'', ''n/a'', ''none'', ''no company'', ''tbd'', ''test'']"

definition PLACEHOLDER_CONTACT :: "string list" where
  "PLACEHOLDER_CONTACT = [''unknown'', ''unknown contact'', ''na'', ''n/a'', ''none'', ''no name'', ''customer'', ''user'']"

definition isPlaceholderCompany :: "jsv \<Rightarrow> placeholder option" where
  "isPlaceholderCompany companyName =
     (let name = js_trim (to_str (coalesce companyName (JStr []))) in
      case isUnsafeCompanyName (JStr name) of
        Some problem \<Rightarrow> Some (NotAName problem)
      | None \<Rightarrow> if list_ex (word_prefix (lower name)) PLACEHOLDER_COMPANY then Some PlaceholderName else None)"

definition isPlaceholderContact :: "jsv \<Rightarrow> jsv \<Rightarrow> placeholder option" where
  "isPlaceholderContact firstName lastName =
     (let full = join_with '' '' (filter (\<lambda>x. x \<noteq> []) (map (\<lambda>x. js_trim (to_str (coalesce x (JStr [])))) [firstName, lastName])) in
      if full = [] then Some NoName
      else if lower full \<in> set PLACEHOLDER_CONTACT then Some PlaceholderName else None)"

definition placeholder_phone :: "string \<Rightarrow> bool" where
  "placeholder_phone s \<longleftrightarrow> CHR ''0'' \<in> set s \<and> list_all (\<lambda>c. js_space c \<or> c \<in> set ''()+-0'') s"

definition isPlaceholderValue :: "jsv \<Rightarrow> bool" where
  "isPlaceholderValue v \<longleftrightarrow>
     (let s = js_trim (to_str (coalesce v (JStr []))) in
      s = [] \<or> placeholder_phone s \<or> lower s \<in> set [''unknown'', ''na'', ''n/a'', ''none'', ''gmail''])"

section \<open>What is attached to a record\<close>

record ref_spec =
  rs_entity :: string
  rs_field :: string
  rs_label :: string
  rs_money :: bool
  rs_activeWhen :: "(string \<times> jsv \<times> string) option"

definition plain_ref :: "string \<Rightarrow> string \<Rightarrow> string \<Rightarrow> ref_spec" where
  "plain_ref e f l = \<lparr>rs_entity = e, rs_field = f, rs_label = l, rs_money = False, rs_activeWhen = None\<rparr>"

definition COMPANY_REFS :: "ref_spec list" where
  "COMPANY_REFS =
     [(plain_ref ''Contacts'' ''companyID'' ''contacts'')\<lparr>rs_activeWhen := Some (''isActive'', JBool True, ''active'')\<rparr>,
      plain_ref ''Tickets'' ''companyID'' ''tickets'',
      plain_ref ''Projects'' ''companyID'' ''projects'',
      (plain_ref ''Contracts'' ''companyID'' ''contracts'')\<lparr>rs_activeWhen := Some (''status'', JNum 1, ''active'')\<rparr>,
      plain_ref ''Opportunities'' ''companyID'' ''opportunities'',
      plain_ref ''Quotes'' ''companyID'' ''quotes'',
      plain_ref ''SalesOrders'' ''companyID'' ''sales orders'',
      (plain_ref ''ConfigurationItems'' ''companyID'' ''configuration items'')\<lparr>rs_activeWhen := Some (''isActive'', JBool True, ''active'')\<rparr>,
      plain_ref ''ServiceCalls'' ''companyID'' ''service calls'',
      plain_ref ''CompanyNotes'' ''companyID'' ''company notes'',
      plain_ref ''CompanyToDos'' ''companyID'' ''to-dos'',
      plain_ref ''CompanyLocations'' ''companyID'' ''locations'',
      plain_ref ''CompanyAlerts'' ''companyID'' ''alerts'',
      (plain_ref ''Invoices'' ''companyID'' ''invoices'')\<lparr>rs_money := True\<rparr>,
      (plain_ref ''BillingItems'' ''companyID'' ''billing items'')\<lparr>rs_money := True\<rparr>,
      plain_ref ''Companies'' ''parentCompanyID'' ''child companies'']"

definition CONTACT_REFS :: "ref_spec list" where
  "CONTACT_REFS =
     [plain_ref ''Tickets'' ''contactID'' ''tickets'',
      plain_ref ''Projects'' ''contactID'' ''projects'',
      (plain_ref ''Contracts'' ''contactID'' ''contracts'')\<lparr>rs_activeWhen := Some (''status'', JNum 1, ''active'')\<rparr>,
      plain_ref ''Opportunities'' ''contactID'' ''opportunities'',
      plain_ref ''Quotes'' ''contactID'' ''quotes'',
      plain_ref ''ConfigurationItems'' ''contactID'' ''configuration items'',
      plain_ref ''CompanyToDos'' ''contactID'' ''to-dos'']"

record ref_count =
  rc_entity :: string
  rc_label :: string
  rc_field :: string
  rc_count :: nat
  rc_active :: "nat option"
  rc_ids :: "int list"
  rc_money :: bool
  rc_movableByApi :: "bool option"
  rc_error :: "string option"

record inventory =
  in_id :: int
  in_refs :: "ref_count list"
  in_total :: nat
  in_blockers :: "string list"

definition show_ids :: "int list \<Rightarrow> string" where
  "show_ids ids = join_with '', '' (map int_to_str ids)"

definition ref_blockers :: "merge_entity \<Rightarrow> ref_count \<Rightarrow> string list" where
  "ref_blockers e r =
     (case rc_error r of
        Some err \<Rightarrow> if err = [] then [] else [rc_label r @ '': could not be checked ('' @ err @ '') - look in Autotask before merging'']
      | None \<Rightarrow> [])
     @ (case rc_active r of
          Some n \<Rightarrow> if rc_entity r = ''Contracts'' \<and> n > 0
            then [nat_to_str n @ '' ACTIVE contract(s) - billing review before merging (contract '' @ show_ids (take 5 (rc_ids r)) @ '')''] else []
        | None \<Rightarrow> [])
     @ (if rc_money r \<and> rc_count r > 0
        then [nat_to_str (rc_count r) @ '' '' @ rc_label r @ '' - financial history; check how the UI merge carries it, never reparent it by hand''] else [])
     @ (if e = Company \<and> rc_entity r = ''Companies'' \<and> rc_count r > 0
        then [''parent of '' @ nat_to_str (rc_count r) @ '' compan(ies) - billing / parent routing may change''] else [])"

definition summarizeInventory :: "int \<Rightarrow> ref_count list \<Rightarrow> merge_entity \<Rightarrow> inventory" where
  "summarizeInventory rid refs e =
     \<lparr>in_id = rid, in_refs = refs, in_total = sum_list (map rc_count refs), in_blockers = concat (map (ref_blockers e) refs)\<rparr>"


section \<open>The plan of manual steps\<close>

record merge_record =
  mr_id :: int
  mr_name :: string
  mr_isActive :: bool
  mr_placeholder :: "string option"
  mr_companyId :: "int option"
  mr_companyName :: "string option"
  mr_fields :: fields
  mr_link :: "string option"

fun ENRICH_FIELDS :: "merge_entity \<Rightarrow> string list" where
  "ENRICH_FIELDS Company = [''phone'', ''webAddress'', ''address1'', ''address2'', ''city'', ''state'', ''postalCode'', ''fax'']"
| "ENRICH_FIELDS Contact = [''phone'', ''mobilePhone'', ''title'', ''emailAddress2'', ''emailAddress3'', ''addressLine'', ''city'', ''state'', ''zipCode'']"

fun entity_name :: "merge_entity \<Rightarrow> string" where
  "entity_name Company = ''company''" | "entity_name Contact = ''contact''"

fun entity_table :: "merge_entity \<Rightarrow> string" where
  "entity_table Company = ''Companies''" | "entity_table Contact = ''Contacts''"

definition or_hash :: "string option \<Rightarrow> int \<Rightarrow> string" where
  "or_hash link i = (case link of Some l \<Rightarrow> l | None \<Rightarrow> ''#'' @ int_to_str i)"

definition or_empty_str :: "string option \<Rightarrow> string" where
  "or_empty_str v = (case v of Some s \<Rightarrow> s | None \<Rightarrow> [])"

definition attached_counts :: "(int \<times> inventory) list \<Rightarrow> int \<Rightarrow> jsv" where
  "attached_counts att i = JObj (fold (\<lambda>r m. upsert m (rc_label r) (json_int (int (rc_count r))))
     (filter (\<lambda>r. rc_count r > 0) (case map_of att i of Some x \<Rightarrow> in_refs x | None \<Rightarrow> [])) [])"

definition blockers_of :: "(int \<times> inventory) list \<Rightarrow> int \<Rightarrow> string list" where
  "blockers_of att i = (case map_of att i of Some x \<Rightarrow> in_blockers x | None \<Rightarrow> [])"

definition hard_blockers :: "bool \<Rightarrow> string list \<Rightarrow> string list" where
  "hard_blockers billingReviewed bs = filter (\<lambda>b. has_substr b ''ACTIVE contract'' \<and> \<not> billingReviewed) bs"

definition merge_reason :: "merge_entity \<Rightarrow> merge_record \<Rightarrow> merge_record \<Rightarrow> string list \<Rightarrow> string" where
  "merge_reason e survivor s bs = join_with '' '' (filter (\<lambda>x. x \<noteq> [])
     [''Open both: source '' @ or_hash (mr_link s) (mr_id s) @ '' and survivor '' @ or_hash (mr_link survivor) (mr_id survivor)
        @ ''. Merge the source INTO the survivor with Autotask's merge.'',
      (if bs \<noteq> [] then ''Check first: '' @ join_with ''; '' bs @ ''.'' else ''Nothing attached needs a decision first.''),
      (case (mr_companyId s, mr_companyId survivor) of
         (Some a, Some b) \<Rightarrow> if e = Contact \<and> a \<noteq> b
           then ''The contacts are on different companies (#'' @ int_to_str a @ '' '' @ or_empty_str (mr_companyName s)
             @ '' vs #'' @ int_to_str b @ '' '' @ or_empty_str (mr_companyName survivor) @ '') - confirm they are the same person before merging.'' else []
       | _ \<Rightarrow> []),
      (case mr_placeholder s of Some p \<Rightarrow> if p = [] then [] else ''Source is a placeholder ('' @ p @ '').'' | None \<Rightarrow> [])])"

definition merge_meta :: "string \<Rightarrow> merge_record \<Rightarrow> merge_record \<Rightarrow> merge_entity \<Rightarrow> fields" where
  "merge_meta step survivor s e = [(''step'', JStr step), (''sourceId'', json_int (mr_id s)),
     (''survivorId'', json_int (mr_id survivor)), (''entity'', JStr (entity_name e))]"

definition merge_row :: "merge_entity \<Rightarrow> merge_record \<Rightarrow> (int \<times> inventory) list \<Rightarrow> bool \<Rightarrow> merge_record \<Rightarrow> plan_input" where
  "merge_row e survivor att billingReviewed s =
     (let bs = blockers_of att (mr_id s); hard = hard_blockers billingReviewed bs in
      \<lparr>pr_action = Manual, pr_entity = entity_table e, pr_targetId = Some (of_int (mr_id s)),
       pr_label = ''MERGE '' @ entity_name e @ '' #'' @ int_to_str (mr_id s) @ '' '' @ mr_name s @ (if mr_isActive s then [] else '' (inactive)'')
         @ '' -> #'' @ int_to_str (mr_id survivor) @ '' '' @ mr_name survivor @ '' in the Autotask UI'',
       pr_before = Some [(''source'', JObj ([(''id'', json_int (mr_id s)), (''name'', JStr (mr_name s))] @
           (if e = Contact then [(''companyId'', json_opt json_int (mr_companyId s)), (''company'', json_opt JStr (mr_companyName s))] else []))),
         (''attached'', attached_counts att (mr_id s))],
       pr_after = Some [(''mergedInto'', json_int (mr_id survivor))],
       pr_reason = Some (merge_reason e survivor s bs),
       pr_blocked = (if hard \<noteq> [] then Some (join_with ''; '' hard @ '' - rebuild with billingReviewed: true once billing has signed off'') else None),
       pr_meta = JObj (merge_meta ''merge'' survivor s e)\<rparr>)"

definition delete_row :: "merge_entity \<Rightarrow> merge_record \<Rightarrow> int \<Rightarrow> merge_record \<Rightarrow> plan_input" where
  "delete_row e survivor mergeRow s =
     \<lparr>pr_action = Manual, pr_entity = entity_table e, pr_targetId = Some (of_int (mr_id s)),
      pr_label = ''DELETE '' @ entity_name e @ '' #'' @ int_to_str (mr_id s) @ '' '' @ mr_name s
        @ '' in Autotask Admin - only after the merge, and only when autotask_merge_verify shows nothing left on it'',
      pr_before = None, pr_after = Some [(''deleted'', JBool True)],
      pr_reason = Some (''After row '' @ int_to_str mergeRow @ ''. Run autotask_merge_verify first: it re-reads #'' @ int_to_str (mr_id s)
        @ '' and everything that pointed at it.''),
      pr_blocked = None, pr_meta = JObj (merge_meta ''delete'' survivor s e @ [(''dependsOn'', JArr [json_int mergeRow])])\<rparr>"

fun source_rows :: "merge_entity \<Rightarrow> merge_record \<Rightarrow> (int \<times> inventory) list \<Rightarrow> bool \<Rightarrow> int \<Rightarrow> merge_record list \<Rightarrow> plan_input list" where
  "source_rows e survivor att reviewed n [] = []"
| "source_rows e survivor att reviewed n (s # ss) =
     merge_row e survivor att reviewed s # delete_row e survivor n s # source_rows e survivor att reviewed (n + 2) ss"

definition enrich_row :: "merge_entity \<Rightarrow> merge_record \<Rightarrow> merge_record list \<Rightarrow> string \<Rightarrow> plan_input option" where
  "enrich_row e survivor sources f =
     (if \<not> isPlaceholderValue (get_prop (mr_fields survivor) f) then None
      else (case find (\<lambda>s. (mr_placeholder s = None \<or> mr_placeholder s = Some []) \<and> \<not> isPlaceholderValue (get_prop (mr_fields s) f)) sources of
          None \<Rightarrow> None
        | Some donor \<Rightarrow> Some
           \<lparr>pr_action = Manual, pr_entity = entity_table e, pr_targetId = Some (of_int (mr_id survivor)),
            pr_label = ''SURVIVOR #'' @ int_to_str (mr_id survivor) @ '' has no '' @ f @ ''; #'' @ int_to_str (mr_id donor) @ '' has ''
              @ to_str (get_prop (mr_fields donor) f) @ '' - copy it if it is right'',
            pr_before = Some [(f, coalesce (get_prop (mr_fields survivor) f) JNull)],
            pr_after = Some [(f, get_prop (mr_fields donor) f)],
            pr_reason = Some ''A suggestion, never applied automatically. Placeholder values (Unknown, 000-000-0000, Gmail) are never proposed.'',
            pr_blocked = None,
            pr_meta = JObj [(''step'', JStr ''enrich''), (''field'', JStr f), (''fromId'', json_int (mr_id donor)),
              (''survivorId'', json_int (mr_id survivor)), (''entity'', JStr (entity_name e))]\<rparr>))"

definition contact_total :: "(int \<times> inventory) list \<Rightarrow> merge_record list \<Rightarrow> nat" where
  "contact_total att sources = sum_list (map (\<lambda>s.
     case map_of att (mr_id s) of
       None \<Rightarrow> 0
     | Some x \<Rightarrow> (case find (\<lambda>r. rc_entity r = ''Contacts'') (in_refs x) of Some r \<Rightarrow> rc_count r | None \<Rightarrow> 0)) sources)"

definition contacts_row :: "merge_record \<Rightarrow> merge_record list \<Rightarrow> nat \<Rightarrow> plan_input" where
  "contacts_row survivor sources n =
     \<lparr>pr_action = Info, pr_entity = ''Contacts'', pr_targetId = None,
      pr_label = nat_to_str n @ '' contact(s) on the source companies - a company merge does NOT decide them'',
      pr_before = None, pr_after = None,
      pr_reason = Some (''Review them: autotask_merge_discover ['' @ show_ids (mr_id survivor # map mr_id sources)
        @ ''], then a contact plan per person (survivorContactId + sourceContactIds). Same email, not same person.''),
      pr_blocked = Some ''review separately'', pr_meta = JObj [(''step'', JStr ''contacts''), (''entity'', JStr ''company'')]\<rparr>"

definition buildMergeRows :: "merge_entity \<Rightarrow> merge_record \<Rightarrow> merge_record list \<Rightarrow> (int \<times> inventory) list \<Rightarrow> bool \<Rightarrow> int option \<Rightarrow> plan_input list" where
  "buildMergeRows e survivor sources att billingReviewed firstRowNo =
     source_rows e survivor att billingReviewed (case firstRowNo of Some n \<Rightarrow> n | None \<Rightarrow> 1) sources
     @ List.map_filter (enrich_row e survivor sources) (ENRICH_FIELDS e)
     @ (if e = Company \<and> contact_total att sources > 0 then [contacts_row survivor sources (contact_total att sources)] else [])"

section \<open>Verification\<close>

datatype source_state = Gone | Inactive | Active

record verify_source =
  vs_id :: int
  vs_state :: source_state
  vs_remaining :: nat
  vs_remainingByLabel :: "(string \<times> nat) list"

datatype merge_status = Passed | PartlyDone | MergeFailed | NotStarted

datatype merge_note = SurvivorGone | SurvivorInactive | StillExist "int list" | StillAttached "int list"

record verify_result =
  vr_status :: merge_status
  vr_survivorOk :: bool
  vr_done :: "int list"
  vr_mergedNotDeleted :: "int list"
  vr_pending :: "int list"
  vr_remnants :: "(int \<times> (string \<times> nat) list) list"
  vr_notes :: "merge_note list"

definition evaluateMerge :: "bool \<Rightarrow> bool \<Rightarrow> verify_source list \<Rightarrow> verify_result" where
  "evaluateMerge exists isActive sources =
     (let survivorOk = exists \<and> isActive;
          finished = map vs_id (filter (\<lambda>s. vs_state s = Gone) sources);
          left = filter (\<lambda>s. vs_state s \<noteq> Gone \<and> vs_remaining s > 0) sources;
          merged = map vs_id (filter (\<lambda>s. vs_state s \<noteq> Gone \<and> vs_remaining s = 0) sources)
      in \<lparr>vr_status = (if \<not> survivorOk then MergeFailed
            else if length finished = length sources then Passed
            else if finished \<noteq> [] \<or> merged \<noteq> [] then PartlyDone else NotStarted),
          vr_survivorOk = survivorOk, vr_done = finished, vr_mergedNotDeleted = merged,
          vr_pending = map vs_id left, vr_remnants = map (\<lambda>s. (vs_id s, vs_remainingByLabel s)) left,
          vr_notes = (if \<not> exists then [SurvivorGone] else if \<not> isActive then [SurvivorInactive] else [])
            @ (if merged \<noteq> [] then [StillExist merged] else [])
            @ (if left \<noteq> [] then [StillAttached (map vs_id left)] else [])\<rparr>)"

section \<open>Batches\<close>

datatype mapping_error = NoRows | BadRow nat merge_error | RepeatedOldId nat int | Chain int int int | TooManyRows nat

definition unquote :: "string \<Rightarrow> string" where
  "unquote c =
     (let a = (if starts_with c [CHR 0x22] then tl c else c)
      in if a \<noteq> [] \<and> last a = CHR 0x22 then butlast a else a)"

definition csv_cells :: "string \<Rightarrow> string list" where
  "csv_cells l = map (\<lambda>c. unquote (js_trim c)) (split_on (\<lambda>c. c \<in> set [CHR '','', CHR '';'', CHR 0x09]) l)"

definition utf8_bom :: string where
  "utf8_bom = [CHR 0xEF, CHR 0xBB, CHR 0xBF]"

definition csv_lines :: "string \<Rightarrow> string list" where
  "csv_lines s = filter (\<lambda>l. l \<noteq> []) (map js_trim
     (split_on (\<lambda>c. c = CHR 0x0A) (if starts_with s utf8_bom then drop 3 s else s)))"

definition cell :: "string list \<Rightarrow> nat \<Rightarrow> jsv" where
  "cell cs i = (if i < length cs then JStr (cs ! i) else JUndef)"

definition csv_pairs :: "string \<Rightarrow> (nat \<times> jsv \<times> jsv) list" where
  "csv_pairs s = List.map_filter (\<lambda>(n, l).
      let cs = csv_cells l in
      if n = 0 \<and> \<not> list_ex all_digits cs then None else Some (n + 1, cell cs 0, cell cs 1))
     (enumerate 0 (csv_lines s))"

definition mapping_pairs :: "jsv list \<Rightarrow> (nat \<times> jsv \<times> jsv) list" where
  "mapping_pairs ms = map (\<lambda>(n, m). (n + 1,
      coalesce (get_member m ''sourceId'') (coalesce (get_member m ''oldId'') (get_member m ''source'')),
      coalesce (get_member m ''survivorId'') (coalesce (get_member m ''newId'') (get_member m ''survivor''))))
     (enumerate 0 ms)"

definition mapping_rows :: "jsv \<Rightarrow> jsv \<Rightarrow> (nat \<times> jsv \<times> jsv) list" where
  "mapping_rows csv mappings =
     (case csv of
        JStr s \<Rightarrow> if js_trim s \<noteq> [] then csv_pairs s else (case mappings of JArr ms \<Rightarrow> mapping_pairs ms | _ \<Rightarrow> [])
      | _ \<Rightarrow> (case mappings of JArr ms \<Rightarrow> mapping_pairs ms | _ \<Rightarrow> []))"

fun collect_rows :: "(nat \<times> jsv \<times> jsv) list \<Rightarrow> (int \<times> int) list \<Rightarrow> mapping_error list \<times> (int \<times> int) list" where
  "collect_rows [] m = ([], m)"
| "collect_rows ((line, source, survivor) # ps) m =
     (case validateMergeIds survivor (JArr [source]) of
        Inl e \<Rightarrow> (let (es, m') = collect_rows ps m in (BadRow line e # es, m'))
      | Inr (s, srcs) \<Rightarrow>
          (let src = hd srcs in
           if src \<in> fst ` set m then (let (es, m') = collect_rows ps m in (RepeatedOldId line src # es, m'))
           else collect_rows ps (m @ [(src, s)])))"

definition chain_errors :: "(int \<times> int) list \<Rightarrow> mapping_error list" where
  "chain_errors m = List.map_filter (\<lambda>(src, surv).
     case map_of m surv of Some t \<Rightarrow> Some (Chain src surv t) | None \<Rightarrow> None) m"

definition group_rows :: "(int \<times> int) list \<Rightarrow> (int \<times> int list) list" where
  "group_rows m = map (\<lambda>surv. (surv, sort (map fst (filter (\<lambda>p. snd p = surv) m)))) (sort (uniq (map snd m)))"

definition parseMergeMappings :: "jsv \<Rightarrow> jsv \<Rightarrow> mapping_error list + (int \<times> int list) list" where
  "parseMergeMappings csv mappings =
     (let rows = mapping_rows csv mappings in
      if rows = [] then Inl [NoRows]
      else (let (es, m) = collect_rows rows [];
                all = es @ chain_errors m @ (if length m > MAX_SOURCES * 10 then [TooManyRows (length m)] else [])
            in if all \<noteq> [] then Inl all else Inr (group_rows m)))"

end
