(* ===== verification/Merge_Facts.thy ===== *)
theory Merge_Facts
  imports Merge_Model
begin

text \<open>
  What the merge model promises: a batch of (old id, correct id) rows is taken whole or refused, and
  never chains; a merge plan is a work list the executor writes nothing for; a company with an active
  contract gives a hard blocker.
\<close>

section \<open>Batches\<close>

lemma validate_one:
  "validateMergeIds survivor (JArr [source]) = Inr (s, srcs) \<longleftrightarrow>
     (\<exists>n. asId survivor = Some s \<and> s > 0 \<and> asId source = Some n \<and> n > 0 \<and> n \<noteq> s \<and> srcs = [n])"
  by (auto simp: validateMergeIds_def MAX_SOURCES_def split: option.splits)

text \<open>The pair a good row stands for.\<close>

definition row_pair :: "nat \<times> jsv \<times> jsv \<Rightarrow> int \<times> int" where
  "row_pair r = (case r of (_, source, survivor) \<Rightarrow> (the (asId source), the (asId survivor)))"

definition good_row :: "nat \<times> jsv \<times> jsv \<Rightarrow> bool" where
  "good_row r \<longleftrightarrow> (case r of (_, source, survivor) \<Rightarrow>
     \<exists>a b. asId source = Some a \<and> asId survivor = Some b \<and> a > 0 \<and> b > 0 \<and> a \<noteq> b)"

lemma collect_rows_ok:
  assumes "collect_rows ps m = ([], m')" "distinct (map fst m)"
  shows "m' = m @ map row_pair ps \<and> (\<forall>r \<in> set ps. good_row r) \<and> distinct (map fst m')"
  using assms
proof (induction ps arbitrary: m)
  case Nil
  then show ?case by simp
next
  case (Cons r ps)
  obtain line source survivor where r: "r = (line, source, survivor)" by (cases r)
  show ?case
  proof (cases "validateMergeIds survivor (JArr [source])")
    case (Inl e)
    with Cons.prems r show ?thesis by (simp split: prod.splits)
  next
    case (Inr v)
    obtain s srcs where v: "v = (s, srcs)" by fastforce
    from Inr v obtain n where n: "asId survivor = Some s" "s > 0" "asId source = Some n" "n > 0" "n \<noteq> s" "srcs = [n]"
      using validate_one by fastforce
    have fresh: "n \<notin> fst ` set m"
    proof
      assume "n \<in> fst ` set m"
      with Cons.prems(1) Inr v n r show False by (simp add: Let_def split: prod.splits)
    qed
    have rest: "collect_rows ps (m @ [(n, s)]) = ([], m')"
      using Cons.prems(1) Inr v n fresh r by (simp add: Let_def)
    have "distinct (map fst (m @ [(n, s)]))" using Cons.prems(2) fresh by simp
    note ih = Cons.IH [OF rest this]
    have rp: "row_pair r = (n, s)" and gr: "good_row r" using n r by (auto simp: row_pair_def good_row_def)
    have "m' = m @ map row_pair (r # ps)" using ih rp by (elim conjE) simp
    moreover have "\<forall>x \<in> set (r # ps). good_row x" using ih gr by (elim conjE) simp
    ultimately show ?thesis using ih by blast
  qed
qed

lemma chain_free:
  assumes "chain_errors m = []"
  shows "(a, b) \<in> set m \<Longrightarrow> b \<notin> fst ` set m"
proof
  assume ab: "(a, b) \<in> set m" and "b \<in> fst ` set m"
  then obtain c where "map_of m b = Some c" by (metis map_of_eq_None_iff option.exhaust)
  with ab have "Chain a b c \<in> set (chain_errors m)"
    by (simp add: chain_errors_def List.map_filter_def image_iff) (rule exI [of _ a], rule exI [of _ b], simp)
  with assms show False by simp
qed

lemma group_rows_pairs:
  "(\<exists>srcs. (surv, srcs) \<in> set (group_rows m) \<and> src \<in> set srcs) \<longleftrightarrow> (src, surv) \<in> set m"
  by (auto simp: group_rows_def image_iff) (metis snd_conv)+

lemma group_rows_keys [simp]: "fst ` set (group_rows m) = snd ` set m"
  by (force simp: group_rows_def)

lemma sort_Nil_iff [simp]: "sort xs = [] \<longleftrightarrow> xs = []" for xs :: "int list"
  by (metis set_empty set_sort)

lemma group_rows_distinct: "distinct (map fst (group_rows m))"
  by (simp add: group_rows_def comp_def)

lemma group_rows_shape:
  assumes "g \<in> set (group_rows m)" "distinct (map fst m)"
  shows "snd g \<noteq> [] \<and> sorted (snd g) \<and> distinct (snd g)"
  using assms
  by (fastforce simp: group_rows_def filter_empty_conv distinct_map_filter)

definition batch_pairs :: "(int \<times> int list) list \<Rightarrow> (int \<times> int) set" where
  "batch_pairs groups = {(src, surv). \<exists>srcs. (surv, srcs) \<in> set groups \<and> src \<in> set srcs}"

lemma batch_pairs_group: "batch_pairs (group_rows m) = set m"
  using group_rows_pairs by (auto simp: batch_pairs_def)

lemma parse_ok:
  assumes "parseMergeMappings csv mappings = Inr groups"
  obtains m where "m = map row_pair (mapping_rows csv mappings)" "groups = group_rows m"
    "\<forall>r \<in> set (mapping_rows csv mappings). good_row r" "distinct (map fst m)" "chain_errors m = []" "length m \<le> 500"
proof -
  obtain es m where c: "collect_rows (mapping_rows csv mappings) [] = (es, m)" by fastforce
  from assms c have es: "es = []" "chain_errors m = []" "length m \<le> 500" "groups = group_rows m"
    by (auto simp: parseMergeMappings_def Let_def MAX_SOURCES_def split: if_splits)
  from collect_rows_ok c es(1) have "m = map row_pair (mapping_rows csv mappings)"
    "\<forall>r \<in> set (mapping_rows csv mappings). good_row r" "distinct (map fst m)" by fastforce+
  with es that show ?thesis by blast
qed

text \<open>C24. A batch of merges is taken whole or refused: an accepted batch contains exactly the rows
  given, every one with two different positive ids (company 0 is never merged); no record is merged
  twice, and none that is merged away is also a survivor, so the merges can be done in any order.\<close>

theorem merge_batch_is_safe:
  assumes "parseMergeMappings csv mappings = Inr groups"
  shows "batch_pairs groups = set (map row_pair (mapping_rows csv mappings))
    \<and> (\<forall>r \<in> set (mapping_rows csv mappings). good_row r)
    \<and> distinct (map fst groups)
    \<and> (\<forall>(surv, srcs) \<in> set groups. srcs \<noteq> [] \<and> sorted srcs \<and> distinct srcs)
    \<and> (\<forall>(src, surv) \<in> batch_pairs groups. src > 0 \<and> surv > 0 \<and> src \<notin> fst ` set groups
        \<and> (\<forall>other. (src, other) \<in> batch_pairs groups \<longrightarrow> other = surv))
    \<and> length (mapping_rows csv mappings) \<le> 500"
proof -
  obtain m where m: "m = map row_pair (mapping_rows csv mappings)" "groups = group_rows m"
    "\<forall>r \<in> set (mapping_rows csv mappings). good_row r" "distinct (map fst m)" "chain_errors m = []" "length m \<le> 500"
    using parse_ok [OF assms] by blast
  have set_m: "batch_pairs groups = set m" using m(2) by (simp add: batch_pairs_group)
  have keys: "fst ` set groups = snd ` set m" using m(2) by simp
  have pos: "src > 0 \<and> surv > 0" if "(src, surv) \<in> set m" for src surv
    using that m(1,3) by (fastforce simp: row_pair_def good_row_def)
  have noSurv: "src \<notin> snd ` set m" if "(src, surv) \<in> set m" for src surv
    using that chain_free [OF m(5)] by force
  have one: "other = surv" if "(src, surv) \<in> set m" "(src, other) \<in> set m" for src surv other
    using that m(4) by (metis map_of_is_SomeI option.inject)
  have shape: "srcs \<noteq> [] \<and> sorted srcs \<and> distinct srcs" if "(surv, srcs) \<in> set groups" for surv srcs
    using that m(2,4) group_rows_shape by fastforce
  have dist: "distinct (map fst groups)" using m(2) group_rows_distinct by simp
  have len: "length (mapping_rows csv mappings) \<le> 500" using m(1,6) by simp
  have pairs: "\<forall>(src, surv) \<in> set m. src > 0 \<and> surv > 0 \<and> src \<notin> fst ` set groups
      \<and> (\<forall>other. (src, other) \<in> set m \<longrightarrow> other = surv)"
    using pos noSurv one keys by blast
  have eq: "set m = set (map row_pair (mapping_rows csv mappings))" using m(1) by simp
  have shapes: "\<forall>(surv, srcs) \<in> set groups. srcs \<noteq> [] \<and> sorted srcs \<and> distinct srcs" using shape by blast
  show ?thesis unfolding set_m using eq m(3) dist shapes pairs len by (intro conjI)
qed

theorem merge_batch_is_safe_witness:
  "parseMergeMappings (JStr ''old,new
3,7
4;7
5,8'') JUndef = Inr [(7, [3, 4]), (8, [5])] \<and> distinct (map fst [(7 :: int, [3, 4 :: int]), (8, [5])])"
proof -
  have rows: "mapping_rows (JStr ''old,new
3,7
4;7
5,8'') JUndef = [(2, JStr ''3'', JStr ''7''), (3, JStr ''4'', JStr ''7''), (4, JStr ''5'', JStr ''8'')]"
    by code_simp
  have pairs: "collect_rows [(2, JStr ''3'', JStr ''7''), (3, JStr ''4'', JStr ''7''), (4, JStr ''5'', JStr ''8'')] []
      = ([], [(3, 7), (4, 7), (5, 8)])"
  proof -
    have "validateMergeIds (JStr ''7'') (JArr [JStr ''3'']) = Inr (7, [3])"
      "validateMergeIds (JStr ''7'') (JArr [JStr ''4'']) = Inr (7, [4])"
      "validateMergeIds (JStr ''8'') (JArr [JStr ''5'']) = Inr (8, [5])"
      by code_simp+
    then show ?thesis by simp
  qed
  have groups: "group_rows [(3, 7), (4, 7), (5, 8)] = [(7, [3, 4]), (8, [5])]"
    by code_simp
  have p: "parseMergeMappings (JStr ''old,new
3,7
4;7
5,8'') JUndef = Inr [(7, [3, 4]), (8, [5])]"
    by (simp only: parseMergeMappings_def rows Let_def pairs prod.case list.simps if_False)
       (simp add: groups chain_errors_def List.map_filter_def MAX_SOURCES_def)
  from merge_batch_is_safe [OF p, THEN conjunct2, THEN conjunct2, THEN conjunct1] p show ?thesis by (rule conjI [rotated])
qed

section \<open>The executor never runs a merge plan\<close>

definition manual_row :: "plan_row \<Rightarrow> bool" where
  "manual_row r \<longleftrightarrow> pr_action r = Manual \<or> (pr_action r = Info \<and> pr_status r \<noteq> Approved)"

definition work_list :: "plan \<Rightarrow> bool" where
  "work_list p \<longleftrightarrow> distinct (map pr_no (pl_rows p)) \<and> list_all manual_row (pl_rows p)"

text \<open>A plan as built from given rows, and after any approvals.\<close>

inductive plan_of :: "plan_input list \<Rightarrow> plan \<Rightarrow> bool" for rows where
  built: "pl_rows p = map (\<lambda>(i, r). new_row i r) (enumerate 0 rows) \<Longrightarrow> plan_of rows p"
| reviewed: "plan_of rows p \<Longrightarrow> plan_of rows (snd (setApproval hash rowNos approve by p))"

lemma action_extend [simp]: "pr_action (plan_input.extend r x) = pr_action r"
  by (cases r) (simp add: plan_input.defs)

lemma source_rows_manual: "r \<in> set (source_rows e survivor att reviewed n ss) \<Longrightarrow> pr_action r = Manual"
  by (induction e survivor att reviewed n ss rule: source_rows.induct) (auto simp: merge_row_def delete_row_def Let_def)

lemma enrich_row_manual: "enrich_row e survivor ss f = Some r \<Longrightarrow> pr_action r = Manual"
  by (auto simp: enrich_row_def split: if_splits option.splits)

lemma merge_rows_manual: "r \<in> set (buildMergeRows e survivor ss att reviewed firstNo) \<Longrightarrow> pr_action r = Manual \<or> pr_action r = Info"
  by (auto simp: buildMergeRows_def contacts_row_def List.map_filter_def dest: source_rows_manual enrich_row_manual split: if_splits)

lemma new_rows_distinct: "distinct (map pr_no (map (\<lambda>(i, r). new_row i r) (enumerate k rows)))"
proof -
  have "map pr_no (map (\<lambda>(i, r). new_row i r) (enumerate k rows)) = map (\<lambda>p. int (fst p + 1)) (enumerate k rows)"
    by (auto simp: new_row_def plan_input.defs)
  also have "\<dots> = map (\<lambda>i. int (i + 1)) (map fst (enumerate k rows))"
    unfolding map_map comp_def ..
  finally show ?thesis by (simp add: distinct_map inj_on_def del: map_map)
qed

lemma new_rows_manual:
  assumes "\<forall>r \<in> set rows. pr_action r = Manual \<or> pr_action r = Info"
  shows "list_all manual_row (map (\<lambda>(i, r). new_row i r) (enumerate k rows))"
  using assms by (induction rows arbitrary: k) (auto simp: manual_row_def new_row_def plan_input.defs)

lemma find_row_unique:
  "distinct (map pr_no rows) \<Longrightarrow> r \<in> set rows \<Longrightarrow> find_row (pr_no r) rows = Some r"
  by (induction rows) (auto simp: find_row_def image_iff)

text \<open>An update that keeps numbers and actions, of rows that are not information rows.\<close>

lemma work_list_fold:
  assumes "\<And>r. pr_no (f r) = pr_no r" "\<And>r. pr_action (f r) = pr_action r"
    and "list_all manual_row rows" "\<forall>r \<in> set rows. pr_no r \<in> set ns \<longrightarrow> pr_action r \<noteq> Info"
  shows "map pr_no (fold (\<lambda>n. set_row n f) ns rows) = map pr_no rows
    \<and> list_all manual_row (fold (\<lambda>n. set_row n f) ns rows)"
  using assms(3,4)
proof (induction ns arbitrary: rows)
  case Nil
  then show ?case by simp
next
  case (Cons n ns)
  let ?rows = "set_row n f rows"
  have numbers: "map pr_no ?rows = map pr_no rows" using assms(1) by (simp add: set_row_def)
  have manual: "list_all manual_row ?rows"
    using Cons.prems assms(2) by (auto simp: list_all_iff set_row_def manual_row_def)
  have "\<forall>r \<in> set ?rows. pr_no r \<in> set ns \<longrightarrow> pr_action r \<noteq> Info"
    using Cons.prems(2) assms(1,2) by (auto simp: set_row_def)
  from Cons.IH [OF manual this] numbers show ?case by simp
qed

lemma work_list_approval:
  assumes "work_list p"
  shows "work_list (snd (setApproval hash rowNos approve by p))"
proof (cases "pl_status p = Open \<and> pl_hash p = hash")
  case False
  then show ?thesis using assms by (auto simp: setApproval_def)
next
  case True
  let ?ok = "filter (\<lambda>n. approval_refusal (pl_rows p) n = None) rowNos"
  let ?f = "\<lambda>r. r\<lparr>pr_status := (if approve then Approved else Excluded), pr_approvedBy := by\<rparr>"
  have d: "distinct (map pr_no (pl_rows p))" and m: "list_all manual_row (pl_rows p)"
    using assms by (auto simp: work_list_def)
  have ok: "\<forall>r \<in> set (pl_rows p). pr_no r \<in> set ?ok \<longrightarrow> pr_action r \<noteq> Info"
    using find_row_unique [OF d] by (auto simp: approval_refusal_def split: option.splits if_splits)
  have "map pr_no (fold (\<lambda>n. set_row n ?f) ?ok (pl_rows p)) = map pr_no (pl_rows p)
    \<and> list_all manual_row (fold (\<lambda>n. set_row n ?f) ?ok (pl_rows p))"
    by (rule work_list_fold [OF _ _ m ok]) simp_all
  with d True show ?thesis by (simp add: work_list_def setApproval_def Let_def)
qed

lemma plan_of_work_list:
  assumes "plan_of rows p" "\<forall>r \<in> set rows. pr_action r = Manual \<or> pr_action r = Info"
  shows "work_list p"
  using assms(1)
proof induction
  case (built p)
  then show ?case using new_rows_distinct new_rows_manual [OF assms(2)] by (simp add: work_list_def)
next
  case (reviewed p)
  show ?case by (rule work_list_approval) (rule reviewed.IH)
qed

lemma work_list_runs_nothing: "work_list p \<Longrightarrow> to_run mx rowNos (pl_rows p) = []"
  by (auto simp: work_list_def to_run_def list_all_iff manual_row_def filter_empty_conv)

text \<open>A merge plan is a work list for a person: whatever rows are approved by whoever, executing
  the plan attempts nothing and calls nothing in Autotask (its world and every row stay as they were).\<close>

theorem merge_plan_writes_nothing:
  assumes "plan_of (buildMergeRows e survivor sources att reviewed firstNo) p"
  shows "case executePlan io mx rowNos p w of (rep, p', w') \<Rightarrow>
    w' = w \<and> rp_attempted rep = 0 \<and> rp_rows rep = [] \<and> pl_rows p' = pl_rows p"
proof -
  have "work_list p" using assms merge_rows_manual plan_of_work_list by blast
  then show ?thesis
    by (simp add: executePlan_def work_list_runs_nothing start_exec_def empty_report_def Let_def)
qed

definition ex_company :: "int \<Rightarrow> string \<Rightarrow> merge_record" where
  "ex_company i n = \<lparr>mr_id = i, mr_name = n, mr_isActive = True, mr_placeholder = None, mr_companyId = None,
     mr_companyName = None, mr_fields = [], mr_link = None\<rparr>"

definition ex_merge_plan :: plan where
  "ex_merge_plan = \<lparr>pl_id = 1, pl_kind = ''merge_company'', pl_hash = ''h'', pl_status = Open,
     pl_rows = map (\<lambda>(i, r). new_row i r) (enumerate 0 (buildMergeRows Company (ex_company 7 ''Acme'') [ex_company 3 ''Acme Inc''] [] False None))\<rparr>"

theorem merge_plan_writes_nothing_witness:
  "\<forall>io. snd (snd (executePlan io None [] (snd (setApproval ''h'' [1, 2] True None ex_merge_plan)) (5 :: nat))) = 5"
proof -
  have "plan_of (buildMergeRows Company (ex_company 7 ''Acme'') [ex_company 3 ''Acme Inc''] [] False None) ex_merge_plan"
    by (rule built) (simp add: ex_merge_plan_def)
  note run = merge_plan_writes_nothing [OF reviewed [OF this, of "''h''" "[1, 2]" True None],
    where mx = None and rowNos = "[]" and w = "5 :: nat"]
  show ?thesis
  proof
    fix io
    show "snd (snd (executePlan io None [] (snd (setApproval ''h'' [1, 2] True None ex_merge_plan)) (5 :: nat))) = 5"
      using run [of io] by (auto split: prod.splits)
  qed
qed

section \<open>Active contracts block a merge\<close>

lemma active_contract_blocker:
  assumes "r \<in> set refs" "rc_entity r = ''Contracts''" "rc_active r = Some n" "n > 0"
  shows "\<exists>b \<in> set (in_blockers (summarizeInventory i refs e)). has_substr b ''ACTIVE contract''"
proof -
  let ?b = "nat_to_str n @ '' ACTIVE contract(s) - billing review before merging (contract '' @ show_ids (take 5 (rc_ids r)) @ '')''"
  have "has_substr ?b ''ACTIVE contract''"
    unfolding includes_iff
    by (rule exI [of _ "nat_to_str n @ '' ''"], rule exI [of _ "''(s) - billing review before merging (contract '' @ show_ids (take 5 (rc_ids r)) @ '')''"]) simp
  moreover have "?b \<in> set (ref_blockers e r)" using assms by (simp add: ref_blockers_def)
  ultimately show ?thesis using assms(1) by (fastforce simp: summarizeInventory_def)
qed

end
