(* ===== verification/Bulk_Schedule.thy ===== *)
theory Bulk_Schedule
  imports Js_Values
begin

text \<open>
  Pacing of bulk jobs (\<open>src/src/bulk/schedule.ts\<close>): quiet hours, business hours, the rate right now,
  the weekly capacity, and the busy window suggested by an hourly profile.

  \<open>Intl.DateTimeFormat\<close> is the parameter \<open>zone\<close>: the parts (type, text) it formats an instant into for a
  time zone. Fields a request leaves unreadable are \<open>NaN\<close>; the database stores such a number as
  \<open>null\<close>, which the comparisons and \<open>Math.min\<close> then read as 0.
\<close>

type_synonym zone = "string \<Rightarrow> rat \<Rightarrow> (string \<times> string) list"

record quiet_window =
  qw_start :: int
  qw_end :: int
  qw_days :: "int list option"

record schedule =
  sc_tz :: string
  sc_days :: "rat list"
  sc_start :: rat
  sc_end :: rat
  sc_businessRate :: rat

definition DEFAULT_SCHEDULE :: schedule where
  "DEFAULT_SCHEDULE = \<lparr>sc_tz = ''America/New_York'', sc_days = [1, 2, 3, 4, 5], sc_start = 7, sc_end = 19, sc_businessRate = 1000\<rparr>"

definition DEFAULT_QUIET_HOURS :: "quiet_window list" where
  "DEFAULT_QUIET_HOURS = [\<lparr>qw_start = 0, qw_end = 4, qw_days = None\<rparr>, \<lparr>qw_start = 21, qw_end = 22, qw_days = None\<rparr>]"

section \<open>Parsing quiet hours\<close>

datatype quiet_error = BadWindow string | BadHours | BadDays | NotAWindow

text \<open>\<open>(\d{1,2})(?::00)?\<close> at the start of the text: the hour and what follows.\<close>

definition hour_here :: "string \<Rightarrow> (int \<times> string) option" where
  "hour_here s =
     (let d = takeWhile is_digit s; r = dropWhile is_digit s in
      if d = [] \<or> length d > 2 then None
      else Some (int (str_to_nat d), if starts_with r '':00'' then drop 3 r else r))"

text \<open>A dash or the UTF-8 bytes of an en dash.\<close>

definition dash_here :: "string \<Rightarrow> string option" where
  "dash_here s = (if starts_with s ''-'' then Some (tl s)
     else if starts_with s [CHR 0xE2, CHR 0x80, CHR 0x93] then Some (drop 3 s) else None)"

definition hour_range :: "string \<Rightarrow> (int \<times> int) option" where
  "hour_range s =
     (case hour_here s of
        None \<Rightarrow> None
      | Some (a, r) \<Rightarrow>
          (case dash_here (dropWhile js_space r) of
             None \<Rightarrow> None
           | Some r2 \<Rightarrow> (case hour_here (dropWhile js_space r2) of
               Some (b, []) \<Rightarrow> Some (a, b) | _ \<Rightarrow> None)))"

definition days_of :: "jsv \<Rightarrow> int option list option" where
  "days_of v = (case v of JArr ds \<Rightarrow> Some (map to_int ds) | _ \<Rightarrow> None)"

definition checked_window :: "int option \<Rightarrow> int option \<Rightarrow> int option list option \<Rightarrow> quiet_error + quiet_window" where
  "checked_window start end days =
     (case (start, end) of
        (Some a, Some b) \<Rightarrow>
          if a < 0 \<or> b > 24 \<or> a \<ge> b then Inl BadHours
          else (case days of
              None \<Rightarrow> Inr \<lparr>qw_start = a, qw_end = b, qw_days = None\<rparr>
            | Some ds \<Rightarrow>
                if list_ex (\<lambda>d. case d of None \<Rightarrow> True | Some i \<Rightarrow> i < 0 \<or> i > 6) ds then Inl BadDays
                else Inr \<lparr>qw_start = a, qw_end = b, qw_days = Some (map the ds)\<rparr>)
      | _ \<Rightarrow> Inl BadHours)"

definition quiet_item :: "jsv \<Rightarrow> quiet_error + quiet_window" where
  "quiet_item x =
     (case x of
        JStr s \<Rightarrow> (case hour_range s of None \<Rightarrow> Inl (BadWindow s) | Some (a, b) \<Rightarrow> checked_window (Some a) (Some b) None)
      | JUndef \<Rightarrow> Inl NotAWindow
      | JNull \<Rightarrow> Inl NotAWindow
      | _ \<Rightarrow> checked_window (to_int (get_member x ''start'')) (to_int (get_member x ''end'')) (days_of (get_member x ''days'')))"

fun map_ok :: "('a \<Rightarrow> 'e + 'b) \<Rightarrow> 'a list \<Rightarrow> 'e + 'b list" where
  "map_ok f [] = Inr []"
| "map_ok f (x # xs) = (case f x of Inl e \<Rightarrow> Inl e | Inr y \<Rightarrow>
     (case map_ok f xs of Inl e \<Rightarrow> Inl e | Inr ys \<Rightarrow> Inr (y # ys)))"

definition parseQuietHours :: "jsv \<Rightarrow> quiet_error + quiet_window list" where
  "parseQuietHours v =
     (if nullish v \<or> v = JStr [] then Inr DEFAULT_QUIET_HOURS
      else if v = JBool False \<or> (case v of JStr s \<Rightarrow> lower (js_trim s) \<in> set [''none'', ''off'', ''no''] | _ \<Rightarrow> False) then Inr []
      else map_ok quiet_item
        (case v of JArr xs \<Rightarrow> xs
         | _ \<Rightarrow> map JStr (filter (\<lambda>s. s \<noteq> []) (map js_trim (split_on (\<lambda>c. c \<in> set '',;'') (to_str v))))))"

definition quietOf :: "quiet_window list option \<Rightarrow> quiet_window list" where
  "quietOf q = (case q of Some ws \<Rightarrow> ws | None \<Rightarrow> DEFAULT_QUIET_HOURS)"

section \<open>Where an instant falls\<close>

definition week_days :: "string list" where
  "week_days = [''Sun'', ''Mon'', ''Tue'', ''Wed'', ''Thu'', ''Fri'', ''Sat'']"

definition index_of :: "'a \<Rightarrow> 'a list \<Rightarrow> int" where
  "index_of x xs = (if x \<in> set xs then int (length (takeWhile (\<lambda>y. y \<noteq> x) xs)) else -1)"

definition localDayHour :: "zone \<Rightarrow> rat \<Rightarrow> string \<Rightarrow> int \<times> int" where
  "localDayHour zone t tz =
     (let parts = zone tz t;
          wd = (case map_of parts ''weekday'' of Some s \<Rightarrow> s | None \<Rightarrow> ''Sun'');
          h = (case map_of parts ''hour'' of Some s \<Rightarrow> (case to_int (JStr s) of Some i \<Rightarrow> i | None \<Rightarrow> 0) | None \<Rightarrow> 0)
      in (index_of wd week_days, h mod 24))"

definition window_covers :: "int \<Rightarrow> int \<Rightarrow> quiet_window \<Rightarrow> bool" where
  "window_covers day hour w \<longleftrightarrow> qw_start w \<le> hour \<and> hour < qw_end w
     \<and> (case qw_days w of None \<Rightarrow> True | Some ds \<Rightarrow> day \<in> set ds)"

definition quietWindowAt :: "zone \<Rightarrow> rat \<Rightarrow> quiet_window list \<Rightarrow> string \<Rightarrow> quiet_window option" where
  "quietWindowAt zone t quiet tz =
     (if quiet = [] then None
      else (case localDayHour zone t tz of (day, hour) \<Rightarrow> find (window_covers day hour) quiet))"

definition business_hour :: "schedule \<Rightarrow> int \<Rightarrow> int \<Rightarrow> bool" where
  "business_hour s day hour \<longleftrightarrow> of_int day \<in> set (sc_days s) \<and> sc_start s \<le> of_int hour \<and> of_int hour < sc_end s"

definition inBusinessHours :: "zone \<Rightarrow> rat \<Rightarrow> schedule \<Rightarrow> bool" where
  "inBusinessHours zone t s = (case localDayHour zone t (sc_tz s) of (day, hour) \<Rightarrow> business_hour s day hour)"

definition currentRate :: "zone \<Rightarrow> rat \<Rightarrow> rat \<Rightarrow> schedule option \<Rightarrow> rat \<times> bool" where
  "currentRate zone t offHoursRate s =
     (case s of
        None \<Rightarrow> (offHoursRate, False)
      | Some sc \<Rightarrow> (let business = inBusinessHours zone t sc in
          (if business then min (sc_businessRate sc) offHoursRate else offHoursRate, business)))"

section \<open>A week's capacity\<close>

definition hour_capacity :: "rat \<Rightarrow> schedule option \<Rightarrow> quiet_window list \<Rightarrow> int \<Rightarrow> int \<Rightarrow> rat" where
  "hour_capacity offHoursRate s quiet day hour =
     (if list_ex (window_covers day hour) quiet then 0
      else (case s of
          Some sc \<Rightarrow> if business_hour sc day hour then min (sc_businessRate sc) offHoursRate else offHoursRate
        | None \<Rightarrow> offHoursRate))"

definition weeklyCapacity :: "rat \<Rightarrow> schedule option \<Rightarrow> quiet_window list \<Rightarrow> rat" where
  "weeklyCapacity offHoursRate s quiet =
     sum_list (map (\<lambda>(day, hour). hour_capacity offHoursRate s quiet day hour) (List.product [0..6] [0..23]))"

section \<open>The busy window of a profile\<close>

record run =
  rn_start :: nat
  rn_len :: nat

text \<open>The longest run of hours at or above 35% of the peak: \<open>best\<close> changes only for a longer run.\<close>

fun scan_runs :: "(nat \<Rightarrow> bool) \<Rightarrow> nat list \<Rightarrow> run \<Rightarrow> run \<Rightarrow> run" where
  "scan_runs busy [] best cur = best"
| "scan_runs busy (i # is) best cur =
     (if busy i
      then (let c = (if rn_len cur > 0 then cur\<lparr>rn_len := rn_len cur + 1\<rparr> else \<lparr>rn_start = i, rn_len = 1\<rparr>)
            in scan_runs busy is (if rn_len c > rn_len best then c else best) c)
      else scan_runs busy is best \<lparr>rn_start = 0, rn_len = 0\<rparr>)"

definition peak_of :: "rat list \<Rightarrow> rat" where
  "peak_of v = fold max v 0"

definition busy_hour :: "rat list \<Rightarrow> nat \<Rightarrow> bool" where
  "busy_hour v i \<longleftrightarrow> i < length v \<and> v ! i \<ge> peak_of v * (35 / 100)"

definition suggestWindow :: "rat option list \<Rightarrow> (int list \<times> nat \<times> nat) option" where
  "suggestWindow perHour =
     (let v = map (\<lambda>x. case x of Some r \<Rightarrow> r | None \<Rightarrow> 0) perHour in
      if peak_of v \<le> 0 then None
      else (let best = scan_runs (busy_hour v) [0..<24] \<lparr>rn_start = 0, rn_len = 0\<rparr> \<lparr>rn_start = 0, rn_len = 0\<rparr> in
        if rn_len best = 0 \<or> rn_len best \<ge> 20 then None
        else Some ([1, 2, 3, 4, 5], rn_start best, rn_start best + rn_len best)))"

section \<open>An hourly profile of the traffic\<close>

record traffic =
  tr_hour :: rat
  tr_upstream :: rat
  tr_byTools :: "rat option"

text \<open>One bucket of a profile: average per hour of the day, rounded half up, \<^const>\<open>None\<close> without data.\<close>

definition weekend_day :: "int \<Rightarrow> bool" where
  "weekend_day d \<longleftrightarrow> d = 0 \<or> d = 6"

definition bucket :: "zone \<Rightarrow> string \<Rightarrow> traffic list \<Rightarrow> bool \<Rightarrow> nat \<Rightarrow> rat list" where
  "bucket zone tz hourly weekend h =
     map (\<lambda>t. case tr_byTools t of Some n \<Rightarrow> n | None \<Rightarrow> tr_upstream t)
       (filter (\<lambda>t. case localDayHour zone (tr_hour t * 3600000) tz of
          (day, hour) \<Rightarrow> weekend_day day = weekend \<and> hour = int h) hourly)"

definition avg_per_hour :: "zone \<Rightarrow> string \<Rightarrow> traffic list \<Rightarrow> bool \<Rightarrow> rat option list" where
  "avg_per_hour zone tz hourly weekend =
     map (\<lambda>h. case bucket zone tz hourly weekend h of
        [] \<Rightarrow> None
      | xs \<Rightarrow> Some (of_int (round_half_up (sum_list xs / of_nat (length xs))))) [0..<24]"

definition activityProfile :: "zone \<Rightarrow> traffic list \<Rightarrow> string \<Rightarrow> nat \<times> rat option list \<times> rat option list \<times> (int list \<times> nat \<times> nat) option" where
  "activityProfile zone hourly tz =
     (let wd = avg_per_hour zone tz hourly False in
      (length hourly, wd, avg_per_hour zone tz hourly True,
       if length hourly \<ge> 72 then suggestWindow wd else None))"

end
