(* ===== verification/Bulk_Jobs.thy ===== *)
theory Bulk_Jobs
  imports Bulk_Schedule Merge_Model
begin

text \<open>
  Bulk jobs: mass changes staged in Postgres and pushed to Autotask one write at a time
  (\<open>src/src/bulk/store.ts\<close>, \<open>worker.ts\<close>, \<open>service.ts\<close>, \<open>patient.ts\<close>).

  The two tables are a list of job records in creation order, each with its items in \<open>seq\<close> order; one
  store function is one SQL statement. A tick of the worker is split at its one long wait, the write:
  \<open>tick_begin\<close> up to the call, \<open>tick_settle\<close> with its answer, so that other requests can run in
  between. Instants are milliseconds; \<open>sha\<close> is SHA-256 in hex. Notifications, logging and database
  failures are not modelled. \<open>rate_per_hour\<close> is kept as given (the column is an integer).
\<close>

section \<open>Jobs and items\<close>

datatype job_status = JPreparing | JReady | JApproved | JRunning | JPaused | JDone | JCancelled | JFailed
datatype item_status = IPending | IDone | ISkipped | IFailed | IExcluded
datatype bulk_entity = Companies | Contacts

fun bulk_entity_name :: "bulk_entity \<Rightarrow> string" where
  "bulk_entity_name Companies = ''Companies''" | "bulk_entity_name Contacts = ''Contacts''"

record bulk_item =
  bi_seq :: nat
  bi_entity :: bulk_entity
  bi_recordId :: int
  bi_parentId :: "int option"
  bi_status :: item_status
  bi_reason :: "string option"
  bi_attempts :: nat
  bi_error :: "string option"
  bi_doneAt :: "rat option"

datatype pause_reason = CanaryReached rat | LoginProblem | FailureStreak nat | PausedBy string | CancelledBy string

text \<open>The keys of \<open>stats\<close> the worker and the job list read; the preparation's own counters are left out.\<close>

record job_stats =
  js_canaryDone :: bool
  js_processed :: nat
  js_archivedBy :: "string option option"

record job_params =
  jp_schedule :: "schedule option"
  jp_quietHours :: "quiet_window list option"

record bulk_job =
  bj_id :: nat
  bj_kind :: string
  bj_params :: job_params
  bj_status :: job_status
  bj_hash :: "string option"
  bj_ratePerHour :: rat
  bj_canarySize :: rat
  bj_pauseReason :: "pause_reason option"
  bj_lastError :: "(rat option \<times> string) option"
  bj_stats :: job_stats
  bj_approvedBy :: "string option"
  bj_startedAt :: "rat option"
  bj_finishedAt :: "rat option"
  bj_items :: "bulk_item list"

definition fresh_stats :: job_stats where
  "fresh_stats = \<lparr>js_canaryDone = False, js_processed = 0, js_archivedBy = None\<rparr>"

section \<open>The approval hash\<close>

text \<open>The line of each pending item; excluded items are not part of the hash. The only action is \<open>inactivate\<close>.\<close>

definition item_line :: "bulk_entity \<Rightarrow> int \<Rightarrow> string" where
  "item_line e i = bulk_entity_name e @ '':'' @ int_to_str i @ '':inactivate''"

definition itemsHash :: "(string \<Rightarrow> string) \<Rightarrow> string \<Rightarrow> (bulk_entity \<times> int \<times> bool) list \<Rightarrow> string" where
  "itemsHash sha kind keys =
     take 16 (sha (kind @ [CHR 0x0A] @ join_with [CHR 0x0A]
       (map (\<lambda>(e, i, _). item_line e i) (filter (\<lambda>(_, _, excluded). \<not> excluded) keys))))"

definition allItemKeys :: "bulk_item list \<Rightarrow> (bulk_entity \<times> int \<times> bool) list" where
  "allItemKeys items = map (\<lambda>i. (bi_entity i, bi_recordId i, bi_status i = IExcluded)) items"

section \<open>The store\<close>

record item_input =
  ii_entity :: bulk_entity
  ii_recordId :: int
  ii_parentId :: "int option"
  ii_excluded :: bool
  ii_reason :: "string option"

definition item_of :: "nat \<Rightarrow> item_input \<Rightarrow> bulk_item" where
  "item_of s x = \<lparr>bi_seq = s, bi_entity = ii_entity x, bi_recordId = ii_recordId x, bi_parentId = ii_parentId x,
     bi_status = (if ii_excluded x then IExcluded else IPending), bi_reason = ii_reason x, bi_attempts = 0,
     bi_error = None, bi_doneAt = None\<rparr>"

definition input_keys :: "item_input list \<Rightarrow> (bulk_entity \<times> int \<times> bool) list" where
  "input_keys xs = map (\<lambda>x. (ii_entity x, ii_recordId x, ii_excluded x)) xs"

type_synonym store = "bulk_job list"

definition on_job :: "nat \<Rightarrow> (bulk_job \<Rightarrow> bulk_job) \<Rightarrow> store \<Rightarrow> store" where
  "on_job jid f js = map (\<lambda>j. if bj_id j = jid then f j else j) js"

definition create_job :: "nat \<Rightarrow> string \<Rightarrow> job_params \<Rightarrow> rat \<Rightarrow> rat \<Rightarrow> store \<Rightarrow> store" where
  "create_job jid kind params rate canary js =
     js @ [\<lparr>bj_id = jid, bj_kind = kind, bj_params = params, bj_status = JPreparing, bj_hash = None, bj_ratePerHour = rate,
       bj_canarySize = canary, bj_pauseReason = None, bj_lastError = None, bj_stats = fresh_stats, bj_approvedBy = None,
       bj_startedAt = None, bj_finishedAt = None, bj_items = []\<rparr>]"

definition get_job :: "nat \<Rightarrow> store \<Rightarrow> bulk_job option" where
  "get_job jid js = find (\<lambda>j. bj_id j = jid) js"

definition running :: "store \<Rightarrow> bulk_job list" where
  "running js = filter (\<lambda>j. bj_status j = JRunning) js"

definition fill :: "nat \<Rightarrow> item_input list \<Rightarrow> string \<Rightarrow> store \<Rightarrow> store" where
  "fill jid items hash = on_job jid (\<lambda>j. j\<lparr>bj_items := map (\<lambda>(i, x). item_of (i + 1) x) (enumerate 0 items),
     bj_status := JReady, bj_hash := Some hash, bj_stats := fresh_stats, bj_lastError := None\<rparr>)"

text \<open>\<open>extra\<close> of \<open>setStatus\<close>: \<^const>\<open>None\<close> is an absent key, \<open>Some None\<close> an explicit \<open>null\<close>.\<close>

record status_extra =
  ex_pauseReason :: "pause_reason option option"
  ex_lastError :: "(rat option \<times> string) option option"
  ex_approvedBy :: "string option"
  ex_started :: bool
  ex_finished :: bool
  ex_canaryDone :: bool
  ex_processed :: "nat option"

definition no_extra :: status_extra where
  "no_extra = \<lparr>ex_pauseReason = None, ex_lastError = None, ex_approvedBy = None, ex_started = False, ex_finished = False,
     ex_canaryDone = False, ex_processed = None\<rparr>"

definition with_stats_extra :: "status_extra \<Rightarrow> job_stats \<Rightarrow> job_stats" where
  "with_stats_extra x s = s\<lparr>js_canaryDone := js_canaryDone s \<or> ex_canaryDone x,
     js_processed := (case ex_processed x of Some n \<Rightarrow> n | None \<Rightarrow> js_processed s)\<rparr>"

definition setStatus :: "rat \<Rightarrow> nat \<Rightarrow> job_status \<Rightarrow> status_extra \<Rightarrow> store \<Rightarrow> store" where
  "setStatus now jid st x = on_job jid (\<lambda>j. j\<lparr>bj_status := st,
     bj_pauseReason := (case ex_pauseReason x of Some v \<Rightarrow> v | None \<Rightarrow> bj_pauseReason j),
     bj_lastError := (case ex_lastError x of Some v \<Rightarrow> v | None \<Rightarrow> bj_lastError j),
     bj_approvedBy := (case ex_approvedBy x of Some b \<Rightarrow> Some b | None \<Rightarrow> bj_approvedBy j),
     bj_startedAt := (if ex_started x \<and> bj_startedAt j = None then Some now else bj_startedAt j),
     bj_finishedAt := (if ex_finished x then Some now else bj_finishedAt j),
     bj_stats := with_stats_extra x (bj_stats j)\<rparr>)"

definition setArchived :: "nat \<Rightarrow> bool \<Rightarrow> string option \<Rightarrow> store \<Rightarrow> store" where
  "setArchived jid on by = on_job jid (\<lambda>j. j\<lparr>bj_stats := (bj_stats j)\<lparr>js_archivedBy := (if on then Some by else None)\<rparr>\<rparr>)"

definition next_item :: "bulk_job \<Rightarrow> bulk_item option" where
  "next_item j = find (\<lambda>i. bi_status i = IPending) (bj_items j)"

definition on_item :: "nat \<Rightarrow> nat \<Rightarrow> (bulk_item \<Rightarrow> bulk_item) \<Rightarrow> store \<Rightarrow> store" where
  "on_item jid s f = on_job jid (\<lambda>j. j\<lparr>bj_items := map (\<lambda>i. if bi_seq i = s then f i else i) (bj_items j)\<rparr>)"

definition markItem :: "rat \<Rightarrow> nat \<Rightarrow> nat \<Rightarrow> item_status \<Rightarrow> string option \<Rightarrow> string option \<Rightarrow> store \<Rightarrow> store" where
  "markItem now jid s st err reason = on_item jid s (\<lambda>i. i\<lparr>bi_status := st, bi_attempts := bi_attempts i + 1, bi_error := err,
     bi_reason := (case reason of Some r \<Rightarrow> Some r | None \<Rightarrow> bi_reason i),
     bi_doneAt := (if st = IDone \<or> st = ISkipped then Some now else bi_doneAt i)\<rparr>)"

definition retryLater :: "nat \<Rightarrow> nat \<Rightarrow> string \<Rightarrow> store \<Rightarrow> store" where
  "retryLater jid s err = on_item jid s (\<lambda>i. i\<lparr>bi_attempts := bi_attempts i + 1, bi_error := Some err\<rparr>)"

definition failed_count :: "bulk_job \<Rightarrow> nat" where
  "failed_count j = length (filter (\<lambda>i. bi_status i = IFailed) (bj_items j))"

definition requeueFailed :: "nat \<Rightarrow> store \<Rightarrow> store" where
  "requeueFailed jid = on_job jid (\<lambda>j. j\<lparr>bj_items := map (\<lambda>i. if bi_status i = IFailed
     then i\<lparr>bi_status := IPending, bi_error := None, bi_attempts := 0\<rparr> else i) (bj_items j)\<rparr>)"

definition item_count :: "item_status \<Rightarrow> bulk_job \<Rightarrow> nat" where
  "item_count st j = length (filter (\<lambda>i. bi_status i = st) (bj_items j))"

definition doneSince :: "rat \<Rightarrow> bulk_job \<Rightarrow> nat" where
  "doneSince since j = length (filter (\<lambda>i. (bi_status i = IDone \<or> bi_status i = ISkipped)
     \<and> (case bi_doneAt i of Some t \<Rightarrow> t \<ge> since | None \<Rightarrow> False)) (bj_items j))"

section \<open>One item, one write, classified\<close>

record call_error =
  ce_status :: "nat option"
  ce_message :: string

datatype bulk_write = InactivateContact int int | InactivateCompany int

datatype outcome_status = ODone | OSkipped | OFailed | ORetry | OWait | OPause

record item_outcome =
  oc_status :: outcome_status
  oc_error :: "string option"
  oc_reason :: "string option"

definition MAX_ATTEMPTS :: nat where "MAX_ATTEMPTS = 3"
definition PAUSE_AFTER_FAILURES :: nat where "PAUSE_AFTER_FAILURES = 20"
definition WAIT_AFTER_THROTTLE_MS :: rat where "WAIT_AFTER_THROTTLE_MS = 60000"
definition USAGE_REFRESH_MS :: rat where "USAGE_REFRESH_MS = 60000"

text \<open>\<open>/HTTP (\d{3})/\<close>: the first match in the message.\<close>

fun http_code :: "string \<Rightarrow> nat option" where
  "http_code [] = None"
| "http_code (c # cs) =
     (let d = take 3 (drop 5 (c # cs)) in
      if starts_with (c # cs) ''HTTP '' \<and> length d = 3 \<and> list_all is_digit d then Some (str_to_nat d) else http_code cs)"

definition statusOf :: "call_error \<Rightarrow> nat option" where
  "statusOf e = (case ce_status e of Some s \<Rightarrow> Some s | None \<Rightarrow> http_code (ce_message e))"

text \<open>\<open>/auth.*(paused|held)|login/i\<close> on one line of text.\<close>

fun after_word :: "string \<Rightarrow> string \<Rightarrow> string option" where
  "after_word w [] = (if w = [] then Some [] else None)"
| "after_word w (c # cs) = (if starts_with (c # cs) w then Some (drop (length w) (c # cs)) else after_word w cs)"

definition login_trouble :: "string \<Rightarrow> bool" where
  "login_trouble msg \<longleftrightarrow> list_ex (\<lambda>l. has_substr l ''login'' \<or>
     (case after_word ''auth'' l of Some r \<Rightarrow> has_substr r ''paused'' \<or> has_substr r ''held'' | None \<Rightarrow> False))
     (split_on (\<lambda>c. c = CHR 0x0A \<or> c = CHR 0x0D) (lower msg))"

definition throttled_text :: "string \<Rightarrow> bool" where
  "throttled_text msg \<longleftrightarrow> has_word False msg ''429'' \<or> has_substr (lower msg) ''threshold exceeded'' \<or> has_substr (lower msg) ''cooldown''"

definition outcome :: "outcome_status \<Rightarrow> string option \<Rightarrow> string option \<Rightarrow> item_outcome" where
  "outcome st err reason = \<lparr>oc_status = st, oc_error = err, oc_reason = reason\<rparr>"

definition write_of :: "bulk_item \<Rightarrow> bulk_write option" where
  "write_of i =
     (case bi_entity i of
        Contacts \<Rightarrow> map_option (InactivateContact (bi_recordId i)) (bi_parentId i)
      | Companies \<Rightarrow> Some (InactivateCompany (bi_recordId i)))"

definition call_failed :: "bulk_item \<Rightarrow> call_error \<Rightarrow> item_outcome" where
  "call_failed i e =
     (let msg = take 300 (ce_message e); st = statusOf e;
          tried = (if bi_attempts i + 1 \<ge> MAX_ATTEMPTS then outcome OFailed (Some msg) None else outcome ORetry (Some msg) None)
      in if st = Some 401 \<or> login_trouble msg
         then outcome OPause (Some msg) (Some ''Autotask login problem - check Settings, Autotask login, then resume'')
         else if st = Some 404 then outcome OSkipped None (Some ''not found in Autotask (deleted or merged already)'')
         else if has_substr (lower msg) ''protected'' \<or> has_substr (lower msg) ''refusing'' then outcome OFailed (Some msg) None
         else if st = Some 429 \<or> throttled_text msg then outcome OWait (Some msg) None
         else tried)"

text \<open>\<open>answer\<close> is what the write answers; it is not asked for when there is nothing to call.\<close>

definition applyItem :: "bulk_item \<Rightarrow> call_error + unit \<Rightarrow> item_outcome" where
  "applyItem i answer =
     (case write_of i of
        None \<Rightarrow> outcome OFailed (Some ''no company id for the contact (the child route needs it)'') None
      | Some _ \<Rightarrow> (case answer of Inr _ \<Rightarrow> outcome ODone None None | Inl e \<Rightarrow> call_failed i e))"

section \<open>The worker\<close>

datatype level = LevelOk | LevelSlow | LevelStop

text \<open>The error with when it happened; the time prefix takes 23 of the 500 characters kept.\<close>

definition stamp :: "rat \<Rightarrow> string option \<Rightarrow> (rat option \<times> string) option" where
  "stamp now msg = (case msg of Some m \<Rightarrow> if m = [] then None else Some (Some now, take 477 m) | None \<Rightarrow> None)"

definition writeGapMs :: "rat \<Rightarrow> level \<Rightarrow> rat option" where
  "writeGapMs ratePerHour l =
     (let gap = 3600000 / max 1 ratePerHour in
      case l of LevelStop \<Rightarrow> None | LevelSlow \<Rightarrow> Some (gap * 2) | LevelOk \<Rightarrow> Some gap)"

record worker =
  wk_lastWrite :: "(nat \<times> rat) list"
  wk_failStreak :: "(nat \<times> nat) list"
  wk_busy :: bool
  wk_lastUsageRefresh :: rat

definition new_worker :: worker where
  "new_worker = \<lparr>wk_lastWrite = [], wk_failStreak = [], wk_busy = False, wk_lastUsageRefresh = 0\<rparr>"

datatype tick_result = Busy | Idle | QuietHours | BackpressureStop | Pacing | CanaryPause | AllDone | Writing bulk_job bulk_item

definition last_write :: "worker \<Rightarrow> nat \<Rightarrow> rat" where
  "last_write wk jid = (case map_of (wk_lastWrite wk) jid of Some t \<Rightarrow> t | None \<Rightarrow> 0)"

definition refreshed :: "bool \<Rightarrow> rat \<Rightarrow> worker \<Rightarrow> worker" where
  "refreshed canRefresh now wk =
     (if canRefresh \<and> now - wk_lastUsageRefresh wk \<ge> USAGE_REFRESH_MS then wk\<lparr>wk_lastUsageRefresh := now\<rparr> else wk)"

definition job_tz :: "bulk_job \<Rightarrow> string" where
  "job_tz j = sc_tz (case jp_schedule (bj_params j) of Some s \<Rightarrow> s | None \<Rightarrow> DEFAULT_SCHEDULE)"

definition tick_begin :: "zone \<Rightarrow> bool \<Rightarrow> rat \<Rightarrow> level \<Rightarrow> store \<Rightarrow> worker \<Rightarrow> tick_result \<times> store \<times> worker" where
  "tick_begin zone canRefresh now lvl js wk =
     (if wk_busy wk then (Busy, js, wk)
      else (case running js of
          [] \<Rightarrow> (Idle, js, wk)
        | j # _ \<Rightarrow>
            if quietWindowAt zone now (quietOf (jp_quietHours (bj_params j))) (job_tz j) \<noteq> None then (QuietHours, js, wk)
            else (let wk1 = refreshed canRefresh now wk;
                      rate = fst (currentRate zone now (bj_ratePerHour j) (jp_schedule (bj_params j))) in
              case writeGapMs rate lvl of
                None \<Rightarrow> (BackpressureStop, js, wk1)
              | Some gap \<Rightarrow>
                  if now - last_write wk1 (bj_id j) < gap then (Pacing, js, wk1)
                  else if \<not> js_canaryDone (bj_stats j) \<and> of_nat (js_processed (bj_stats j)) \<ge> bj_canarySize j
                  then (CanaryPause, setStatus now (bj_id j) JPaused
                          (no_extra\<lparr>ex_pauseReason := Some (Some (CanaryReached (bj_canarySize j))), ex_canaryDone := True\<rparr>) js, wk1)
                  else (case next_item j of
                      None \<Rightarrow> (AllDone, setStatus now (bj_id j) JDone
                          (no_extra\<lparr>ex_finished := True, ex_pauseReason := Some None\<rparr>) js, wk1)
                    | Some i \<Rightarrow> (Writing j i, js, wk1\<lparr>wk_busy := True,
                          wk_lastWrite := upsert (wk_lastWrite wk1) (bj_id j) now\<rparr>)))))"

definition streak_of :: "worker \<Rightarrow> nat \<Rightarrow> nat" where
  "streak_of wk jid = (case map_of (wk_failStreak wk) jid of Some n \<Rightarrow> n | None \<Rightarrow> 0)"

fun item_status_of :: "outcome_status \<Rightarrow> item_status" where
  "item_status_of ODone = IDone" | "item_status_of OSkipped = ISkipped" | "item_status_of _ = IFailed"

definition error_text :: "item_outcome \<Rightarrow> string" where
  "error_text oc = (case oc_error oc of Some m \<Rightarrow> m | None \<Rightarrow> [])"

text \<open>\<open>record\<close>: \<open>j\<close> is the job as read when the tick began. The result is the outcome, or a pause.\<close>

definition record_outcome :: "rat \<Rightarrow> bulk_job \<Rightarrow> bulk_item \<Rightarrow> item_outcome \<Rightarrow> store \<Rightarrow> worker \<Rightarrow> outcome_status \<times> store \<times> worker" where
  "record_outcome now j i oc js wk =
     (let jid = bj_id j; s = bi_seq i in
      case oc_status oc of
        OPause \<Rightarrow>
          (OPause, setStatus now jid JPaused (no_extra\<lparr>ex_pauseReason := Some (Some LoginProblem),
              ex_lastError := Some (stamp now (oc_error oc))\<rparr>) (retryLater jid s (error_text oc) js), wk)
      | OWait \<Rightarrow>
          (OWait, setStatus now jid JRunning (no_extra\<lparr>ex_lastError := Some (stamp now
              (Some (''waiting out Autotask throttling (HTTP 429) - the record is fine and stays queued: '' @ error_text oc)))\<rparr>) js,
           wk\<lparr>wk_lastWrite := upsert (wk_lastWrite wk) jid (now + WAIT_AFTER_THROTTLE_MS)\<rparr>)
      | _ \<Rightarrow>
          (let js1 = (if oc_status oc = ORetry then retryLater jid s (error_text oc) js
                      else markItem now jid s (item_status_of (oc_status oc)) (oc_error oc) (oc_reason oc) js);
               streak = (if oc_status oc = ODone \<or> oc_status oc = OSkipped then 0 else streak_of wk jid + 1);
               processed = js_processed (bj_stats j) + (if oc_status oc = ORetry then 0 else 1);
               lastErr = (if error_text oc \<noteq> [] then Some (stamp now (oc_error oc))
                          else if oc_status oc = ODone \<and> bj_lastError j \<noteq> None then Some None else None);
               js2 = setStatus now jid JRunning (no_extra\<lparr>ex_processed := Some processed, ex_lastError := lastErr\<rparr>) js1
           in if streak \<ge> PAUSE_AFTER_FAILURES
              then (OPause, setStatus now jid JPaused (no_extra\<lparr>ex_pauseReason := Some (Some (FailureStreak streak))\<rparr>) js2,
                    wk\<lparr>wk_failStreak := upsert (wk_failStreak wk) jid 0\<rparr>)
              else (oc_status oc, js2, wk\<lparr>wk_failStreak := upsert (wk_failStreak wk) jid streak\<rparr>)))"

definition tick_settle :: "rat \<Rightarrow> bulk_job \<Rightarrow> bulk_item \<Rightarrow> call_error + unit \<Rightarrow> store \<Rightarrow> worker \<Rightarrow> outcome_status \<times> store \<times> worker" where
  "tick_settle now j i answer js wk =
     (case record_outcome now j i (applyItem i answer) js wk of (r, js', wk') \<Rightarrow> (r, js', wk'\<lparr>wk_busy := False\<rparr>))"

text \<open>At start-up a preparation a restart cut off is marked failed; running jobs simply continue.\<close>

definition interrupt_preparations :: "rat \<Rightarrow> store \<Rightarrow> store" where
  "interrupt_preparations now js = map (\<lambda>j. if bj_status j = JPreparing
     then j\<lparr>bj_status := JFailed, bj_lastError := Some (None, ''interrupted by a server restart - prepare it again''),
            bj_finishedAt := Some now\<rparr> else j) js"

end
