(* ===== verification/Bulk_Service.thy ===== *)
theory Bulk_Service
  imports Bulk_Jobs
begin

text \<open>
  Requests on bulk jobs (\<open>src/src/bulk/service.ts\<close>): what a preparation accepts, the state changes a
  person makes, and the job as shown; and the preparation's reads, which wait out throttling
  (\<open>src/src/bulk/patient.ts\<close>). The selection itself (\<open>prepare.ts\<close>, \<open>prepare-contacts.ts\<close>) is not part
  of this theory: \<^const>\<open>fill\<close> takes its items.
\<close>

section \<open>What a preparation accepts\<close>

text \<open>A schedule as requested: \<^const>\<open>None\<close> is \<open>NaN\<close>.\<close>

record schedule_request =
  sr_tz :: string
  sr_days :: "rat option list"
  sr_start :: "rat option"
  sr_end :: "rat option"
  sr_businessRate :: "rat option"

definition number_or :: "jsv \<Rightarrow> rat \<Rightarrow> rat option" where
  "number_or v d = (if nullish v then Some d else to_num v)"

definition scheduleOf :: "fields \<Rightarrow> schedule_request option" where
  "scheduleOf r =
     (if get_prop r ''businessHours'' = JBool False then None
      else (let b = (case get_prop r ''businessHours'' of JObj m \<Rightarrow> m | _ \<Rightarrow> []) in
        Some \<lparr>sr_tz = to_str (coalesce (get_prop b ''tz'') (JStr (sc_tz DEFAULT_SCHEDULE))),
          sr_days = (case get_prop b ''days'' of JArr ds \<Rightarrow> map to_num ds | _ \<Rightarrow> map Some (sc_days DEFAULT_SCHEDULE)),
          sr_start = number_or (get_prop b ''start'') (sc_start DEFAULT_SCHEDULE),
          sr_end = number_or (get_prop b ''end'') (sc_end DEFAULT_SCHEDULE),
          sr_businessRate = number_or (coalesce (get_prop b ''businessRate'') (get_prop r ''businessRate''))
            (sc_businessRate DEFAULT_SCHEDULE)\<rparr>))"

text \<open>Comparisons with \<open>NaN\<close> are false.\<close>

definition bad_hours :: "schedule_request \<Rightarrow> bool" where
  "bad_hours s \<longleftrightarrow> (case sr_start s of Some a \<Rightarrow> a < 0 | None \<Rightarrow> False) \<or> (case sr_end s of Some b \<Rightarrow> b > 24 | None \<Rightarrow> False)
     \<or> (case (sr_start s, sr_end s) of (Some a, Some b) \<Rightarrow> a \<ge> b | _ \<Rightarrow> False)"

text \<open>As read back from the database: a \<open>NaN\<close> became \<open>null\<close>, which counts as 0 and is no weekday.\<close>

definition stored_number :: "rat option \<Rightarrow> rat" where
  "stored_number v = (case v of Some x \<Rightarrow> x | None \<Rightarrow> 0)"

definition stored_schedule :: "schedule_request \<Rightarrow> schedule" where
  "stored_schedule s = \<lparr>sc_tz = sr_tz s, sc_days = List.map_filter (\<lambda>d. d) (sr_days s), sc_start = stored_number (sr_start s),
     sc_end = stored_number (sr_end s), sc_businessRate = stored_number (sr_businessRate s)\<rparr>"

definition MAX_RATE :: rat where "MAX_RATE = 6000"

text \<open>\<open>Number(v) || d\<close>\<close>

definition number_or_default :: "jsv \<Rightarrow> rat \<Rightarrow> rat" where
  "number_or_default v d = (case to_num v of Some x \<Rightarrow> if x = 0 then d else x | None \<Rightarrow> d)"

definition clamp :: "rat \<Rightarrow> rat \<Rightarrow> rat \<Rightarrow> rat" where
  "clamp lo hi x = min (max x lo) hi"

definition list_values :: "jsv \<Rightarrow> jsv list" where
  "list_values v = (case v of
     JArr xs \<Rightarrow> xs
   | JStr s \<Rightarrow> map JStr (filter (\<lambda>w. w \<noteq> []) (split_on (\<lambda>c. js_space c \<or> c \<in> set '',;'') s))
   | _ \<Rightarrow> [])"

definition email_list :: "jsv \<Rightarrow> string list" where
  "email_list v = filter (\<lambda>e. CHR ''@'' \<in> set e) (map (\<lambda>x. js_trim (to_str x)) (list_values v))"

datatype prepare_error = NoCompanyName | NotAPlaceholder string | BadBusinessHours | BadQuietHours quiet_error
  | BadCompanyId | BadContactIds

record job_spec =
  sp_kind :: string
  sp_title :: string
  sp_selector :: fields
  sp_includeContacts :: bool
  sp_schedule :: "schedule option"
  sp_quietHours :: "quiet_window list"
  sp_ratePerHour :: rat
  sp_canarySize :: rat

text \<open>What both preparations check and keep in the same way.\<close>

definition pacing_of :: "fields \<Rightarrow> rat \<Rightarrow> prepare_error + (schedule option \<times> quiet_window list \<times> rat \<times> rat)" where
  "pacing_of r canary =
     (if (case scheduleOf r of Some s \<Rightarrow> bad_hours s | None \<Rightarrow> False) then Inl BadBusinessHours
      else (case parseQuietHours (get_prop r ''quietHours'') of
          Inl e \<Rightarrow> Inl (BadQuietHours e)
        | Inr q \<Rightarrow> Inr (map_option stored_schedule (scheduleOf r), q,
            clamp 60 MAX_RATE (number_or_default (get_prop r ''ratePerHour'') 3000),
            clamp 1 1000 (number_or_default (get_prop r ''canary'') canary))))"

definition strs :: "string list \<Rightarrow> jsv" where
  "strs xs = JArr (map JStr xs)"

definition if_set :: "fields \<Rightarrow> string \<Rightarrow> fields" where
  "if_set r k = (if truthy (get_prop r k) then [(k, JStr (to_str (get_prop r k)))] else [])"

definition json_num :: "rat option \<Rightarrow> jsv" where
  "json_num v = (case v of Some x \<Rightarrow> JNum x | None \<Rightarrow> JNull)"

definition startPrepare :: "fields \<Rightarrow> prepare_error + job_spec" where
  "startPrepare r =
     (let name = js_trim (to_str (coalesce (get_prop r ''companyName'') (JStr [])));
          keep = email_list (get_prop r ''excludeEmails''); junk = email_list (get_prop r ''junkEmails'');
          withContacts = get_prop r ''includeContacts'' \<noteq> JBool False;
          sel = [(''companyName'', JStr name)]
            @ (if nullish (get_prop r ''createdByResourceId'') then [] else [(''createdByResourceId'', json_num (to_num (get_prop r ''createdByResourceId'')))])
            @ if_set r ''createdFrom'' @ if_set r ''createdTo''
            @ (if keep \<noteq> [] then [(''excludeEmails'', strs keep)] else [])
            @ (if junk \<noteq> [] then [(''junkEmails'', strs junk)] else [])
      in if name = [] then Inl NoCompanyName
         else if isPlaceholderCompany (JStr name) = None then Inl (NotAPlaceholder name)
         else (case pacing_of r 50 of
             Inl e \<Rightarrow> Inl e
           | Inr (sch, q, rate, canary) \<Rightarrow> Inr \<lparr>sp_kind = ''inactivate_placeholders'',
               sp_title = ''Inactivate '' @ [CHR 0x22] @ name @ [CHR 0x22] @ '' placeholder companies'' @ (if withContacts then '' and their contacts'' else []),
               sp_selector = sel, sp_includeContacts = withContacts, sp_schedule = sch, sp_quietHours = q,
               sp_ratePerHour = rate, sp_canarySize = canary\<rparr>))"

definition positive_int :: "jsv \<Rightarrow> int option" where
  "positive_int v = (case to_int v of Some n \<Rightarrow> if n > 0 then Some n else None | None \<Rightarrow> None)"

definition startPrepareCompanyContacts :: "fields \<Rightarrow> prepare_error + job_spec" where
  "startPrepareCompanyContacts r =
     (case positive_int (get_prop r ''companyId'') of
        None \<Rightarrow> Inl BadCompanyId
      | Some companyId \<Rightarrow>
          (let ids = map positive_int (list_values (get_prop r ''contactIds''));
               keep = map to_str (list_values (get_prop r ''keepDomains''));
               only = map to_str (list_values (get_prop r ''onlyDomains''))
           in if None \<in> set ids then Inl BadContactIds
              else (case pacing_of r 25 of
                  Inl e \<Rightarrow> Inl e
                | Inr (sch, q, rate, canary) \<Rightarrow> Inr \<lparr>sp_kind = ''inactivate_company_contacts'',
                    sp_title = ''Inactivate junk contacts on company #'' @ int_to_str companyId
                      @ (if ids \<noteq> [] then '' ('' @ nat_to_str (length ids) @ '' listed)'' else []),
                    sp_selector = [(''companyId'', json_int companyId)]
                      @ (if ids \<noteq> [] then [(''contactIds'', JArr (map (\<lambda>i. json_int (the i)) ids))] else [])
                      @ (if keep \<noteq> [] then [(''keepDomains'', strs keep)] else [])
                      @ (if only \<noteq> [] then [(''onlyDomains'', strs only)] else [])
                      @ if_set r ''createdFrom'' @ if_set r ''createdTo''
                      @ (if truthy (get_prop r ''includeNoEmail'') then [(''includeNoEmail'', JBool True)] else [])
                      @ (if truthy (get_prop r ''ticketsOk'') then [(''ticketsOk'', JBool True)] else []),
                    sp_includeContacts = True, sp_schedule = sch, sp_quietHours = q,
                    sp_ratePerHour = rate, sp_canarySize = canary\<rparr>)))"

definition create_from_spec :: "nat \<Rightarrow> job_spec \<Rightarrow> store \<Rightarrow> store" where
  "create_from_spec jid sp = create_job jid (sp_kind sp)
     \<lparr>jp_schedule = sp_schedule sp, jp_quietHours = Some (sp_quietHours sp)\<rparr> (sp_ratePerHour sp) (sp_canarySize sp)"

text \<open>The background part ends in one of two ways; meanwhile a throttled read reports that it waits.\<close>

definition prepared :: "(string \<Rightarrow> string) \<Rightarrow> nat \<Rightarrow> string \<Rightarrow> item_input list \<Rightarrow> store \<Rightarrow> store" where
  "prepared sha jid kind items = fill jid items (itemsHash sha kind (input_keys items))"

definition preparation_failed :: "rat \<Rightarrow> nat \<Rightarrow> string \<Rightarrow> store \<Rightarrow> store" where
  "preparation_failed now jid msg = setStatus now jid JFailed
     (no_extra\<lparr>ex_lastError := Some (Some (None, take 500 msg)), ex_finished := True\<rparr>)"

definition preparation_waits :: "rat \<Rightarrow> nat \<Rightarrow> store \<Rightarrow> store" where
  "preparation_waits now jid = setStatus now jid JPreparing
     (no_extra\<lparr>ex_lastError := Some (Some (Some now, ''waiting out Autotask throttling (HTTP 429) - the preparation continues by itself''))\<rparr>)"

section \<open>Actions of a person\<close>

datatype job_action = Approve "string option" | Start | Pause | Resume | Cancel | RetryFailed | Archive | Unarchive

datatype action_answer = Ok job_status | Refused job_status | HashMismatch | ItemsChanged | Requeued nat

definition ARCHIVABLE :: "job_status list" where
  "ARCHIVABLE = [JDone, JCancelled, JFailed]"

definition the_user :: "string option \<Rightarrow> string" where
  "the_user by = (case by of Some b \<Rightarrow> b | None \<Rightarrow> ''a user'')"

text \<open>\<open>j\<close> is the job as the request read it, \<open>js\<close> the store when the statements run.\<close>

definition jobAction :: "(string \<Rightarrow> string) \<Rightarrow> rat \<Rightarrow> bulk_job \<Rightarrow> job_action \<Rightarrow> string option \<Rightarrow> store \<Rightarrow> action_answer \<times> store" where
  "jobAction sha now j action by js =
     (let jid = bj_id j; refuse = (Refused (bj_status j), js) in
      case action of
        Approve hash \<Rightarrow>
          if bj_status j \<noteq> JReady then refuse
          else if Some (case hash of Some h \<Rightarrow> h | None \<Rightarrow> []) \<noteq> bj_hash j then (HashMismatch, js)
          else if Some (itemsHash sha (bj_kind j) (case get_job jid js of Some x \<Rightarrow> allItemKeys (bj_items x) | None \<Rightarrow> [])) \<noteq> bj_hash j
          then (ItemsChanged, js)
          else (Ok JApproved, setStatus now jid JApproved (no_extra\<lparr>ex_approvedBy := Some (the_user by)\<rparr>) js)
      | Start \<Rightarrow>
          if bj_status j \<noteq> JApproved then refuse
          else (Ok JRunning, setStatus now jid JRunning (no_extra\<lparr>ex_started := True, ex_pauseReason := Some None\<rparr>) js)
      | Pause \<Rightarrow>
          if bj_status j \<noteq> JRunning then refuse
          else (Ok JPaused, setStatus now jid JPaused (no_extra\<lparr>ex_pauseReason := Some (Some (PausedBy (the_user by)))\<rparr>) js)
      | Resume \<Rightarrow>
          if bj_status j \<noteq> JPaused then refuse
          else (Ok JRunning, setStatus now jid JRunning (no_extra\<lparr>ex_pauseReason := Some None\<rparr>) js)
      | Cancel \<Rightarrow>
          if bj_status j \<in> set ARCHIVABLE then refuse
          else (Ok JCancelled, setStatus now jid JCancelled
            (no_extra\<lparr>ex_finished := True, ex_pauseReason := Some (Some (CancelledBy (the_user by)))\<rparr>) js)
      | RetryFailed \<Rightarrow>
          (Requeued (case get_job jid js of Some x \<Rightarrow> failed_count x | None \<Rightarrow> 0), requeueFailed jid js)
      | Archive \<Rightarrow>
          if bj_status j \<notin> set ARCHIVABLE then refuse else (Ok (bj_status j), setArchived jid True by js)
      | Unarchive \<Rightarrow> (Ok (bj_status j), setArchived jid False by js))"

section \<open>The job as shown\<close>

record job_view =
  jv_pending :: nat
  jv_done :: nat
  jv_skipped :: nat
  jv_failed :: nat
  jv_excluded :: nat
  jv_total :: nat
  jv_pct :: rat
  jv_rateNow :: rat
  jv_inBusinessHours :: bool
  jv_quietUntil :: "int option"
  jv_doneLastHour :: nat
  jv_etaDays :: "rat option"

text \<open>The estimate is \<^const>\<open>None\<close> when the week has no capacity (the code shows \<open>Infinity\<close>).\<close>

definition jobView :: "zone \<Rightarrow> rat \<Rightarrow> bulk_job \<Rightarrow> job_view" where
  "jobView zone now j =
     (let pending = item_count IPending j; finished = item_count IDone j; skipped = item_count ISkipped j; failed = item_count IFailed j;
          total = pending + finished + skipped + failed;
          sch = jp_schedule (bj_params j); quietHours = quietOf (jp_quietHours (bj_params j));
          quiet = quietWindowAt zone now quietHours (job_tz j);
          pace = (if quiet \<noteq> None then (0, False) else currentRate zone now (bj_ratePerHour j) sch);
          perWeek = weeklyCapacity (bj_ratePerHour j) sch quietHours
      in \<lparr>jv_pending = pending, jv_done = finished, jv_skipped = skipped, jv_failed = failed, jv_excluded = item_count IExcluded j,
          jv_total = total,
          jv_pct = (if total > 0 then of_int (round_half_up (of_nat (finished + skipped) / of_nat total * 1000)) / 10 else 0),
          jv_rateNow = fst pace, jv_inBusinessHours = snd pace, jv_quietUntil = map_option qw_end quiet,
          jv_doneLastHour = doneSince (now - 3600000) j,
          jv_etaDays = (if pending = 0 then Some 0 else if perWeek = 0 then None
            else Some (of_int (round_half_up (of_nat pending / perWeek * 7 * 10)) / 10))\<rparr>)"

section \<open>Reads that wait out throttling\<close>

definition THROTTLE_WAIT_MS :: rat where "THROTTLE_WAIT_MS = 60000"
definition MAX_THROTTLE_WAIT_MS :: rat where "MAX_THROTTLE_WAIT_MS = 3 * 3600000"

definition isThrottled :: "call_error \<Rightarrow> bool" where
  "isThrottled e \<longleftrightarrow> ce_status e = Some 429 \<or> throttled_text (ce_message e)"

datatype 'a patient_end = Answer 'a | Failure call_error | KeptThrottling rat

text \<open>The query sees the outside world and the time waited so far; sleeping lets the world move on.
  \<open>waited\<close> is kept between the reads of one preparation.\<close>

partial_function (option) patient_loop ::
  "('w \<Rightarrow> (call_error + 'a) \<times> 'w) \<Rightarrow> (rat \<Rightarrow> 'w \<Rightarrow> 'w) \<Rightarrow> rat \<Rightarrow> rat \<Rightarrow> rat \<Rightarrow> 'w \<Rightarrow> ('a patient_end \<times> rat \<times> 'w) option" where
  "patient_loop q sleep waitMs maxWaitMs waited w =
     (case q w of
        (Inr x, w') \<Rightarrow> Some (Answer x, waited, w')
      | (Inl e, w') \<Rightarrow>
          if \<not> isThrottled e then Some (Failure e, waited, w')
          else if waited + waitMs > maxWaitMs then Some (KeptThrottling waited, waited, w')
          else patient_loop q sleep waitMs maxWaitMs (waited + waitMs) (sleep waitMs w'))"

definition patientQuery :: "('w \<Rightarrow> (call_error + 'a) \<times> 'w) \<Rightarrow> (rat \<Rightarrow> 'w \<Rightarrow> 'w) \<Rightarrow> rat option \<Rightarrow> rat option \<Rightarrow> rat \<Rightarrow> 'w \<Rightarrow>
    ('a patient_end \<times> rat \<times> 'w) option" where
  "patientQuery q sleep waitMs maxWaitMs =
     patient_loop q sleep (case waitMs of Some x \<Rightarrow> x | None \<Rightarrow> THROTTLE_WAIT_MS) (case maxWaitMs of Some x \<Rightarrow> x | None \<Rightarrow> MAX_THROTTLE_WAIT_MS)"

end
