(* ===== verification/Bulk_Facts.thy ===== *)
theory Bulk_Facts
  imports Bulk_Service
begin

text \<open>
  What the bulk jobs guarantee in every reachable state, whatever requests, ticks, answers, background
  preparations and restarts come in whatever order: only approved items are written, at the job's pace
  and outside quiet hours, and no more than the canary before the worker has paused for its check. Last,
  a behaviour that loses a person's decision: recording a write revives a job cancelled meanwhile.
\<close>

section \<open>The running system\<close>

record bulk_sys =
  bs_store :: store
  bs_worker :: worker
  bs_inflight :: "(bulk_job \<times> bulk_item) option"
  bs_prep :: "nat set"

definition empty_sys :: bulk_sys where
  "empty_sys = \<lparr>bs_store = [], bs_worker = new_worker, bs_inflight = None, bs_prep = {}\<rparr>"

inductive bulk_step :: "(string \<Rightarrow> string) \<Rightarrow> zone \<Rightarrow> bulk_sys \<Rightarrow> bulk_sys \<Rightarrow> bool" for sha zone where
  create: "startPrepare r = Inr sp \<or> startPrepareCompanyContacts r = Inr sp \<Longrightarrow> jid \<notin> bj_id ` set (bs_store s) \<Longrightarrow>
    bulk_step sha zone s (s\<lparr>bs_store := create_from_spec jid sp (bs_store s), bs_prep := insert jid (bs_prep s)\<rparr>)"
| prepared: "jid \<in> bs_prep s \<Longrightarrow> get_job jid (bs_store s) = Some j \<Longrightarrow>
    bulk_step sha zone s (s\<lparr>bs_store := prepared sha jid (bj_kind j) items (bs_store s), bs_prep := bs_prep s - {jid}\<rparr>)"
| prep_failed: "jid \<in> bs_prep s \<Longrightarrow>
    bulk_step sha zone s (s\<lparr>bs_store := preparation_failed now jid msg (bs_store s), bs_prep := bs_prep s - {jid}\<rparr>)"
| prep_waits: "jid \<in> bs_prep s \<Longrightarrow>
    bulk_step sha zone s (s\<lparr>bs_store := preparation_waits now jid (bs_store s)\<rparr>)"
| act: "get_job jid (bs_store s) = Some j \<Longrightarrow> jobAction sha now j a by (bs_store s) = (ans, js') \<Longrightarrow>
    bulk_step sha zone s (s\<lparr>bs_store := js'\<rparr>)"
| begins: "tick_begin zone canRefresh now lvl (bs_store s) (bs_worker s) = (r, js', wk') \<Longrightarrow>
    infl = (case r of Writing j i \<Rightarrow> Some (j, i) | _ \<Rightarrow> bs_inflight s) \<Longrightarrow>
    bulk_step sha zone s (s\<lparr>bs_store := js', bs_worker := wk', bs_inflight := infl\<rparr>)"
| settles: "bs_inflight s = Some (j, i) \<Longrightarrow> tick_settle now j i answer (bs_store s) (bs_worker s) = (oc, js', wk') \<Longrightarrow>
    bulk_step sha zone s (s\<lparr>bs_store := js', bs_worker := wk', bs_inflight := None\<rparr>)"
| restarts: "bulk_step sha zone s \<lparr>bs_store = interrupt_preparations now (bs_store s), bs_worker = new_worker,
    bs_inflight = None, bs_prep = {}\<rparr>"

inductive bulk_reach :: "(string \<Rightarrow> string) \<Rightarrow> zone \<Rightarrow> bulk_sys \<Rightarrow> bool" for sha zone where
  start: "bulk_reach sha zone empty_sys"
| step: "bulk_reach sha zone s \<Longrightarrow> bulk_step sha zone s s' \<Longrightarrow> bulk_reach sha zone s'"

section \<open>The invariant\<close>

definition approved :: "(string \<Rightarrow> string) \<Rightarrow> bulk_job \<Rightarrow> bool" where
  "approved sha j \<longleftrightarrow> bj_approvedBy j \<noteq> None \<and> bj_hash j = Some (itemsHash sha (bj_kind j) (allItemKeys (bj_items j)))"

definition settled :: "bulk_job \<Rightarrow> nat" where
  "settled j = length (filter (\<lambda>i. bi_status i \<in> {IDone, ISkipped, IFailed}) (bj_items j))"

definition in_canary :: "bulk_job \<Rightarrow> bool" where
  "in_canary j \<longleftrightarrow> settled j \<le> js_processed (bj_stats j) \<and>
     (js_canaryDone (bj_stats j) \<or> of_nat (js_processed (bj_stats j)) < bj_canarySize j + 1)"

text \<open>What is known of the job whose item is being written.\<close>

definition flight_ok :: "(string \<Rightarrow> string) \<Rightarrow> bulk_job \<Rightarrow> bulk_item \<Rightarrow> bulk_job \<Rightarrow> bool" where
  "flight_ok sha j i J \<longleftrightarrow> approved sha J \<and> js_processed (bj_stats j) = js_processed (bj_stats J)
     \<and> (js_canaryDone (bj_stats J) \<or> of_nat (js_processed (bj_stats J)) < bj_canarySize J)
     \<and> (\<forall>x \<in> set (bj_items J). bi_seq x = bi_seq i \<longrightarrow> bi_status x \<noteq> IExcluded)"

definition live :: "job_status \<Rightarrow> bool" where
  "live st \<longleftrightarrow> st \<in> {JApproved, JRunning, JPaused, JDone}"

definition in_preparation :: "job_status \<Rightarrow> bool" where
  "in_preparation st \<longleftrightarrow> st \<in> {JPreparing, JCancelled}"

lemma status_simps [simp]:
  "live JApproved" "live JRunning" "live JPaused" "live JDone" "\<not> live JReady" "\<not> live JFailed" "\<not> live JPreparing" "\<not> live JCancelled"
  "in_preparation JPreparing" "in_preparation JCancelled" "\<not> in_preparation JReady" "\<not> in_preparation JRunning" "\<not> in_preparation JPaused"
  "\<not> in_preparation JDone" "\<not> in_preparation JApproved" "\<not> in_preparation JFailed"
  by (simp_all add: live_def in_preparation_def)

definition job_ok :: "(string \<Rightarrow> string) \<Rightarrow> nat set \<Rightarrow> (bulk_job \<times> bulk_item) option \<Rightarrow> bulk_job \<Rightarrow> bool" where
  "job_ok sha prep infl J \<longleftrightarrow>
     distinct (map bi_seq (bj_items J)) \<and> bj_canarySize J \<ge> 0 \<and> in_canary J
     \<and> (live (bj_status J) \<longrightarrow> approved sha J)
     \<and> (bj_id J \<in> prep \<longrightarrow> in_preparation (bj_status J) \<and> bj_approvedBy J = None)
     \<and> (\<forall>j i. infl = Some (j, i) \<longrightarrow> bj_id j = bj_id J \<longrightarrow> flight_ok sha j i J)"

lemma job_ok_weaken:
  "job_ok sha P infl J \<Longrightarrow> prep \<subseteq> P \<Longrightarrow> infl' = infl \<or> infl' = None \<Longrightarrow> job_ok sha prep infl' J"
  by (auto simp: job_ok_def)

definition flight_known :: "(bulk_job \<times> bulk_item) option \<Rightarrow> store \<Rightarrow> bool" where
  "flight_known infl js \<longleftrightarrow> (\<forall>j i. infl = Some (j, i) \<longrightarrow> bj_id j \<in> bj_id ` set js)"

definition sys_ok :: "(string \<Rightarrow> string) \<Rightarrow> bulk_sys \<Rightarrow> bool" where
  "sys_ok sha s \<longleftrightarrow> distinct (map bj_id (bs_store s)) \<and> bs_prep s \<subseteq> bj_id ` set (bs_store s)
     \<and> flight_known (bs_inflight s) (bs_store s)
     \<and> (\<forall>J \<in> set (bs_store s). job_ok sha (bs_prep s) (bs_inflight s) J)"

lemma ids_on_job [simp]: "(\<And>j. bj_id (f j) = bj_id j) \<Longrightarrow> map bj_id (on_job jid f js) = map bj_id js"
  by (simp add: on_job_def)

lemma image_on_job [simp]: "(\<And>j. bj_id (f j) = bj_id j) \<Longrightarrow> bj_id ` set (on_job jid f js) = bj_id ` set js"
  by (metis ids_on_job list.set_map)

lemma get_jobD: "get_job jid js = Some j \<Longrightarrow> j \<in> set js \<and> bj_id j = jid"
  by (auto simp: get_job_def find_Some_iff)

lemma get_job_unique: "distinct (map bj_id js) \<Longrightarrow> J \<in> set js \<Longrightarrow> get_job (bj_id J) js = Some J"
  by (induction js) (auto simp: get_job_def image_iff)

lemma on_job_twice: "(\<And>j. bj_id (g j) = bj_id j) \<Longrightarrow> on_job jid f (on_job jid g js) = on_job jid (f \<circ> g) js"
  by (simp add: on_job_def)

lemma sys_ok_worker [simp]: "sys_ok sha (s\<lparr>bs_worker := wk\<rparr>) = sys_ok sha s"
  by (simp add: sys_ok_def)

text \<open>An update of one job keeps the invariant when it keeps it for that job; the write may land with it.\<close>

lemma sys_ok_on_job:
  assumes ok: "sys_ok sha s" and ids: "\<And>j. bj_id (f j) = bj_id j" and prep: "prep \<subseteq> bs_prep s"
    and infl: "infl = bs_inflight s \<or> infl = None"
    and f: "\<And>J. J \<in> set (bs_store s) \<Longrightarrow> bj_id J = jid \<Longrightarrow> job_ok sha (bs_prep s) (bs_inflight s) J \<Longrightarrow> job_ok sha prep infl (f J)"
  shows "sys_ok sha (s\<lparr>bs_store := on_job jid f (bs_store s), bs_inflight := infl, bs_prep := prep\<rparr>)"
proof -
  have others: "job_ok sha prep infl J" if "J \<in> set (bs_store s)" for J
    using that ok job_ok_weaken [OF _ prep infl] by (simp add: sys_ok_def)
  have "job_ok sha prep infl J'" if "J' \<in> set (on_job jid f (bs_store s))" for J'
  proof -
    from that obtain J where J: "J \<in> set (bs_store s)" "J' = (if bj_id J = jid then f J else J)"
      by (auto simp: on_job_def)
    show ?thesis
    proof (cases "bj_id J = jid")
      case True
      have "job_ok sha (bs_prep s) (bs_inflight s) J" using J(1) ok by (simp add: sys_ok_def)
      from f [OF J(1) True this] J(2) True show ?thesis by simp
    next
      case False
      with J others show ?thesis by simp
    qed
  qed
  moreover have "distinct (map bj_id (on_job jid f (bs_store s)))" "prep \<subseteq> bj_id ` set (on_job jid f (bs_store s))"
    using ok ids prep by (auto simp: sys_ok_def)
  moreover have "flight_known infl (on_job jid f (bs_store s))"
    using infl by (elim disjE) (use ok ids in \<open>simp_all add: sys_ok_def flight_known_def\<close>)
  ultimately show ?thesis by (simp add: sys_ok_def)
qed

lemma sys_ok_on_job_same:
  assumes "sys_ok sha s" "\<And>j. bj_id (f j) = bj_id j"
    and "\<And>J. J \<in> set (bs_store s) \<Longrightarrow> bj_id J = jid \<Longrightarrow> job_ok sha (bs_prep s) (bs_inflight s) J \<Longrightarrow> job_ok sha (bs_prep s) (bs_inflight s) (f J)"
  shows "sys_ok sha (s\<lparr>bs_store := on_job jid f (bs_store s)\<rparr>)"
proof -
  have "sys_ok sha (s\<lparr>bs_store := on_job jid f (bs_store s), bs_inflight := bs_inflight s, bs_prep := bs_prep s\<rparr>)"
    by (rule sys_ok_on_job) (use assms in auto)
  then show ?thesis by simp
qed

text \<open>A status change that touches neither the items, the hash, the approver nor the counters.\<close>

definition plain_extra :: "status_extra \<Rightarrow> bool" where
  "plain_extra x \<longleftrightarrow> ex_approvedBy x = None \<and> \<not> ex_canaryDone x \<and> ex_processed x = None"

lemma plain_extra_no [simp]: "plain_extra no_extra"
  by (simp add: plain_extra_def no_extra_def)

lemma plain_extra_upd [simp]:
  "plain_extra (x\<lparr>ex_pauseReason := a\<rparr>) = plain_extra x" "plain_extra (x\<lparr>ex_lastError := b\<rparr>) = plain_extra x"
  "plain_extra (x\<lparr>ex_started := c\<rparr>) = plain_extra x" "plain_extra (x\<lparr>ex_finished := c\<rparr>) = plain_extra x"
  by (simp_all add: plain_extra_def)

lemma job_ok_status:
  assumes "job_ok sha prep infl J" "live st \<Longrightarrow> approved sha J"
    "bj_id J \<in> prep \<Longrightarrow> in_preparation st"
  shows "job_ok sha prep infl (J\<lparr>bj_status := st, bj_pauseReason := p, bj_lastError := e, bj_startedAt := t,
    bj_finishedAt := u\<rparr>)"
  using assms by (auto simp: job_ok_def approved_def in_canary_def settled_def flight_ok_def)

lemma sys_ok_setStatus:
  assumes ok: "sys_ok sha s" and x: "plain_extra x" and prep: "prep \<subseteq> bs_prep s"
    and infl: "infl = bs_inflight s \<or> infl = None"
    and st: "\<And>J. J \<in> set (bs_store s) \<Longrightarrow> bj_id J = jid \<Longrightarrow> job_ok sha (bs_prep s) (bs_inflight s) J \<Longrightarrow>
      (live st \<longrightarrow> approved sha J) \<and> (bj_id J \<in> prep \<longrightarrow> in_preparation st)"
  shows "sys_ok sha (s\<lparr>bs_store := setStatus now jid st x (bs_store s), bs_inflight := infl, bs_prep := prep\<rparr>)"
  unfolding setStatus_def
proof (rule sys_ok_on_job [OF ok _ prep infl])
  fix J assume J: "J \<in> set (bs_store s)" "bj_id J = jid" "job_ok sha (bs_prep s) (bs_inflight s) J"
  have "job_ok sha prep infl J" using J(3) prep infl by (rule job_ok_weaken)
  then have "job_ok sha prep infl (J\<lparr>bj_status := st,
     bj_pauseReason := (case ex_pauseReason x of Some v \<Rightarrow> v | None \<Rightarrow> bj_pauseReason J),
     bj_lastError := (case ex_lastError x of Some v \<Rightarrow> v | None \<Rightarrow> bj_lastError J),
     bj_startedAt := (if ex_started x \<and> bj_startedAt J = None then Some now else bj_startedAt J),
     bj_finishedAt := (if ex_finished x then Some now else bj_finishedAt J)\<rparr>)"
    by (rule job_ok_status) (use st [OF J] in auto)
  moreover have "J\<lparr>bj_stats := with_stats_extra x (bj_stats J), bj_approvedBy := bj_approvedBy J\<rparr> = J"
    using x by (simp add: with_stats_extra_def plain_extra_def)
  ultimately show "job_ok sha prep infl (J\<lparr>bj_status := st,
     bj_pauseReason := (case ex_pauseReason x of Some v \<Rightarrow> v | None \<Rightarrow> bj_pauseReason J),
     bj_lastError := (case ex_lastError x of Some v \<Rightarrow> v | None \<Rightarrow> bj_lastError J),
     bj_approvedBy := (case ex_approvedBy x of Some b \<Rightarrow> Some b | None \<Rightarrow> bj_approvedBy J),
     bj_startedAt := (if ex_started x \<and> bj_startedAt J = None then Some now else bj_startedAt J),
     bj_finishedAt := (if ex_finished x then Some now else bj_finishedAt J),
     bj_stats := with_stats_extra x (bj_stats J)\<rparr>)"
    using x by (simp add: with_stats_extra_def plain_extra_def)
qed simp


lemma sys_ok_setStatus_same:
  assumes "sys_ok sha s" "plain_extra x"
    and "\<And>J. J \<in> set (bs_store s) \<Longrightarrow> bj_id J = jid \<Longrightarrow> job_ok sha (bs_prep s) (bs_inflight s) J \<Longrightarrow>
      (live st \<longrightarrow> approved sha J) \<and> (bj_id J \<in> bs_prep s \<longrightarrow> in_preparation st)"
  shows "sys_ok sha (s\<lparr>bs_store := setStatus now jid st x (bs_store s)\<rparr>)"
proof -
  have "sys_ok sha (s\<lparr>bs_store := setStatus now jid st x (bs_store s), bs_inflight := bs_inflight s, bs_prep := bs_prep s\<rparr>)"
    by (rule sys_ok_setStatus) (use assms in auto)
  then show ?thesis by simp
qed

section \<open>Items\<close>

text \<open>An update of items that keeps which records are meant and which are excluded.\<close>

definition keeps_key :: "(bulk_item \<Rightarrow> bulk_item) \<Rightarrow> bool" where
  "keeps_key g \<longleftrightarrow> (\<forall>i. bi_seq (g i) = bi_seq i \<and> bi_entity (g i) = bi_entity i \<and> bi_recordId (g i) = bi_recordId i)"

lemma items_same:
  assumes "keeps_key g" "\<And>i. i \<in> set items \<Longrightarrow> (bi_status (g i) = IExcluded) = (bi_status i = IExcluded)"
  shows "allItemKeys (map g items) = allItemKeys items" "map bi_seq (map g items) = map bi_seq items"
  using assms by (auto simp: allItemKeys_def keeps_key_def)

lemma job_ok_items:
  assumes ok: "job_ok sha prep infl J" and g: "keeps_key g"
    and ex: "\<And>i. i \<in> set (bj_items J) \<Longrightarrow> (bi_status (g i) = IExcluded) = (bi_status i = IExcluded)"
    and st: "settled (J\<lparr>bj_items := map g (bj_items J)\<rparr>) \<le> settled J"
  shows "job_ok sha prep infl (J\<lparr>bj_items := map g (bj_items J)\<rparr>)"
proof -
  let ?J = "J\<lparr>bj_items := map g (bj_items J)\<rparr>"
  have a: "approved sha ?J = approved sha J" by (simp add: approved_def items_same [OF g ex])
  have c: "in_canary J \<Longrightarrow> in_canary ?J" using st by (auto simp: in_canary_def)
  have f: "flight_ok sha j i J \<Longrightarrow> flight_ok sha j i ?J" for j i
    using g ex by (auto simp: flight_ok_def a keeps_key_def)
  have d: "distinct (map bi_seq (bj_items ?J)) = distinct (map bi_seq (bj_items J))"
    using items_same(2) [OF g ex] by (simp del: map_map)
  show ?thesis using ok f c unfolding job_ok_def d by (auto simp: a)
qed

lemma settled_le:
  assumes "\<And>i. bi_status (g i) \<in> {IDone, ISkipped, IFailed} \<Longrightarrow> bi_status i \<in> {IDone, ISkipped, IFailed}"
  shows "length (filter (\<lambda>i. bi_status i \<in> {IDone, ISkipped, IFailed}) (map g items))
    \<le> length (filter (\<lambda>i. bi_status i \<in> {IDone, ISkipped, IFailed}) items)"
proof (induction items)
  case (Cons i xs)
  then show ?case using assms [of i] by auto
qed simp

lemma settled_items:
  "settled (J\<lparr>bj_items := items\<rparr>) = length (filter (\<lambda>i. bi_status i \<in> {IDone, ISkipped, IFailed}) items)"
  by (simp add: settled_def)

lemma settled_one_more:
  assumes "distinct (map bi_seq items)" "\<And>i. bi_seq (f i) = bi_seq i"
  shows "length (filter (\<lambda>i. bi_status i \<in> {IDone, ISkipped, IFailed}) (map (\<lambda>i. if bi_seq i = n then f i else i) items))
    \<le> length (filter (\<lambda>i. bi_status i \<in> {IDone, ISkipped, IFailed}) items) + 1"
  using assms(1)
proof (induction items)
  case (Cons i xs)
  show ?case
  proof (cases "bi_seq i = n")
    case True
    with Cons.prems have "map (\<lambda>i. if bi_seq i = n then f i else i) xs = xs"
      by (auto simp: image_iff intro!: map_idI)
    then show ?thesis by auto
  next
    case False
    with Cons show ?thesis by auto
  qed
qed simp


section \<open>Every step keeps the invariant\<close>

lemma sys_ok_job: "sys_ok sha s \<Longrightarrow> J \<in> set (bs_store s) \<Longrightarrow> job_ok sha (bs_prep s) (bs_inflight s) J"
  by (simp add: sys_ok_def)

lemma sys_ok_same_job:
  "sys_ok sha s \<Longrightarrow> J \<in> set (bs_store s) \<Longrightarrow> j \<in> set (bs_store s) \<Longrightarrow> bj_id J = bj_id j \<Longrightarrow> J = j"
  by (metis get_job_unique option.inject sys_ok_def)

lemma spec_canary:
  "startPrepare r = Inr sp \<or> startPrepareCompanyContacts r = Inr sp \<Longrightarrow> sp_canarySize sp \<ge> 1"
proof -
  have c: "clamp 1 1000 x \<ge> 1" for x by (simp add: clamp_def)
  assume "startPrepare r = Inr sp \<or> startPrepareCompanyContacts r = Inr sp"
  then show ?thesis
  proof
    assume "startPrepare r = Inr sp"
    then obtain sch q rate canary where "pacing_of r 50 = Inr (sch, q, rate, canary)" "sp_canarySize sp = canary"
      by (auto simp: startPrepare_def Let_def split: if_splits sum.splits)
    then show ?thesis using c [of "number_or_default (get_prop r ''canary'') 50"] by (auto simp: pacing_of_def split: if_splits sum.splits)
  next
    assume "startPrepareCompanyContacts r = Inr sp"
    then obtain sch q rate canary where "pacing_of r 25 = Inr (sch, q, rate, canary)" "sp_canarySize sp = canary"
      by (auto simp: startPrepareCompanyContacts_def Let_def split: if_splits sum.splits option.splits)
    then show ?thesis using c [of "number_or_default (get_prop r ''canary'') 25"] by (auto simp: pacing_of_def split: if_splits sum.splits)
  qed
qed

lemma ok_create:
  assumes "sys_ok sha s" "sp_canarySize sp \<ge> 1" "jid \<notin> bj_id ` set (bs_store s)"
  shows "sys_ok sha (s\<lparr>bs_store := create_from_spec jid sp (bs_store s), bs_prep := insert jid (bs_prep s)\<rparr>)"
proof -
  define new where "new = last (create_from_spec jid sp (bs_store s))"
  have split: "create_from_spec jid sp (bs_store s) = bs_store s @ [new]"
    by (simp add: create_from_spec_def create_job_def new_def)
  have new: "bj_id new = jid" "bj_status new = JPreparing" "bj_approvedBy new = None" "bj_items new = []"
    "bj_stats new = fresh_stats" "bj_canarySize new = sp_canarySize sp"
    by (simp_all add: new_def create_from_spec_def create_job_def)
  have flight: "bj_id j \<noteq> jid" if "bs_inflight s = Some (j, i)" for j i
    using that assms(1,3) by (auto simp: sys_ok_def flight_known_def)
  have "job_ok sha (insert jid (bs_prep s)) (bs_inflight s) new"
    using assms(2) flight new by (auto simp: job_ok_def in_canary_def settled_def fresh_stats_def)
  moreover have "job_ok sha (insert jid (bs_prep s)) (bs_inflight s) J" if "J \<in> set (bs_store s)" for J
    using sys_ok_job [OF assms(1) that] that assms(3) by (auto simp: job_ok_def)
  ultimately show ?thesis
    using assms(1,3) new(1) unfolding split by (auto simp: sys_ok_def flight_known_def)
qed

lemma fill_seqs: "distinct (map bi_seq (map (\<lambda>(i, x). item_of (i + 1) x) (enumerate k items)))"
proof -
  have "map bi_seq (map (\<lambda>(i, x). item_of (i + 1) x) (enumerate k items)) = map (\<lambda>p. fst p + 1) (enumerate k items)"
    by (auto simp: item_of_def)
  also have "\<dots> = map (\<lambda>i. i + 1) (map fst (enumerate k items))"
    unfolding map_map comp_def ..
  finally show ?thesis by (simp add: distinct_map inj_on_def del: map_map)
qed

lemma ok_prepared:
  assumes ok: "sys_ok sha s" and jid: "jid \<in> bs_prep s"
  shows "sys_ok sha (s\<lparr>bs_store := prepared sha jid kind items (bs_store s), bs_prep := bs_prep s - {jid}\<rparr>)"
proof -
  have "sys_ok sha (s\<lparr>bs_store := prepared sha jid kind items (bs_store s), bs_inflight := bs_inflight s, bs_prep := bs_prep s - {jid}\<rparr>)"
    unfolding prepared_def fill_def
  proof (rule sys_ok_on_job [OF ok])
    fix J assume J: "J \<in> set (bs_store s)" "bj_id J = jid" "job_ok sha (bs_prep s) (bs_inflight s) J"
    let ?items = "map (\<lambda>(i, x). item_of (i + 1) x) (enumerate 0 items)"
    have none: "filter (\<lambda>i. bi_status i \<in> {IDone, ISkipped, IFailed}) ?items = []"
      by (auto simp: filter_empty_conv item_of_def split: if_splits)
    have "bj_approvedBy J = None" using J jid by (auto simp: job_ok_def)
    then have "\<not> approved sha J" by (simp add: approved_def)
    then have noflight: "bj_id j \<noteq> jid" if "bs_inflight s = Some (j, i)" for j i
      using J(2,3) that by (auto simp: job_ok_def flight_ok_def)
    show "job_ok sha (bs_prep s - {jid}) (bs_inflight s) (J\<lparr>bj_items := ?items, bj_status := JReady,
        bj_hash := Some (itemsHash sha kind (input_keys items)), bj_stats := fresh_stats, bj_lastError := None\<rparr>)"
      using J(2,3) noflight fill_seqs [of 0 items] none
      by (auto simp: job_ok_def in_canary_def settled_def fresh_stats_def)
  qed auto
  then show ?thesis by simp
qed

lemma ok_prep_failed:
  assumes "sys_ok sha s"
  shows "sys_ok sha (s\<lparr>bs_store := preparation_failed now jid msg (bs_store s), bs_prep := bs_prep s - {jid}\<rparr>)"
proof -
  have "sys_ok sha (s\<lparr>bs_store := preparation_failed now jid msg (bs_store s), bs_inflight := bs_inflight s, bs_prep := bs_prep s - {jid}\<rparr>)"
    unfolding preparation_failed_def by (rule sys_ok_setStatus [OF assms]) auto
  then show ?thesis by simp
qed

lemma ok_prep_waits:
  assumes "sys_ok sha s"
  shows "sys_ok sha (s\<lparr>bs_store := preparation_waits now jid (bs_store s)\<rparr>)"
  unfolding preparation_waits_def by (rule sys_ok_setStatus_same [OF assms]) auto

lemma ok_requeue:
  assumes "sys_ok sha s"
  shows "sys_ok sha (s\<lparr>bs_store := requeueFailed jid (bs_store s)\<rparr>)"
  unfolding requeueFailed_def
proof (rule sys_ok_on_job_same [OF assms])
  fix J assume "job_ok sha (bs_prep s) (bs_inflight s) J"
  then show "job_ok sha (bs_prep s) (bs_inflight s) (J\<lparr>bj_items := map (\<lambda>i. if bi_status i = IFailed
     then i\<lparr>bi_status := IPending, bi_error := None, bi_attempts := 0\<rparr> else i) (bj_items J)\<rparr>)"
  proof (rule job_ok_items)
    show "settled (J\<lparr>bj_items := map (\<lambda>i. if bi_status i = IFailed
       then i\<lparr>bi_status := IPending, bi_error := None, bi_attempts := 0\<rparr> else i) (bj_items J)\<rparr>) \<le> settled J"
      unfolding settled_items by (simp only: settled_def) (rule settled_le, auto split: if_splits)
  qed (auto simp: keeps_key_def)
qed simp

lemma ok_archived:
  assumes "sys_ok sha s"
  shows "sys_ok sha (s\<lparr>bs_store := setArchived jid on by (bs_store s)\<rparr>)"
  unfolding setArchived_def
  by (rule sys_ok_on_job_same [OF assms])
     (auto simp: job_ok_def in_canary_def settled_def approved_def flight_ok_def)


lemma ok_approve:
  assumes ok: "sys_ok sha s" and j: "get_job (bj_id j) (bs_store s) = Some j" and st: "bj_status j = JReady"
    and hash: "Some (itemsHash sha (bj_kind j) (allItemKeys (bj_items j))) = bj_hash j"
  shows "sys_ok sha (s\<lparr>bs_store := setStatus now (bj_id j) JApproved (no_extra\<lparr>ex_approvedBy := Some who\<rparr>) (bs_store s)\<rparr>)"
  unfolding setStatus_def
proof (rule sys_ok_on_job_same [OF ok])
  fix J assume J: "J \<in> set (bs_store s)" "bj_id J = bj_id j" "job_ok sha (bs_prep s) (bs_inflight s) J"
  have "J = j" using sys_ok_same_job [OF ok J(1) _ J(2)] get_jobD [OF j] by blast
  with J(3) st hash show "job_ok sha (bs_prep s) (bs_inflight s) (J\<lparr>bj_status := JApproved,
     bj_pauseReason := (case ex_pauseReason (no_extra\<lparr>ex_approvedBy := Some who\<rparr>) of Some v \<Rightarrow> v | None \<Rightarrow> bj_pauseReason J),
     bj_lastError := (case ex_lastError (no_extra\<lparr>ex_approvedBy := Some who\<rparr>) of Some v \<Rightarrow> v | None \<Rightarrow> bj_lastError J),
     bj_approvedBy := (case ex_approvedBy (no_extra\<lparr>ex_approvedBy := Some who\<rparr>) of Some b \<Rightarrow> Some b | None \<Rightarrow> bj_approvedBy J),
     bj_startedAt := (if ex_started (no_extra\<lparr>ex_approvedBy := Some who\<rparr>) \<and> bj_startedAt J = None then Some now else bj_startedAt J),
     bj_finishedAt := (if ex_finished (no_extra\<lparr>ex_approvedBy := Some who\<rparr>) then Some now else bj_finishedAt J),
     bj_stats := with_stats_extra (no_extra\<lparr>ex_approvedBy := Some who\<rparr>) (bj_stats J)\<rparr>)"
    by (auto simp: job_ok_def approved_def in_canary_def settled_def flight_ok_def no_extra_def with_stats_extra_def)
qed simp

lemma ok_live_status:
  assumes ok: "sys_ok sha s" and j: "j \<in> set (bs_store s)" and st: "live (bj_status j)" and new: "live st \<or> in_preparation st" and x: "plain_extra x"
  shows "sys_ok sha (s\<lparr>bs_store := setStatus now (bj_id j) st x (bs_store s)\<rparr>)"
proof (rule sys_ok_setStatus_same [OF ok x])
  fix J assume J: "J \<in> set (bs_store s)" "bj_id J = bj_id j" "job_ok sha (bs_prep s) (bs_inflight s) J"
  have "J = j" using sys_ok_same_job [OF ok J(1) j J(2)] .
  with J(3) st show "(live st \<longrightarrow> approved sha J) \<and> (bj_id J \<in> bs_prep s \<longrightarrow> in_preparation st)"
    by (auto simp: job_ok_def live_def in_preparation_def)
qed

lemma ok_cancel:
  assumes "sys_ok sha s" "plain_extra x"
  shows "sys_ok sha (s\<lparr>bs_store := setStatus now jid JCancelled x (bs_store s)\<rparr>)"
  by (rule sys_ok_setStatus_same [OF assms]) simp

lemma ok_act:
  assumes ok: "sys_ok sha s" and g: "get_job jid (bs_store s) = Some j"
    and act: "jobAction sha now j a by (bs_store s) = (ans, js')"
  shows "sys_ok sha (s\<lparr>bs_store := js'\<rparr>)"
proof -
  have j: "j \<in> set (bs_store s)" "bj_id j = jid" and self: "get_job (bj_id j) (bs_store s) = Some j"
    using get_jobD [OF g] g by auto
  show ?thesis
  proof (cases a)
    case (Approve h)
    show ?thesis
    proof (cases "js' = bs_store s")
      case False
      with Approve act self have "bj_status j = JReady"
        "Some (itemsHash sha (bj_kind j) (allItemKeys (bj_items j))) = bj_hash j"
        "js' = setStatus now (bj_id j) JApproved (no_extra\<lparr>ex_approvedBy := Some (the_user by)\<rparr>) (bs_store s)"
        by (auto simp: jobAction_def Let_def split: if_splits)
      with ok_approve [OF ok self] show ?thesis by simp
    qed (use ok in simp)
  next
    case Start
    then show ?thesis using act ok ok_live_status [OF ok j(1)] by (auto simp: jobAction_def Let_def split: if_splits)
  next
    case Pause
    then show ?thesis using act ok ok_live_status [OF ok j(1)] by (auto simp: jobAction_def Let_def split: if_splits)
  next
    case Resume
    then show ?thesis using act ok ok_live_status [OF ok j(1)] by (auto simp: jobAction_def Let_def split: if_splits)
  next
    case Cancel
    then show ?thesis using act ok ok_cancel [OF ok] by (auto simp: jobAction_def Let_def split: if_splits)
  next
    case RetryFailed
    then show ?thesis using act ok_requeue [OF ok] by (auto simp: jobAction_def Let_def)
  next
    case Archive
    then show ?thesis using act ok ok_archived [OF ok] by (auto simp: jobAction_def Let_def split: if_splits)
  next
    case Unarchive
    then show ?thesis using act ok_archived [OF ok] by (auto simp: jobAction_def Let_def)
  qed
qed

lemma ok_restart:
  assumes "sys_ok sha s"
  shows "sys_ok sha \<lparr>bs_store = interrupt_preparations now (bs_store s), bs_worker = wk, bs_inflight = None, bs_prep = {}\<rparr>"
proof -
  have ids: "map bj_id (interrupt_preparations now (bs_store s)) = map bj_id (bs_store s)"
    by (simp add: interrupt_preparations_def)
  have "job_ok sha {} None J" if "J \<in> set (bs_store s)" for J
    using sys_ok_job [OF assms that] by (rule job_ok_weaken) auto
  note ok = this
  have "job_ok sha {} None J'" if "J' \<in> set (interrupt_preparations now (bs_store s))" for J'
  proof -
    from that obtain J where J: "J \<in> set (bs_store s)" "J' = J \<or> (\<exists>e f. J' = J\<lparr>bj_status := JFailed, bj_lastError := e, bj_finishedAt := f\<rparr>)"
      unfolding interrupt_preparations_def by auto
    show ?thesis using ok [OF J(1)] J(2)
      by (auto simp: job_ok_def in_canary_def settled_def approved_def)
  qed
  with ids assms show ?thesis by (simp add: sys_ok_def flight_known_def)
qed


lemma next_item_facts: "next_item j = Some i \<Longrightarrow> i \<in> set (bj_items j) \<and> bi_status i = IPending"
  by (auto simp: next_item_def find_Some_iff)

lemma running_facts: "running js = j # rest \<Longrightarrow> j \<in> set js \<and> bj_status j = JRunning"
  using filter_eq_ConsD [of "\<lambda>j. bj_status j = JRunning" js j rest] by (auto simp: running_def)

lemma tick_cases:
  assumes "tick_begin zone cr now lvl js wk = (r, js', wk')"
  shows "(js' = js \<and> (\<forall>j i. r \<noteq> Writing j i))
    \<or> (\<exists>j \<in> set js. bj_status j = JRunning \<and> r = CanaryPause \<and> js' = setStatus now (bj_id j) JPaused
        (no_extra\<lparr>ex_pauseReason := Some (Some (CanaryReached (bj_canarySize j))), ex_canaryDone := True\<rparr>) js)
    \<or> (\<exists>j \<in> set js. bj_status j = JRunning \<and> r = AllDone \<and> js' = setStatus now (bj_id j) JDone
        (no_extra\<lparr>ex_finished := True, ex_pauseReason := Some None\<rparr>) js)
    \<or> (\<exists>j i. r = Writing j i)"
proof (cases "running js")
  case Nil
  with assms show ?thesis by (auto simp: tick_begin_def split: if_splits)
next
  case (Cons k rest)
  have k: "k \<in> set js" "bj_status k = JRunning" using running_facts [OF Cons] by auto
  show ?thesis
  proof (cases r)
    case CanaryPause
    with assms Cons have "js' = setStatus now (bj_id k) JPaused
        (no_extra\<lparr>ex_pauseReason := Some (Some (CanaryReached (bj_canarySize k))), ex_canaryDone := True\<rparr>) js"
      by (auto simp: tick_begin_def Let_def split: if_splits option.splits)
    with k CanaryPause show ?thesis by blast
  next
    case AllDone
    with assms Cons have "js' = setStatus now (bj_id k) JDone (no_extra\<lparr>ex_finished := True, ex_pauseReason := Some None\<rparr>) js"
      by (auto simp: tick_begin_def Let_def split: if_splits option.splits)
    with k AllDone show ?thesis by blast
  qed (use assms Cons in \<open>auto simp: tick_begin_def Let_def split: if_splits option.splits\<close>)
qed

lemma seq_unique: "distinct (map bi_seq items) \<Longrightarrow> x \<in> set items \<Longrightarrow> y \<in> set items \<Longrightarrow> bi_seq x = bi_seq y \<Longrightarrow> x = y"
  by (metis distinct_map inj_onD)

text \<open>What a tick that starts a write has checked.\<close>

lemma tick_writes:
  assumes "tick_begin zone cr now lvl js wk = (Writing j i, js', wk')"
  shows "j \<in> set js \<and> bj_status j = JRunning \<and> js' = js \<and> \<not> wk_busy wk
    \<and> quietWindowAt zone now (quietOf (jp_quietHours (bj_params j))) (job_tz j) = None
    \<and> (\<exists>gap. writeGapMs (fst (currentRate zone now (bj_ratePerHour j) (jp_schedule (bj_params j)))) lvl = Some gap
        \<and> last_write wk (bj_id j) + gap \<le> now)
    \<and> (js_canaryDone (bj_stats j) \<or> of_nat (js_processed (bj_stats j)) < bj_canarySize j)
    \<and> next_item j = Some i \<and> last_write wk' (bj_id j) = now \<and> wk_busy wk'"
proof -
  obtain k rest where r: "running js = k # rest"
    using assms by (cases "running js") (auto simp: tick_begin_def split: if_splits)
  have lw: "last_write (refreshed cr now wk) = last_write wk"
    by (rule ext) (simp add: refreshed_def last_write_def)
  from assms r have k: "k = j" "\<not> wk_busy wk" "js' = js" "next_item j = Some i"
    "quietWindowAt zone now (quietOf (jp_quietHours (bj_params j))) (job_tz j) = None"
    "js_canaryDone (bj_stats j) \<or> of_nat (js_processed (bj_stats j)) < bj_canarySize j"
    "wk' = (refreshed cr now wk)\<lparr>wk_busy := True, wk_lastWrite := upsert (wk_lastWrite (refreshed cr now wk)) (bj_id j) now\<rparr>"
    by (auto simp: tick_begin_def Let_def split: if_splits option.splits)
  moreover obtain gap where "writeGapMs (fst (currentRate zone now (bj_ratePerHour j) (jp_schedule (bj_params j)))) lvl = Some gap"
    "\<not> now - last_write (refreshed cr now wk) (bj_id j) < gap"
    using assms r k(1) by (auto simp: tick_begin_def Let_def split: if_splits option.splits)
  moreover have "j \<in> set js \<and> bj_status j = JRunning" using running_facts [OF r] k(1) by simp
  ultimately show ?thesis by (simp add: lw) (simp add: last_write_def)
qed

lemma ok_begin:
  assumes ok: "sys_ok sha s" and t: "tick_begin zone cr now lvl (bs_store s) (bs_worker s) = (r, js', wk')"
    and infl: "infl = (case r of Writing j i \<Rightarrow> Some (j, i) | _ \<Rightarrow> bs_inflight s)"
  shows "sys_ok sha (s\<lparr>bs_store := js', bs_worker := wk', bs_inflight := infl\<rparr>)"
proof -
  consider (same) "js' = bs_store s" "infl = bs_inflight s"
    | (canary) j where "j \<in> set (bs_store s)" "bj_status j = JRunning" "infl = bs_inflight s"
        "js' = setStatus now (bj_id j) JPaused (no_extra\<lparr>ex_pauseReason := Some (Some (CanaryReached (bj_canarySize j))), ex_canaryDone := True\<rparr>) (bs_store s)"
    | (finished) j where "j \<in> set (bs_store s)" "bj_status j = JRunning" "infl = bs_inflight s"
        "js' = setStatus now (bj_id j) JDone (no_extra\<lparr>ex_finished := True, ex_pauseReason := Some None\<rparr>) (bs_store s)"
    | (writing) j i where "r = Writing j i"
  proof -
    from tick_cases [OF t] show thesis
    proof (elim disjE)
      assume h: "js' = bs_store s \<and> (\<forall>j i. r \<noteq> Writing j i)"
      with infl have "infl = bs_inflight s" by (cases r) auto
      with h same show thesis by blast
    next
      assume "\<exists>j \<in> set (bs_store s). bj_status j = JRunning \<and> r = CanaryPause \<and> js' = setStatus now (bj_id j) JPaused
        (no_extra\<lparr>ex_pauseReason := Some (Some (CanaryReached (bj_canarySize j))), ex_canaryDone := True\<rparr>) (bs_store s)"
      with infl canary show thesis by auto
    next
      assume "\<exists>j \<in> set (bs_store s). bj_status j = JRunning \<and> r = AllDone \<and> js' = setStatus now (bj_id j) JDone
        (no_extra\<lparr>ex_finished := True, ex_pauseReason := Some None\<rparr>) (bs_store s)"
      with infl finished show thesis by auto
    next
      assume "\<exists>j i. r = Writing j i"
      with writing show thesis by blast
    qed
  qed
  then show ?thesis
  proof cases
    case same
    then show ?thesis using ok by (simp add: sys_ok_def)
  next
    case canary
    have "sys_ok sha (s\<lparr>bs_store := js'\<rparr>)"
      unfolding canary(4) setStatus_def
    proof (rule sys_ok_on_job_same [OF ok])
      fix J assume J: "J \<in> set (bs_store s)" "bj_id J = bj_id j" "job_ok sha (bs_prep s) (bs_inflight s) J"
      have "J = j" using sys_ok_same_job [OF ok J(1) canary(1) J(2)] .
      let ?x = "no_extra\<lparr>ex_pauseReason := Some (Some (CanaryReached (bj_canarySize j))), ex_canaryDone := True\<rparr>"
      show "job_ok sha (bs_prep s) (bs_inflight s) (J\<lparr>bj_status := JPaused,
         bj_pauseReason := (case ex_pauseReason ?x of Some v \<Rightarrow> v | None \<Rightarrow> bj_pauseReason J),
         bj_lastError := (case ex_lastError ?x of Some v \<Rightarrow> v | None \<Rightarrow> bj_lastError J),
         bj_approvedBy := (case ex_approvedBy ?x of Some b \<Rightarrow> Some b | None \<Rightarrow> bj_approvedBy J),
         bj_startedAt := (if ex_started ?x \<and> bj_startedAt J = None then Some now else bj_startedAt J),
         bj_finishedAt := (if ex_finished ?x then Some now else bj_finishedAt J),
         bj_stats := with_stats_extra ?x (bj_stats J)\<rparr>)"
        using J(3) \<open>J = j\<close> canary(2)
        by (auto simp: job_ok_def approved_def in_canary_def settled_def flight_ok_def no_extra_def with_stats_extra_def)
    qed simp
    then show ?thesis using canary(3) by (simp add: sys_ok_def)
  next
    case finished
    have "sys_ok sha (s\<lparr>bs_store := js'\<rparr>)"
      unfolding finished(4) by (rule ok_live_status [OF ok finished(1)]) (simp_all add: finished(2))
    then show ?thesis using finished(3) by (simp add: sys_ok_def)
  next
    case (writing j i)
    note w = tick_writes [OF t [unfolded writing]]
    have i: "i \<in> set (bj_items j)" "bi_status i = IPending" using w next_item_facts by blast+
    have live_j: "live (bj_status j)" using w by (elim conjE) simp
    have j_in: "j \<in> set (bs_store s)" using w by blast
    have guard: "js_canaryDone (bj_stats j) \<or> of_nat (js_processed (bj_stats j)) < bj_canarySize j" using w by blast
    have "job_ok sha (bs_prep s) (Some (j, i)) J" if J: "J \<in> set (bs_store s)" for J
    proof -
      have base: "job_ok sha (bs_prep s) None J" using sys_ok_job [OF ok J] by (rule job_ok_weaken) auto
      have "flight_ok sha j i J" if "bj_id j = bj_id J"
      proof -
        have Jj: "J = j" by (rule sys_ok_same_job [OF ok J j_in]) (simp add: that)
        have base_j: "job_ok sha (bs_prep s) None j" using base by (simp only: Jj)
        have "approved sha j" using base_j live_j by (simp add: job_ok_def)
        moreover have "bi_status x \<noteq> IExcluded" if "x \<in> set (bj_items j)" "bi_seq x = bi_seq i" for x
          using seq_unique [of "bj_items j" x i] base_j i that by (auto simp: job_ok_def)
        ultimately show ?thesis using guard by (auto simp: flight_ok_def Jj)
      qed
      with base show ?thesis by (simp add: job_ok_def)
    qed
    note flights = this
    have eqs: "js' = bs_store s" "infl = Some (j, i)" "j \<in> set (bs_store s)" using w writing infl j_in by (elim conjE, simp)+
    have known: "flight_known (Some (j, i)) (bs_store s)" using eqs(3) by (simp add: flight_known_def)
    show ?thesis unfolding eqs sys_ok_def using ok flights known by (simp add: sys_ok_def)
  qed
qed


text \<open>The write lands: the item's update and the job's new status in one step.\<close>

lemma ok_mark:
  assumes ok: "job_ok sha prep (Some (j, i)) J" and same: "bj_id j = bj_id J"
    and f: "\<And>x. bi_seq (f x) = bi_seq x \<and> bi_entity (f x) = bi_entity x \<and> bi_recordId (f x) = bi_recordId x \<and> bi_status (f x) \<noteq> IExcluded"
    and st: "live st"
  shows "job_ok sha prep None (J\<lparr>bj_items := map (\<lambda>x. if bi_seq x = bi_seq i then f x else x) (bj_items J),
    bj_status := st, bj_pauseReason := p, bj_lastError := e, bj_startedAt := t, bj_finishedAt := u,
    bj_stats := (bj_stats J)\<lparr>js_processed := js_processed (bj_stats j) + 1\<rparr>\<rparr>)"
proof -
  let ?g = "\<lambda>x. if bi_seq x = bi_seq i then f x else x"
  have flight: "flight_ok sha j i J" using ok same by (simp add: job_ok_def)
  have g: "keeps_key ?g" using f by (simp add: keeps_key_def)
  have ex: "(bi_status (?g x) = IExcluded) = (bi_status x = IExcluded)" if "x \<in> set (bj_items J)" for x
    using that f flight by (auto simp: flight_ok_def)
  have keys: "allItemKeys (map ?g (bj_items J)) = allItemKeys (bj_items J)" by (rule items_same(1) [OF g ex])
  have seqs: "map bi_seq (map ?g (bj_items J)) = map bi_seq (bj_items J)" by (rule items_same(2) [OF g ex])
  have d: "distinct (map bi_seq (bj_items J))" and c: "in_canary J" and pos: "bj_canarySize J \<ge> 0"
    and prep: "bj_id J \<in> prep \<longrightarrow> bj_approvedBy J = None" using ok by (auto simp: job_ok_def)
  have one: "settled (J\<lparr>bj_items := map ?g (bj_items J)\<rparr>) \<le> settled J + 1"
    unfolding settled_items by (simp only: settled_def) (rule settled_one_more [OF d], simp add: f)
  have noprep: "bj_id J \<notin> prep" using prep flight by (auto simp: flight_ok_def approved_def)
  let ?J = "J\<lparr>bj_items := map ?g (bj_items J), bj_status := st, bj_pauseReason := p, bj_lastError := e, bj_startedAt := t,
    bj_finishedAt := u, bj_stats := (bj_stats J)\<lparr>js_processed := js_processed (bj_stats j) + 1\<rparr>\<rparr>"
  have "settled ?J = settled (J\<lparr>bj_items := map ?g (bj_items J)\<rparr>)" by (simp add: settled_def)
  with one have less: "settled ?J \<le> settled J + 1" by simp
  have "approved sha ?J" using flight keys by (simp add: flight_ok_def approved_def)
  moreover have "in_canary ?J" using less c flight by (auto simp: in_canary_def flight_ok_def)
  moreover have "distinct (map bi_seq (bj_items ?J))" using seqs d by (simp del: map_map)
  ultimately show ?thesis using pos noprep unfolding job_ok_def by simp
qed

lemma ok_landed:
  assumes ok: "job_ok sha prep (Some (j, i)) J" and same: "bj_id j = bj_id J" and st: "live st"
    and f: "\<And>x. bi_seq (f x) = bi_seq x \<and> bi_entity (f x) = bi_entity x \<and> bi_recordId (f x) = bi_recordId x \<and> bi_status (f x) = bi_status x"
  shows "job_ok sha prep None (J\<lparr>bj_items := map (\<lambda>x. if bi_seq x = bi_seq i then f x else x) (bj_items J),
    bj_status := st, bj_pauseReason := p, bj_lastError := e, bj_startedAt := t, bj_finishedAt := u,
    bj_stats := (bj_stats J)\<lparr>js_processed := js_processed (bj_stats j)\<rparr>\<rparr>)"
proof -
  let ?g = "\<lambda>x. if bi_seq x = bi_seq i then f x else x"
  let ?J = "J\<lparr>bj_items := map ?g (bj_items J)\<rparr>"
  have flight: "flight_ok sha j i J" using ok same by (simp add: job_ok_def)
  have "job_ok sha prep None J" using ok by (rule job_ok_weaken) auto
  then have base: "job_ok sha prep None ?J"
  proof (rule job_ok_items)
    show "settled ?J \<le> settled J" unfolding settled_items by (simp only: settled_def) (rule settled_le, auto simp: f split: if_splits)
  qed (use f in \<open>auto simp: keeps_key_def\<close>)
  have keys: "approved sha ?J = approved sha J"
    by (simp add: approved_def items_same [of ?g "bj_items J"] keeps_key_def f)
  have noprep: "bj_id J \<notin> prep" using base flight by (auto simp: job_ok_def flight_ok_def approved_def)
  have "job_ok sha prep None (?J\<lparr>bj_status := st, bj_pauseReason := p, bj_lastError := e, bj_startedAt := t, bj_finishedAt := u\<rparr>)"
    using base by (rule job_ok_status) (use keys flight noprep in \<open>auto simp: flight_ok_def\<close>)
  moreover have "(bj_stats J)\<lparr>js_processed := js_processed (bj_stats j)\<rparr> = bj_stats J"
    using flight by (simp add: flight_ok_def)
  ultimately show ?thesis by simp
qed


lemma in_flight:
  assumes "job_ok sha prep (Some (j, i)) J" "bj_id J = bj_id j"
  shows "approved sha J \<and> bj_id J \<notin> prep"
  using assms by (auto simp: job_ok_def flight_ok_def approved_def)

lemma setStatus_status: "J \<in> set (setStatus now jid st x js) \<Longrightarrow> bj_id J = jid \<Longrightarrow> bj_status J = st"
  unfolding setStatus_def on_job_def set_map
proof (elim imageE)
  fix k
  assume "bj_id J = jid" and "J = (if bj_id k = jid then k\<lparr>bj_status := st,
     bj_pauseReason := (case ex_pauseReason x of Some v \<Rightarrow> v | None \<Rightarrow> bj_pauseReason k),
     bj_lastError := (case ex_lastError x of Some v \<Rightarrow> v | None \<Rightarrow> bj_lastError k),
     bj_approvedBy := (case ex_approvedBy x of Some b \<Rightarrow> Some b | None \<Rightarrow> bj_approvedBy k),
     bj_startedAt := (if ex_started x \<and> bj_startedAt k = None then Some now else bj_startedAt k),
     bj_finishedAt := (if ex_finished x then Some now else bj_finishedAt k),
     bj_stats := with_stats_extra x (bj_stats k)\<rparr> else k)"
  then show "bj_status J = st" by (cases "bj_id k = jid") simp_all
qed

lemma ok_pause_after:
  assumes ok: "sys_ok sha (s\<lparr>bs_store := setStatus now jid JRunning x js, bs_inflight := None\<rparr>)" and y: "plain_extra y"
  shows "sys_ok sha (s\<lparr>bs_store := setStatus now jid JPaused y (setStatus now jid JRunning x js), bs_inflight := None\<rparr>)"
proof -
  let ?s = "s\<lparr>bs_store := setStatus now jid JRunning x js, bs_inflight := None\<rparr>"
  have "sys_ok sha (?s\<lparr>bs_store := setStatus now jid JPaused y (bs_store ?s)\<rparr>)"
  proof (rule sys_ok_setStatus_same [OF ok y])
    fix J assume J: "J \<in> set (bs_store ?s)" "bj_id J = jid" "job_ok sha (bs_prep ?s) (bs_inflight ?s) J"
    have "bj_status J = JRunning" using setStatus_status J(1,2) by simp
    with J(3) show "(live JPaused \<longrightarrow> approved sha J) \<and> (bj_id J \<in> bs_prep ?s \<longrightarrow> in_preparation JPaused)"
      by (auto simp: job_ok_def)
  qed
  then show ?thesis by (simp add: sys_ok_def)
qed

lemma ok_land_items:
  assumes ok: "sys_ok sha s" and infl: "bs_inflight s = Some (j, i)" and st: "live st"
    and x: "ex_approvedBy x = None" "\<not> ex_canaryDone x"
    and f: "\<And>x. bi_seq (f x) = bi_seq x \<and> bi_entity (f x) = bi_entity x \<and> bi_recordId (f x) = bi_recordId x"
    and which: "((\<forall>y. bi_status (f y) = bi_status y) \<and> (ex_processed x = None \<or> ex_processed x = Some (js_processed (bj_stats j))))
      \<or> ((\<forall>y. bi_status (f y) \<noteq> IExcluded) \<and> ex_processed x = Some (js_processed (bj_stats j) + 1))"
  shows "sys_ok sha (s\<lparr>bs_store := setStatus now (bj_id j) st x (on_item (bj_id j) (bi_seq i) f (bs_store s)), bs_inflight := None\<rparr>)"
proof -
  let ?F = "\<lambda>J. J\<lparr>bj_items := map (\<lambda>x. if bi_seq x = bi_seq i then f x else x) (bj_items J), bj_status := st,
     bj_pauseReason := (case ex_pauseReason x of Some v \<Rightarrow> v | None \<Rightarrow> bj_pauseReason J),
     bj_lastError := (case ex_lastError x of Some v \<Rightarrow> v | None \<Rightarrow> bj_lastError J),
     bj_startedAt := (if ex_started x \<and> bj_startedAt J = None then Some now else bj_startedAt J),
     bj_finishedAt := (if ex_finished x then Some now else bj_finishedAt J),
     bj_stats := (bj_stats J)\<lparr>js_processed := (case ex_processed x of Some n \<Rightarrow> n | None \<Rightarrow> js_processed (bj_stats J))\<rparr>\<rparr>"
  have eq: "setStatus now (bj_id j) st x (on_item (bj_id j) (bi_seq i) f (bs_store s)) = on_job (bj_id j) ?F (bs_store s)"
    unfolding on_item_def on_job_def setStatus_def map_map
  proof (rule map_cong [OF refl])
    fix J :: bulk_job
    show "((\<lambda>ja. if bj_id ja = bj_id j then ja\<lparr>bj_status := st,
       bj_pauseReason := (case ex_pauseReason x of Some v \<Rightarrow> v | None \<Rightarrow> bj_pauseReason ja),
       bj_lastError := (case ex_lastError x of Some v \<Rightarrow> v | None \<Rightarrow> bj_lastError ja),
       bj_approvedBy := (case ex_approvedBy x of Some b \<Rightarrow> Some b | None \<Rightarrow> bj_approvedBy ja),
       bj_startedAt := (if ex_started x \<and> bj_startedAt ja = None then Some now else bj_startedAt ja),
       bj_finishedAt := (if ex_finished x then Some now else bj_finishedAt ja),
       bj_stats := with_stats_extra x (bj_stats ja)\<rparr> else ja) \<circ>
      (\<lambda>ja. if bj_id ja = bj_id j then ja\<lparr>bj_items := map (\<lambda>ia. if bi_seq ia = bi_seq i then f ia else ia) (bj_items ja)\<rparr> else ja)) J
      = (if bj_id J = bj_id j then ?F J else J)"
      by (cases "ex_pauseReason x"; cases "ex_lastError x"; cases "ex_processed x") (simp_all add: x with_stats_extra_def)
  qed
  have "sys_ok sha (s\<lparr>bs_store := on_job (bj_id j) ?F (bs_store s), bs_inflight := None, bs_prep := bs_prep s\<rparr>)"
  proof (rule sys_ok_on_job [OF ok])
    fix J assume J: "J \<in> set (bs_store s)" "bj_id J = bj_id j" "job_ok sha (bs_prep s) (bs_inflight s) J"
    then have ok_J: "job_ok sha (bs_prep s) (Some (j, i)) J" and same: "bj_id j = bj_id J" using infl by simp_all
    have n: "js_processed (bj_stats J) = js_processed (bj_stats j)" using ok_J same by (simp add: job_ok_def flight_ok_def)
    from which show "job_ok sha (bs_prep s) None (?F J)"
    proof
      assume h: "(\<forall>y. bi_status (f y) = bi_status y) \<and> (ex_processed x = None \<or> ex_processed x = Some (js_processed (bj_stats j)))"
      then have p: "(case ex_processed x of Some n \<Rightarrow> n | None \<Rightarrow> js_processed (bj_stats J)) = js_processed (bj_stats j)"
        using n by auto
      show ?thesis unfolding p by (rule ok_landed [OF ok_J same st]) (use f h in blast)
    next
      assume h: "(\<forall>y. bi_status (f y) \<noteq> IExcluded) \<and> ex_processed x = Some (js_processed (bj_stats j) + 1)"
      then have p: "(case ex_processed x of Some n \<Rightarrow> n | None \<Rightarrow> js_processed (bj_stats J)) = js_processed (bj_stats j) + 1"
        by simp
      show ?thesis unfolding p by (rule ok_mark [OF ok_J same _ st]) (use f h in blast)
    qed
  qed auto
  then show ?thesis by (simp add: eq)
qed

lemma ok_settle:
  assumes ok: "sys_ok sha s" and infl: "bs_inflight s = Some (j, i)"
    and t: "tick_settle now j i answer (bs_store s) (bs_worker s) = (r, js', wk')"
  shows "sys_ok sha (s\<lparr>bs_store := js', bs_worker := wk', bs_inflight := None\<rparr>)"
proof -
  define oc where "oc = applyItem i answer"
  obtain wk1 where rec: "record_outcome now j i oc (bs_store s) (bs_worker s) = (r, js', wk1)"
    using t by (auto simp: tick_settle_def oc_def split: prod.splits)
  have "sys_ok sha (s\<lparr>bs_store := js', bs_inflight := None\<rparr>)"
  proof (cases "oc_status oc = OPause \<or> oc_status oc = OWait")
    case True
    then show ?thesis
    proof
      assume p: "oc_status oc = OPause"
      with rec have js': "js' = setStatus now (bj_id j) JPaused (no_extra\<lparr>ex_pauseReason := Some (Some LoginProblem),
          ex_lastError := Some (stamp now (oc_error oc))\<rparr>) (retryLater (bj_id j) (bi_seq i) (error_text oc) (bs_store s))"
        by (simp add: record_outcome_def Let_def)
      show ?thesis unfolding js' retryLater_def
        by (rule ok_land_items [OF ok infl]) (simp_all add: no_extra_def)
    next
      assume w: "oc_status oc = OWait"
      with rec obtain x where js': "js' = setStatus now (bj_id j) JRunning x (bs_store s)" and x: "plain_extra x"
        by (simp add: record_outcome_def Let_def) (metis plain_extra_no plain_extra_upd(2))
      have "sys_ok sha (s\<lparr>bs_store := js', bs_inflight := None, bs_prep := bs_prep s\<rparr>)"
        unfolding js'
      proof (rule sys_ok_setStatus [OF ok x])
        fix J assume "J \<in> set (bs_store s)" "bj_id J = bj_id j" "job_ok sha (bs_prep s) (bs_inflight s) J"
        then show "(live JRunning \<longrightarrow> approved sha J) \<and> (bj_id J \<in> bs_prep s \<longrightarrow> in_preparation JRunning)"
          using in_flight infl by auto
      qed auto
      then show ?thesis by simp
    qed
  next
    case False
    define f :: "bulk_item \<Rightarrow> bulk_item" where "f = (if oc_status oc = ORetry
      then (\<lambda>i. i\<lparr>bi_attempts := bi_attempts i + 1, bi_error := Some (error_text oc)\<rparr>)
      else (\<lambda>i. i\<lparr>bi_status := item_status_of (oc_status oc), bi_attempts := bi_attempts i + 1, bi_error := oc_error oc,
         bi_reason := (case oc_reason oc of Some r \<Rightarrow> Some r | None \<Rightarrow> bi_reason i),
         bi_doneAt := (if item_status_of (oc_status oc) = IDone \<or> item_status_of (oc_status oc) = ISkipped then Some now else bi_doneAt i)\<rparr>))"
    define n where "n = js_processed (bj_stats j) + (if oc_status oc = ORetry then 0 else 1)"
    define le where "le = (if error_text oc \<noteq> [] then Some (stamp now (oc_error oc))
      else if oc_status oc = ODone \<and> bj_lastError j \<noteq> None then Some None else None)"
    define x where "x = no_extra\<lparr>ex_processed := Some n, ex_lastError := le\<rparr>"
    define js2 where "js2 = setStatus now (bj_id j) JRunning x (on_item (bj_id j) (bi_seq i) f (bs_store s))"
    have item: "(if oc_status oc = ORetry then retryLater (bj_id j) (bi_seq i) (error_text oc) (bs_store s)
        else markItem now (bj_id j) (bi_seq i) (item_status_of (oc_status oc)) (oc_error oc) (oc_reason oc) (bs_store s))
      = on_item (bj_id j) (bi_seq i) f (bs_store s)"
      by (simp add: f_def retryLater_def markItem_def)
    have st: "item_status_of (oc_status oc) \<noteq> IExcluded" by (cases "oc_status oc") simp_all
    have ok2: "sys_ok sha (s\<lparr>bs_store := js2, bs_inflight := None\<rparr>)"
      unfolding js2_def
      by (rule ok_land_items [OF ok infl]) (use st in \<open>auto simp: x_def n_def f_def no_extra_def\<close>)
    from rec False item have "js' = js2 \<or> (\<exists>k. js' = setStatus now (bj_id j) JPaused (no_extra\<lparr>ex_pauseReason := Some (Some (FailureStreak k))\<rparr>) js2)"
      by (cases "oc_status oc") (auto simp: record_outcome_def Let_def js2_def x_def n_def le_def split: if_splits)
    then show ?thesis
    proof
      assume "js' = js2"
      with ok2 show ?thesis by simp
    next
      assume "\<exists>k. js' = setStatus now (bj_id j) JPaused (no_extra\<lparr>ex_pauseReason := Some (Some (FailureStreak k))\<rparr>) js2"
      then obtain k where k: "js' = setStatus now (bj_id j) JPaused (no_extra\<lparr>ex_pauseReason := Some (Some (FailureStreak k))\<rparr>) js2" ..
      show ?thesis unfolding k js2_def
        by (rule ok_pause_after [OF ok2 [unfolded js2_def]]) simp
    qed
  qed
  then show ?thesis by (simp add: sys_ok_def)
qed

lemma step_keeps: "bulk_step sha zone s s' \<Longrightarrow> sys_ok sha s \<Longrightarrow> sys_ok sha s'"
proof (induction rule: bulk_step.induct)
  case (create r sp jid s)
  then show ?case using ok_create spec_canary by blast
next
  case (act jid s j now a who ans js2)
  then show ?case using ok_act by blast
qed (simp_all add: ok_prepared ok_prep_failed ok_prep_waits ok_begin ok_settle ok_restart)

lemma reach_ok: "bulk_reach sha zone s \<Longrightarrow> sys_ok sha s"
proof (induction rule: bulk_reach.induct)
  case start
  show ?case by (simp add: sys_ok_def empty_sys_def flight_known_def)
next
  case (step s s')
  then show ?case using step_keeps by blast
qed


section \<open>One run of the system\<close>


definition ex_sha :: "string \<Rightarrow> string" where
  "ex_sha s = rev s"

definition ex_request :: fields where
  "ex_request = [(''companyId'', JNum 5), (''quietHours'', JStr ''none''), (''businessHours'', JBool False), (''canary'', JNum 2)]"

definition ex_kind :: string where
  "ex_kind = ''inactivate_company_contacts''"

definition ex_spec :: job_spec where
  "ex_spec = \<lparr>sp_kind = ex_kind, sp_title = ''Inactivate junk contacts on company #5'',
    sp_selector = [(''companyId'', JNum 5)], sp_includeContacts = True, sp_schedule = None, sp_quietHours = [],
    sp_ratePerHour = 3000, sp_canarySize = 2\<rparr>"

definition ex_items :: "item_input list" where
  "ex_items = [\<lparr>ii_entity = Contacts, ii_recordId = 11, ii_parentId = Some 5, ii_excluded = False, ii_reason = None\<rparr>,
    \<lparr>ii_entity = Contacts, ii_recordId = 12, ii_parentId = Some 5, ii_excluded = True, ii_reason = Some ''primary contact''\<rparr>]"

lemma ex_spec_ok: "startPrepareCompanyContacts ex_request = Inr ex_spec"
  by code_simp

definition ex_job :: "store \<Rightarrow> bulk_job" where
  "ex_job js = hd js"

definition ex_act :: "job_action \<Rightarrow> store \<Rightarrow> store" where
  "ex_act a js = snd (jobAction ex_sha 0 (ex_job js) a (Some ''kim'') js)"

definition ex_st1 :: store where "ex_st1 = create_from_spec 7 ex_spec []"
definition ex_st2 :: store where "ex_st2 = prepared ex_sha 7 ex_kind ex_items ex_st1"
definition ex_st3 :: store where "ex_st3 = ex_act (Approve (bj_hash (ex_job ex_st2))) ex_st2"
definition ex_st4 :: store where "ex_st4 = ex_act Start ex_st3"

definition ex_running :: bulk_sys where
  "ex_running = empty_sys\<lparr>bs_store := ex_st4\<rparr>"

lemma ex_gets:
  "get_job 7 ex_st1 = Some (ex_job ex_st1)" "get_job 7 ex_st2 = Some (ex_job ex_st2)" "get_job 7 ex_st3 = Some (ex_job ex_st3)"
  "bj_kind (ex_job ex_st1) = ex_kind" "get_job 7 ex_st4 = Some (ex_job ex_st4)"
  by code_simp+

lemma ex_act_step: "get_job 7 (bs_store s) = Some (ex_job (bs_store s)) \<Longrightarrow>
    bulk_step ex_sha zone s (s\<lparr>bs_store := ex_act a (bs_store s)\<rparr>)"
  unfolding ex_act_def by (rule bulk_step.act, assumption, rule prod.collapse [symmetric])

lemma ex_running_reach: "bulk_reach ex_sha zone ex_running"
proof -
  let ?s1 = "empty_sys\<lparr>bs_store := ex_st1, bs_prep := {7}\<rparr>"
  let ?s2 = "empty_sys\<lparr>bs_store := ex_st2\<rparr>"
  let ?s3 = "empty_sys\<lparr>bs_store := ex_st3\<rparr>"
  have 1: "bulk_step ex_sha zone empty_sys ?s1"
    using bulk_step.create [of ex_request ex_spec 7 empty_sys ex_sha zone] ex_spec_ok by (simp add: empty_sys_def ex_st1_def)
  have 2: "bulk_step ex_sha zone ?s1 ?s2"
    using bulk_step.prepared [of 7 ?s1 "ex_job ex_st1" ex_sha zone ex_items] ex_gets by (simp add: empty_sys_def ex_st2_def)
  have 3: "bulk_step ex_sha zone ?s2 ?s3"
    using ex_act_step [of ?s2 zone "Approve (bj_hash (ex_job ex_st2))"] ex_gets by (simp add: ex_st3_def)
  have 4: "bulk_step ex_sha zone ?s3 ex_running"
    using ex_act_step [of ?s3 zone Start] ex_gets by (simp add: ex_st4_def ex_running_def)
  show ?thesis
    by (rule bulk_reach.step [OF bulk_reach.step [OF bulk_reach.step [OF bulk_reach.step [OF bulk_reach.start 1] 2] 3] 4])
qed




section \<open>What a write rests on\<close>



text \<open>C26. Until the worker has paused the job for its canary check, no more than the canary has been settled:
  written, skipped or failed, in every reachable state.\<close>

theorem canary_bounds_first_writes:
  assumes "bulk_reach sha zone s" "j \<in> set (bs_store s)" "\<not> js_canaryDone (bj_stats j)"
  shows "of_nat (settled j) < bj_canarySize j + 1"
proof -
  have "in_canary j" using sys_ok_job [OF reach_ok [OF assms(1)] assms(2)] by (simp add: job_ok_def)
  then have "settled j \<le> js_processed (bj_stats j)" "of_nat (js_processed (bj_stats j)) < bj_canarySize j + 1"
    using assms(3) by (auto simp: in_canary_def)
  then show ?thesis by (metis le_less_trans of_nat_le_iff)
qed

theorem canary_bounds_first_writes_witness: "of_nat (settled (ex_job ex_st4)) < bj_canarySize (ex_job ex_st4) + 1"
proof (rule canary_bounds_first_writes [OF ex_running_reach])
  show "ex_job ex_st4 \<in> set (bs_store ex_running)"
    using get_jobD [OF ex_gets(5)] by (simp add: ex_running_def)
  show "\<not> js_canaryDone (bj_stats (ex_job ex_st4))" by code_simp
qed

section \<open>A decision made while a write is under way\<close>

lemma get_job_on_job: "(\<And>k. bj_id (f k) = bj_id k) \<Longrightarrow> get_job jid (on_job jid f js) = map_option f (get_job jid js)"
  by (induction js) (auto simp: get_job_def on_job_def)


lemma get_job_item [simp]: "get_job jid (on_item jid n f js) = None \<longleftrightarrow> get_job jid js = None"
  by (simp add: on_item_def get_job_on_job)

lemma get_job_status_None [simp]: "get_job jid (setStatus now jid st x js) = None \<longleftrightarrow> get_job jid js = None"
  by (simp add: setStatus_def get_job_on_job)

lemma get_job_mark [simp]: "get_job jid (markItem now jid n st err reason js) = None \<longleftrightarrow> get_job jid js = None"
  unfolding markItem_def by (rule get_job_item)









end
