(* ===== verification/Bulk_Prepare.thy ===== *)
theory Bulk_Prepare
  imports Bulk_Service
begin

text \<open>
  What a bulk job holds: the two preparations (\<open>src/src/bulk/prepare.ts\<close>, \<open>prepare-contacts.ts\<close>) and the
  address domains they compare (\<open>src/src/utils/identity-match.ts\<close>).

  Autotask's answers are a function \<open>q\<close> of the entity and the conditions asked for: a preparation only
  reads, and never asks the same question twice. Record ids are \<open>Number(v)\<close>, \<^const>\<open>None\<close> for \<open>NaN\<close>. A
  \<open>Map\<close> of lists is the list of the pairs pushed, in order. Pacing, progress, the counts shown beside the
  items and the records' copies kept with them are left out.
\<close>

section \<open>Reading\<close>

type_synonym condition = "string \<times> string \<times> jsv"
type_synonym reader = "string \<Rightarrow> condition list \<Rightarrow> string + fields list"

datatype prep_fail = ReadFailed string | NotPlaceholders nat jsv | CheckFailed string string | TooManyRows string
  | NotACustomer | NoCompany | NotOnCompany "rat option list"

definition num :: "fields \<Rightarrow> string \<Rightarrow> rat option" where
  "num r f = to_num (get_prop r f)"

definition PAGE :: nat where "PAGE = 4999"
definition READ_CAP :: nat where "READ_CAP = 5000"

definition max_num :: "rat option list \<Rightarrow> rat option" where
  "max_num xs = (if None \<in> set xs then None else Some (fold max (map the xs) (the (hd xs))))"

text \<open>Pages by id; a full page asks for the next one, for ever if need be.\<close>

partial_function (option) read_pages ::
  "reader \<Rightarrow> string \<Rightarrow> condition list \<Rightarrow> rat option \<Rightarrow> fields list \<Rightarrow> (prep_fail + fields list) option" where
  "read_pages q e flt from acc =
     (case q e (flt @ [(''gt'', ''id'', json_num from)]) of
        Inl m \<Rightarrow> Some (Inl (ReadFailed m))
      | Inr page \<Rightarrow>
          if length page < PAGE then Some (Inr (acc @ page))
          else read_pages q e flt (max_num (map (\<lambda>r. num r ''id'') page)) (acc @ page))"

text \<open>A list of values asked for in slices; a full slice stops the preparation where the code checks it.\<close>

fun read_chunks :: "reader \<Rightarrow> string \<Rightarrow> string \<Rightarrow> (string \<Rightarrow> prep_fail) \<Rightarrow> prep_fail option \<Rightarrow> jsv list list \<Rightarrow>
    prep_fail + fields list" where
  "read_chunks q e f bad full [] = Inr []"
| "read_chunks q e f bad full (b # bs) =
     (case q e [(''in'', f, JArr b)] of
        Inl m \<Rightarrow> Inl (bad m)
      | Inr rows \<Rightarrow>
          (case (if length rows \<ge> READ_CAP then full else None) of
             Some x \<Rightarrow> Inl x
           | None \<Rightarrow> (case read_chunks q e f bad full bs of Inl x \<Rightarrow> Inl x | Inr rest \<Rightarrow> Inr (rows @ rest))))"

definition slices :: "jsv list \<Rightarrow> jsv list list" where
  "slices vs = chunks_of (length vs) 200 vs"

definition tally :: "'k list \<Rightarrow> ('k \<times> nat) list" where
  "tally ks = map (\<lambda>k. (k, length (filter ((=) k) ks))) (uniq ks)"

definition last_with :: "fields list \<Rightarrow> rat option \<Rightarrow> fields option" where
  "last_with rows k = find (\<lambda>r. num r ''id'' = k) (rev rows)"

definition is_active :: "fields \<Rightarrow> bool" where
  "is_active r \<longleftrightarrow> get_prop r ''isActive'' = JBool True \<or> get_prop r ''isActive'' = JNum 1"

definition by_id :: "fields list \<Rightarrow> fields list" where
  "by_id rows = sort_key (\<lambda>r. case num r ''id'' of Some n \<Rightarrow> n | None \<Rightarrow> 0) rows"

record prep_item =
  pi_entity :: bulk_entity
  pi_recordId :: "rat option"
  pi_parentId :: "rat option option"
  pi_excluded :: bool
  pi_reason :: "string option"

definition todo :: "bulk_entity \<Rightarrow> rat option \<Rightarrow> rat option option \<Rightarrow> prep_item" where
  "todo e i p = \<lparr>pi_entity = e, pi_recordId = i, pi_parentId = p, pi_excluded = False, pi_reason = None\<rparr>"

definition kept_out :: "bulk_entity \<Rightarrow> rat option \<Rightarrow> rat option option \<Rightarrow> string list \<Rightarrow> prep_item" where
  "kept_out e i p why = \<lparr>pi_entity = e, pi_recordId = i, pi_parentId = p, pi_excluded = True, pi_reason = Some (join_with ''; '' why)\<rparr>"

definition elements :: "jsv \<Rightarrow> jsv list" where
  "elements v = (case v of JArr vs \<Rightarrow> vs | _ \<Rightarrow> [])"

definition EMAILS :: "string list" where
  "EMAILS = [''emailAddress'', ''emailAddress2'', ''emailAddress3'']"

definition emailsOf :: "fields \<Rightarrow> string list" where
  "emailsOf c = filter (\<lambda>e. CHR ''@'' \<in> set e) (map (\<lambda>f. js_trim (to_str (coalesce (get_prop c f) (JStr [])))) EMAILS)"

section \<open>Placeholder companies\<close>

definition HISTORY_REFS :: "ref_spec list" where
  "HISTORY_REFS =
     [plain_ref ''Tickets'' ''companyID'' ''tickets'',
      plain_ref ''Projects'' ''companyID'' ''projects'',
      plain_ref ''Contracts'' ''companyID'' ''contracts'',
      plain_ref ''Opportunities'' ''companyID'' ''opportunities'',
      plain_ref ''Quotes'' ''companyID'' ''quotes'',
      plain_ref ''SalesOrders'' ''companyID'' ''sales orders'',
      plain_ref ''ConfigurationItems'' ''companyID'' ''configuration items'',
      plain_ref ''ServiceCalls'' ''companyID'' ''service calls'',
      plain_ref ''Invoices'' ''companyID'' ''invoices'',
      plain_ref ''BillingItems'' ''companyID'' ''billing items'',
      plain_ref ''Companies'' ''parentCompanyID'' ''child companies'']"

definition company_filter :: "fields \<Rightarrow> condition list" where
  "company_filter sel =
     [(''eq'', ''companyName'', get_prop sel ''companyName'')]
     @ (if nullish (get_prop sel ''createdByResourceId'') then [] else [(''eq'', ''createdByResourceID'', get_prop sel ''createdByResourceId'')])
     @ (if truthy (get_prop sel ''createdFrom'') then [(''gte'', ''createDate'', JStr (take 10 (to_str (get_prop sel ''createdFrom'')) @ ''T00:00:00''))] else [])
     @ (if truthy (get_prop sel ''createdTo'') then [(''lte'', ''createDate'', JStr (take 10 (to_str (get_prop sel ''createdTo'')) @ ''T23:59:59''))] else [])"

fun company_history :: "reader \<Rightarrow> jsv list list \<Rightarrow> ref_spec list \<Rightarrow> prep_fail + (rat option \<times> string) list" where
  "company_history q bs [] = Inr []"
| "company_history q bs (sp # sps) =
     (case read_chunks q (rs_entity sp) (rs_field sp) (CheckFailed (rs_label sp)) (Some (TooManyRows (rs_label sp))) bs of
        Inl e \<Rightarrow> Inl e
      | Inr rows \<Rightarrow>
          (case company_history q bs sps of
             Inl e \<Rightarrow> Inl e
           | Inr rest \<Rightarrow> Inr (map (\<lambda>(k, n). (k, nat_to_str n @ '' '' @ rs_label sp)) (tally (map (\<lambda>r. num r (rs_field sp)) rows)) @ rest)))"

definition real_named :: "fields \<Rightarrow> bool" where
  "real_named c \<longleftrightarrow> isPlaceholderContact (get_prop c ''firstName'') (get_prop c ''lastName'') = None"

definition real_names :: "fields list \<Rightarrow> (rat option \<times> string) list" where
  "real_names contacts = List.map_filter (\<lambda>cid.
     case filter (\<lambda>c. num c ''companyID'' = cid \<and> real_named c) contacts of
       [] \<Rightarrow> None
     | r # rs \<Rightarrow> Some (cid, nat_to_str (length (r # rs)) @ '' contact(s) with a real name (e.g. #'' @ to_str (get_prop r ''id'') @ '')''))
     (uniq (map (\<lambda>c. num c ''companyID'') contacts))"

section \<open>The addresses of their contacts\<close>

record mail_group =
  mg_key :: string
  mg_email :: string
  mg_companies :: "rat option list"
  mg_contacts :: "rat option list"

definition mail_groups :: "fields list \<Rightarrow> mail_group list" where
  "mail_groups contacts =
     (let uses = concat (map (\<lambda>c. map (\<lambda>e. (lower e, e, num c ''companyID'', num c ''id'')) (emailsOf c)) contacts) in
      map (\<lambda>k. let xs = filter (\<lambda>(k', _). k' = k) uses in
          \<lparr>mg_key = k, mg_email = fst (snd (hd xs)), mg_companies = uniq (map (\<lambda>(_, _, co, _). co) xs),
           mg_contacts = uniq (map (\<lambda>(_, _, _, i). i) xs)\<rparr>)
        (uniq (map fst uses)))"

fun same_address :: "reader \<Rightarrow> jsv list list \<Rightarrow> string list \<Rightarrow> prep_fail + fields list" where
  "same_address q bs [] = Inr []"
| "same_address q bs (f # fs) =
     (case read_chunks q ''Contacts'' f (CheckFailed (''contacts by '' @ f)) (Some (TooManyRows ''email check'')) bs of
        Inl e \<Rightarrow> Inl e
      | Inr rows \<Rightarrow> (case same_address q bs fs of Inl e \<Rightarrow> Inl e | Inr rest \<Rightarrow> Inr (rows @ rest)))"

definition name_of :: "fields list \<Rightarrow> rat option \<Rightarrow> string option" where
  "name_of rows cid = map_option (\<lambda>r. to_str (coalesce (get_prop r ''companyName'') (JStr []))) (last_with rows cid)"

definition is_real :: "rat option list \<Rightarrow> fields list \<Rightarrow> rat option \<Rightarrow> bool" where
  "is_real selected rows cid \<longleftrightarrow> cid \<notin> set selected
     \<and> (case name_of rows cid of Some n \<Rightarrow> isPlaceholderCompany (JStr n) = None | None \<Rightarrow> False)"

definition contact_emails :: "fields list \<Rightarrow> rat option \<Rightarrow> string list" where
  "contact_emails cs i = (case last_with cs i of Some r \<Rightarrow> map lower (emailsOf r) | None \<Rightarrow> [])"

definition tickets_of :: "fields list \<Rightarrow> fields list \<Rightarrow> string \<Rightarrow> nat" where
  "tickets_of cs tickets k = length (filter ((=) k) (concat (map (\<lambda>t. contact_emails cs (num t ''contactID'')) tickets)))"

definition real_of :: "rat option list \<Rightarrow> fields list \<Rightarrow> fields list \<Rightarrow> string \<Rightarrow> rat option list" where
  "real_of selected rows alike k = uniq (map (\<lambda>c. num c ''companyID'')
     (filter (\<lambda>c. is_real selected rows (num c ''companyID'') \<and> k \<in> set (map lower (emailsOf c))) alike))"

definition addresses :: "jsv \<Rightarrow> string list" where
  "addresses v = filter (\<lambda>e. e \<noteq> []) (map (\<lambda>e. lower (js_trim (to_str e))) (elements v))"

record email_review =
  er_email :: string
  er_copies :: nat
  er_companies :: nat
  er_excluded :: bool
  er_why :: string
  er_real :: "rat option list"
  er_tickets :: nat

definition decide :: "string list \<Rightarrow> string list \<Rightarrow> nat \<Rightarrow> string list \<Rightarrow> string \<Rightarrow> bool \<times> string" where
  "decide listed junk tickets realNames k =
     (if k \<in> set listed then (True, ''listed to keep'')
      else if k \<in> set junk then (False, ''listed as junk'' @ (if tickets > 0 then '' ('' @ nat_to_str tickets @ '' ticket(s) ignored)'' else []))
      else if tickets > 0 then (True, nat_to_str tickets @ '' ticket(s) with this address - a real person'')
      else if realNames \<noteq> [] then (False, ''duplicate: also on '' @ hd realNames
        @ (if length realNames > 1 then '' (+'' @ nat_to_str (length realNames - 1) @ '')'' else []))
      else (False, ''only on placeholder companies''))"

definition review_of :: "fields \<Rightarrow> rat option list \<Rightarrow> fields list \<Rightarrow> fields list \<Rightarrow> fields list \<Rightarrow> fields list \<Rightarrow> mail_group \<Rightarrow> email_review" where
  "review_of sel ids contacts alike names tickets g =
     (let n = tickets_of (contacts @ alike) tickets (mg_key g); real = real_of ids names alike (mg_key g);
          d = decide (addresses (get_prop sel ''excludeEmails'')) (addresses (get_prop sel ''junkEmails'')) n
            (map (\<lambda>c. case name_of names c of Some s \<Rightarrow> s | None \<Rightarrow> []) real) (mg_key g)
      in \<lparr>er_email = mg_email g, er_copies = length (mg_contacts g), er_companies = length (mg_companies g), er_excluded = fst d,
          er_why = snd d, er_real = take 3 real, er_tickets = n\<rparr>)"

definition email_reasons :: "(mail_group \<times> email_review) list \<Rightarrow> (rat option \<times> string) list" where
  "email_reasons rs = concat (map (\<lambda>(g, r).
     if er_excluded r then map (\<lambda>c. (c, ''email '' @ er_email r @ '': '' @ er_why r)) (mg_companies g) else []) rs)"

text \<open>The reads behind the review: same-address contacts, the names of their companies, the tickets.\<close>

definition email_check :: "reader \<Rightarrow> fields \<Rightarrow> rat option list \<Rightarrow> fields list \<Rightarrow> prep_fail + (mail_group \<times> email_review) list" where
  "email_check q sel ids contacts =
     (let groups = mail_groups contacts in
      case same_address q (slices (map (\<lambda>g. JStr (mg_key g)) groups)) EMAILS of
        Inl e \<Rightarrow> Inl e
      | Inr alike \<Rightarrow>
          (let outside = uniq (filter (\<lambda>c. c \<notin> set ids) (map (\<lambda>c. num c ''companyID'') alike)) in
           case read_chunks q ''Companies'' ''id'' (CheckFailed ''companies of same-address contacts'') None (slices (map json_num outside)) of
             Inl e \<Rightarrow> Inl e
           | Inr names \<Rightarrow>
               (let people = uniq (map (\<lambda>c. num c ''id'') (contacts @ alike)) in
                case read_chunks q ''Tickets'' ''contactID'' (CheckFailed ''tickets of same-address contacts'')
                    (Some (TooManyRows ''email check'')) (slices (map json_num people)) of
                  Inl e \<Rightarrow> Inl e
                | Inr tickets \<Rightarrow> Inr (map (\<lambda>g. (g, review_of sel ids contacts alike names tickets g)) groups))))"

section \<open>The items of a placeholder cleanup\<close>

definition reasons_for :: "(rat option \<times> string) list \<Rightarrow> rat option \<Rightarrow> string list" where
  "reasons_for why i = map snd (filter (\<lambda>(k, _). k = i) why)"

definition company_items :: "bool \<Rightarrow> fields list \<Rightarrow> (rat option \<times> string) list \<Rightarrow> fields \<Rightarrow> prep_item list" where
  "company_items includeContacts contacts why c =
     (let i = num c ''id'' in
      if reasons_for why i \<noteq> [] then [kept_out Companies i None (reasons_for why i)]
      else (if includeContacts
            then map (\<lambda>ct. todo Contacts (num ct ''id'') (Some i)) (filter (\<lambda>ct. num ct ''companyID'' = i \<and> is_active ct) contacts)
            else [])
        @ (if is_active c then [todo Companies i None] else []))"

definition preparePlaceholderJob :: "reader \<Rightarrow> fields \<Rightarrow> bool \<Rightarrow> (prep_fail + prep_item list \<times> email_review list) option" where
  "preparePlaceholderJob q sel includeContacts =
     (case read_pages q ''Companies'' (company_filter sel) (Some 0) [] of
        None \<Rightarrow> None
      | Some (Inl e) \<Rightarrow> Some (Inl e)
      | Some (Inr companies) \<Rightarrow>
          (case filter (\<lambda>c. isPlaceholderCompany (get_prop c ''companyName'') = None) companies of
             r # rs \<Rightarrow> Some (Inl (NotPlaceholders (length (r # rs)) (get_prop r ''id'')))
           | [] \<Rightarrow>
               (let ids = map (\<lambda>c. num c ''id'') companies; bs = slices (map json_num ids) in
                case read_chunks q ''Contacts'' ''companyID'' ReadFailed None bs of
                  Inl e \<Rightarrow> Some (Inl e)
                | Inr contacts \<Rightarrow>
                    (case company_history q bs HISTORY_REFS of
                       Inl e \<Rightarrow> Some (Inl e)
                     | Inr hist \<Rightarrow>
                         (case email_check q sel ids contacts of
                            Inl e \<Rightarrow> Some (Inl e)
                          | Inr rs \<Rightarrow>
                              (let why = hist @ real_names contacts @ email_reasons rs in
                               Some (Inr (concat (map (company_items includeContacts contacts why) (by_id companies)), map snd rs))))))))"

section \<open>Domains of addresses\<close>

definition strip_prefix :: "string \<Rightarrow> string \<Rightarrow> string" where
  "strip_prefix p s = (if starts_with s p then drop (length p) s else s)"

definition strip_scheme :: "string \<Rightarrow> string" where
  "strip_scheme t =
     (let l = takeWhile (\<lambda>c. c \<in> set ''abcdefghijklmnopqrstuvwxyz'') t; r = drop (length l) t in
      if l \<noteq> [] \<and> starts_with r ''://'' then drop 3 r else t)"

definition domain_label :: "string \<Rightarrow> bool" where
  "domain_label w \<longleftrightarrow> w \<noteq> [] \<and> list_all (\<lambda>c. c \<in> set ''abcdefghijklmnopqrstuvwxyz0123456789-'') w"

definition domainOf :: "jsv \<Rightarrow> string option" where
  "domainOf s =
     (let t = lower (js_trim (to_str (coalesce s (JStr [])))) in
      if t = [] then None
      else (let host = (if CHR ''@'' \<in> set t then last (split_on (\<lambda>c. c = CHR ''@'') t)
                        else hd (split_on (\<lambda>c. c \<in> set ''/?#:'') (strip_scheme t)));
                w = strip_prefix ''www.'' host;
                h = (if w \<noteq> [] \<and> last w = CHR ''.'' then butlast w else w);
                labels = split_on (\<lambda>c. c = CHR ''.'') h
            in if length labels \<ge> 2 \<and> list_all domain_label labels then Some h else None))"

definition FREE_MAIL_DOMAINS :: "string list" where
  "FREE_MAIL_DOMAINS =
     [''gmail.com'', ''googlemail.com'', ''yahoo.com'', ''ymail.com'', ''hotmail.com'', ''outlook.com'', ''live.com'', ''msn.com'', ''aol.com'',
      ''icloud.com'', ''me.com'', ''mac.com'', ''comcast.net'', ''verizon.net'', ''att.net'', ''sbcglobal.net'', ''protonmail.com'', ''proton.me'',
      ''gmx.com'', ''mail.com'', ''zoho.com'', ''yandex.com'', ''charter.net'', ''cox.net'', ''earthlink.net'', ''bellsouth.net'', ''optonline.net'']"

definition isFreeMailDomain :: "string \<Rightarrow> bool" where
  "isFreeMailDomain d \<longleftrightarrow> d \<in> set FREE_MAIL_DOMAINS"

definition domains :: "fields \<Rightarrow> string list" where
  "domains c = uniq (List.map_filter (\<lambda>f. domainOf (get_prop c f)) EMAILS)"

text \<open>Prefixes taken off without regard to case.\<close>

definition strip_prefix_i :: "string \<Rightarrow> string \<Rightarrow> string" where
  "strip_prefix_i p s = (if starts_with (lower s) p then drop (length p) s else s)"

definition normDomain :: "string \<Rightarrow> string" where
  "normDomain d =
     (let bare = (if starts_with (lower d) ''https://'' then drop 8 d else strip_prefix_i ''http://'' d) in
      case domainOf (JStr (if CHR ''@'' \<in> set d then d else ''x@'' @ strip_prefix_i ''www.'' bare)) of
        Some x \<Rightarrow> x
      | None \<Rightarrow> js_trim (lower d))"

section \<open>Junk contacts of one company\<close>

text \<open>The links found, in order: a contact and the label of what points at it. \<open>have\<close> is the tenant's list of an
  entity's fields, \<^const>\<open>None\<close> when it is not known.\<close>

fun contact_history :: "reader \<Rightarrow> (string \<Rightarrow> string list option) \<Rightarrow> jsv list list \<Rightarrow> ref_spec list \<Rightarrow>
    prep_fail + (rat option \<times> string) list" where
  "contact_history q have bs [] = Inr []"
| "contact_history q have bs (sp # sps) =
     (if (case have (rs_entity sp) of Some fs \<Rightarrow> rs_field sp \<notin> set fs | None \<Rightarrow> False)
      then contact_history q have bs sps
      else (case read_chunks q (rs_entity sp) (rs_field sp) (CheckFailed (rs_label sp)) (Some (TooManyRows (rs_label sp))) bs of
             Inl e \<Rightarrow> Inl e
           | Inr rows \<Rightarrow>
               (case contact_history q have bs sps of
                  Inl e \<Rightarrow> Inl e
                | Inr rest \<Rightarrow> Inr (map (\<lambda>r. (num r (rs_field sp), rs_label sp)) rows @ rest))))"

definition links_of :: "(rat option \<times> string) list \<Rightarrow> rat option \<Rightarrow> (string \<times> nat) list" where
  "links_of links i = tally (map snd (filter (\<lambda>(k, _). k = i) links))"

definition counts_as_history :: "fields \<Rightarrow> string \<Rightarrow> bool" where
  "counts_as_history sel label \<longleftrightarrow> \<not> (truthy (get_prop sel ''ticketsOk'') \<and> label = ''tickets'')"

definition strings_of :: "fields \<Rightarrow> string \<Rightarrow> string list" where
  "strings_of sel k = map to_str (elements (get_prop sel k))"

definition own_domains :: "fields \<Rightarrow> fields \<Rightarrow> fields list \<Rightarrow> (rat option \<times> string) list \<Rightarrow> string list" where
  "own_domains sel company contacts links =
     map normDomain (strings_of sel ''keepDomains'')
     @ (case domainOf (get_prop company ''webAddress'') of Some w \<Rightarrow> if isFreeMailDomain w then [] else [w] | None \<Rightarrow> [])
     @ concat (map (\<lambda>i.
         if list_ex (counts_as_history sel) (map fst (links_of links i))
         then filter (\<lambda>d. \<not> isFreeMailDomain d) (domains (case last_with contacts i of Some c \<Rightarrow> c | None \<Rightarrow> []))
         else []) (uniq (map fst links)))"

definition outside_window :: "fields \<Rightarrow> fields \<Rightarrow> bool" where
  "outside_window sel c \<longleftrightarrow>
     (let d = to_str (coalesce (get_prop c ''createDate'') (JStr [])) in
      (truthy (get_prop sel ''createdFrom'') \<and> str_less d (take 10 (to_str (get_prop sel ''createdFrom'')) @ ''T00:00:00''))
      \<or> (truthy (get_prop sel ''createdTo'') \<and> str_less (take 10 (to_str (get_prop sel ''createdTo'')) @ ''T23:59:59'') d))"

datatype contact_fate = AlreadyInactive | Kept string | NeedsPerson "string list" | Selected

definition fate_of :: "fields \<Rightarrow> string list \<Rightarrow> (rat option \<times> string) list \<Rightarrow> fields \<Rightarrow> contact_fate" where
  "fate_of sel own links c =
     (let i = num c ''id''; ds = domains c;
          explicit = map to_num (elements (get_prop sel ''contactIds''));
          only = map normDomain (strings_of sel ''onlyDomains'');
          reasons = (if get_prop c ''primaryContact'' = JBool True \<or> get_prop c ''primaryContact'' = JNum 1 then [''primary contact''] else [])
            @ map (\<lambda>(l, n). nat_to_str n @ '' '' @ l) (filter (\<lambda>(l, _). counts_as_history sel l) (links_of links i))
      in if \<not> is_active c then AlreadyInactive
         else if explicit \<noteq> [] \<and> i \<notin> set explicit then Kept ''not in the list''
         else if explicit = [] \<and> ds = [] \<and> \<not> truthy (get_prop sel ''includeNoEmail'') then Kept ''no email address''
         else if explicit = [] \<and> list_ex (\<lambda>d. d \<in> set own) ds then Kept ''company domain''
         else if explicit = [] \<and> only \<noteq> [] \<and> \<not> list_ex (\<lambda>d. d \<in> set only) ds then Kept ''domain not selected''
         else if explicit = [] \<and> outside_window sel c then Kept ''created outside the window''
         else if reasons \<noteq> [] then NeedsPerson reasons
         else Selected)"

definition contact_item :: "rat option \<Rightarrow> contact_fate \<Rightarrow> fields \<Rightarrow> prep_item option" where
  "contact_item company fate c =
     (case fate of
        NeedsPerson why \<Rightarrow> Some (kept_out Contacts (num c ''id'') (Some company) why)
      | Selected \<Rightarrow> Some (todo Contacts (num c ''id'') (Some company))
      | _ \<Rightarrow> None)"

definition customer_id :: "fields \<Rightarrow> rat option" where
  "customer_id sel = (case get_prop sel ''companyId'' of JNum r \<Rightarrow> if is_whole r \<and> r > 0 then Some r else None | _ \<Rightarrow> None)"

definition prepareCompanyContactsJob :: "reader \<Rightarrow> (string \<Rightarrow> string list option) \<Rightarrow> fields \<Rightarrow> (prep_fail + prep_item list) option" where
  "prepareCompanyContactsJob q have sel =
     (case customer_id sel of
        None \<Rightarrow> Some (Inl NotACustomer)
      | Some cid \<Rightarrow>
          (case q ''Companies'' [(''eq'', ''id'', JNum cid)] of
             Inl m \<Rightarrow> Some (Inl (ReadFailed m))
           | Inr [] \<Rightarrow> Some (Inl NoCompany)
           | Inr (company # _) \<Rightarrow>
               (case read_pages q ''Contacts'' [(''eq'', ''companyID'', JNum cid)] (Some 0) [] of
                  None \<Rightarrow> None
                | Some (Inl e) \<Rightarrow> Some (Inl e)
                | Some (Inr contacts) \<Rightarrow>
                    (let ids = map (\<lambda>c. num c ''id'') contacts;
                         missing = filter (\<lambda>i. i \<notin> set ids) (map to_num (elements (get_prop sel ''contactIds'')))
                     in if missing \<noteq> [] then Some (Inl (NotOnCompany missing))
                        else (case contact_history q have (slices (map json_num ids)) CONTACT_REFS of
                            Inl e \<Rightarrow> Some (Inl e)
                          | Inr links \<Rightarrow>
                              (let own = own_domains sel company contacts links in
                               Some (Inr (List.map_filter (\<lambda>c. contact_item (Some cid) (fate_of sel own links c) c) (by_id contacts)))))))))"

section \<open>Into the job\<close>

text \<open>The columns are \<open>bigint\<close>: an id that is no whole number makes the insert fail.\<close>

definition whole_id :: "rat option \<Rightarrow> int option" where
  "whole_id v = (case v of Some r \<Rightarrow> if is_whole r then Some \<lfloor>r\<rfloor> else None | None \<Rightarrow> None)"

definition item_row :: "prep_item \<Rightarrow> item_input option" where
  "item_row p =
     (case (whole_id (pi_recordId p), map_option whole_id (pi_parentId p)) of
        (Some i, None) \<Rightarrow> Some \<lparr>ii_entity = pi_entity p, ii_recordId = i, ii_parentId = None, ii_excluded = pi_excluded p, ii_reason = pi_reason p\<rparr>
      | (Some i, Some (Some c)) \<Rightarrow> Some \<lparr>ii_entity = pi_entity p, ii_recordId = i, ii_parentId = Some c, ii_excluded = pi_excluded p, ii_reason = pi_reason p\<rparr>
      | _ \<Rightarrow> None)"

definition item_rows :: "prep_item list \<Rightarrow> item_input list option" where
  "item_rows ps = (if None \<in> set (map item_row ps) then None else Some (map (\<lambda>p. the (item_row p)) ps))"

end
