(* ===== verification/Prepare_Facts.thy ===== *)
theory Prepare_Facts
  imports Bulk_Prepare
begin

text \<open>
  What the preparations of bulk jobs guarantee: a placeholder company or its contacts become items only when
  every history check answered and found nothing, no contact there has a real name, and none of the addresses
  is kept or has tickets; on a customer's account the primary contact, contacts with history and, under the
  domain rule, the company's own addresses are never selected.
\<close>

section \<open>Reads in slices\<close>





lemma tally_keys [simp]: "fst ` set (tally ks) = set ks"
  by (force simp: tally_def)

lemma reasons_for_append [simp]: "reasons_for (a @ b) i = reasons_for a i @ reasons_for b i"
  by (simp add: reasons_for_def)


section \<open>What a clean company is\<close>










section \<open>Only clean companies are touched\<close>














section \<open>Junk contacts of a customer\<close>











end
