(* ===== verification/Contract_Plan.thy ===== *)
theory Contract_Plan
  imports Change_Plans Js_Date
begin

text \<open>
  The contract change plan of a vendor reconciliation (\<open>src/src/vendors/contract-plan.ts\<close>): which
  corrections of cost, price and units are proposed for each report row, and what blocks a row.

  Amounts are rationals (the code rounds to four places). Dates are the \<open>YYYY-MM-DD\<close> texts the code
  compares as text. Labels, reasons and the description of a charge are wording: functions of the input
  (\<open>cp_label\<close>, \<open>cp_reason\<close>, \<open>cp_describe\<close>). The texts of \<open>blocked\<close> are written out, because a row is
  blocked exactly when that text is not empty.
\<close>

section \<open>Report rows and input\<close>

datatype change_kind = KCost | KPrice | KQuantity | KMissingLine | KTerm | KEndLine | KBackbill

fun kind_name :: "change_kind \<Rightarrow> string" where
  "kind_name KCost = ''cost''" | "kind_name KPrice = ''price''" | "kind_name KQuantity = ''quantity''"
| "kind_name KMissingLine = ''missing_line''" | "kind_name KTerm = ''term''" | "kind_name KEndLine = ''end_line''"
| "kind_name KBackbill = ''backbill''"

datatype basis = Month | Year
datatype line_kind = ServiceLine | BundleLine

text \<open>The columns of a report row (\<open>ReconRow\<close>) the plan reads.\<close>

record recon_row =
  rr_rowNo :: int
  rr_exceptionKey :: string
  rr_exceptions :: "string list"
  rr_customerName :: "string option"
  rr_companyId :: "int option"
  rr_companyActive :: "bool option"
  rr_contract :: "string option"
  rr_contractId :: "int option"
  rr_lineKind :: "line_kind option"
  rr_contractServiceId :: "int option"
  rr_serviceId :: "int option"
  rr_serviceName :: "string option"
  rr_bundleLineId :: "int option"
  rr_serviceBundleId :: "int option"
  rr_serviceSku :: string
  rr_primary :: bool
  rr_offeringId :: "int option"
  rr_offering :: "string option"
  rr_cadence :: string
  rr_contractCadence :: "string option"
  rr_basis :: basis
  rr_serviceBasis :: "basis option"
  rr_quantity :: "rat option"
  rr_contractQuantity :: "rat option"
  rr_contractQuantityTotal :: "rat option"
  rr_currentCost :: "rat option"
  rr_currentPrice :: "rat option"
  rr_landedCost :: "rat option"
  rr_priceShouldBe :: "rat option"

record contract_info =
  ci_contractName :: string
  ci_companyID :: int
  ci_startDate :: "string option"
  ci_endDate :: "string option"
  ci_contractType :: "int option"

datatype backbill_price = AtContract | AtTarget | AtPrice rat

record contract_plan_input =
  cp_rows :: "recon_row list"
  cp_include :: "change_kind list"
  cp_effectiveDate :: string
  cp_contracts :: "(int \<times> contract_info) list"
  cp_lastPostedThrough :: "(int \<times> string) list"
  cp_lastPostedBundle :: "(int \<times> string) list"
  cp_licenceContracts :: "(int \<times> int list) list"
  cp_standardService :: "int \<Rightarrow> string \<Rightarrow> int option"
  cp_contractLines :: "(int \<times> (int \<times> int) list) list"
  cp_rowNos :: "int list"
  cp_contractChoices :: "(string \<times> int) list"
  cp_backbillFrom :: "string option"
  cp_backbillPrice :: backbill_price
  cp_billingCode :: "int \<Rightarrow> int option"
  cp_serviceName :: "int \<Rightarrow> string option"
  cp_label :: "change_kind \<Rightarrow> recon_row \<Rightarrow> string"
  cp_reason :: "change_kind \<Rightarrow> recon_row \<Rightarrow> string"
  cp_describe :: "recon_row \<Rightarrow> string"

definition wants :: "contract_plan_input \<Rightarrow> change_kind \<Rightarrow> bool" where
  "wants i k \<longleftrightarrow> k \<in> set (cp_include i)"

definition excepted :: "recon_row \<Rightarrow> string \<Rightarrow> bool" where
  "excepted r e \<longleftrightarrow> e \<in> set (rr_exceptions r)"

definition r4 :: "rat \<Rightarrow> rat" where
  "r4 n = of_int (round_half_up (n * 10000)) / 10000"

definition or0 :: "rat option \<Rightarrow> rat" where
  "or0 v = (case v of Some x \<Rightarrow> x | None \<Rightarrow> 0)"

text \<open>Report amounts are per the vendor's term; they are written per the contract line's own.\<close>

definition native_amount :: "recon_row \<Rightarrow> rat \<Rightarrow> rat" where
  "native_amount r v =
     (let to = (case rr_serviceBasis r of Some b \<Rightarrow> b | None \<Rightarrow> rr_basis r) in
      r4 (if rr_basis r = to then v else case rr_basis r of Year \<Rightarrow> v / 12 | Month \<Rightarrow> v * 12))"

definition nativeOf :: "recon_row \<Rightarrow> rat option \<Rightarrow> rat option" where
  "nativeOf r v = map_option (native_amount r) v"

definition isBundlePriceRow :: "recon_row \<Rightarrow> bool" where
  "isBundlePriceRow r \<longleftrightarrow> rr_lineKind r = Some BundleLine \<and> starts_with (rr_serviceSku r) ''bundle:''"

definition service_line :: "recon_row \<Rightarrow> bool" where
  "service_line r \<longleftrightarrow> rr_lineKind r = Some ServiceLine \<and> rr_contractServiceId r \<noteq> None"

text \<open>What the vendor bills above (or below) the contract, on the row the quantity is compared on.\<close>

definition qty_delta :: "recon_row \<Rightarrow> rat" where
  "qty_delta r = (case rr_quantity r of
     Some q \<Rightarrow> if rr_primary r then r4 (q - (case rr_contractQuantityTotal r of Some t \<Rightarrow> t | None \<Rightarrow> or0 (rr_contractQuantity r))) else 0
   | None \<Rightarrow> 0)"

definition line_change :: "recon_row \<Rightarrow> rat" where
  "line_change r = (if service_line r
     then (if qty_delta r > 0 then qty_delta r else - min (or0 (rr_contractQuantity r)) (- qty_delta r)) else 0)"

definition line_on :: "contract_plan_input \<Rightarrow> int option \<Rightarrow> int option \<Rightarrow> int option" where
  "line_on i contractId serviceId =
     (case (contractId, serviceId) of
        (Some c, Some s) \<Rightarrow> (case map_of (cp_contractLines i) c of Some m \<Rightarrow> map_of m s | None \<Rightarrow> None)
      | _ \<Rightarrow> None)"

section \<open>What blocks a dated row\<close>

definition day10 :: "string option \<Rightarrow> string option" where
  "day10 d = (case d of Some s \<Rightarrow> if s = [] then None else Some (take 10 s) | None \<Rightarrow> None)"

definition dateBlock :: "contract_plan_input \<Rightarrow> int option \<Rightarrow> int option \<Rightarrow> bool \<Rightarrow> string option" where
  "dateBlock i lineId contractId bundle =
     (let eff = cp_effectiveDate i;
          c = (case contractId of Some k \<Rightarrow> map_of (cp_contracts i) k | None \<Rightarrow> None);
          posted = (case lineId of Some k \<Rightarrow> map_of (if bundle then cp_lastPostedBundle i else cp_lastPostedThrough i) k | None \<Rightarrow> None);
          invoiced = (case day10 posted of
              Some d \<Rightarrow> if str_less d eff then None else Some (''already invoiced through '' @ d @ '' - historical credits / rebills need a separate approval'')
            | None \<Rightarrow> None)
      in case c of
           None \<Rightarrow> (case contractId of
               Some k \<Rightarrow> Some (''contract '' @ int_to_str k @ '' is not an active contract'')
             | None \<Rightarrow> invoiced)
         | Some x \<Rightarrow>
             if (case ci_contractType x of Some t \<Rightarrow> t \<noteq> 7 | None \<Rightarrow> False)
             then Some (ci_contractName x @ '' is not a Recurring Service contract - it can't hold services'')
             else if (case day10 (ci_startDate x) of Some s \<Rightarrow> str_less eff s | None \<Rightarrow> False)
             then Some (''effective '' @ eff @ '' is before the contract starts'')
             else if (case day10 (ci_endDate x) of Some e \<Rightarrow> str_less e eff | None \<Rightarrow> False)
             then Some (''effective '' @ eff @ '' is after the contract ends - renew the contract first'')
             else invoiced)"

section \<open>Plan rows\<close>

fun basis_name :: "basis \<Rightarrow> string" where
  "basis_name Month = ''month''" | "basis_name Year = ''year''"

definition line_meta :: "recon_row \<Rightarrow> fields" where
  "line_meta r =
     [(''reconRow'', json_int (rr_rowNo r)), (''exceptionKey'', JStr (rr_exceptionKey r)), (''customer'', json_opt JStr (rr_customerName r)),
      (''companyId'', json_opt json_int (rr_companyId r)), (''contract'', json_opt JStr (rr_contract r)),
      (''product'', json_opt JStr (case rr_offering r of Some x \<Rightarrow> Some x | None \<Rightarrow> rr_serviceName r)),
      (''per'', JStr (basis_name (case rr_serviceBasis r of Some b \<Rightarrow> b | None \<Rightarrow> rr_basis r))),
      (''contractServiceId'', json_opt json_int (rr_contractServiceId r)),
      (''contractServiceBundleId'', json_opt json_int (rr_bundleLineId r)),
      (''offeringId'', json_opt json_int (rr_offeringId r)), (''cadence'', JStr (rr_cadence r))]"

definition amount :: "rat option \<Rightarrow> jsv" where
  "amount v = json_opt JNum v"

definition given :: "string \<Rightarrow> rat option \<Rightarrow> fields" where
  "given k v = (case v of Some x \<Rightarrow> [(k, JNum x)] | None \<Rightarrow> [])"

definition given_id :: "string \<Rightarrow> int option \<Rightarrow> fields" where
  "given_id k v = (case v of Some x \<Rightarrow> [(k, json_int x)] | None \<Rightarrow> [])"

definition change_row :: "contract_plan_input \<Rightarrow> recon_row \<Rightarrow> change_kind \<Rightarrow> row_action \<Rightarrow> string \<Rightarrow> int option \<Rightarrow>
    fields option \<Rightarrow> fields \<Rightarrow> string option \<Rightarrow> plan_input" where
  "change_row i r k act e target before after blocked =
     \<lparr>pr_action = act, pr_entity = e, pr_targetId = map_option of_int target, pr_label = cp_label i k r, pr_before = before,
      pr_after = Some after, pr_reason = Some (cp_reason i k r), pr_blocked = blocked,
      pr_meta = JObj (line_meta r @ [(''kind'', JStr (kind_name k))])\<rparr>"

text \<open>A row for a person only: nothing is written for it, and it carries no kind.\<close>

definition info_row :: "contract_plan_input \<Rightarrow> recon_row \<Rightarrow> change_kind \<Rightarrow> string \<Rightarrow> int option \<Rightarrow> string \<Rightarrow> plan_input" where
  "info_row i r k e target blocked =
     \<lparr>pr_action = Info, pr_entity = e, pr_targetId = map_option of_int target, pr_label = cp_label i k r, pr_before = None, pr_after = None,
      pr_reason = Some (cp_reason i k r), pr_blocked = Some blocked, pr_meta = JObj (line_meta r)\<rparr>"

definition ADJ :: string where "ADJ = ''ContractServiceAdjustments''"

text \<open>An adjustment of units (and, where given, of price and cost) from the effective date.\<close>

definition adjust :: "contract_plan_input \<Rightarrow> int option \<Rightarrow> int option \<Rightarrow> jsv \<Rightarrow> rat \<Rightarrow> rat option \<Rightarrow> rat option \<Rightarrow> fields" where
  "adjust i contractId lineId serviceId change price cost =
     [(''contractID'', json_opt json_int contractId)] @ given_id ''contractServiceID'' lineId @ [(''serviceID'', serviceId),
      (''effectiveDate'', JStr (cp_effectiveDate i)), (''unitChange'', JNum change)] @ given ''adjustedUnitPrice'' price @ given ''adjustedUnitCost'' cost"

definition line_before :: "recon_row \<Rightarrow> fields" where
  "line_before r = [(''units'', amount (rr_contractQuantity r))]
     @ (if or0 (rr_contractQuantity r) \<noteq> 0 then [(''unitPrice'', amount (nativeOf r (rr_currentPrice r)))] else [])"

definition run_catalog :: "recon_row \<Rightarrow> string" where
  "run_catalog r = ''no standard '' @ rr_cadence r @ '' service for '' @ (case rr_offering r of Some x \<Rightarrow> x | None \<Rightarrow> ''null'') @ '' - run the catalog plan first''"

section \<open>Cost\<close>

definition cost_rows :: "contract_plan_input \<Rightarrow> recon_row \<Rightarrow> plan_input list" where
  "cost_rows i r =
     (case (rr_landedCost r, rr_currentCost r) of
        (Some landed, Some cost) \<Rightarrow>
          if wants i KCost \<and> service_line r \<and> or0 (rr_contractQuantity r) > 0 \<and> \<bar>landed - cost\<bar> > 5 / 1000
          then [change_row i r KCost Update ''ContractServices'' (rr_contractServiceId r)
                  (Some [(''unitCost'', JNum (native_amount r cost))]) [(''unitCost'', JNum (native_amount r landed))] None]
          else []
      | _ \<Rightarrow> [])"

section \<open>Moving units to another service\<close>

record move_spec =
  mv_contractId :: int
  mv_fromLineId :: int
  mv_units :: rat
  mv_oldUnitPrice :: "rat option"
  mv_toServiceId :: int
  mv_toLineId :: "int option"
  mv_newUnits :: rat
  mv_unitPrice :: "rat option"
  mv_unitCost :: "rat option"
  mv_blocked :: "string option"

text \<open>The second row depends on the first by its number in the plan.\<close>

definition moveRows :: "contract_plan_input \<Rightarrow> recon_row \<Rightarrow> change_kind \<Rightarrow> move_spec \<Rightarrow> int \<Rightarrow> plan_input list" where
  "moveRows i r k m firstRowNo =
     (let add = change_row i r k Create ADJ None (if mv_toLineId m = None then Some [(''units'', JNum 0)] else None)
            (adjust i (Some (mv_contractId m)) (mv_toLineId m) (json_int (mv_toServiceId m)) (mv_newUnits m) (mv_unitPrice m) (mv_unitCost m))
            (mv_blocked m);
          end_line = change_row i r k Create ADJ None
            (Some ([(''units'', JNum (mv_units m))] @ given ''unitPrice'' (mv_oldUnitPrice m)))
            [(''contractID'', json_int (mv_contractId m)), (''contractServiceID'', json_int (mv_fromLineId m)),
             (''effectiveDate'', JStr (cp_effectiveDate i)), (''unitChange'', JNum (- mv_units m))]
            (mv_blocked m)
      in [add\<lparr>pr_meta := JObj (line_meta r @ [(''move'', JStr ''add''), (''kind'', JStr (kind_name k))])\<rparr>,
          end_line\<lparr>pr_meta := JObj (line_meta r @ [(''move'', JStr ''end''), (''dependsOn'', JArr [json_int firstRowNo]),
            (''kind'', JStr (kind_name k))])\<rparr>])"

definition standard_of :: "contract_plan_input \<Rightarrow> recon_row \<Rightarrow> int option" where
  "standard_of i r = (case rr_offeringId r of Some x \<Rightarrow> cp_standardService i x (rr_cadence r) | None \<Rightarrow> None)"

definition term_spec :: "contract_plan_input \<Rightarrow> recon_row \<Rightarrow> int \<Rightarrow> int \<Rightarrow> int \<Rightarrow> rat \<Rightarrow> move_spec" where
  "term_spec i r contract line std units =
     \<lparr>mv_contractId = contract, mv_fromLineId = line, mv_units = units, mv_oldUnitPrice = nativeOf r (rr_currentPrice r),
      mv_toServiceId = std, mv_toLineId = line_on i (Some contract) (Some std),
      mv_newUnits = (if rr_primary r \<and> qty_delta r \<noteq> 0 then r4 (units + qty_delta r) else units),
      mv_unitPrice = map_option r4 (rr_priceShouldBe r), mv_unitCost = map_option r4 (rr_landedCost r),
      mv_blocked = (if excepted r ''negotiated'' then Some ''a negotiated price applies - agree the new term price first''
                    else dateBlock i (Some line) (Some contract) False)\<rparr>"

text \<open>The rows of a term change, and whether the line moves (no price or quantity row then). \<open>n\<close> rows come before.\<close>

definition term_rows :: "contract_plan_input \<Rightarrow> recon_row \<Rightarrow> int \<Rightarrow> plan_input list \<times> bool" where
  "term_rows i r n =
     (if \<not> (wants i KTerm \<and> excepted r ''term_mismatch'') then ([], False)
      else (case (service_line r, rr_contractServiceId r, standard_of i r, or0 (rr_contractQuantity r) \<noteq> 0, rr_contractId r) of
          (True, Some line, Some std, True, Some contract) \<Rightarrow>
            (moveRows i r KTerm (term_spec i r contract line std (or0 (rr_contractQuantity r))) (n + 1), True)
        | _ \<Rightarrow>
            ([info_row i r KTerm ''ContractServices'' (rr_contractServiceId r)
                (if \<not> service_line r then ''inside a bundle - change the bundle (its other parts may differ)''
                 else if standard_of i r = None then run_catalog r
                 else ''no units on the line this period - nothing to move'')], False)))"

section \<open>Price and quantity\<close>

definition qty_wanted :: "contract_plan_input \<Rightarrow> recon_row \<Rightarrow> bool" where
  "qty_wanted i r \<longleftrightarrow> wants i KQuantity \<and> rr_primary r \<and> qty_delta r \<noteq> 0 \<and> rr_contractId r \<noteq> None
     \<and> (excepted r ''qty_short'' \<or> excepted r ''qty_over'')"

definition price_issue :: "recon_row \<Rightarrow> bool" where
  "price_issue r \<longleftrightarrow> excepted r ''below_cost'' \<or> excepted r ''below_target'' \<or> excepted r ''margin_below_policy'' \<or> excepted r ''negotiated''"

text \<open>One adjustment carries price and quantity where both change on the line.\<close>

definition with_qty :: "contract_plan_input \<Rightarrow> recon_row \<Rightarrow> bool" where
  "with_qty i r \<longleftrightarrow> \<not> isBundlePriceRow r \<and> qty_wanted i r \<and> line_change r \<noteq> 0"

definition price_due :: "contract_plan_input \<Rightarrow> recon_row \<Rightarrow> (rat \<times> rat) option" where
  "price_due i r =
     (case (rr_priceShouldBe r, rr_currentPrice r) of
        (Some target, Some current) \<Rightarrow>
          if wants i KPrice \<and> price_issue r \<and> (or0 (rr_contractQuantity r) > 0 \<or> (qty_wanted i r \<and> line_change r > 0))
            \<and> target > current + 5 / 1000 \<and> (service_line r \<or> isBundlePriceRow r)
          then Some (current, target) else None
      | _ \<Rightarrow> None)"

definition price_rows :: "contract_plan_input \<Rightarrow> recon_row \<Rightarrow> plan_input list" where
  "price_rows i r =
     (case price_due i r of
        None \<Rightarrow> []
      | Some (current, target) \<Rightarrow>
          if isBundlePriceRow r
          then [change_row i r KPrice Create ''ContractServiceBundleAdjustments'' None
                  (Some [(''unitPrice'', JNum (native_amount r current)), (''units'', amount (rr_contractQuantity r))])
                  [(''contractID'', json_opt json_int (rr_contractId r)), (''contractServiceBundleID'', json_opt json_int (rr_bundleLineId r)),
                   (''serviceBundleID'', json_opt json_int (rr_serviceBundleId r)), (''effectiveDate'', JStr (cp_effectiveDate i)),
                   (''unitChange'', JNum 0), (''adjustedUnitPrice'', JNum (native_amount r target))]
                  (dateBlock i (rr_bundleLineId r) (rr_contractId r) True)]
          else [change_row i r KPrice Create ADJ None (Some (line_before r))
                  (adjust i (rr_contractId r) (rr_contractServiceId r) (json_opt json_int (rr_serviceId r))
                    (if with_qty i r then line_change r else 0) (Some (native_amount r target)) (nativeOf r (rr_landedCost r)))
                  (dateBlock i (rr_contractServiceId r) (rr_contractId r) False)])"

definition quantity_rows :: "contract_plan_input \<Rightarrow> recon_row \<Rightarrow> plan_input list" where
  "quantity_rows i r =
     (if \<not> qty_wanted i r \<or> (price_due i r \<noteq> None \<and> with_qty i r) then []
      else if service_line r
      then (if line_change r = 0 then []
            else [change_row i r KQuantity Create ADJ None (Some (line_before r))
                    (adjust i (rr_contractId r) (rr_contractServiceId r) (json_opt json_int (rr_serviceId r)) (line_change r)
                      (nativeOf r (rr_currentPrice r)) (nativeOf r (rr_currentCost r)))
                    (dateBlock i (rr_contractServiceId r) (rr_contractId r) False)])
      else if qty_delta r > 0
      then (let std = standard_of i r; existing = line_on i (rr_contractId r) std in
            [change_row i r KQuantity Create ADJ None (if existing = None then Some [(''units'', JNum 0)] else None)
               (adjust i (rr_contractId r) existing (json_opt json_int std) (qty_delta r) (map_option r4 (rr_priceShouldBe r)) (map_option r4 (rr_landedCost r)))
               (if std = None then Some (run_catalog r) else dateBlock i existing (rr_contractId r) False)])
      else [info_row i r KQuantity ''ContractServiceBundles'' (rr_bundleLineId r)
              ''reducing a bundle changes every part of it - decide with the customer (build a bundle change by hand)''])"

section \<open>Missing and ended lines\<close>

definition only_contract :: "contract_plan_input \<Rightarrow> recon_row \<Rightarrow> int option" where
  "only_contract i r =
     (case map_of (cp_contractChoices i) (rr_exceptionKey r) of
        Some c \<Rightarrow> Some c
      | None \<Rightarrow> (case rr_companyId r of
          Some k \<Rightarrow> (case map_of (cp_licenceContracts i) k of Some [c] \<Rightarrow> Some c | _ \<Rightarrow> None)
        | None \<Rightarrow> None))"

definition missing_rows :: "contract_plan_input \<Rightarrow> recon_row \<Rightarrow> plan_input list" where
  "missing_rows i r =
     (if wants i KMissingLine \<and> excepted r ''not_billed'' \<and> rr_companyId r \<noteq> None \<and> rr_offeringId r \<noteq> None
      then (let contract = only_contract i r; std = standard_of i r; existing = line_on i contract std;
                blocked = (if rr_companyActive r = Some False then Some ''the Autotask company is inactive''
                  else if std = None then Some (run_catalog r)
                  else if contract = None then Some ''choose one (contractChoices) or create the contract first''
                  else if or0 (rr_quantity r) = 0 then Some ''the vendor quantity is unknown''
                  else dateBlock i existing contract False)
            in [change_row i r KMissingLine Create ADJ None (if existing = None then Some [(''units'', JNum 0)] else None)
                  ([(''contractID'', json_opt json_int contract)] @ given_id ''contractServiceID'' existing @ [(''serviceID'', json_opt json_int std),
                    (''effectiveDate'', JStr (cp_effectiveDate i)), (''unitChange'', amount (rr_quantity r))]
                    @ given ''adjustedUnitPrice'' (map_option r4 (rr_priceShouldBe r)) @ given ''adjustedUnitCost'' (map_option r4 (rr_landedCost r)))
                  blocked])
      else [])"

definition end_rows :: "contract_plan_input \<Rightarrow> recon_row \<Rightarrow> plan_input list" where
  "end_rows i r =
     (if \<not> (wants i KEndLine \<and> excepted r ''not_purchased'') then []
      else if service_line r \<and> or0 (rr_contractQuantity r) \<noteq> 0
      then [change_row i r KEndLine Create ADJ None
              (Some ([(''units'', amount (rr_contractQuantity r))] @ given ''unitPrice'' (nativeOf r (rr_currentPrice r))))
              (adjust i (rr_contractId r) (rr_contractServiceId r) (json_opt json_int (rr_serviceId r)) (- or0 (rr_contractQuantity r)) None None)
              (dateBlock i (rr_contractServiceId r) (rr_contractId r) False)]
      else [info_row i r KEndLine ''ContractServiceBundles'' (rr_bundleLineId r) ''inside a bundle - review the bundle with the customer''])"

section \<open>Back-bills\<close>

definition MONTHS :: "string list" where
  "MONTHS = [''Jan'', ''Feb'', ''Mar'', ''Apr'', ''May'', ''Jun'', ''Jul'', ''Aug'', ''Sep'', ''Oct'', ''Nov'', ''Dec'']"

definition monthName :: "string \<Rightarrow> string" where
  "monthName ym = (if 1 \<le> month_of ym \<and> month_of ym \<le> 12 then MONTHS ! (month_of ym - 1) else ym) @ '' '' @ take 4 ym"

text \<open>The day before a date, as \<open>setUTCDate(getUTCDate() - 1)\<close> counts it.\<close>

definition day_before :: "string \<Rightarrow> string" where
  "day_before s =
     (let y = year_of s; m = month_of s; d = day_of s in
      if d > 1 then date_text y m (d - 1)
      else if m > 1 then date_text y (m - 1) (days_in_month y (m - 1))
      else date_text (y - 1) 12 31)"

definition months_between :: "string \<Rightarrow> string \<Rightarrow> int" where
  "months_between from to = (int (year_of to) - int (year_of from)) * 12 + int (month_of to) - int (month_of from)"

definition name_or_number :: "contract_plan_input \<Rightarrow> int \<Rightarrow> string" where
  "name_or_number i s = (case cp_serviceName i s of Some n \<Rightarrow> n | None \<Rightarrow> ''service '' @ int_to_str s)"

definition backbill_months :: "string \<Rightarrow> string \<Rightarrow> string" where
  "backbill_months from eff = monthName (take 7 from)
     @ (if months_between from eff > 1 then '' - '' @ monthName (take 7 (day_before eff)) else [])"

definition backbill_units :: "recon_row \<Rightarrow> rat" where
  "backbill_units r = (if excepted r ''not_billed'' then or0 (rr_quantity r) else if qty_delta r > 0 then qty_delta r else 0)"

definition backbill_price_of :: "contract_plan_input \<Rightarrow> recon_row \<Rightarrow> rat option" where
  "backbill_price_of i r =
     (case cp_backbillPrice i of
        AtPrice p \<Rightarrow> Some p
      | AtTarget \<Rightarrow> rr_priceShouldBe r
      | AtContract \<Rightarrow> (case rr_currentPrice r of Some p \<Rightarrow> Some p | None \<Rightarrow> rr_priceShouldBe r))"

definition backbill_contract :: "contract_plan_input \<Rightarrow> recon_row \<Rightarrow> int option" where
  "backbill_contract i r = (if excepted r ''not_billed'' then only_contract i r else rr_contractId r)"

definition backbill_service :: "contract_plan_input \<Rightarrow> recon_row \<Rightarrow> int option" where
  "backbill_service i r = (if excepted r ''not_billed'' then standard_of i r else rr_serviceId r)"

definition backbill_code :: "contract_plan_input \<Rightarrow> recon_row \<Rightarrow> int option" where
  "backbill_code i r = (case backbill_service i r of Some s \<Rightarrow> cp_billingCode i s | None \<Rightarrow> None)"

definition backbill_blocked :: "contract_plan_input \<Rightarrow> recon_row \<Rightarrow> string \<Rightarrow> string option" where
  "backbill_blocked i r from =
     (if months_between from (cp_effectiveDate i) \<le> 0 then Some (''back-bill from '' @ from @ '' is not before the effective date '' @ cp_effectiveDate i)
      else if rr_basis r = Year then Some ''billed yearly - back-bill an annual term by hand''
      else if backbill_service i r = None then Some (run_catalog r)
      else if backbill_price_of i r = None then Some ''no price to back-bill at''
      else (case backbill_contract i r of
          None \<Rightarrow> Some ''choose the contract to charge (contractChoices)''
        | Some c \<Rightarrow>
            if map_of (cp_contracts i) c = None then Some (''contract '' @ int_to_str c @ '' is not active - reactivate it first'')
            else if backbill_code i r = None then Some ''no material cost code for the charge - pass backbillBillingCodeId'' else None))"

definition backbill_charge :: "contract_plan_input \<Rightarrow> recon_row \<Rightarrow> string \<Rightarrow> fields" where
  "backbill_charge i r from =
     (let eff = cp_effectiveDate i;
          name = (case backbill_service i r of Some s \<Rightarrow> name_or_number i s
            | None \<Rightarrow> (case rr_offering r of Some x \<Rightarrow> x | None \<Rightarrow> ''Service''))
      in [(''contractID'', json_opt json_int (backbill_contract i r))]
         @ (if excepted r ''not_billed'' then [] else given_id ''contractServiceID'' (rr_contractServiceId r))
         @ [(''name'', JStr (take 100 (name @ '' - back-bill '' @ backbill_months from eff))), (''description'', JStr (take 2000 (cp_describe i r))),
            (''chargeType'', JNum 1), (''datePurchased'', JStr (day_before eff)),
            (''unitQuantity'', JNum (r4 (backbill_units r * of_int (max (months_between from eff) 0)))), (''unitPrice'', amount (backbill_price_of i r))]
         @ given ''unitCost'' (map_option r4 (rr_landedCost r))
         @ [(''billingCodeID'', json_opt json_int (backbill_code i r)), (''isBillableToCompany'', JBool True)])"

definition backbill_due :: "contract_plan_input \<Rightarrow> recon_row \<Rightarrow> bool" where
  "backbill_due i r \<longleftrightarrow> wants i KBackbill \<and> \<not> excepted r ''backbilled''
     \<and> (excepted r ''not_billed'' \<or> (rr_primary r \<and> excepted r ''qty_short'')) \<and> backbill_units r > 0"

definition backbill_rows :: "contract_plan_input \<Rightarrow> recon_row \<Rightarrow> plan_input list" where
  "backbill_rows i r =
     (case cp_backbillFrom i of
        None \<Rightarrow> []
      | Some from \<Rightarrow>
          if from \<noteq> [] \<and> backbill_due i r
          then [change_row i r KBackbill Create ''ContractCharges'' None None (backbill_charge i r from) (backbill_blocked i r from)]
          else [])"

section \<open>The plan\<close>

text \<open>The rows of one report row, when \<open>n\<close> rows are already in the plan, in the order of the code.\<close>

definition rows_of :: "contract_plan_input \<Rightarrow> int \<Rightarrow> recon_row \<Rightarrow> plan_input list" where
  "rows_of i n r =
     (let cost = cost_rows i r; (term, moved) = term_rows i r (n + int (length cost)) in
      cost @ term @ (if moved then [] else price_rows i r @ quantity_rows i r) @ missing_rows i r @ backbill_rows i r @ end_rows i r)"

fun plan_rows :: "contract_plan_input \<Rightarrow> int \<Rightarrow> recon_row list \<Rightarrow> plan_input list" where
  "plan_rows i n [] = []"
| "plan_rows i n (r # rs) = (let new = rows_of i n r in new @ plan_rows i (n + int (length new)) rs)"

definition picked :: "contract_plan_input \<Rightarrow> recon_row list" where
  "picked i = (if cp_rowNos i = [] then cp_rows i else filter (\<lambda>r. rr_rowNo r \<in> set (cp_rowNos i)) (cp_rows i))"

definition buildContractPlan :: "contract_plan_input \<Rightarrow> plan_input list" where
  "buildContractPlan i = plan_rows i 0 (picked i)"

section \<open>Units as of the effective date\<close>

text \<open>The difference of each standalone line, taken from its first row; then the sum per customer and product.\<close>

fun line_deltas :: "(int \<times> rat) list \<Rightarrow> recon_row list \<Rightarrow> (int \<times> rat) list \<Rightarrow> (int \<times> rat) list" where
  "line_deltas unitsNow [] d = d"
| "line_deltas unitsNow (r # rs) d =
     line_deltas unitsNow rs
       (case (rr_lineKind r, rr_contractServiceId r) of
          (Some ServiceLine, Some l) \<Rightarrow>
            if map_of d l \<noteq> None then d
            else d @ [(l, or0 (map_of unitsNow l) - or0 (rr_contractQuantity r))]
        | _ \<Rightarrow> d)"

type_synonym product_group = "int option \<times> int option"

definition group_of :: "recon_row \<Rightarrow> product_group" where
  "group_of r = (rr_companyId r, rr_offeringId r)"

definition group_delta :: "(int \<times> rat) list \<Rightarrow> recon_row list \<Rightarrow> product_group \<Rightarrow> rat" where
  "group_delta d rows g =
     sum_list (map (\<lambda>l. or0 (map_of d l))
       (uniq (List.map_filter (\<lambda>r. if group_of r = g then (case rr_contractServiceId r of Some l \<Rightarrow> if map_of d l \<noteq> None then Some l else None | None \<Rightarrow> None) else None) rows)))"

definition rebaseToEffectiveDate :: "recon_row list \<Rightarrow> (int \<times> rat) list \<Rightarrow> recon_row list" where
  "rebaseToEffectiveDate rows unitsNow =
     (let d = line_deltas unitsNow rows [] in
      map (\<lambda>r. let x = (case rr_contractServiceId r of Some l \<Rightarrow> or0 (map_of d l) | None \<Rightarrow> 0); g = group_delta d rows (group_of r) in
        r\<lparr>rr_contractQuantity := (if x \<noteq> 0 then Some (r4 (or0 (rr_contractQuantity r) + x)) else rr_contractQuantity r),
          rr_contractQuantityTotal := (case rr_contractQuantityTotal r of
             Some t \<Rightarrow> if g \<noteq> 0 then Some (r4 (t + g)) else Some t | None \<Rightarrow> None)\<rparr>) rows)"

section \<open>The summary\<close>

definition of_kind :: "change_kind \<Rightarrow> plan_input \<Rightarrow> bool" where
  "of_kind k p \<longleftrightarrow> get_member (pr_meta p) ''kind'' = JStr (kind_name k)"

text \<open>A price row that carries the quantity too counts as both; a move counts once.\<close>

definition kind_count :: "contract_plan_input \<Rightarrow> change_kind \<Rightarrow> nat" where
  "kind_count i k =
     (let n = length (filter (of_kind k) (buildContractPlan i)) in
      case k of
        KTerm \<Rightarrow> n div 2
      | KQuantity \<Rightarrow> n + length (filter (\<lambda>r. \<not> snd (term_rows i r 0) \<and> price_due i r \<noteq> None \<and> with_qty i r) (picked i))
      | _ \<Rightarrow> n)"

definition blocked_count :: "contract_plan_input \<Rightarrow> nat" where
  "blocked_count i = length (filter (\<lambda>p. pr_action p \<noteq> Info \<and> pr_blocked p \<noteq> None) (buildContractPlan i))"

end
