(* ===== verification/Contract_Facts.thy ===== *)
theory Contract_Facts
  imports Contract_Plan
begin

text \<open>
  What the contract plan guarantees: a cost row touches nothing but the cost, a price row only raises the
  price, a units row never takes a line below zero units, an unblocked adjustment lies inside a contract that
  can hold it, and the row that ends an old line depends on the row that adds the new one. Last, a term
  change whose new line gets negative units.
\<close>

definition row_meta :: "plan_input \<Rightarrow> string \<Rightarrow> jsv" where
  "row_meta p k = get_member (pr_meta p) k"

definition row_after :: "plan_input \<Rightarrow> string \<Rightarrow> jsv" where
  "row_after p k = get_prop (or_empty (pr_after p)) k"

definition row_before :: "plan_input \<Rightarrow> string \<Rightarrow> jsv" where
  "row_before p k = get_prop (or_empty (pr_before p)) k"

lemmas row_defs = row_meta_def row_after_def row_before_def get_member_def or_empty_def


lemma change_row_parts [simp]:
  "pr_action (change_row i r k act e t b a bl) = act" "pr_entity (change_row i r k act e t b a bl) = e"
  "pr_blocked (change_row i r k act e t b a bl) = bl" "row_meta (change_row i r k act e t b a bl) ''kind'' = JStr (kind_name k)"
  "row_meta (change_row i r k act e t b a bl) ''move'' = JUndef"
  "row_after (change_row i r k act e t b a bl) f = get_prop a f" "row_before (change_row i r k act e t b a bl) f = get_prop (or_empty b) f"
  by (simp_all add: change_row_def row_defs line_meta_def)

lemma info_row_parts [simp]:
  "pr_action (info_row i r k e t bl) = Info" "row_meta (info_row i r k e t bl) ''kind'' = JUndef" "row_meta (info_row i r k e t bl) ''move'' = JUndef"
  by (simp_all add: info_row_def row_defs line_meta_def)

lemma adjust_parts [simp]:
  "get_prop (adjust i c l s u p k) ''contractID'' = json_opt json_int c"
  "get_prop (adjust i c l s u p k) ''effectiveDate'' = JStr (cp_effectiveDate i)"
  "get_prop (adjust i c l s u p k) ''unitChange'' = JNum u"
  "get_prop (adjust i c l s u p k) ''contractServiceID'' = (case l of Some x \<Rightarrow> json_int x | None \<Rightarrow> JUndef)"
  "get_prop (adjust i c l s u (Some x) k) ''adjustedUnitPrice'' = JNum x"
  by (auto simp: adjust_def given_id_def given_def split: option.splits)

section \<open>Where a row of the plan comes from\<close>

definition sources_of :: "contract_plan_input \<Rightarrow> recon_row \<Rightarrow> plan_input set" where
  "sources_of i r = set (price_rows i r) \<union> set (quantity_rows i r) \<union> set (missing_rows i r) \<union> set (backbill_rows i r) \<union> set (end_rows i r)"

lemma rows_of_cases:
  assumes "p \<in> set (rows_of i n r)"
  shows "p \<in> set (cost_rows i r) \<or> (\<exists>m. p \<in> set (fst (term_rows i r m))) \<or> p \<in> sources_of i r"
  using assms by (auto simp: rows_of_def Let_def sources_of_def split: prod.splits if_splits) (metis fst_conv)+

lemma plan_rows_cases: "p \<in> set (plan_rows i n rs) \<Longrightarrow> \<exists>r \<in> set rs. \<exists>m. p \<in> set (rows_of i m r)"
  by (induction rs arbitrary: n) (auto simp: Let_def)

lemma plan_row_cases:
  assumes "p \<in> set (buildContractPlan i)"
  obtains r where "r \<in> set (picked i)"
    "p \<in> set (cost_rows i r) \<or> (\<exists>m. p \<in> set (fst (term_rows i r m))) \<or> p \<in> sources_of i r"
  using plan_rows_cases [OF assms [unfolded buildContractPlan_def]] rows_of_cases that by blast

lemma term_rows_cases:
  assumes "p \<in> set (fst (term_rows i r n))"
  shows "pr_action p = Info \<or> (\<exists>contract line std units. rr_contractId r = Some contract \<and> rr_contractServiceId r = Some line
    \<and> service_line r \<and> units \<noteq> 0 \<and> p \<in> set (moveRows i r KTerm (term_spec i r contract line std units) (n + 1)))"
proof (cases "wants i KTerm \<and> excepted r ''term_mismatch''")
  case True
  show ?thesis
  proof (cases "service_line r \<and> rr_contractServiceId r \<noteq> None \<and> standard_of i r \<noteq> None \<and> or0 (rr_contractQuantity r) \<noteq> 0 \<and> rr_contractId r \<noteq> None")
    case True
    with \<open>wants i KTerm \<and> _\<close> assms show ?thesis by (force simp: term_rows_def)
  next
    case False
    with \<open>wants i KTerm \<and> _\<close> assms have "pr_action p = Info" by (auto simp: term_rows_def split: option.splits if_splits bool.splits)
    then show ?thesis ..
  qed
next
  case False
  with assms show ?thesis by (auto simp: term_rows_def)
qed

lemma move_kinds:
  assumes "p \<in> set (moveRows i r KTerm m n)"
  shows "row_meta p ''kind'' = JStr ''term''" "pr_action p = Create" "pr_entity p = ADJ" "pr_blocked p = mv_blocked m"
    "row_after p ''contractID'' = json_int (mv_contractId m)" "row_after p ''effectiveDate'' = JStr (cp_effectiveDate i)"
  using assms by (auto simp: moveRows_def Let_def change_row_def row_defs line_meta_def json_opt_def)

section \<open>Prices rise, units stay\<close>

lemma round_less: "x + 1 \<le> y \<Longrightarrow> round_half_up x < round_half_up y"
  by (simp add: round_half_up_def less_floor_iff) linarith

lemma r4_less: "x + 1 / 10000 \<le> y \<Longrightarrow> r4 x < r4 y"
  using round_less [of "x * 10000" "y * 10000"] by (simp add: r4_def divide_strict_right_mono)

lemma native_less: "x + 5 / 1000 < y \<Longrightarrow> native_amount r x < native_amount r y"
  by (auto simp: native_amount_def Let_def intro!: r4_less split: basis.splits)

definition price_raised :: "recon_row \<Rightarrow> plan_input \<Rightarrow> bool" where
  "price_raised r p \<longleftrightarrow> (\<exists>current new. rr_currentPrice r = Some current \<and> row_after p ''adjustedUnitPrice'' = JNum new
     \<and> native_amount r current < new)"

definition units_covered :: "plan_input \<Rightarrow> bool" where
  "units_covered p \<longleftrightarrow> (\<forall>u. row_after p ''unitChange'' = JNum u \<longrightarrow> u < 0 \<longrightarrow> (\<exists>q. row_before p ''units'' = JNum q \<and> 0 \<le> q + u))"

definition cost_only :: "plan_input \<Rightarrow> bool" where
  "cost_only p \<longleftrightarrow> pr_action p = Update \<and> pr_entity p = ''ContractServices'' \<and> map fst (or_empty (pr_after p)) = [''unitCost'']"

lemma price_due_rises: "price_due i r = Some (current, target) \<Longrightarrow> rr_currentPrice r = Some current \<and> native_amount r current < native_amount r target"
  by (auto simp: price_due_def intro: native_less split: option.splits if_splits)

lemma line_change_covered:
  assumes "line_change r < 0"
  shows "\<exists>q. rr_contractQuantity r = Some q \<and> 0 \<le> q + line_change r"
proof (cases "rr_contractQuantity r")
  case None
  with assms show ?thesis by (auto simp: line_change_def or0_def split: if_splits)
next
  case (Some q)
  with assms show ?thesis by (auto simp: line_change_def or0_def split: if_splits)
qed

lemma line_before_units [simp]: "get_prop (or_empty (Some (line_before r))) ''units'' = amount (rr_contractQuantity r)"
  by (simp add: or_empty_def line_before_def)

lemma price_rows_sound:
  assumes "p \<in> set (price_rows i r)"
  shows "row_meta p ''kind'' = JStr ''price'' \<and> price_raised r p \<and> units_covered p"
proof -
  from assms obtain current target where due: "price_due i r = Some (current, target)"
    by (cases "price_due i r") (auto simp: price_rows_def)
  note rise = price_due_rises [OF due]
  show ?thesis
  proof (cases "isBundlePriceRow r")
    case True
    then show ?thesis using assms rise due by (auto simp: price_rows_def price_raised_def units_covered_def)
  next
    case False
    have u: "units_covered (change_row i r k act e t (Some (line_before r)) (adjust i c l s (if with_qty i r then line_change r else 0) pr co) bl)" for k act e t c l s pr co bl
      using line_change_covered [of r] by (auto simp: units_covered_def amount_def json_opt_def)
    then show ?thesis using assms rise due False by (auto simp: price_rows_def price_raised_def)
  qed
qed

lemma quantity_rows_sound:
  assumes "p \<in> set (quantity_rows i r)"
  shows "pr_action p = Info \<or> (row_meta p ''kind'' = JStr ''quantity'' \<and> units_covered p)"
proof -
  have u: "units_covered (change_row i r k act e t (Some (line_before r)) (adjust i c l s (line_change r) pr co) bl)" for k act e t c l s pr co bl
    using line_change_covered [of r] by (auto simp: units_covered_def amount_def json_opt_def)
  show ?thesis using assms u by (auto simp: quantity_rows_def Let_def units_covered_def split: if_splits)
qed

lemma end_rows_sound:
  assumes "p \<in> set (end_rows i r)"
  shows "pr_action p = Info \<or> (row_meta p ''kind'' = JStr ''end_line'' \<and> units_covered p)"
  using assms by (auto simp: end_rows_def units_covered_def or_empty_def amount_def json_opt_def or0_def split: if_splits option.splits)

lemma other_kinds:
  "p \<in> set (missing_rows i r) \<Longrightarrow> row_meta p ''kind'' = JStr ''missing_line''"
  "p \<in> set (backbill_rows i r) \<Longrightarrow> row_meta p ''kind'' = JStr ''backbill''"
  by (auto simp: missing_rows_def backbill_rows_def Let_def split: if_splits option.splits)

lemma cost_rows_sound: "p \<in> set (cost_rows i r) \<Longrightarrow> row_meta p ''kind'' = JStr ''cost'' \<and> cost_only p"
  by (auto simp: cost_rows_def cost_only_def change_row_def row_defs line_meta_def split: option.splits if_splits)

text \<open>C30. In a contract plan a cost row writes nothing but the unit cost; a price row only raises the unit price,
  in the basis the line is billed in; and no price, quantity or ending row takes more units off a line than it
  has.\<close>

theorem contract_rows_sound:
  assumes "p \<in> set (buildContractPlan i)" "pr_action p \<noteq> Info"
  shows "(row_meta p ''kind'' = JStr ''cost'' \<longrightarrow> cost_only p)
    \<and> (row_meta p ''kind'' = JStr ''price'' \<longrightarrow> (\<exists>r \<in> set (picked i). price_raised r p))
    \<and> (row_meta p ''kind'' \<in> {JStr ''price'', JStr ''quantity'', JStr ''end_line''} \<longrightarrow> units_covered p)"
proof -
  from plan_row_cases [OF assms(1)] obtain r where r: "r \<in> set (picked i)"
    and p: "p \<in> set (cost_rows i r) \<or> (\<exists>m. p \<in> set (fst (term_rows i r m))) \<or> p \<in> sources_of i r" by blast
  from p consider "p \<in> set (cost_rows i r)" | m where "p \<in> set (fst (term_rows i r m))" | "p \<in> set (price_rows i r)"
    | "p \<in> set (quantity_rows i r)" | "p \<in> set (missing_rows i r)" | "p \<in> set (backbill_rows i r)" | "p \<in> set (end_rows i r)"
    by (auto simp: sources_of_def)
  then show ?thesis
  proof cases
    case 1 then show ?thesis using cost_rows_sound by fastforce
  next
    case 2 then show ?thesis using term_rows_cases assms(2) move_kinds(1) by fastforce
  next
    case 3 then show ?thesis using price_rows_sound r by fastforce
  next
    case 4 then show ?thesis using quantity_rows_sound assms(2) by fastforce
  next
    case 5 then show ?thesis using other_kinds(1) by fastforce
  next
    case 6 then show ?thesis using other_kinds(2) by fastforce
  next
    case 7 then show ?thesis using end_rows_sound assms(2) by fastforce
  qed
qed

text \<open>A customer with two standalone lines of one product: 2 of 10 units on the compared line, the vendor bills 5.\<close>

definition ex_line :: recon_row where
  "ex_line = \<lparr>rr_rowNo = 1, rr_exceptionKey = ''pax8|3|7|AM'', rr_exceptions = [''qty_over'', ''below_cost'', ''term_mismatch''],
     rr_customerName = Some ''Acme'', rr_companyId = Some 3, rr_companyActive = Some True, rr_contract = Some ''Licences'',
     rr_contractId = Some 5, rr_lineKind = Some ServiceLine, rr_contractServiceId = Some 9, rr_serviceId = Some 40,
     rr_serviceName = Some ''Suite'', rr_bundleLineId = None, rr_serviceBundleId = None, rr_serviceSku = ''S1'', rr_primary = True,
     rr_offeringId = Some 7, rr_offering = Some ''Suite'', rr_cadence = ''AM'', rr_contractCadence = Some ''MM'', rr_basis = Month,
     rr_serviceBasis = Some Month, rr_quantity = Some 5, rr_contractQuantity = Some 2, rr_contractQuantityTotal = Some 10,
     rr_currentCost = Some 8, rr_currentPrice = Some 9, rr_landedCost = Some 10, rr_priceShouldBe = Some 12\<rparr>"

definition ex_contract_input :: "change_kind list \<Rightarrow> contract_plan_input" where
  "ex_contract_input kinds = \<lparr>cp_rows = [ex_line], cp_include = kinds, cp_effectiveDate = ''2026-11-01'',
     cp_contracts = [(5, \<lparr>ci_contractName = ''Licences'', ci_companyID = 3, ci_startDate = Some ''2026-01-01T00:00:00'', ci_endDate = None, ci_contractType = Some 7\<rparr>)],
     cp_lastPostedThrough = [(9, ''2026-10-01'')], cp_lastPostedBundle = [], cp_licenceContracts = [], cp_standardService = (\<lambda>_ _. Some 41),
     cp_contractLines = [], cp_rowNos = [], cp_contractChoices = [], cp_backbillFrom = None, cp_backbillPrice = AtContract,
     cp_billingCode = (\<lambda>_. None), cp_serviceName = (\<lambda>_. None), cp_label = (\<lambda>_ _. []), cp_reason = (\<lambda>_ _. []), cp_describe = (\<lambda>_. [])\<rparr>"

definition ex_plan_row :: "change_kind list \<Rightarrow> nat \<Rightarrow> plan_input" where
  "ex_plan_row kinds n = buildContractPlan (ex_contract_input kinds) ! n"

lemma ex_price_row: "length (buildContractPlan (ex_contract_input [KPrice, KQuantity])) = 1"
  "pr_action (ex_plan_row [KPrice, KQuantity] 0) = Create" "pr_blocked (ex_plan_row [KPrice, KQuantity] 0) = None"
  "row_meta (ex_plan_row [KPrice, KQuantity] 0) ''kind'' = JStr ''price''" "row_after (ex_plan_row [KPrice, KQuantity] 0) ''unitChange'' = JNum (- 2)"
  "row_after (ex_plan_row [KPrice, KQuantity] 0) ''contractID'' = JNum 5" "pr_entity (ex_plan_row [KPrice, KQuantity] 0) = ADJ"
  by code_simp+

lemma ex_price_in: "ex_plan_row [KPrice, KQuantity] 0 \<in> set (buildContractPlan (ex_contract_input [KPrice, KQuantity]))"
  unfolding ex_plan_row_def by (rule nth_mem) (simp add: ex_price_row)

theorem contract_rows_sound_witness:
  "(\<exists>r \<in> set (picked (ex_contract_input [KPrice, KQuantity])). price_raised r (ex_plan_row [KPrice, KQuantity] 0))
   \<and> units_covered (ex_plan_row [KPrice, KQuantity] 0) \<and> row_after (ex_plan_row [KPrice, KQuantity] 0) ''unitChange'' = JNum (- 2)"
proof -
  have a: "pr_action (ex_plan_row [KPrice, KQuantity] 0) \<noteq> Info" using ex_price_row(2) by simp
  show ?thesis using contract_rows_sound [OF ex_price_in a] ex_price_row(4,5) by simp
qed

section \<open>Inside the contract\<close>




lemma json_int_inj [simp]: "json_opt json_int o1 = json_int c \<longleftrightarrow> o1 = Some c" "JNull \<noteq> json_int c" "json_int c \<noteq> JUndef" "JUndef \<noteq> json_int c"
  by (auto simp: json_opt_def json_int_def split: option.splits)



section \<open>A line ends only after its successor\<close>

lemma no_move_price: "p \<in> set (price_rows i r) \<Longrightarrow> row_meta p ''move'' = JUndef"
  by (cases "price_due i r") (auto simp: price_rows_def split: if_splits)

lemma no_move_quantity: "p \<in> set (quantity_rows i r) \<Longrightarrow> row_meta p ''move'' = JUndef"
  by (auto simp: quantity_rows_def Let_def split: if_splits)

lemma no_move_missing: "p \<in> set (missing_rows i r) \<Longrightarrow> row_meta p ''move'' = JUndef"
  by (auto simp: missing_rows_def Let_def split: if_splits)

lemma no_move_backbill: "p \<in> set (backbill_rows i r) \<Longrightarrow> row_meta p ''move'' = JUndef"
  by (cases "cp_backbillFrom i") (simp_all add: backbill_rows_def Let_def split: if_split_asm)

lemma no_move_end: "p \<in> set (end_rows i r) \<Longrightarrow> row_meta p ''move'' = JUndef"
  by (auto simp: end_rows_def split: if_splits)

lemma no_move:
  "p \<in> set (cost_rows i r) \<Longrightarrow> row_meta p ''move'' = JUndef" "p \<in> sources_of i r \<Longrightarrow> row_meta p ''move'' = JUndef"
  using no_move_price no_move_quantity no_move_missing no_move_backbill no_move_end
  by (auto simp: cost_rows_def sources_of_def split: option.splits if_splits)

lemma moveRows_shape:
  "length (moveRows i r k m n) = 2" "row_meta (moveRows i r k m n ! 0) ''move'' = JStr ''add''"
  "row_meta (moveRows i r k m n ! 1) ''move'' = JStr ''end''" "row_meta (moveRows i r k m n ! 1) ''dependsOn'' = JArr [json_int n]"
  "row_meta (moveRows i r k m n ! 1) ''refs'' = JUndef"
  by (simp_all add: moveRows_def Let_def change_row_def row_defs line_meta_def)

text \<open>What is asked of the row at place \<open>k\<close> of a list whose first row has number \<open>n + 1\<close>.\<close>

definition end_follows_add :: "int \<Rightarrow> plan_input list \<Rightarrow> nat \<Rightarrow> bool" where
  "end_follows_add n rows k \<longleftrightarrow> (row_meta (rows ! k) ''move'' = JStr ''end'' \<longrightarrow> 0 < k
     \<and> row_meta (rows ! k) ''dependsOn'' = JArr [json_int (n + int k)] \<and> row_meta (rows ! k) ''refs'' = JUndef \<and> row_meta (rows ! (k - 1)) ''move'' = JStr ''add''
     \<and> row_after (rows ! (k - 1)) ''contractID'' = row_after (rows ! k) ''contractID''
     \<and> row_meta (rows ! (k - 1)) ''reconRow'' = row_meta (rows ! k) ''reconRow'')"

lemma end_follows_append:
  assumes a: "\<And>k. k < length a \<Longrightarrow> end_follows_add n a k"
    and b: "\<And>k. k < length b \<Longrightarrow> end_follows_add (n + int (length a)) b k" and k: "k < length (a @ b)"
  shows "end_follows_add n (a @ b) k"
proof (cases "k < length a")
  case True
  then have "(a @ b) ! k = a ! k" "(a @ b) ! (k - 1) = a ! (k - 1)" by (simp_all add: nth_append)
  with a [OF True] show ?thesis by (simp add: end_follows_add_def)
next
  case False
  let ?m = "k - length a"
  have "end_follows_add (n + int (length a)) b ?m" using b k False by auto
  moreover have "(a @ b) ! k = b ! ?m" "0 < ?m \<Longrightarrow> (a @ b) ! (k - 1) = b ! (?m - 1)" using False by (simp_all add: nth_append)
  moreover have "n + int (length a) + int ?m = n + int k" using False by simp
  ultimately show ?thesis using False by (auto simp: end_follows_add_def)
qed

lemma end_follows_none: "(\<And>p. p \<in> set rows \<Longrightarrow> row_meta p ''move'' = JUndef) \<Longrightarrow> k < length rows \<Longrightarrow> end_follows_add n rows k"
  by (simp add: end_follows_add_def)

lemma term_rows_shape:
  "fst (term_rows i r n) = [] \<or> (\<exists>p. fst (term_rows i r n) = [p] \<and> row_meta p ''move'' = JUndef)
   \<or> (\<exists>m. fst (term_rows i r n) = moveRows i r KTerm m (n + 1))"
  by (auto simp: term_rows_def split: option.splits bool.splits)

lemma end_follows_term: "k < length (fst (term_rows i r n)) \<Longrightarrow> end_follows_add n (fst (term_rows i r n)) k"
proof -
  assume k: "k < length (fst (term_rows i r n))"
  consider "fst (term_rows i r n) = []" | p where "fst (term_rows i r n) = [p]" "row_meta p ''move'' = JUndef"
    | m where "fst (term_rows i r n) = moveRows i r KTerm m (n + 1)" using term_rows_shape by metis
  then show ?thesis
  proof cases
    case 1 then show ?thesis using k by simp
  next
    case 2 then show ?thesis using k by (simp add: end_follows_add_def)
  next
    case 3
    then consider "k = 0" | "k = 1" using k moveRows_shape(1) [of i r KTerm m "n + 1"] by (auto simp: less_2_cases_iff)
    then show ?thesis
    proof cases
      case 1
      then show ?thesis using 3 moveRows_shape(2) by (simp add: end_follows_add_def)
    next
      case 2
      have "set (moveRows i r KTerm m (n + 1)) = {moveRows i r KTerm m (n + 1) ! 0, moveRows i r KTerm m (n + 1) ! 1}"
        by (simp add: moveRows_def Let_def)
      then have "row_after (moveRows i r KTerm m (n + 1) ! 0) ''contractID'' = row_after (moveRows i r KTerm m (n + 1) ! 1) ''contractID''"
        using move_kinds(5) by (metis insertCI)
      moreover have "row_meta (moveRows i r KTerm m (n + 1) ! 0) ''reconRow'' = row_meta (moveRows i r KTerm m (n + 1) ! 1) ''reconRow''"
        by (simp add: moveRows_def Let_def change_row_def row_defs line_meta_def)
      ultimately show ?thesis using 3 2 moveRows_shape [of i r KTerm m "n + 1"] by (simp add: end_follows_add_def)
    qed
  qed
qed

lemma end_follows_rows: "k < length (rows_of i n r) \<Longrightarrow> end_follows_add n (rows_of i n r) k"
proof -
  assume k: "k < length (rows_of i n r)"
  obtain t mv where t: "term_rows i r (n + int (length (cost_rows i r))) = (t, mv)" by fastforce
  define others where "others = (if mv then [] else price_rows i r @ quantity_rows i r) @ missing_rows i r @ backbill_rows i r @ end_rows i r"
  have rows: "rows_of i n r = cost_rows i r @ t @ others" by (simp add: rows_of_def Let_def t others_def)
  have o: "row_meta p ''move'' = JUndef" if "p \<in> set others" for p
    using no_move(2) that by (auto simp: others_def sources_of_def split: if_splits)
  have rest: "end_follows_add (n + int (length (cost_rows i r))) (t @ others) k'" if "k' < length (t @ others)" for k'
  proof (rule end_follows_append [OF _ _ that])
    fix j assume "j < length t"
    then show "end_follows_add (n + int (length (cost_rows i r))) t j"
      using end_follows_term [of j i r "n + int (length (cost_rows i r))"] t by simp
  next
    fix j assume "j < length others"
    then show "end_follows_add (n + int (length (cost_rows i r)) + int (length t)) others j" using end_follows_none [OF o] by blast
  qed
  show ?thesis unfolding rows
  proof (rule end_follows_append [OF _ rest])
    fix j assume "j < length (cost_rows i r)"
    then show "end_follows_add n (cost_rows i r) j" by (metis end_follows_none no_move(1))
  qed (use k rows in simp_all)
qed

lemma end_follows_plan: "k < length (plan_rows i n rs) \<Longrightarrow> end_follows_add n (plan_rows i n rs) k"
proof (induction rs arbitrary: n k)
  case (Cons r rs)
  have "plan_rows i n (r # rs) = rows_of i n r @ plan_rows i (n + int (length (rows_of i n r))) rs" by (simp add: Let_def)
  then show ?case using Cons by (auto intro: end_follows_append end_follows_rows)
qed simp

text \<open>C32. The row of a plan that ends an old line in a move stands right after the row that adds the new one, on
  the same contract and for the same report row, and depends on exactly that row by its number.\<close>

theorem line_ends_after_successor:
  assumes "k < length (buildContractPlan i)" "row_meta (buildContractPlan i ! k) ''move'' = JStr ''end''"
  shows "0 < k \<and> dependsOn (pr_meta (buildContractPlan i ! k)) = [int k]
    \<and> row_meta (buildContractPlan i ! (k - 1)) ''move'' = JStr ''add''
    \<and> row_after (buildContractPlan i ! (k - 1)) ''contractID'' = row_after (buildContractPlan i ! k) ''contractID''
    \<and> row_meta (buildContractPlan i ! (k - 1)) ''reconRow'' = row_meta (buildContractPlan i ! k) ''reconRow''"
proof -
  have f: "end_follows_add 0 (buildContractPlan i) k" using assms(1) end_follows_plan by (simp add: buildContractPlan_def)
  then have d: "get_member (pr_meta (buildContractPlan i ! k)) ''dependsOn'' = JArr [json_int (int k)]"
    and refs: "get_member (pr_meta (buildContractPlan i ! k)) ''refs'' = JUndef"
    using assms(2) by (simp_all add: end_follows_add_def row_meta_def)
  have "to_int (json_int (int k)) = Some (int k)" by (simp add: to_int_def json_int_def is_whole_def)
  then have "dependsOn (pr_meta (buildContractPlan i ! k)) = [int k]"
    by (simp add: dependsOn_def refsOf_def entries_of_def d refs List.map_filter_def uniq_def)
  then show ?thesis using f assms(2) by (simp add: end_follows_add_def)
qed

lemma ex_move_rows:
  "length (buildContractPlan (ex_contract_input [KCost, KTerm])) = 3"
  "row_meta (ex_plan_row [KCost, KTerm] 2) ''move'' = JStr ''end''" "row_meta (ex_plan_row [KCost, KTerm] 1) ''move'' = JStr ''add''"
  "pr_blocked (ex_plan_row [KCost, KTerm] 1) = None" "row_after (ex_plan_row [KCost, KTerm] 1) ''unitChange'' = JNum (- 3)"
  "row_before (ex_plan_row [KCost, KTerm] 1) ''units'' = JNum 0"
  by code_simp+

theorem line_ends_after_successor_witness:
  "dependsOn (pr_meta (buildContractPlan (ex_contract_input [KCost, KTerm]) ! 2)) = [2]
   \<and> row_meta (buildContractPlan (ex_contract_input [KCost, KTerm]) ! 1) ''move'' = JStr ''add''"
proof -
  have "2 < length (buildContractPlan (ex_contract_input [KCost, KTerm]))"
    "row_meta (buildContractPlan (ex_contract_input [KCost, KTerm]) ! 2) ''move'' = JStr ''end''"
    using ex_move_rows by (simp_all add: ex_plan_row_def)
  from line_ends_after_successor [OF this] show ?thesis by simp
qed

text \<open>A term change can propose a new line with a negative number of units: the whole difference to the
  vendor's quantity goes onto the moved line, even when that line holds fewer units than the difference (2 of 10
  units here, the vendor bills 5), and nothing blocks the row.\<close>

theorem term_move_negative_units:
  "\<exists>i p u. p \<in> set (buildContractPlan i) \<and> pr_action p = Create \<and> row_meta p ''move'' = JStr ''add'' \<and> pr_blocked p = None
     \<and> row_before p ''units'' = JNum 0 \<and> row_after p ''unitChange'' = JNum u \<and> u < 0"
proof -
  let ?p = "ex_plan_row [KCost, KTerm] 1"
  have "?p \<in> set (buildContractPlan (ex_contract_input [KCost, KTerm]))"
    unfolding ex_plan_row_def by (rule nth_mem) (simp add: ex_move_rows)
  moreover have "pr_action ?p = Create" by code_simp
  ultimately show ?thesis
    by (intro exI [of _ "ex_contract_input [KCost, KTerm]"] exI [of _ ?p] exI [of _ "- 3"]) (use ex_move_rows in simp)
qed

section \<open>Units as of the effective date\<close>

lemma line_deltas_known: "map_of d l = Some v \<Longrightarrow> map_of (line_deltas now rows d) l = Some v"
  by (induction rows arbitrary: d) (auto simp: map_add_def split: option.splits line_kind.splits)

lemma line_deltas_of:
  assumes "r \<in> set rows" "rr_lineKind r = Some ServiceLine" "rr_contractServiceId r = Some l" "map_of d l = None"
    "\<And>s. s \<in> set rows \<Longrightarrow> rr_contractServiceId s = Some l \<Longrightarrow> or0 (rr_contractQuantity s) = q"
  shows "map_of (line_deltas now rows d) l = Some (or0 (map_of now l) - q)"
  using assms
proof (induction rows arbitrary: d)
  case (Cons s rows)
  show ?case
  proof (cases "rr_lineKind s = Some ServiceLine \<and> rr_contractServiceId s = Some l")
    case True
    then have "or0 (rr_contractQuantity s) = q" using Cons.prems(5) by simp
    then have "map_of (d @ [(l, or0 (map_of now l) - or0 (rr_contractQuantity s))]) l = Some (or0 (map_of now l) - q)"
      using Cons.prems(4) by (simp add: map_add_def)
    with line_deltas_known [OF this] True Cons.prems(4) show ?thesis by simp
  next
    case False
    then have r: "r \<in> set rows" using Cons.prems by auto
    have "map_of (case (rr_lineKind s, rr_contractServiceId s) of
          (Some ServiceLine, Some l) \<Rightarrow> if map_of d l \<noteq> None then d else d @ [(l, or0 (map_of now l) - or0 (rr_contractQuantity s))]
        | _ \<Rightarrow> d) l = None"
      using False Cons.prems(4) by (auto simp: map_add_def split: option.splits line_kind.splits)
    from Cons.IH [OF r Cons.prems(2,3) this] Cons.prems(5) show ?thesis by simp
  qed
qed simp

text \<open>After re-basing, every standalone line shows its units on the effective date (to four places), as long as
  the report shows one quantity per line.\<close>

lemma rebase_shows_units:
  assumes "r \<in> set rows" "rr_lineKind r = Some ServiceLine" "rr_contractServiceId r = Some l"
    "\<And>s. s \<in> set rows \<Longrightarrow> rr_contractServiceId s = Some l \<Longrightarrow> or0 (rr_contractQuantity s) = or0 (rr_contractQuantity r)"
  shows "\<exists>r' \<in> set (rebaseToEffectiveDate rows now). rr_rowNo r' = rr_rowNo r \<and> rr_contractServiceId r' = Some l
    \<and> (or0 (rr_contractQuantity r') = r4 (or0 (map_of now l)) \<or> (or0 (rr_contractQuantity r') = or0 (map_of now l)))"
proof -
  have d: "map_of (line_deltas now rows []) l = Some (or0 (map_of now l) - or0 (rr_contractQuantity r))"
    by (rule line_deltas_of [OF assms(1-3)]) (use assms(4) in auto)
  show ?thesis using assms(1,3) d unfolding rebaseToEffectiveDate_def Let_def
    by (intro bexI [OF _ imageI [OF assms(1), of _, folded set_map]]) (auto simp: or0_def split: option.splits)
qed

end
