(* ===== verification/Project_Plan.thy ===== *)
theory Project_Plan
  imports Js_Values
begin

text \<open>
  Project build plans (\<open>src/src/utils/project-plan.ts\<close>) and their build order
  (\<open>src/src/utils/project-build.ts\<close>): the structural validation with its depth-first cycle search, and
  the order in which phases, tasks and dependencies are created.

  \<open>estimatedHours\<close> and \<open>lagDays\<close> are read with \<open>Number(v)\<close>, so they are any JSON value. The search and
  the phase order recurse along references; their fuel (one more than the number of nodes) is shown to
  be enough in \<open>Project_Facts\<close>.
\<close>

section \<open>The plan\<close>

record plan_phase =
  ph_ref :: string
  ph_title :: string
  ph_parentRef :: "string option"

record plan_task =
  pt_ref :: string
  pt_title :: string
  pt_estimatedHours :: jsv
  pt_phaseRef :: "string option"
  pt_crewSize :: "rat option"
  pt_predecessors :: "string list"
  pt_lagDays :: jsv
  pt_milestone :: bool

record build_plan =
  bp_name :: string
  bp_phases :: "plan_phase list"
  bp_tasks :: "plan_task list"

datatype plan_error =
    NameRequired
  | PhaseNeedsRef | DuplicatePhase string | UnknownParent string string | OwnParent string | PhaseCycle string
  | TaskNeedsRef | DuplicateTask string | UnknownPhase string string | UnknownPredecessor string string
  | OwnPredecessor string | NegativeHours string | BadCrew string | DependencyCycle string

section \<open>Cycle search\<close>

text \<open>A node is unseen, in the stack (seen and not done), or done. \<open>adj\<close> is a map built from the pairs:
  the last pair of a node counts.\<close>

record search =
  sr_seen :: "string list"
  sr_done :: "string list"
  sr_reported :: "string list"

definition adjacent :: "(string \<times> string list) list \<Rightarrow> string \<Rightarrow> string list" where
  "adjacent edges v = (case map_of (rev edges) v of None \<Rightarrow> [] | Some ws \<Rightarrow> ws)"

definition report :: "string \<Rightarrow> search \<Rightarrow> search" where
  "report w s = (if w \<in> set (sr_reported s) then s else s\<lparr>sr_reported := sr_reported s @ [w]\<rparr>)"

fun visit :: "nat \<Rightarrow> (string \<Rightarrow> string list) \<Rightarrow> string \<Rightarrow> search \<Rightarrow> (bool \<times> search) option"
  and visit_nexts :: "nat \<Rightarrow> (string \<Rightarrow> string list) \<Rightarrow> string list \<Rightarrow> search \<Rightarrow> (bool \<times> search) option" where
  "visit 0 adj v s = None"
| "visit (Suc n) adj v s =
     (case visit_nexts n adj (adj v) (s\<lparr>sr_seen := v # sr_seen s\<rparr>) of
        Some (False, s') \<Rightarrow> Some (False, s'\<lparr>sr_done := v # sr_done s'\<rparr>)
      | r \<Rightarrow> r)"
| "visit_nexts n adj [] s = Some (False, s)"
| "visit_nexts n adj (w # ws) s =
     (if w \<in> set (sr_seen s) \<and> w \<notin> set (sr_done s) then Some (True, report w s)
      else if w \<in> set (sr_seen s) then visit_nexts n adj ws s
      else case visit n adj w s of
          Some (False, s') \<Rightarrow> visit_nexts n adj ws s'
        | r \<Rightarrow> r)"

fun search_from :: "nat \<Rightarrow> (string \<Rightarrow> string list) \<Rightarrow> string list \<Rightarrow> search \<Rightarrow> search option" where
  "search_from n adj [] s = Some s"
| "search_from n adj (v # vs) s =
     (if v \<in> set (sr_seen s) then search_from n adj vs s
      else case visit n adj v s of None \<Rightarrow> None | Some (_, s') \<Rightarrow> search_from n adj vs s')"

text \<open>The nodes reported, in order.\<close>

definition detectRefCycle :: "(string \<times> string list) list \<Rightarrow> string list" where
  "detectRefCycle edges =
     (case search_from (Suc (length edges)) (adjacent edges) (map fst edges) \<lparr>sr_seen = [], sr_done = [], sr_reported = []\<rparr> of
        None \<Rightarrow> [] | Some s \<Rightarrow> sr_reported s)"

section \<open>Validation\<close>

fun ref_errors :: "plan_error \<Rightarrow> (string \<Rightarrow> plan_error) \<Rightarrow> string list \<Rightarrow> string list \<Rightarrow> plan_error list" where
  "ref_errors missing dup seen [] = []"
| "ref_errors missing dup seen (r # rs) =
     (if r = [] then missing # ref_errors missing dup seen rs
      else (if r \<in> set seen then [dup r] else []) @ ref_errors missing dup (r # seen) rs)"

definition known_refs :: "string list \<Rightarrow> string list" where
  "known_refs rs = filter (\<lambda>r. r \<noteq> []) rs"

definition phase_errors :: "string list \<Rightarrow> plan_phase \<Rightarrow> plan_error list" where
  "phase_errors known p =
     (case ph_parentRef p of
        None \<Rightarrow> []
      | Some q \<Rightarrow> (if q \<notin> set known then [UnknownParent (ph_ref p) q] else [])
          @ (if q = ph_ref p then [OwnParent (ph_ref p)] else []))"

definition phase_edges :: "string list \<Rightarrow> plan_phase list \<Rightarrow> (string \<times> string list) list" where
  "phase_edges known ps =
     concat (map (\<lambda>p. case ph_parentRef p of Some q \<Rightarrow> if q \<in> set known then [(ph_ref p, [q])] else [] | None \<Rightarrow> []) ps)"

definition below_zero :: "jsv \<Rightarrow> bool" where
  "below_zero v = (case to_num (coalesce v (JNum 0)) of None \<Rightarrow> False | Some r \<Rightarrow> r < 0)"

definition pre_errors :: "string list \<Rightarrow> string \<Rightarrow> string \<Rightarrow> plan_error list" where
  "pre_errors known t pre =
     (if pre \<notin> set known then [UnknownPredecessor t pre] else []) @ (if pre = t then [OwnPredecessor t] else [])"

definition task_errors :: "string list \<Rightarrow> string list \<Rightarrow> plan_task \<Rightarrow> plan_error list" where
  "task_errors phases tasks t =
     (case pt_phaseRef t of Some q \<Rightarrow> if q \<notin> set phases then [UnknownPhase (pt_ref t) q] else [] | None \<Rightarrow> [])
     @ concat (map (pre_errors tasks (pt_ref t)) (pt_predecessors t))
     @ (if below_zero (pt_estimatedHours t) then [NegativeHours (pt_ref t)] else [])
     @ (case pt_crewSize t of Some c \<Rightarrow> if c \<le> 0 then [BadCrew (pt_ref t)] else [] | None \<Rightarrow> [])"

definition task_edges :: "string list \<Rightarrow> plan_task list \<Rightarrow> (string \<times> string list) list" where
  "task_edges known ts = map (\<lambda>t. (pt_ref t, filter (\<lambda>p. p \<in> set known) (pt_predecessors t))) ts"

definition validateBuildPlan :: "build_plan \<Rightarrow> plan_error list" where
  "validateBuildPlan plan =
     (let ps = bp_phases plan; ts = bp_tasks plan;
          pk = known_refs (map ph_ref ps); tk = known_refs (map pt_ref ts) in
      (if js_trim (bp_name plan) = [] then [NameRequired] else [])
      @ ref_errors PhaseNeedsRef DuplicatePhase [] (map ph_ref ps)
      @ concat (map (phase_errors pk) ps)
      @ map PhaseCycle (detectRefCycle (phase_edges pk ps))
      @ ref_errors TaskNeedsRef DuplicateTask [] (map pt_ref ts)
      @ concat (map (task_errors pk tk) ts)
      @ map DependencyCycle (detectRefCycle (task_edges tk ts)))"

section \<open>Build order\<close>

record dependency_edge =
  de_taskRef :: string
  de_predecessorRef :: string
  de_lagDays :: jsv

record blueprint =
  bb_orderedPhases :: "plan_phase list"
  bb_tasks :: "plan_task list"
  bb_dependencies :: "dependency_edge list"

definition phase_of :: "plan_phase list \<Rightarrow> string \<Rightarrow> plan_phase option" where
  "phase_of ps = map_of (rev (map (\<lambda>p. (ph_ref p, p)) ps))"

definition append_phase :: "plan_phase \<Rightarrow> plan_phase list \<Rightarrow> plan_phase list" where
  "append_phase p out = (if ph_ref p \<in> ph_ref ` set out then out else out @ [p])"

fun place :: "nat \<Rightarrow> (string \<Rightarrow> plan_phase option) \<Rightarrow> plan_phase \<Rightarrow> string list \<Rightarrow> plan_phase list \<Rightarrow> plan_phase list option" where
  "place 0 by_ref p guard out = None"
| "place (Suc n) by_ref p guard out =
     (if ph_ref p \<in> ph_ref ` set out \<or> ph_ref p \<in> set guard then Some out
      else case (case ph_parentRef p of None \<Rightarrow> None | Some q \<Rightarrow> by_ref q) of
          None \<Rightarrow> Some (append_phase p out)
        | Some parent \<Rightarrow> map_option (append_phase p) (place n by_ref parent (ph_ref p # guard) out))"

fun place_all :: "nat \<Rightarrow> (string \<Rightarrow> plan_phase option) \<Rightarrow> plan_phase list \<Rightarrow> plan_phase list \<Rightarrow> plan_phase list option" where
  "place_all n by_ref [] out = Some out"
| "place_all n by_ref (p # ps) out = Option.bind (place n by_ref p [] out) (place_all n by_ref ps)"

definition orderPhasesForCreate :: "plan_phase list \<Rightarrow> plan_phase list option" where
  "orderPhasesForCreate ps = place_all (Suc (length ps)) (phase_of ps) ps []"

definition plan_dependencies :: "plan_task list \<Rightarrow> dependency_edge list" where
  "plan_dependencies ts = concat (map (\<lambda>t. map (\<lambda>pre.
     \<lparr>de_taskRef = pt_ref t, de_predecessorRef = pre, de_lagDays = coalesce (pt_lagDays t) (JNum 0)\<rparr>) (pt_predecessors t)) ts)"

definition planProjectBuild :: "build_plan \<Rightarrow> blueprint option" where
  "planProjectBuild plan = map_option (\<lambda>ps. \<lparr>bb_orderedPhases = ps, bb_tasks = bp_tasks plan,
     bb_dependencies = plan_dependencies (bp_tasks plan)\<rparr>) (orderPhasesForCreate (bp_phases plan))"

definition buildMarker :: "string \<Rightarrow> string" where
  "buildMarker key = ''[atmcp-build-key:'' @ key @ '']''"

definition hasBuildMarker :: "string option \<Rightarrow> string \<Rightarrow> bool" where
  "hasBuildMarker text key = (case text of None \<Rightarrow> False | Some s \<Rightarrow> has_substr s (buildMarker key))"

end
