(* ===== verification/Project_Schedule.thy ===== *)
theory Project_Schedule
  imports Project_Plan Js_Date
begin

text \<open>
  The project scheduler (\<open>src/src/utils/project-schedule.ts\<close>): working-day arithmetic, Kahn's ordering of
  the tasks, the forward pass that dates each task, the driving path and the warnings.

  A \<open>Date\<close> here is always a midnight UTC and is modelled as its day number. The two loops over days carry
  the code's own guards (3660 and 366000 steps). The ordering loop has as fuel the number of tasks, which
  \<open>Project_Facts\<close> shows to be enough for a valid plan. The range of \<open>Date\<close> (about the year 275760) is not modelled.
\<close>

section \<open>Working days\<close>

type_synonym day = int

definition is_iso_date :: "string \<Rightarrow> bool" where
  "is_iso_date s \<longleftrightarrow> iso_day s"

definition parseISODate :: "string \<Rightarrow> day option" where
  "parseISODate s = (if is_iso_date s then date_parse s else None)"

definition makeIsWorkingDay :: "rat list \<Rightarrow> string list \<Rightarrow> day \<Rightarrow> bool" where
  "makeIsWorkingDay week holidays t \<longleftrightarrow> of_int (isoWeekday t) \<in> set week \<and> formatISODate t \<notin> set holidays"

function roll_from :: "(day \<Rightarrow> bool) \<Rightarrow> int \<Rightarrow> day \<Rightarrow> day" where
  "roll_from w i d = (if i < 3660 \<and> \<not> w d then roll_from w (i + 1) (d + 1) else d)"
  by pat_completeness auto
termination by (relation "measure (\<lambda>(_, i, _). nat (3660 - i))") auto

function advance_from :: "(day \<Rightarrow> bool) \<Rightarrow> int \<Rightarrow> rat \<Rightarrow> day \<Rightarrow> day" where
  "advance_from w guard remaining d =
     (if remaining > 0 \<and> guard < 366000
      then advance_from w (guard + 1) (if w (d + 1) then remaining - 1 else remaining) (d + 1) else d)"
  by pat_completeness auto
termination by (relation "measure (\<lambda>(_, g, _, _). nat (366000 - g))") auto

declare roll_from.simps [simp del] advance_from.simps [simp del]

definition rollToWorkingDay :: "(day \<Rightarrow> bool) \<Rightarrow> day \<Rightarrow> day" where
  "rollToWorkingDay w t = roll_from w 0 t"

definition advanceWorkingDays :: "(day \<Rightarrow> bool) \<Rightarrow> day \<Rightarrow> rat \<Rightarrow> day" where
  "advanceWorkingDays w t n = advance_from w 0 n t"

definition workingDaysBetween :: "(day \<Rightarrow> bool) \<Rightarrow> day \<Rightarrow> day \<Rightarrow> nat" where
  "workingDaysBetween w from to = length (filter w [from..to])"

section \<open>Durations\<close>

definition js_number :: "jsv \<Rightarrow> rat" where
  "js_number v = (case to_num v of None \<Rightarrow> 0 | Some r \<Rightarrow> r)"

definition durationDaysFor :: "plan_task \<Rightarrow> rat \<Rightarrow> rat \<Rightarrow> int" where
  "durationDaysFor t crew hoursPerDay =
     (if pt_milestone t then 0
      else if js_number (pt_estimatedHours t) \<le> 0 then 0
      else max 1 \<lceil>js_number (pt_estimatedHours t) / (crew * hoursPerDay)\<rceil>)"

section \<open>Order of the tasks\<close>

text \<open>Predecessors that are tasks of the plan; how often each is still waited for; who waits for a task.\<close>

definition preds_in :: "plan_task list \<Rightarrow> plan_task \<Rightarrow> string list" where
  "preds_in ts t = filter (\<lambda>p. p \<in> pt_ref ` set ts) (pt_predecessors t)"

definition start_indeg :: "plan_task list \<Rightarrow> string \<Rightarrow> int" where
  "start_indeg ts r = int (length (concat (map (preds_in ts) (filter (\<lambda>t. pt_ref t = r) ts))))"

definition successors :: "plan_task list \<Rightarrow> string \<Rightarrow> string list" where
  "successors ts p = concat (map (\<lambda>t. map (\<lambda>_. pt_ref t) (filter (\<lambda>q. q = p) (preds_in ts t))) ts)"

fun release_all :: "string list \<Rightarrow> (string \<Rightarrow> int) \<Rightarrow> string list \<Rightarrow> (string \<Rightarrow> int) \<times> string list" where
  "release_all [] indeg queue = (indeg, queue)"
| "release_all (s # ss) indeg queue =
     (let i = indeg s - 1 in release_all ss (indeg(s := i)) (if i = 0 then queue @ [s] else queue))"

fun kahn :: "nat \<Rightarrow> (string \<Rightarrow> string list) \<Rightarrow> (string \<Rightarrow> int) \<Rightarrow> string list \<Rightarrow> string list \<Rightarrow> string list option" where
  "kahn n succs indeg [] out = Some out"
| "kahn 0 succs indeg (r # queue) out = None"
| "kahn (Suc n) succs indeg (r # queue) out =
     (let (indeg', queue') = release_all (succs r) indeg queue in kahn n succs indeg' queue' (out @ [r]))"

definition topoOrder :: "plan_task list \<Rightarrow> string list option" where
  "topoOrder ts =
     (let refs = map pt_ref ts in
      case kahn (length refs) (successors ts) (start_indeg ts) (filter (\<lambda>r. start_indeg ts r = 0) refs) [] of
        None \<Rightarrow> None
      | Some out \<Rightarrow> if length out = length refs then Some out else None)"

section \<open>The forward pass\<close>

record placed =
  pl_start :: day
  pl_end :: day
  pl_driver :: "string option"

type_synonym dates = "(string \<times> placed) list"

record schedule_options =
  so_startDate :: string
  so_hoursPerDay :: "rat option"
  so_defaultCrewSize :: "rat option"
  so_workweek :: "rat list option"
  so_holidays :: "string list option"
  so_targetCompletionDate :: "string option"

definition or_else :: "'a option \<Rightarrow> 'a \<Rightarrow> 'a" where
  "or_else a d = (case a of None \<Rightarrow> d | Some x \<Rightarrow> x)"

definition crew_of :: "schedule_options \<Rightarrow> plan_task \<Rightarrow> rat" where
  "crew_of opt t = or_else (pt_crewSize t) (or_else (so_defaultCrewSize opt) 1)"

definition duration_of :: "schedule_options \<Rightarrow> plan_task \<Rightarrow> int" where
  "duration_of opt t = durationDaysFor t (crew_of opt t) (or_else (so_hoursPerDay opt) 8)"

definition working_day :: "schedule_options \<Rightarrow> day \<Rightarrow> bool" where
  "working_day opt = makeIsWorkingDay (or_else (so_workweek opt) [1, 2, 3, 4, 5]) (or_else (so_holidays opt) [])"

definition lag_of :: "plan_task \<Rightarrow> rat" where
  "lag_of t = max 0 (js_number (pt_lagDays t))"

text \<open>The earliest start after the placed predecessors, and the last predecessor that moved it.\<close>

fun bind_start :: "(day \<Rightarrow> bool) \<Rightarrow> rat \<Rightarrow> dates \<Rightarrow> string list \<Rightarrow> day \<times> string option \<Rightarrow> day \<times> string option" where
  "bind_start w lag ds [] sd = sd"
| "bind_start w lag ds (p # ps) (s, driver) =
     bind_start w lag ds ps
       (case map_of ds p of
          None \<Rightarrow> (s, driver)
        | Some pl \<Rightarrow> (let c = advanceWorkingDays w (pl_end pl) (1 + lag) in if c > s then (c, Some p) else (s, driver)))"

definition place_task :: "schedule_options \<Rightarrow> day \<Rightarrow> dates \<Rightarrow> plan_task \<Rightarrow> placed" where
  "place_task opt projectStart ds t =
     (let w = working_day opt; dur = duration_of opt t;
          (s0, driver) = bind_start w (lag_of t) ds (pt_predecessors t) (projectStart, None);
          s = rollToWorkingDay w s0 in
      \<lparr>pl_start = s, pl_end = (if dur \<le> 0 then s else advanceWorkingDays w s (of_int (dur - 1))), pl_driver = driver\<rparr>)"

fun task_by_ref :: "plan_task list \<Rightarrow> string \<Rightarrow> plan_task option" where
  "task_by_ref ts r = map_of (rev (map (\<lambda>t. (pt_ref t, t)) ts)) r"

fun date_tasks :: "schedule_options \<Rightarrow> day \<Rightarrow> plan_task list \<Rightarrow> string list \<Rightarrow> dates \<Rightarrow> dates" where
  "date_tasks opt start ts [] ds = ds"
| "date_tasks opt start ts (r # rs) ds =
     date_tasks opt start ts rs
       (case task_by_ref ts r of None \<Rightarrow> ds | Some t \<Rightarrow> upsert ds r (place_task opt start ds t))"

section \<open>Completion and driving path\<close>

text \<open>The latest finish; equal finishes go to the later start.\<close>

fun finish_of :: "(string \<Rightarrow> placed) \<Rightarrow> string list \<Rightarrow> string option \<times> day \<Rightarrow> string option \<times> day" where
  "finish_of at_ref [] f = f"
| "finish_of at_ref (r # rs) (fin, ts) =
     finish_of at_ref rs
       (let e = pl_end (at_ref r) in
        case fin of
          None \<Rightarrow> (Some r, e)
        | Some f \<Rightarrow> if e > ts \<or> (e = ts \<and> pl_start (at_ref r) > pl_start (at_ref f)) then (Some r, e) else (fin, ts))"

fun walk_back :: "nat \<Rightarrow> (string \<Rightarrow> string option) \<Rightarrow> string option \<Rightarrow> string list \<Rightarrow> string list" where
  "walk_back 0 driver cursor path = path"
| "walk_back (Suc n) driver cursor path =
     (case cursor of
        None \<Rightarrow> path
      | Some c \<Rightarrow> if c = [] then path else walk_back n driver (driver c) (c # path))"

record scheduled_task =
  st_ref :: string
  st_title :: string
  st_phaseRef :: "string option"
  st_estimatedHours :: rat
  st_crewSize :: rat
  st_durationDays :: int
  st_startDate :: string
  st_endDate :: string
  st_isMilestone :: bool
  st_isCritical :: bool
  st_predecessors :: "string list"

datatype schedule_warning = NoTasks | PastDeadline nat day day

record project_schedule =
  ps_startDate :: string
  ps_targetCompletionDate :: string
  ps_durationWorkingDays :: nat
  ps_durationCalendarDays :: int
  ps_hoursPerDay :: rat
  ps_defaultCrewSize :: rat
  ps_totalEstimatedHours :: rat
  ps_taskCount :: nat
  ps_criticalPath :: "string list"
  ps_milestones :: "(string \<times> string \<times> string) list"
  ps_tasks :: "scheduled_task list"
  ps_warnings :: "schedule_warning list"

datatype schedule_error = InvalidPlan "plan_error list" | BadHoursPerDay | BadCrewSize | BadWeekday rat | EmptyWeek
  | BadDate string | CycleWhileOrdering

definition check_options :: "schedule_options \<Rightarrow> schedule_error option" where
  "check_options opt =
     (if or_else (so_hoursPerDay opt) 8 \<le> 0 then Some BadHoursPerDay
      else if or_else (so_defaultCrewSize opt) 1 \<le> 0 then Some BadCrewSize
      else let week = uniq (or_else (so_workweek opt) [1, 2, 3, 4, 5]) in
        case find (\<lambda>d. d < 1 \<or> d > 7) week of
          Some d \<Rightarrow> Some (BadWeekday d)
        | None \<Rightarrow> if week = [] then Some EmptyWeek else None)"

definition at_ref :: "dates \<Rightarrow> string \<Rightarrow> placed" where
  "at_ref ds r = (case map_of ds r of None \<Rightarrow> \<lparr>pl_start = 0, pl_end = 0, pl_driver = None\<rparr> | Some p \<Rightarrow> p)"

definition scheduled :: "schedule_options \<Rightarrow> dates \<Rightarrow> string list \<Rightarrow> plan_task \<Rightarrow> scheduled_task" where
  "scheduled opt ds critical t =
     \<lparr>st_ref = pt_ref t, st_title = pt_title t, st_phaseRef = pt_phaseRef t, st_estimatedHours = js_number (pt_estimatedHours t),
      st_crewSize = crew_of opt t, st_durationDays = duration_of opt t, st_startDate = formatISODate (pl_start (at_ref ds (pt_ref t))),
      st_endDate = formatISODate (pl_end (at_ref ds (pt_ref t))), st_isMilestone = pt_milestone t,
      st_isCritical = (pt_ref t \<in> set critical), st_predecessors = pt_predecessors t\<rparr>"

text \<open>By start date, then reference; the comparison never answers 0.\<close>

definition before_task :: "scheduled_task \<Rightarrow> scheduled_task \<Rightarrow> bool" where
  "before_task a b =
     (if str_less (st_startDate a) (st_startDate b) then True
      else if str_less (st_startDate b) (st_startDate a) then False else str_less (st_ref a) (st_ref b))"

fun insert_by :: "('a \<Rightarrow> 'a \<Rightarrow> bool) \<Rightarrow> 'a \<Rightarrow> 'a list \<Rightarrow> 'a list" where
  "insert_by lt x [] = [x]"
| "insert_by lt x (y # ys) = (if lt y x then y # insert_by lt x ys else x # y # ys)"

definition sort_by :: "('a \<Rightarrow> 'a \<Rightarrow> bool) \<Rightarrow> 'a list \<Rightarrow> 'a list" where
  "sort_by lt xs = foldr (insert_by lt) xs []"

definition total_hours :: "plan_task list \<Rightarrow> rat" where
  "total_hours ts = of_int (round_half_up (sum_list (map (\<lambda>t. js_number (pt_estimatedHours t)) ts) * 100)) / 100"

definition warnings_of :: "schedule_options \<Rightarrow> plan_task list \<Rightarrow> day \<Rightarrow> day option \<Rightarrow> schedule_warning list" where
  "warnings_of opt ts finish deadline =
     (if ts = [] then [NoTasks] else [])
     @ (case deadline of
          None \<Rightarrow> []
        | Some d \<Rightarrow> if finish > d then [PastDeadline (workingDaysBetween (working_day opt) (d + 1) finish) finish d] else [])"

definition dated :: "schedule_options \<Rightarrow> plan_task list \<Rightarrow> string list \<Rightarrow> day \<Rightarrow> day option \<Rightarrow> project_schedule" where
  "dated opt ts order start deadline =
     (let ds = date_tasks opt start ts order [];
          (fin, fin_ts) = finish_of (at_ref ds) order (None, start);
          path = walk_back (length order + 1) (\<lambda>r. pl_driver (at_ref ds r)) fin [];
          finish = (if ts = [] then start else fin_ts);
          tasks = sort_by before_task (map (\<lambda>r. scheduled opt ds path (the (task_by_ref ts r))) order) in
      \<lparr>ps_startDate = formatISODate start, ps_targetCompletionDate = formatISODate finish,
       ps_durationWorkingDays = (if ts = [] then 0 else workingDaysBetween (working_day opt) start finish),
       ps_durationCalendarDays = (if ts = [] then 0 else finish - start + 1),
       ps_hoursPerDay = or_else (so_hoursPerDay opt) 8, ps_defaultCrewSize = or_else (so_defaultCrewSize opt) 1,
       ps_totalEstimatedHours = total_hours ts, ps_taskCount = length ts, ps_criticalPath = path,
       ps_milestones = sort_by (\<lambda>(_, _, a) (_, _, b). str_less a b)
         (map (\<lambda>t. (st_ref t, st_title t, st_startDate t)) (filter st_isMilestone tasks)),
       ps_tasks = tasks, ps_warnings = warnings_of opt ts finish deadline\<rparr>)"

definition calculateProjectSchedule :: "build_plan \<Rightarrow> schedule_options \<Rightarrow> schedule_error + project_schedule" where
  "calculateProjectSchedule plan opt =
     (if validateBuildPlan plan \<noteq> [] then Inl (InvalidPlan (validateBuildPlan plan))
      else case check_options opt of
        Some e \<Rightarrow> Inl e
      | None \<Rightarrow>
        (case parseISODate (so_startDate opt) of
           None \<Rightarrow> Inl (BadDate ''startDate'')
         | Some t \<Rightarrow>
           (let start = rollToWorkingDay (working_day opt) t;
                deadline = (case so_targetCompletionDate opt of None \<Rightarrow> Some None
                  | Some s \<Rightarrow> if s = [] then Some None else map_option Some (parseISODate s)) in
            case deadline of
              None \<Rightarrow> Inl (BadDate ''targetCompletionDate'')
            | Some d \<Rightarrow>
              (case topoOrder (bp_tasks plan) of
                 None \<Rightarrow> Inl CycleWhileOrdering
               | Some order \<Rightarrow> Inr (dated opt (bp_tasks plan) order start d)))))"

end
