(* ===== verification/Project_Facts.thy ===== *)
theory Project_Facts
  imports Project_Schedule
begin

text \<open>
  What a valid build plan is and what the scheduler makes of it: the cycle search reports nothing exactly
  for acyclic references, a valid plan is always ordered with every predecessor first, and the dates of
  the forward pass are the earliest that keep all dependencies, lags and working days.
\<close>

section \<open>The cycle search\<close>

definition edges_of :: "(string \<Rightarrow> string list) \<Rightarrow> (string \<times> string) set" where
  "edges_of adj = {(v, w). w \<in> set (adj v)}"

lemma edges_of_iff [simp]: "(v, w) \<in> edges_of adj \<longleftrightarrow> w \<in> set (adj v)"
  by (simp add: edges_of_def)

abbreviation stack :: "search \<Rightarrow> string set" where
  "stack s \<equiv> set (sr_seen s) - set (sr_done s)"

text \<open>Each node of the list comes after (in the list) none of its successors.\<close>

fun topo :: "(string \<Rightarrow> string list) \<Rightarrow> string list \<Rightarrow> bool" where
  "topo adj [] = True"
| "topo adj (v # ds) = (set (adj v) \<subseteq> set ds \<and> v \<notin> set ds \<and> topo adj ds)"

fun index_in :: "'a list \<Rightarrow> 'a \<Rightarrow> nat" where
  "index_in [] v = 0"
| "index_in (x # xs) v = (if x = v then 0 else Suc (index_in xs v))"

lemma topo_index: "topo adj ds \<Longrightarrow> v \<in> set ds \<Longrightarrow> w \<in> set (adj v) \<Longrightarrow> index_in ds v < index_in ds w \<and> w \<in> set ds"
proof (induction ds)
  case (Cons d ds)
  then have "w \<noteq> d" by (cases "v = d") auto
  then show ?case using Cons by auto
qed simp

lemma topo_acyclic:
  assumes "topo adj ds" "\<And>v. adj v \<noteq> [] \<Longrightarrow> v \<in> set ds"
  shows "acyclic (edges_of adj)"
proof -
  have "index_in ds v < index_in ds w" if "w \<in> set (adj v)" for v w
    using topo_index [OF assms(1) assms(2) that] that by fastforce
  then have "(edges_of adj)\<inverse> \<subseteq> (inv_image (less_than\<inverse>) (index_in ds))" by (auto simp: inv_image_def)
  then have "edges_of adj \<subseteq> inv_image less_than (index_in ds)" by (auto simp: inv_image_def)
  then show ?thesis by (meson acyclic_subset wf_acyclic wf_inv_image wf_less_than)
qed

definition grown :: "search \<Rightarrow> bool \<Rightarrow> search \<Rightarrow> bool" where
  "grown s b s' \<longleftrightarrow> set (sr_seen s) \<subseteq> set (sr_seen s') \<and> set (sr_done s) \<subseteq> set (sr_done s') \<and> stack s \<subseteq> stack s'
     \<and> set (sr_done s') \<subseteq> set (sr_seen s') \<and> set (sr_reported s) \<subseteq> set (sr_reported s')
     \<and> (b \<longrightarrow> sr_reported s' \<noteq> []) \<and> (\<not> b \<longrightarrow> stack s' = stack s)"

lemma grown_trans: "grown s False s' \<Longrightarrow> grown s' b s'' \<Longrightarrow> grown s b s''"
  unfolding grown_def by blast

lemma report_fields [simp]:
  "sr_seen (report w s) = sr_seen s" "sr_done (report w s) = sr_done s"
  "set (sr_reported (report w s)) = insert w (set (sr_reported s))" "sr_reported (report w s) \<noteq> []"
  by (auto simp: report_def)

lemma visit_grows:
  "visit n adj v s = Some (b, s') \<Longrightarrow> v \<notin> set (sr_seen s) \<Longrightarrow> set (sr_done s) \<subseteq> set (sr_seen s) \<Longrightarrow>
     grown s b s' \<and> (\<not> b \<longrightarrow> v \<in> set (sr_done s'))"
  "visit_nexts n adj ws s = Some (b, s') \<Longrightarrow> set (sr_done s) \<subseteq> set (sr_seen s) \<Longrightarrow>
     grown s b s' \<and> (\<not> b \<longrightarrow> set ws \<subseteq> set (sr_done s'))"
proof (induction n adj v s and n adj ws s arbitrary: b s' and b s' rule: visit_visit_nexts.induct)
  case (2 n adj v s)
  let ?s = "s\<lparr>sr_seen := v # sr_seen s\<rparr>"
  obtain c t where t: "visit_nexts n adj (adj v) ?s = Some (c, t)"
    using 2(2) by (cases "visit_nexts n adj (adj v) ?s") auto
  have g: "grown ?s c t" using 2(1) [OF t] 2(4) by auto
  show ?case
  proof (cases c)
    case True
    then have "b" "s' = t" using 2(2) t by auto
    then show ?thesis using g True 2(3,4) by (auto simp: grown_def)
  next
    case False
    then have "\<not> b" "s' = t\<lparr>sr_done := v # sr_done t\<rparr>" using 2(2) t by auto
    then show ?thesis using g False 2(3,4) by (auto simp: grown_def)
  qed
next
  case (4 n adj w ws s)
  show ?case
  proof (cases "w \<in> set (sr_seen s)")
    case seen: True
    show ?thesis
    proof (cases "w \<in> set (sr_done s)")
      case True
      then show ?thesis using 4 seen by (auto simp: grown_def)
    next
      case False
      then show ?thesis using 4(4,5) seen by (auto simp: grown_def)
    qed
  next
    case False
    obtain c t where t: "visit n adj w s = Some (c, t)" using 4(4) False by (cases "visit n adj w s") auto
    have g: "grown s c t" "\<not> c \<longrightarrow> w \<in> set (sr_done t)" using 4(2) [OF _ False t False 4(5)] False by auto
    show ?thesis
    proof (cases c)
      case True
      then show ?thesis using 4(4) False t g by auto
    next
      case c: False
      then have n: "visit_nexts n adj ws t = Some (b, s')" using 4(4) False t by auto
      have "grown t b s' \<and> (\<not> b \<longrightarrow> set ws \<subseteq> set (sr_done s'))"
        using 4(3) [OF _ False t refl _ n] c False g(1) by (auto simp: grown_def)
      then show ?thesis using g c grown_trans [of s t b s'] by (auto simp: grown_def)
    qed
  qed
qed (auto simp: grown_def)

lemma visit_topo:
  "visit n adj v s = Some (b, s') \<Longrightarrow> v \<notin> set (sr_seen s) \<Longrightarrow> set (sr_done s) \<subseteq> set (sr_seen s) \<Longrightarrow>
     topo adj (sr_done s) \<Longrightarrow> topo adj (sr_done s')"
  "visit_nexts n adj ws s = Some (b, s') \<Longrightarrow> set (sr_done s) \<subseteq> set (sr_seen s) \<Longrightarrow>
     topo adj (sr_done s) \<Longrightarrow> topo adj (sr_done s')"
proof (induction n adj v s and n adj ws s arbitrary: b s' and b s' rule: visit_visit_nexts.induct)
  case (2 n adj v s)
  let ?s = "s\<lparr>sr_seen := v # sr_seen s\<rparr>"
  obtain c t where t: "visit_nexts n adj (adj v) ?s = Some (c, t)"
    using 2(2) by (cases "visit_nexts n adj (adj v) ?s") auto
  have g: "grown ?s c t \<and> (\<not> c \<longrightarrow> set (adj v) \<subseteq> set (sr_done t))" using visit_grows(2) [OF t] 2(4) by auto
  have "v \<notin> set (sr_done t)" using g 2(3,4) by (auto simp: grown_def)
  moreover have "topo adj (sr_done t)" using 2(1) [OF t] 2(4,5) by auto
  ultimately show ?case using 2(2) t g by (cases c) auto
next
  case (4 n adj w ws s)
  show ?case
  proof (cases "w \<in> set (sr_seen s)")
    case True
    then show ?thesis using 4 by (cases "w \<in> set (sr_done s)") auto
  next
    case False
    obtain c t where t: "visit n adj w s = Some (c, t)" using 4(4) False by (cases "visit n adj w s") auto
    have g: "grown s c t" using visit_grows(1) [OF t False 4(5)] by simp
    have tt: "topo adj (sr_done t)" using 4(2) [OF _ False t False 4(5,6)] False by simp
    show ?thesis
    proof (cases c)
      case True
      then show ?thesis using 4(4) False t tt by auto
    next
      case c: False
      then have n: "visit_nexts n adj ws t = Some (b, s')" using 4(4) False t by auto
      show ?thesis using 4(3) [OF _ False t refl _ n _ tt] c False g by (auto simp: grown_def)
    qed
  qed
qed auto

lemma visit_reported:
  "visit n adj v s = Some (b, s') \<Longrightarrow> set (sr_reported s) \<subseteq> set (sr_reported s')"
  "visit_nexts n adj ws s = Some (b, s') \<Longrightarrow> set (sr_reported s) \<subseteq> set (sr_reported s')"
  by (induction n adj v s and n adj ws s arbitrary: b s' and b s' rule: visit_visit_nexts.induct)
    (auto split: option.splits prod.splits bool.splits if_splits; blast)+

lemma search_reported: "search_from n adj vs s = Some s' \<Longrightarrow> set (sr_reported s) \<subseteq> set (sr_reported s')"
proof (induction vs arbitrary: s)
  case (Cons v vs)
  then show ?case using visit_reported(1) [of n adj v s] by (fastforce split: if_splits option.splits)
qed simp

lemma search_topo:
  assumes "search_from n adj vs s = Some s'" "sr_reported s' = []" "set (sr_seen s) = set (sr_done s)" "topo adj (sr_done s)"
  shows "set vs \<subseteq> set (sr_done s') \<and> topo adj (sr_done s') \<and> set (sr_done s) \<subseteq> set (sr_done s')"
  using assms
proof (induction vs arbitrary: s)
  case (Cons v vs)
  show ?case
  proof (cases "v \<in> set (sr_seen s)")
    case True
    then show ?thesis using Cons by auto
  next
    case False
    then obtain b t where t: "visit n adj v s = Some (b, t)" "search_from n adj vs t = Some s'"
      using Cons.prems(1) by (cases "visit n adj v s") auto
    have g: "grown s b t \<and> (\<not> b \<longrightarrow> v \<in> set (sr_done t))" using visit_grows(1) [OF t(1) False] Cons.prems(3) by simp
    have "sr_reported t = []" using search_reported [OF t(2)] Cons.prems(2) by auto
    then have b: "\<not> b" using g by (auto simp: grown_def)
    then have "set (sr_seen t) = set (sr_done t)" using g Cons.prems(3) by (auto simp: grown_def)
    moreover have "topo adj (sr_done t)" using visit_topo(1) [OF t(1) False] Cons.prems(3,4) by simp
    ultimately show ?thesis using Cons.IH [OF t(2) Cons.prems(2)] g b by (auto simp: grown_def)
  qed
qed simp

lemma visit_quiet:
  "acyclic (edges_of adj) \<Longrightarrow> visit n adj v s = Some (b, s') \<Longrightarrow> v \<notin> set (sr_seen s) \<Longrightarrow> set (sr_done s) \<subseteq> set (sr_seen s) \<Longrightarrow>
     \<forall>p \<in> stack s. (p, v) \<in> (edges_of adj)\<^sup>+ \<Longrightarrow> \<not> b \<and> sr_reported s' = sr_reported s"
  "acyclic (edges_of adj) \<Longrightarrow> visit_nexts n adj ws s = Some (b, s') \<Longrightarrow> set (sr_done s) \<subseteq> set (sr_seen s) \<Longrightarrow>
     \<forall>p \<in> stack s. \<forall>w \<in> set ws. (p, w) \<in> (edges_of adj)\<^sup>+ \<Longrightarrow> \<not> b \<and> sr_reported s' = sr_reported s"
proof (induction n adj v s and n adj ws s arbitrary: b s' and b s' rule: visit_visit_nexts.induct)
  case (2 n adj v s)
  let ?s = "s\<lparr>sr_seen := v # sr_seen s\<rparr>"
  obtain c t where t: "visit_nexts n adj (adj v) ?s = Some (c, t)"
    using 2(3) by (cases "visit_nexts n adj (adj v) ?s") auto
  have "\<forall>p \<in> stack ?s. \<forall>w \<in> set (adj v). (p, w) \<in> (edges_of adj)\<^sup>+"
    using 2(6) by (auto intro: trancl_into_trancl)
  then have "\<not> c \<and> sr_reported t = sr_reported s" using 2(1) [OF 2(2) t] 2(5) by auto
  then show ?case using 2(3) t by auto
next
  case (4 n adj w ws s)
  show ?case
  proof (cases "w \<in> set (sr_seen s)")
    case True
    have "w \<in> set (sr_done s)"
    proof (rule ccontr)
      assume "w \<notin> set (sr_done s)"
      then have "(w, w) \<in> (edges_of adj)\<^sup>+" using 4(7) True by auto
      then show False using 4(4) by (simp add: acyclic_def)
    qed
    then show ?thesis using 4(1) [OF _ True 4(4)] 4(5-7) True by simp
  next
    case False
    obtain c t where t: "visit n adj w s = Some (c, t)" using 4(5) False by (cases "visit n adj w s") auto
    have g: "grown s c t" using visit_grows(1) [OF t False 4(6)] by simp
    have q: "\<not> c \<and> sr_reported t = sr_reported s" using 4(2) [OF _ False 4(4) t False 4(6)] 4(7) False by simp
    then have n: "visit_nexts n adj ws t = Some (b, s')" using 4(5) False t by auto
    show ?thesis using 4(3) [OF _ False t refl _ 4(4) n] q False g 4(7) by (auto simp: grown_def)
  qed
qed auto

lemma search_quiet:
  assumes "acyclic (edges_of adj)" "search_from n adj vs s = Some s'" "set (sr_seen s) = set (sr_done s)"
  shows "sr_reported s' = sr_reported s"
  using assms(2,3)
proof (induction vs arbitrary: s)
  case (Cons v vs)
  show ?case
  proof (cases "v \<in> set (sr_seen s)")
    case False
    then obtain b t where t: "visit n adj v s = Some (b, t)" "search_from n adj vs t = Some s'"
      using Cons.prems(1) by (cases "visit n adj v s") auto
    have q: "\<not> b \<and> sr_reported t = sr_reported s" using visit_quiet(1) [OF assms(1) t(1) False] Cons.prems(2) by simp
    have "set (sr_seen t) = set (sr_done t)"
      using visit_grows(1) [OF t(1) False] Cons.prems(2) q by (auto simp: grown_def)
    then show ?thesis using Cons.IH [OF t(2)] q by simp
  qed (use Cons in auto)
qed simp

lemma visit_fuel:
  assumes fin: "finite K"
  shows "\<forall>v. adj v \<noteq> [] \<longrightarrow> v \<in> K \<Longrightarrow> v \<notin> set (sr_seen s) \<Longrightarrow> set (sr_done s) \<subseteq> set (sr_seen s) \<Longrightarrow> 0 < n \<Longrightarrow>
      (v \<in> K \<longrightarrow> card (K - insert v (set (sr_seen s))) + 2 \<le> n) \<Longrightarrow> visit n adj v s \<noteq> None"
    "\<forall>v. adj v \<noteq> [] \<longrightarrow> v \<in> K \<Longrightarrow> set (sr_done s) \<subseteq> set (sr_seen s) \<Longrightarrow> ws = [] \<or> card (K - set (sr_seen s)) + 1 \<le> n \<Longrightarrow> visit_nexts n adj ws s \<noteq> None"
proof (induction n adj v s and n adj ws s rule: visit_visit_nexts.induct)
  case (2 n adj v s)
  let ?s = "s\<lparr>sr_seen := v # sr_seen s\<rparr>"
  have "adj v = [] \<or> card (K - set (sr_seen ?s)) + 1 \<le> n"
  proof (cases "v \<in> K")
    case True
    then show ?thesis using 2(6) by simp
  next
    case False
    then show ?thesis using 2(2) by blast
  qed
  moreover have "set (sr_done ?s) \<subseteq> set (sr_seen ?s)" using 2(4) by auto
  ultimately have "visit_nexts n adj (adj v) ?s \<noteq> None" using 2(1) [OF 2(2)] by blast
  then obtain c t where "visit_nexts n adj (adj v) ?s = Some (c, t)" by auto
  then show ?case by (cases c) simp_all
next
  case (4 n adj w ws s)
  show ?case
  proof (cases "w \<in> set (sr_seen s)")
    case True
    then show ?thesis using 4(1) [OF _ True 4(4,5)] 4(6) by auto
  next
    case False
    have n: "card (K - set (sr_seen s)) + 1 \<le> n" using 4(6) by simp
    have "w \<in> K \<Longrightarrow> card (K - set (sr_seen s)) = Suc (card (K - insert w (set (sr_seen s))))"
      using False fin by (metis Diff_iff Diff_insert card_Suc_Diff1 finite_Diff)
    then have "visit n adj w s \<noteq> None" using 4(2) [OF _ False 4(4) False 4(5)] n False by auto
    then obtain c t where t: "visit n adj w s = Some (c, t)" by auto
    show ?thesis
    proof (cases c)
      case True
      then show ?thesis using False t by simp
    next
      case c: False
      have g: "grown s c t" using visit_grows(1) [OF t False 4(5)] by simp
      have "card (K - set (sr_seen t)) \<le> card (K - set (sr_seen s))"
        using g fin by (intro card_mono) (auto simp: grown_def)
      then have "visit_nexts n adj ws t \<noteq> None" using 4(3) [OF _ False t refl _ 4(4)] c False g n by (auto simp: grown_def)
      then show ?thesis using False t c by simp
    qed
  qed
qed auto

lemma search_fuel:
  assumes "finite K" "\<forall>v. adj v \<noteq> [] \<longrightarrow> v \<in> K" "card K < n" "set (sr_done s) \<subseteq> set (sr_seen s)" "set vs \<subseteq> K"
  shows "search_from n adj vs s \<noteq> None"
  using assms(4,5)
proof (induction vs arbitrary: s)
  case (Cons v vs)
  show ?case
  proof (cases "v \<in> set (sr_seen s)")
    case False
    have "v \<in> K" using Cons.prems(2) by simp
    then have "card (K - insert v (set (sr_seen s))) < card K" using assms(1) by (intro psubset_card_mono) auto
    then have "visit n adj v s \<noteq> None" using visit_fuel(1) [OF assms(1,2) False Cons.prems(1)] assms(3) by auto
    then obtain b t where t: "visit n adj v s = Some (b, t)" by auto
    have "set (sr_done t) \<subseteq> set (sr_seen t)" using visit_grows(1) [OF t False Cons.prems(1)] by (simp add: grown_def)
    then show ?thesis using Cons.IH [of t] Cons.prems(2) False t by simp
  qed (use Cons in simp)
qed simp

text \<open>The search always ends, and reports nothing exactly when no reference leads back to itself.\<close>

lemma detectRefCycle_iff: "detectRefCycle edges = [] \<longleftrightarrow> acyclic (edges_of (adjacent edges))"
proof -
  let ?adj = "adjacent edges" and ?K = "fst ` set edges"
  let ?s0 = "\<lparr>sr_seen = [], sr_done = [], sr_reported = []\<rparr>"
  have K: "v \<in> ?K" if "?adj v \<noteq> []" for v
    using that by (auto simp: adjacent_def split: option.splits dest!: map_of_SomeD) force
  have "card ?K < Suc (length edges)" using card_length [of "map fst edges"] by simp
  then have "search_from (Suc (length edges)) ?adj (map fst edges) ?s0 \<noteq> None"
    using K by (intro search_fuel) auto
  then obtain s where s: "search_from (Suc (length edges)) ?adj (map fst edges) ?s0 = Some s" by blast
  show ?thesis
  proof
    assume "detectRefCycle edges = []"
    then have "sr_reported s = []" by (simp add: detectRefCycle_def s)
    from search_topo [OF s this] show "acyclic (edges_of ?adj)" using K by (intro topo_acyclic [of ?adj "sr_done s"]) force+
  next
    assume "acyclic (edges_of ?adj)"
    from search_quiet [OF this s] show "detectRefCycle edges = []" by (simp add: detectRefCycle_def s)
  qed
qed

section \<open>Kahn's ordering\<close>

text \<open>In an ordered list every element comes after all elements it waits for.\<close>

definition ordered :: "('a \<Rightarrow> 'a list) \<Rightarrow> 'a list \<Rightarrow> bool" where
  "ordered pre out \<longleftrightarrow> (\<forall>i < length out. set (pre (out ! i)) \<subseteq> set (take i out))"

lemma ordered_Nil [simp]: "ordered pre []"
  by (simp add: ordered_def)

lemma ordered_snoc: "ordered pre (out @ [r]) \<longleftrightarrow> ordered pre out \<and> set (pre r) \<subseteq> set out"
  unfolding ordered_def by (auto simp: nth_append less_Suc_eq)

text \<open>The loop: \<open>pre\<close> are the predecessors with repetitions, \<open>R\<close> the tasks.\<close>

definition kahn_inv :: "(string \<Rightarrow> string list) \<Rightarrow> string set \<Rightarrow> (string \<Rightarrow> int) \<Rightarrow> string list \<Rightarrow> string list \<Rightarrow> bool" where
  "kahn_inv pre R indeg queue out \<longleftrightarrow> distinct (out @ queue) \<and> set (out @ queue) \<subseteq> R
     \<and> (\<forall>r \<in> R. indeg r = int (length (filter (\<lambda>p. p \<notin> set out) (pre r))) \<and> (r \<in> set (out @ queue) \<longleftrightarrow> indeg r = 0))
     \<and> ordered pre out"

lemma release_all_spec:
  assumes "\<forall>s \<in> set ss. int (count_list ss s) \<le> indeg s"
  shows "\<exists>new. release_all ss indeg queue = (\<lambda>s. indeg s - int (count_list ss s), queue @ new)
     \<and> distinct new \<and> set new = {s \<in> set ss. indeg s = int (count_list ss s)}"
  using assms
proof (induction ss arbitrary: indeg queue)
  case (Cons s ss)
  let ?i = "indeg s - 1" let ?indeg = "indeg(s := ?i)" let ?q = "if ?i = 0 then queue @ [s] else queue"
  have "\<forall>x \<in> set ss. int (count_list ss x) \<le> ?indeg x" using Cons.prems by (auto split: if_splits)
  from Cons.IH [OF this, of ?q] obtain new where new:
    "release_all ss ?indeg ?q = (\<lambda>x. ?indeg x - int (count_list ss x), ?q @ new)" "distinct new"
    "set new = {x \<in> set ss. ?indeg x = int (count_list ss x)}" by blast
  have c: "int (count_list ss s) \<le> ?i" using Cons.prems by simp
  have z: "?i = 0 \<Longrightarrow> s \<notin> set ss" using c by (metis count_list_0_iff of_nat_le_0_iff)
  have f: "(\<lambda>x. ?indeg x - int (count_list ss x)) = (\<lambda>x. indeg x - int (count_list (s # ss) x))" by auto
  have rel: "release_all (s # ss) indeg queue = (\<lambda>x. indeg x - int (count_list (s # ss) x), ?q @ new)"
    by (simp only: release_all.simps Let_def new(1) f)
  show ?case
  proof (cases "?i = 0")
    case True
    have "set (s # new) = {x \<in> set (s # ss). indeg x = int (count_list (s # ss) x)}"
      using z [OF True] True new(3) by (auto simp: count_list_0_iff)
    moreover have "distinct (s # new)" using new(2,3) z [OF True] by auto
    moreover have "?q @ new = queue @ (s # new)" using True by simp
    ultimately show ?thesis using rel by metis
  next
    case False
    have "x \<in> set new \<longleftrightarrow> x \<in> set (s # ss) \<and> indeg x = int (count_list (s # ss) x)" for x
    proof (cases "x = s")
      case True
      have "s \<in> set new \<longleftrightarrow> s \<in> set ss \<and> ?i = int (count_list ss s)" by (simp add: new(3))
      moreover have "s \<in> set ss \<longleftrightarrow> count_list ss s \<noteq> 0" by (simp add: count_list_0_iff)
      moreover have "indeg s = int (count_list (s # ss) s) \<longleftrightarrow> ?i = int (count_list ss s)" by auto
      moreover have "s \<in> set (s # ss)" by simp
      ultimately show ?thesis using False unfolding True by (metis of_nat_0)
    qed (simp add: new(3))
    then have "set new = {x \<in> set (s # ss). indeg x = int (count_list (s # ss) x)}" by blast
    moreover have "?q @ new = queue @ new" using False by simp
    ultimately show ?thesis using rel new(2) by metis
  qed
qed simp

lemma filter_out_snoc:
  assumes "r \<notin> set out"
  shows "int (length (filter (\<lambda>p. p \<notin> set (out @ [r])) xs)) = int (length (filter (\<lambda>p. p \<notin> set out) xs)) - int (count_list xs r)"
  using assms by (induction xs) auto

lemma kahn_step:
  assumes inv: "kahn_inv pre R indeg (r # queue) out"
    and succs: "\<And>p t. t \<in> R \<Longrightarrow> count_list (succs p) t = count_list (pre t) p" "\<And>p. set (succs p) \<subseteq> R"
  shows "case release_all (succs r) indeg queue of (indeg', queue') \<Rightarrow> kahn_inv pre R indeg' queue' (out @ [r])"
proof -
  note i = inv [unfolded kahn_inv_def]
  have r: "r \<notin> set out" "r \<in> R" "indeg r = 0" using i by auto
  have le: "int (count_list (pre t) r) \<le> indeg t" if "t \<in> R" for t
    using filter_out_snoc [OF r(1), of "pre t"] i that by force
  then have "\<forall>s \<in> set (succs r). int (count_list (succs r) s) \<le> indeg s" using succs by (metis subsetD)
  from release_all_spec [OF this, of queue] obtain new where new:
    "release_all (succs r) indeg queue = (\<lambda>s. indeg s - int (count_list (succs r) s), queue @ new)" "distinct new"
    "set new = {s \<in> set (succs r). indeg s = int (count_list (succs r) s)}" by blast
  let ?indeg = "\<lambda>s. indeg s - int (count_list (succs r) s)"
  have pos: "0 < indeg s" if "s \<in> set new" for s
    using that new(3) by (metis (mono_tags, lifting) count_list_0_iff mem_Collect_eq of_nat_0_less_iff neq0_conv)
  have "s \<notin> set (out @ r # queue)" if "s \<in> set new" for s
    using pos [OF that] i by (metis less_irrefl subsetD)
  then have fresh: "set new \<inter> set (out @ r # queue) = {}" by blast
  have sub: "set new \<subseteq> R" using new(3) succs(2) by blast
  have eq: "?indeg t = int (length (filter (\<lambda>p. p \<notin> set (out @ [r])) (pre t)))" if "t \<in> R" for t
    unfolding filter_out_snoc [OF r(1)] using i succs(1) [OF that] that by auto
  have mem: "t \<in> set ((out @ [r]) @ queue @ new) \<longleftrightarrow> ?indeg t = 0" if t: "t \<in> R" for t
  proof (cases "indeg t = 0")
    case True
    then have "count_list (pre t) r = 0" using le [OF t] by simp
    then show ?thesis using i t True succs(1) [OF t] by auto
  next
    case False
    then have "t \<notin> set (out @ r # queue)" using i t by auto
    moreover have "t \<in> set new \<longleftrightarrow> ?indeg t = 0"
      using new(3) False by (auto simp: count_list_0_iff)
    ultimately show ?thesis by auto
  qed
  have "set (pre r) \<subseteq> set out" using i r by (auto simp: filter_empty_conv)
  then have "kahn_inv pre R ?indeg (queue @ new) (out @ [r])"
    unfolding kahn_inv_def ordered_snoc using i new(2) fresh sub eq mem r(2) by auto
  then show ?thesis by (simp add: new(1))
qed

lemma kahn_complete:
  assumes fin: "finite R" and acyc: "acyclic (edges_of pre)" and sub: "\<And>r. set (pre r) \<subseteq> R" "\<And>r. r \<notin> R \<Longrightarrow> pre r = []"
    and inv: "kahn_inv pre R indeg [] out"
  shows "set out = R"
proof (rule ccontr)
  assume "set out \<noteq> R"
  then have ne: "R - set out \<noteq> {}" using inv by (auto simp: kahn_inv_def)
  have "edges_of pre \<subseteq> R \<times> R" using sub by (fastforce simp: edges_of_def)
  then have "finite (edges_of pre)" using fin finite_subset by blast
  then have "wf ((edges_of pre)\<inverse>)" using acyc by (rule finite_acyclic_wf_converse)
  then obtain m where m: "m \<in> R - set out" "\<And>p. p \<in> set (pre m) \<Longrightarrow> p \<notin> R - set out"
    using ne unfolding wf_eq_minimal by (metis converse_iff edges_of_iff ex_in_conv)
  then have "filter (\<lambda>p. p \<notin> set out) (pre m) = []" using sub(1) by (fastforce simp: filter_empty_conv)
  then have "indeg m = 0" using inv m(1) by (simp add: kahn_inv_def)
  then show False using inv m(1) unfolding kahn_inv_def by auto
qed

lemma kahn_result:
  assumes "finite R" "acyclic (edges_of pre)" "\<And>r. set (pre r) \<subseteq> R" "\<And>r. r \<notin> R \<Longrightarrow> pre r = []"
    and succs: "\<And>p t. t \<in> R \<Longrightarrow> count_list (succs p) t = count_list (pre t) p" "\<And>p. set (succs p) \<subseteq> R"
    and "kahn_inv pre R indeg queue out" "length out + n = card R"
  shows "\<exists>res. kahn n succs indeg queue out = Some res \<and> distinct res \<and> set res = R \<and> ordered pre res"
  using assms(5-8)
proof (induction n succs indeg queue out rule: kahn.induct)
  case (1 n succs indeg out)
  then show ?case using kahn_complete [OF assms(1-4) 1(3)] by (auto simp: kahn_inv_def)
next
  case (2 succs indeg r queue out)
  have "card (set (out @ r # queue)) \<le> card R" using assms(1) 2(3) by (intro card_mono) (auto simp: kahn_inv_def)
  moreover have "distinct (out @ r # queue)" using 2(3) unfolding kahn_inv_def by blast
  then have "card (set (out @ r # queue)) = length (out @ r # queue)" by (rule distinct_card)
  ultimately show ?case using 2(4) by simp
next
  case (3 n succs indeg r queue out)
  obtain indeg' queue' where s: "release_all (succs r) indeg queue = (indeg', queue')" by fastforce
  have "kahn_inv pre R indeg' queue' (out @ [r])" using kahn_step [OF 3(4) 3(2,3)] s by simp
  from 3(1) [OF s [symmetric] refl 3(2,3) this] 3(5) show ?case by (simp add: s)
qed

section \<open>Valid plans\<close>

definition pre_of :: "plan_task list \<Rightarrow> string \<Rightarrow> string list" where
  "pre_of ts r = concat (map (preds_in ts) (filter (\<lambda>t. pt_ref t = r) ts))"

lemma start_indeg_pre: "start_indeg ts r = int (length (pre_of ts r))"
  by (simp add: start_indeg_def pre_of_def)

lemma count_waiting:
  "count_list (concat (map (\<lambda>t. map (\<lambda>_. pt_ref t) (filter (\<lambda>q. q = p) (f t))) ts)) r
     = count_list (concat (map f (filter (\<lambda>t. pt_ref t = r) ts))) p"
proof (induction ts)
  case (Cons t ts)
  have "count_list (map (\<lambda>_. pt_ref t) (filter (\<lambda>q. q = p) xs)) r = (if pt_ref t = r then count_list xs p else 0)" for xs
    by (induction xs) auto
  then show ?case using Cons by simp
qed simp

lemma successors_count: "count_list (successors ts p) r = count_list (pre_of ts r) p"
  unfolding successors_def pre_of_def by (rule count_waiting)

lemma ref_errors_Nil: "ref_errors m d seen rs = [] \<longleftrightarrow> [] \<notin> set rs \<and> distinct rs \<and> set rs \<inter> set seen = {}"
  by (induction m d seen rs rule: ref_errors.induct) auto

definition task_graph_ok :: "plan_task list \<Rightarrow> bool" where
  "task_graph_ok ts \<longleftrightarrow> distinct (map pt_ref ts) \<and> (\<forall>t \<in> set ts. set (pt_predecessors t) \<subseteq> pt_ref ` set ts) \<and> acyclic (edges_of (pre_of ts))"

lemma pre_of_task:
  assumes "distinct (map pt_ref ts)" "t \<in> set ts"
  shows "pre_of ts (pt_ref t) = preds_in ts t"
proof -
  have "filter (\<lambda>u. pt_ref u = pt_ref t) ts = [t]"
    using assms
  proof (induction ts)
    case (Cons u us)
    then show ?case by (cases "u = t") (auto simp: filter_empty_conv rev_image_eqI)
  qed simp
  then show ?thesis by (simp add: pre_of_def)
qed

lemma pre_of_other: "r \<notin> pt_ref ` set ts \<Longrightarrow> pre_of ts r = []"
  by (auto simp: pre_of_def filter_empty_conv)

lemma pre_of_adjacent:
  assumes "distinct (map pt_ref ts)" "set known = pt_ref ` set ts"
  shows "adjacent (task_edges known ts) = pre_of ts"
proof
  fix r
  have d: "distinct (map fst (task_edges known ts))" using assms(1) by (simp add: task_edges_def comp_def)
  have m: "map_of (rev (task_edges known ts)) = map_of (task_edges known ts)"
    by (intro map_of_inject_set [THEN iffD2]) (use d in \<open>simp_all flip: rev_map\<close>)
  show "adjacent (task_edges known ts) r = pre_of ts r"
  proof (cases "r \<in> pt_ref ` set ts")
    case True
    then obtain t where t: "t \<in> set ts" "r = pt_ref t" by blast
    have "(pt_ref t, filter (\<lambda>p. p \<in> set known) (pt_predecessors t)) \<in> set (task_edges known ts)"
      using t by (auto simp: task_edges_def)
    then have "map_of (task_edges known ts) r = Some (filter (\<lambda>p. p \<in> set known) (pt_predecessors t))"
      using d t(2) by simp
    then show ?thesis using t assms by (simp add: adjacent_def m pre_of_task preds_in_def)
  next
    case False
    then have "map_of (task_edges known ts) r = None" by (auto simp: map_of_eq_None_iff task_edges_def)
    then show ?thesis using False by (simp add: adjacent_def m pre_of_other)
  qed
qed

text \<open>What an accepted plan is.\<close>

lemma valid_plan_tasks:
  assumes "validateBuildPlan plan = []"
  shows "task_graph_ok (bp_tasks plan)" "\<forall>t \<in> set (bp_tasks plan). pt_ref t \<noteq> [] \<and> (\<forall>c. pt_crewSize t = Some c \<longrightarrow> 0 < c)"
proof -
  let ?ts = "bp_tasks plan" let ?tk = "known_refs (map pt_ref ?ts)" let ?pk = "known_refs (map ph_ref (bp_phases plan))"
  have e: "ref_errors TaskNeedsRef DuplicateTask [] (map pt_ref ?ts) = []"
    "\<forall>t \<in> set ?ts. task_errors ?pk ?tk t = []" "detectRefCycle (task_edges ?tk ?ts) = []"
    using assms by (auto simp: validateBuildPlan_def Let_def)
  have r: "[] \<notin> set (map pt_ref ?ts)" "distinct (map pt_ref ?ts)" using e(1) by (auto simp: ref_errors_Nil)
  then have k: "set ?tk = pt_ref ` set ?ts" by (force simp: known_refs_def)
  have "set (pt_predecessors t) \<subseteq> pt_ref ` set ?ts" if "t \<in> set ?ts" for t
    using e(2) that k by (auto simp: task_errors_def pre_errors_def split: if_splits)
  moreover have "acyclic (edges_of (pre_of ?ts))"
    using e(3) unfolding detectRefCycle_iff pre_of_adjacent [OF r(2) k] .
  ultimately show "task_graph_ok ?ts" using r(2) by (simp add: task_graph_ok_def)
  show "\<forall>t \<in> set ?ts. pt_ref t \<noteq> [] \<and> (\<forall>c. pt_crewSize t = Some c \<longrightarrow> 0 < c)"
  proof (intro ballI conjI allI impI)
    fix t assume t: "t \<in> set ?ts"
    then show "pt_ref t \<noteq> []" using r(1) by (metis image_eqI list.set_map)
    show "0 < c" if "pt_crewSize t = Some c" for c
      using e(2) t that by (auto simp: task_errors_def split: if_splits)
  qed
qed

lemma topoOrder_valid:
  assumes "task_graph_ok ts"
  shows "\<exists>order. topoOrder ts = Some order \<and> distinct order \<and> set order = pt_ref ` set ts
    \<and> ordered (pre_of ts) order"
proof -
  let ?R = "pt_ref ` set ts" let ?q = "filter (\<lambda>r. start_indeg ts r = 0) (map pt_ref ts)"
  have d: "distinct (map pt_ref ts)" and ac: "acyclic (edges_of (pre_of ts))" using assms by (auto simp: task_graph_ok_def)
  have sub: "set (pre_of ts r) \<subseteq> ?R" for r by (auto simp: pre_of_def preds_in_def)
  have suc: "set (successors ts p) \<subseteq> ?R" for p by (auto simp: successors_def)
  have "kahn_inv (pre_of ts) ?R (start_indeg ts) ?q []"
    using d by (auto simp: kahn_inv_def start_indeg_pre)
  moreover have "length ([] :: string list) + length (map pt_ref ts) = card ?R" using d distinct_card by fastforce
  ultimately obtain res where res: "kahn (length (map pt_ref ts)) (successors ts) (start_indeg ts) ?q [] = Some res"
    "distinct res" "set res = ?R" "ordered (pre_of ts) res"
    using kahn_result [OF _ ac sub pre_of_other successors_count suc] by blast
  have "length res = length (map pt_ref ts)" using res(2,3) d by (metis distinct_card set_map)
  then show ?thesis using res by (simp add: topoOrder_def)
qed

section \<open>Phases before their children\<close>

definition parent_refs :: "plan_phase list \<Rightarrow> string \<Rightarrow> string list" where
  "parent_refs ps r = (case phase_of ps r of None \<Rightarrow> []
     | Some p \<Rightarrow> (case ph_parentRef p of None \<Rightarrow> [] | Some q \<Rightarrow> if q \<in> ph_ref ` set ps then [q] else []))"

lemma phase_of_Some:
  assumes "distinct (map ph_ref ps)" "p \<in> set ps"
  shows "phase_of ps (ph_ref p) = Some p"
proof -
  have "distinct (map fst (rev (map (\<lambda>p. (ph_ref p, p)) ps)))" using assms(1) by (simp add: comp_def flip: rev_map)
  then show ?thesis using assms(2) by (simp add: phase_of_def)
qed

lemma phase_ofD: "phase_of ps r = Some p \<Longrightarrow> p \<in> set ps \<and> ph_ref p = r"
  unfolding phase_of_def by (drule map_of_SomeD) auto

lemma phase_of_None: "phase_of ps r = None \<longleftrightarrow> r \<notin> ph_ref ` set ps"
  by (auto simp: phase_of_def map_of_eq_None_iff image_image)

definition phases_placed :: "plan_phase list \<Rightarrow> plan_phase list \<Rightarrow> bool" where
  "phases_placed ps out \<longleftrightarrow> distinct (map ph_ref out) \<and> set out \<subseteq> set ps \<and> ordered (parent_refs ps) (map ph_ref out)"

lemma place_ok:
  assumes d: "distinct (map ph_ref ps)" and acyc: "acyclic (edges_of (parent_refs ps))"
  shows "p \<in> set ps \<Longrightarrow> \<forall>g \<in> set guard. (g, ph_ref p) \<in> (edges_of (parent_refs ps))\<^sup>+ \<Longrightarrow> set guard \<subseteq> ph_ref ` set ps \<Longrightarrow>
    card (ph_ref ` set ps - set guard) < n \<Longrightarrow> phases_placed ps out \<Longrightarrow>
    \<exists>out'. place n (phase_of ps) p guard out = Some out' \<and> phases_placed ps out' \<and> p \<in> set out' \<and> set out \<subseteq> set out'"
proof (induction n arbitrary: p guard)
  case (Suc n)
  let ?pre = "parent_refs ps" and ?R = "ph_ref ` set ps"
  have uniq: "q = p" if "q \<in> set ps" "ph_ref q = ph_ref p" for q
    using d that Suc.prems(1) by (metis distinct_map inj_on_eq_iff)
  have np: "ph_ref p \<notin> set guard" using Suc.prems(2) acyc by (auto simp: acyclic_def)
  have pp: "?pre (ph_ref p) = (case ph_parentRef p of None \<Rightarrow> [] | Some q \<Rightarrow> if q \<in> ?R then [q] else [])"
    using phase_of_Some [OF d Suc.prems(1)] by (simp add: parent_refs_def)
  have app: "phases_placed ps (append_phase p out1) \<and> p \<in> set (append_phase p out1)"
    if o: "phases_placed ps out1" "set (?pre (ph_ref p)) \<subseteq> ph_ref ` set out1" for out1
  proof (cases "ph_ref p \<in> ph_ref ` set out1")
    case True
    then have "p \<in> set out1" using o(1) uniq by (auto simp: phases_placed_def)
    then show ?thesis using True o(1) by (simp add: append_phase_def)
  next
    case False
    then show ?thesis using o Suc.prems(1) by (simp add: append_phase_def phases_placed_def ordered_snoc)
  qed
  show ?case
  proof (cases "ph_ref p \<in> ph_ref ` set out")
    case True
    then have "p \<in> set out" using Suc.prems(5) uniq by (auto simp: phases_placed_def)
    then show ?thesis using True Suc.prems(5) by auto
  next
    case out: False
    show ?thesis
    proof (cases "case ph_parentRef p of None \<Rightarrow> None | Some q \<Rightarrow> phase_of ps q")
      case None
      then have "?pre (ph_ref p) = []" by (auto simp: pp phase_of_None split: option.splits)
      then show ?thesis using app [OF Suc.prems(5)] out np None by (auto simp: append_phase_def)
    next
      case (Some u)
      then obtain q where q: "ph_parentRef p = Some q" "u \<in> set ps" "ph_ref u = q"
        by (auto dest: phase_ofD split: option.splits)
      then have pre: "?pre (ph_ref p) = [q]" by (auto simp: pp)
      have "(ph_ref p, q) \<in> edges_of ?pre" by (simp add: pre)
      then have g: "\<forall>g \<in> set (ph_ref p # guard). (g, ph_ref u) \<in> (edges_of ?pre)\<^sup>+"
        using Suc.prems(2) q(3) by (auto intro: trancl_into_trancl)
      have "card (?R - set (ph_ref p # guard)) < card (?R - set guard)"
        using Suc.prems(1) np by (intro psubset_card_mono) auto
      then obtain out' where o: "place n (phase_of ps) u (ph_ref p # guard) out = Some out'" "phases_placed ps out'" "u \<in> set out'" "set out \<subseteq> set out'"
        using Suc.IH [OF q(2) g _ _ Suc.prems(5)] Suc.prems(1,3,4) by auto
      have "set (?pre (ph_ref p)) \<subseteq> ph_ref ` set out'" using o(3) q(3) pre by auto
      from app [OF o(2) this] show ?thesis using out np Some o(1,4) by (auto simp: append_phase_def)
    qed
  qed
qed simp

lemma place_all_ok:
  assumes "distinct (map ph_ref ps)" "acyclic (edges_of (parent_refs ps))"
  shows "set qs \<subseteq> set ps \<Longrightarrow> phases_placed ps out \<Longrightarrow>
    \<exists>out'. place_all (Suc (length ps)) (phase_of ps) qs out = Some out' \<and> phases_placed ps out' \<and> set qs \<union> set out \<subseteq> set out'"
proof (induction qs arbitrary: out)
  case (Cons q qs)
  have "card (ph_ref ` set ps - set []) < Suc (length ps)" using card_length [of "map ph_ref ps"] by simp
  then have "\<exists>out1. place (Suc (length ps)) (phase_of ps) q [] out = Some out1 \<and> phases_placed ps out1 \<and> q \<in> set out1 \<and> set out \<subseteq> set out1"
    using Cons.prems by (intro place_ok [OF assms]) auto
  then obtain out1 where o: "place (Suc (length ps)) (phase_of ps) q [] out = Some out1" "phases_placed ps out1" "q \<in> set out1" "set out \<subseteq> set out1"
    by blast
  obtain out' where "place_all (Suc (length ps)) (phase_of ps) qs out1 = Some out'" "phases_placed ps out'" "set qs \<union> set out1 \<subseteq> set out'"
    using Cons.IH [OF _ o(2)] Cons.prems(1) by auto
  then show ?case using o by (auto simp del: place.simps)
qed simp

lemma parent_refs_adjacent:
  assumes "distinct (map ph_ref ps)" "set known = ph_ref ` set ps"
  shows "adjacent (phase_edges known ps) = parent_refs ps"
proof
  fix r
  let ?f = "\<lambda>p. case ph_parentRef p of Some q \<Rightarrow> if q \<in> set known then [(ph_ref p, [q])] else [] | None \<Rightarrow> []"
  have e: "(r, ws) \<in> set (phase_edges known ps) \<longleftrightarrow> (\<exists>p \<in> set ps. ph_ref p = r \<and> parent_refs ps r = ws \<and> ws \<noteq> [])" for r ws
  proof -
    have "(r, ws) \<in> set (phase_edges known ps) \<longleftrightarrow> (\<exists>p \<in> set ps. \<exists>q \<in> set known. ph_parentRef p = Some q \<and> ph_ref p = r \<and> ws = [q])"
    proof -
      have f: "(r, ws) \<in> set (?f p) \<longleftrightarrow> (\<exists>q \<in> set known. ph_parentRef p = Some q \<and> ph_ref p = r \<and> ws = [q])" for p
        by (cases "ph_parentRef p") auto
      have "(r, ws) \<in> set (phase_edges known ps) \<longleftrightarrow> (\<exists>p \<in> set ps. (r, ws) \<in> set (?f p))"
        unfolding phase_edges_def set_concat set_map by blast
      also have "\<dots> \<longleftrightarrow> (\<exists>p \<in> set ps. \<exists>q \<in> set known. ph_parentRef p = Some q \<and> ph_ref p = r \<and> ws = [q])"
        by (rule bex_cong [OF refl f])
      finally show ?thesis .
    qed
    also have "\<dots> \<longleftrightarrow> (\<exists>p \<in> set ps. ph_ref p = r \<and> parent_refs ps r = ws \<and> ws \<noteq> [])"
    proof (rule bex_cong [OF refl])
      fix p assume "p \<in> set ps"
      then have "parent_refs ps (ph_ref p) = (case ph_parentRef p of None \<Rightarrow> [] | Some q \<Rightarrow> if q \<in> set known then [q] else [])"
        using phase_of_Some [OF assms(1)] assms(2) by (simp add: parent_refs_def split: option.split)
      then show "(\<exists>q \<in> set known. ph_parentRef p = Some q \<and> ph_ref p = r \<and> ws = [q])
          \<longleftrightarrow> ph_ref p = r \<and> parent_refs ps r = ws \<and> ws \<noteq> []" by (cases "ph_parentRef p") (auto split: if_splits)
    qed
    finally show ?thesis .
  qed
  show "adjacent (phase_edges known ps) r = parent_refs ps r"
  proof (cases "map_of (rev (phase_edges known ps)) r")
    case None
    then have "(r, parent_refs ps r) \<notin> set (phase_edges known ps)" by (force simp: map_of_eq_None_iff)
    moreover have "r \<notin> ph_ref ` set ps \<Longrightarrow> parent_refs ps r = []" by (simp add: parent_refs_def flip: phase_of_None)
    ultimately have "parent_refs ps r = []" using e by auto
    then show ?thesis by (simp add: adjacent_def None)
  next
    case (Some ws)
    then have "(r, ws) \<in> set (phase_edges known ps)" using map_of_SomeD by fastforce
    then show ?thesis using Some e by (auto simp: adjacent_def)
  qed
qed

lemma valid_plan_phases:
  assumes "validateBuildPlan plan = []"
  shows "distinct (map ph_ref (bp_phases plan))" "acyclic (edges_of (parent_refs (bp_phases plan)))"
proof -
  let ?ps = "bp_phases plan" let ?pk = "known_refs (map ph_ref ?ps)"
  have e: "ref_errors PhaseNeedsRef DuplicatePhase [] (map ph_ref ?ps) = []" "detectRefCycle (phase_edges ?pk ?ps) = []"
    using assms by (auto simp: validateBuildPlan_def Let_def)
  have r: "[] \<notin> set (map ph_ref ?ps)" "distinct (map ph_ref ?ps)" using e(1) by (auto simp: ref_errors_Nil)
  then have k: "set ?pk = ph_ref ` set ?ps" by (force simp: known_refs_def)
  show "distinct (map ph_ref ?ps)" by (rule r(2))
  show "acyclic (edges_of (parent_refs ?ps))" using e(2) unfolding detectRefCycle_iff parent_refs_adjacent [OF r(2) k] .
qed

lemma ordered_index:
  assumes "ordered pre xs" "distinct xs" "r \<in> set xs" "p \<in> set (pre r)"
  shows "index_in xs p < index_in xs r"
proof -
  obtain i where i: "i < length xs" "xs ! i = r" using assms(3) by (auto simp: in_set_conv_nth)
  then have "p \<in> set (take i xs)" using assms(1,4) by (auto simp: ordered_def)
  then obtain j where j: "j < i" "xs ! j = p" using i(1) by (auto simp: in_set_conv_nth)
  have nth: "index_in xs (xs ! k) = k" if "k < length xs" "distinct xs" for k and xs :: "'a list"
    using that by (induction xs arbitrary: k) (auto simp: nth_Cons split: nat.splits)
  show ?thesis using nth [of j xs] nth [of i xs] i j assms(2) by simp
qed

definition ex_task :: "string \<Rightarrow> rat \<Rightarrow> string list \<Rightarrow> plan_task" where
  "ex_task r h ps = \<lparr>pt_ref = r, pt_title = r, pt_estimatedHours = JNum h, pt_phaseRef = None, pt_crewSize = None,
     pt_predecessors = ps, pt_lagDays = JUndef, pt_milestone = False\<rparr>"

definition ex_plan :: build_plan where
  "ex_plan = \<lparr>bp_name = ''Office'', bp_phases = [], bp_tasks = [ex_task ''b'' 8 [''a''], ex_task ''a'' 16 []]\<rparr>"

section \<open>Properties\<close>



text \<open>C35. For a valid plan the build order always exists: every task exactly once, after all its predecessors, and
  every phase exactly once, after its parent. The scheduler therefore never fails while ordering.\<close>

theorem valid_plan_is_ordered:
  assumes "validateBuildPlan plan = []"
  shows "(\<exists>order. topoOrder (bp_tasks plan) = Some order \<and> distinct order \<and> set order = pt_ref ` set (bp_tasks plan)
      \<and> (\<forall>t \<in> set (bp_tasks plan). \<forall>p \<in> set (pt_predecessors t). index_in order p < index_in order (pt_ref t)))
    \<and> (\<exists>b. planProjectBuild plan = Some b \<and> distinct (bb_orderedPhases b) \<and> set (bb_orderedPhases b) = set (bp_phases plan)
      \<and> (\<forall>p \<in> set (bp_phases plan). \<forall>q. ph_parentRef p = Some q \<longrightarrow>
          index_in (map ph_ref (bb_orderedPhases b)) q < index_in (map ph_ref (bb_orderedPhases b)) (ph_ref p)))
    \<and> calculateProjectSchedule plan opt \<noteq> Inl CycleWhileOrdering"
proof -
  let ?ts = "bp_tasks plan" and ?ps = "bp_phases plan"
  have g: "task_graph_ok ?ts" using valid_plan_tasks(1) [OF assms] .
  then have dt: "distinct (map pt_ref ?ts)" by (simp add: task_graph_ok_def)
  obtain order where o: "topoOrder ?ts = Some order" "distinct order" "set order = pt_ref ` set ?ts" "ordered (pre_of ?ts) order"
    using topoOrder_valid [OF g] by blast
  have "index_in order p < index_in order (pt_ref t)" if t: "t \<in> set ?ts" and p: "p \<in> set (pt_predecessors t)" for t p
  proof (rule ordered_index [OF o(4,2)])
    show "pt_ref t \<in> set order" using t o(3) by auto
    show "p \<in> set (pre_of ?ts (pt_ref t))" using g t p pre_of_task [OF dt t] by (auto simp: preds_in_def task_graph_ok_def)
  qed
  then have 1: "\<exists>order. topoOrder ?ts = Some order \<and> distinct order \<and> set order = pt_ref ` set ?ts
      \<and> (\<forall>t \<in> set ?ts. \<forall>p \<in> set (pt_predecessors t). index_in order p < index_in order (pt_ref t))" using o by blast
  have 2: "calculateProjectSchedule plan opt \<noteq> Inl CycleWhileOrdering"
    using o(1) by (auto simp: calculateProjectSchedule_def check_options_def Let_def split: option.splits if_splits)
  have vp: "distinct (map ph_ref ?ps)" "acyclic (edges_of (parent_refs ?ps))" using valid_plan_phases [OF assms] .
  obtain out where out: "orderPhasesForCreate ?ps = Some out" "phases_placed ?ps out" "set ?ps \<subseteq> set out"
    using place_all_ok [OF vp, of ?ps "[]"] by (auto simp: orderPhasesForCreate_def phases_placed_def)
  have known: "q \<in> ph_ref ` set ?ps" if "p \<in> set ?ps" "ph_parentRef p = Some q" for p q
  proof -
    have "phase_errors (known_refs (map ph_ref ?ps)) p = []" using assms that(1) by (simp add: validateBuildPlan_def Let_def)
    then have "q \<in> set (known_refs (map ph_ref ?ps))" using that(2) by (simp add: phase_errors_def split: if_splits)
    then show ?thesis by (auto simp: known_refs_def)
  qed
  have "index_in (map ph_ref out) q < index_in (map ph_ref out) (ph_ref p)" if p: "p \<in> set ?ps" "ph_parentRef p = Some q" for p q
  proof (rule ordered_index)
    show "ordered (parent_refs ?ps) (map ph_ref out)" "distinct (map ph_ref out)" using out(2) by (auto simp: phases_placed_def)
    show "ph_ref p \<in> set (map ph_ref out)" using p out(3) by auto
    show "q \<in> set (parent_refs ?ps (ph_ref p))" using phase_of_Some [OF vp(1) p(1)] known [OF p] p(2) by (simp add: parent_refs_def)
  qed
  then have "\<exists>b. planProjectBuild plan = Some b \<and> distinct (bb_orderedPhases b) \<and> set (bb_orderedPhases b) = set ?ps
      \<and> (\<forall>p \<in> set ?ps. \<forall>q. ph_parentRef p = Some q \<longrightarrow>
          index_in (map ph_ref (bb_orderedPhases b)) q < index_in (map ph_ref (bb_orderedPhases b)) (ph_ref p))"
    using out by (auto simp: planProjectBuild_def phases_placed_def distinct_map)
  with 1 2 show ?thesis by blast
qed

theorem valid_plan_is_ordered_witness:
  "validateBuildPlan ex_plan = [] \<and> topoOrder (bp_tasks ex_plan) = Some [''a'', ''b'']
    \<and> (\<exists>b. planProjectBuild ex_plan = Some b \<and> distinct (bb_orderedPhases b))"
proof -
  have v: "validateBuildPlan ex_plan = []" by code_simp
  moreover have "topoOrder (bp_tasks ex_plan) = Some [''a'', ''b'']" by code_simp
  ultimately show ?thesis using valid_plan_is_ordered [OF v] by blast
qed

text \<open>The search marks the nodes it left when it met a cycle as still in the stack, so a later visit reports a node
  that is on no cycle: \<open>x\<close> here, while \<open>b\<close>, which is on one, is not reported.\<close>

lemma cycle_reported_off_cycle:
  defines "edges \<equiv> [(''x'', [''a'']), (''a'', [''b'']), (''b'', [''a'']), (''y'', [''x''])]"
  shows "detectRefCycle edges = [''a'', ''x''] \<and> (''x'', ''x'') \<notin> (edges_of (adjacent edges))\<^sup>+"
proof
  show "detectRefCycle edges = [''a'', ''x'']" unfolding edges_def by code_simp
  have into: "w \<in> set (adjacent edges v) \<Longrightarrow> (w = ''x'' \<and> v = ''y'') \<or> w = ''a'' \<or> w = ''b''" for v w
    by (auto simp: edges_def adjacent_def split: if_splits)
  show "(''x'', ''x'') \<notin> (edges_of (adjacent edges))\<^sup>+"
  proof
    assume "(''x'', ''x'') \<in> (edges_of (adjacent edges))\<^sup>+"
    then obtain v where v: "(''x'', v) \<in> (edges_of (adjacent edges))\<^sup>*" "(v, ''x'') \<in> edges_of (adjacent edges)"
      by (metis tranclD2)
    then have y: "v = ''y''" using into by fastforce
    from v(1) show False unfolding y
    proof (cases rule: rtranclE)
      case (step u)
      then show ?thesis using into [of "''y''" u] by simp
    qed simp
  qed
qed

end
