(* ===== verification/Schedule_Facts.thy ===== *)
theory Schedule_Facts
  imports Project_Facts
begin

text \<open>
  The dates of the forward pass: working-day arithmetic as counting, the dates as the least solution of the
  constraints (start of the project, dependencies with their lag, working days, durations), and the driving
  path as a chain without slack. The code's guards on the day loops show up as the alternatives \<open>+ 366000\<close>
  and 3660.
\<close>

section \<open>Counting working days\<close>

text \<open>The working days after \<open>a\<close> up to and including \<open>b\<close>.\<close>

definition work_in :: "(day \<Rightarrow> bool) \<Rightarrow> day \<Rightarrow> day \<Rightarrow> nat" where
  "work_in w a b = card ({a + 1..b} \<inter> Collect w)"

lemma work_in_between: "work_in w a b = workingDaysBetween w (a + 1) b"
proof -
  have "work_in w a b = card (set (filter w [a + 1..b]))" by (simp add: work_in_def Int_def)
  also have "\<dots> = length (filter w [a + 1..b])" by (intro distinct_card distinct_filter) simp
  finally show ?thesis by (simp add: workingDaysBetween_def)
qed

lemma work_in_empty [simp]: "b \<le> a \<Longrightarrow> work_in w a b = 0"
  by (simp add: work_in_def)

lemma work_in_step: "a < b \<Longrightarrow> work_in w a b = (if w (a + 1) then 1 else 0) + work_in w (a + 1) b"
proof -
  assume "a < b"
  then have "{a + 1..b} \<inter> Collect w = (if w (a + 1) then {a + 1} else {}) \<union> ({a + 1 + 1..b} \<inter> Collect w)"
    by (auto simp: order_le_less)
  moreover have "card ((if w (a + 1) then {a + 1} else {}) \<union> ({a + 1 + 1..b} \<inter> Collect w))
      = card (if w (a + 1) then {a + 1} else {}) + card ({a + 1 + 1..b} \<inter> Collect w)"
    by (intro card_Un_disjoint) auto
  ultimately show ?thesis by (simp add: work_in_def)
qed

lemma work_in_antimono: "a \<le> a' \<Longrightarrow> work_in w a' b \<le> work_in w a b"
  unfolding work_in_def by (intro card_mono) auto

section \<open>The day loops\<close>

lemma advance_from_facts:
  assumes "0 \<le> g" "g \<le> 366000"
  shows "d \<le> advance_from w g n d
    \<and> (n \<le> of_nat (work_in w d (advance_from w g n d)) \<or> advance_from w g n d = d + 366000 - g)
    \<and> (\<forall>x. d \<le> x \<and> x < advance_from w g n d \<longrightarrow> of_nat (work_in w d x) < n)"
  using assms
proof (induction w g n d rule: advance_from.induct)
  case (1 w g n d)
  show ?case
  proof (cases "0 < n \<and> g < 366000")
    case True
    let ?m = "if w (d + 1) then n - 1 else n" let ?e = "advance_from w (g + 1) ?m (d + 1)"
    have e: "advance_from w g n d = ?e" using True by (subst advance_from.simps) simp
    note ih = "1.IH" [OF True]
    have i: "d + 1 \<le> ?e" "?m \<le> of_nat (work_in w (d + 1) ?e) \<or> ?e = d + 1 + 366000 - (g + 1)"
      "\<forall>x. d + 1 \<le> x \<and> x < ?e \<longrightarrow> of_nat (work_in w (d + 1) x) < ?m" using ih "1.prems" True by auto
    have s: "of_nat (work_in w d x) = (if w (d + 1) then 1 else 0) + (of_nat (work_in w (d + 1) x) :: rat)" if "d < x" for x
      using work_in_step [OF that] by simp
    have "of_nat (work_in w d x) < n" if "d \<le> x" "x < ?e" for x
    proof (cases "x = d")
      case False
      then have "of_nat (work_in w (d + 1) x) < ?m" "d < x" using that i(3) by auto
      then show ?thesis using s [of x] by (simp split: if_splits)
    qed (use True in simp)
    moreover have "n \<le> of_nat (work_in w d ?e) \<or> ?e = d + 366000 - g" using i(1,2) s [of ?e] by (auto split: if_splits)
    ultimately show ?thesis unfolding e using i(1) by auto
  next
    case False
    then have "advance_from w g n d = d" by (subst advance_from.simps) auto
    then show ?thesis using False "1.prems" by auto
  qed
qed

lemma advance_facts:
  "t \<le> advanceWorkingDays w t n"
  "n \<le> of_nat (work_in w t (advanceWorkingDays w t n)) \<or> advanceWorkingDays w t n = t + 366000"
  "t \<le> x \<Longrightarrow> n \<le> of_nat (work_in w t x) \<Longrightarrow> advanceWorkingDays w t n \<le> x"
  using advance_from_facts [where g = 0 and d = t and w = w and n = n] unfolding advanceWorkingDays_def by (auto simp: not_less [symmetric])

lemma advance_moves: "0 < n \<Longrightarrow> t < advanceWorkingDays w t n"
  using advance_facts(1,2) [where t = t and w = w and n = n] by (cases "advanceWorkingDays w t n = t") auto

lemma roll_from_facts:
  assumes "0 \<le> i" "i \<le> 3660"
  shows "d \<le> roll_from w i d \<and> (w (roll_from w i d) \<or> roll_from w i d = d + 3660 - i)
    \<and> (\<forall>x. d \<le> x \<and> x < roll_from w i d \<longrightarrow> \<not> w x)"
  using assms
proof (induction w i d rule: roll_from.induct)
  case (1 w i d)
  show ?case
  proof (cases "i < 3660 \<and> \<not> w d")
    case True
    then have e: "roll_from w i d = roll_from w (i + 1) (d + 1)" by (subst roll_from.simps) simp
    have "\<forall>x. d \<le> x \<and> x < roll_from w (i + 1) (d + 1) \<longrightarrow> \<not> w x"
    proof (intro allI impI)
      fix x assume x: "d \<le> x \<and> x < roll_from w (i + 1) (d + 1)"
      show "\<not> w x" using "1.IH" [OF True] "1.prems" True x by (cases "x = d") auto
    qed
    then show ?thesis unfolding e using "1.IH" [OF True] "1.prems" True by auto
  next
    case False
    then have "roll_from w i d = d" by (subst roll_from.simps) auto
    then show ?thesis using False "1.prems" by auto
  qed
qed

lemma roll_facts:
  "t \<le> rollToWorkingDay w t"
  "w (rollToWorkingDay w t) \<or> (rollToWorkingDay w t = t + 3660 \<and> (\<forall>x \<in> {t..<t + 3660}. \<not> w x))"
  "t \<le> x \<Longrightarrow> w x \<Longrightarrow> rollToWorkingDay w t \<le> x"
  using roll_from_facts [where i = 0 and d = t and w = w] unfolding rollToWorkingDay_def by (force simp: not_less [symmetric])+

section \<open>The forward pass\<close>

lemma bind_start_facts:
  assumes "bind_start w lag ds ps (s, driver) = (s', driver')"
  shows "s \<le> s' \<and> (\<forall>p \<in> set ps. \<forall>pl. map_of ds p = Some pl \<longrightarrow> advanceWorkingDays w (pl_end pl) (1 + lag) \<le> s')
    \<and> (s' = s \<and> driver' = driver
       \<or> (\<exists>p pl. driver' = Some p \<and> p \<in> set ps \<and> map_of ds p = Some pl \<and> s' = advanceWorkingDays w (pl_end pl) (1 + lag)))"
  using assms
proof (induction ps arbitrary: s driver)
  case (Cons p ps)
  show ?case
  proof (cases "map_of ds p")
    case None
    then have "bind_start w lag ds ps (s, driver) = (s', driver')" using Cons.prems by simp
    from Cons.IH [OF this] show ?thesis using None by auto
  next
    case (Some pl)
    let ?c = "advanceWorkingDays w (pl_end pl) (1 + lag)"
    show ?thesis
    proof (cases "?c > s")
      case True
      then have "bind_start w lag ds ps (?c, Some p) = (s', driver')" using Cons.prems Some by simp
      from Cons.IH [OF this] show ?thesis using True Some by auto
    next
      case False
      then have "bind_start w lag ds ps (s, driver) = (s', driver')" using Cons.prems Some by simp
      from Cons.IH [OF this] show ?thesis using False Some by auto
    qed
  qed
qed simp

lemma bind_start_cong:
  "(\<And>p. p \<in> set ps \<Longrightarrow> map_of ds p = map_of ds' p) \<Longrightarrow> bind_start w lag ds ps sd = bind_start w lag ds' ps sd"
proof (induction ps arbitrary: sd)
  case (Cons p ps)
  have "bind_start w lag ds ps x = bind_start w lag ds' ps x" for x using Cons by simp
  then show ?case using Cons.prems [of p] by (cases sd) simp
qed simp

lemma place_task_cong:
  "(\<And>p. p \<in> set (pt_predecessors t) \<Longrightarrow> map_of ds p = map_of ds' p) \<Longrightarrow> place_task opt start ds t = place_task opt start ds' t"
  using bind_start_cong [of "pt_predecessors t" ds ds'] by (simp add: place_task_def)

lemma task_by_ref_Some:
  assumes "distinct (map pt_ref ts)" "t \<in> set ts"
  shows "task_by_ref ts (pt_ref t) = Some t"
proof -
  have "distinct (map fst (rev (map (\<lambda>t. (pt_ref t, t)) ts)))" using assms(1) by (simp add: comp_def flip: rev_map)
  then show ?thesis using assms(2) by simp
qed

lemma date_tasks_frame:
  "r \<notin> set rs \<Longrightarrow> map_of (date_tasks opt start ts rs ds) r = map_of ds r"
  by (induction rs arbitrary: ds) (auto split: option.splits)

text \<open>In the finished dates every task stands where the pass would place it again.\<close>

lemma date_tasks_fixpoint:
  assumes "task_graph_ok ts" "distinct (done @ rs)" "set (done @ rs) \<subseteq> pt_ref ` set ts" "ordered (pre_of ts) (done @ rs)"
    and "r \<in> set rs" "t \<in> set ts" "pt_ref t = r"
  shows "map_of (date_tasks opt start ts rs ds) r = Some (place_task opt start (date_tasks opt start ts rs ds) t)"
  using assms(2-5)
proof (induction rs arbitrary: "done" ds)
  case (Cons q rs)
  obtain u where u: "u \<in> set ts" "pt_ref u = q" using Cons.prems(2) by auto
  have d: "distinct (map pt_ref ts)" using assms(1) by (simp add: task_graph_ok_def)
  let ?ds = "upsert ds q (place_task opt start ds u)"
  have e: "date_tasks opt start ts (q # rs) ds = date_tasks opt start ts rs ?ds"
    using task_by_ref_Some [OF d u(1)] u(2) by simp
  show ?case
  proof (cases "r = q")
    case True
    then have tu: "t = u" using u assms(6,7) d by (metis distinct_map inj_on_eq_iff)
    have "q \<notin> set rs" using Cons.prems(1) by simp
    then have "map_of (date_tasks opt start ts rs ?ds) q = Some (place_task opt start ds u)"
      by (simp add: date_tasks_frame)
    moreover have "place_task opt start ds u = place_task opt start (date_tasks opt start ts rs ?ds) u"
    proof (rule place_task_cong)
      fix p assume p: "p \<in> set (pt_predecessors u)"
      then have "p \<in> set (pre_of ts q)"
        using assms(1) u pre_of_task [OF d u(1)] by (auto simp: preds_in_def task_graph_ok_def)
      moreover have "set (pre_of ts ((done @ q # rs) ! length done)) \<subseteq> set (take (length done) (done @ q # rs))"
        using Cons.prems(3) [unfolded ordered_def, rule_format, of "length done"] by simp
      ultimately have "p \<in> set done" by auto
      then have "p \<notin> set (q # rs)" using Cons.prems(1) by auto
      then show "map_of ds p = map_of (date_tasks opt start ts rs ?ds) p" by (simp add: date_tasks_frame)
    qed
    ultimately show ?thesis unfolding e using True tu by simp
  next
    case False
    then show ?thesis unfolding e using Cons.IH [of "done @ [q]" ?ds] Cons.prems by simp
  qed
qed simp

section \<open>The computed schedule\<close>

definition project_start :: "schedule_options \<Rightarrow> day" where
  "project_start opt = rollToWorkingDay (working_day opt) (the (parseISODate (so_startDate opt)))"

definition plan_dates :: "build_plan \<Rightarrow> schedule_options \<Rightarrow> string \<Rightarrow> placed" where
  "plan_dates plan opt = at_ref (date_tasks opt (project_start opt) (bp_tasks plan) (the (topoOrder (bp_tasks plan))) [])"

lemma schedule_parts:
  assumes "calculateProjectSchedule plan opt = Inr sched"
  obtains order deadline where "validateBuildPlan plan = []" "topoOrder (bp_tasks plan) = Some order"
    "sched = dated opt (bp_tasks plan) order (project_start opt) deadline"
proof -
  have v: "validateBuildPlan plan = []" using assms by (simp add: calculateProjectSchedule_def split: if_splits)
  have c: "check_options opt = None"
    using assms v by (cases "check_options opt") (simp_all add: calculateProjectSchedule_def)
  obtain t where t: "parseISODate (so_startDate opt) = Some t"
    using assms v c by (cases "parseISODate (so_startDate opt)") (simp_all add: calculateProjectSchedule_def)
  obtain order where o: "topoOrder (bp_tasks plan) = Some order"
    using assms v c t by (cases "topoOrder (bp_tasks plan)") (auto simp: calculateProjectSchedule_def Let_def split: option.splits)
  then show ?thesis using assms v c t that
    by (auto simp: calculateProjectSchedule_def Let_def project_start_def split: option.splits)
qed

lemma plan_dates_task:
  assumes "validateBuildPlan plan = []" "t \<in> set (bp_tasks plan)"
  shows "\<exists>ds. plan_dates plan opt (pt_ref t) = place_task opt (project_start opt) ds t
    \<and> (\<forall>p \<in> set (pt_predecessors t). map_of ds p = Some (plan_dates plan opt p))"
proof -
  let ?ts = "bp_tasks plan"
  have g: "task_graph_ok ?ts" using valid_plan_tasks(1) [OF assms(1)] .
  obtain order where o: "topoOrder ?ts = Some order" "distinct order" "set order = pt_ref ` set ?ts" "ordered (pre_of ?ts) order"
    using topoOrder_valid [OF g] by blast
  let ?ds = "date_tasks opt (project_start opt) ?ts order []"
  have fix_pt: "map_of ?ds (pt_ref u) = Some (place_task opt (project_start opt) ?ds u)" if "u \<in> set ?ts" for u
    using date_tasks_fixpoint [OF g, of "[]" order "pt_ref u" u] o that by simp
  have at: "plan_dates plan opt (pt_ref u) = place_task opt (project_start opt) ?ds u" if "u \<in> set ?ts" for u
    using fix_pt [OF that] by (simp add: plan_dates_def o(1) at_ref_def)
  have "map_of ?ds p = Some (plan_dates plan opt p)" if "p \<in> set (pt_predecessors t)" for p
  proof -
    have "p \<in> pt_ref ` set ?ts" using g assms(2) that by (auto simp: task_graph_ok_def)
    then show ?thesis using fix_pt at by auto
  qed
  then show ?thesis using at [OF assms(2)] by blast
qed

text \<open>What one task's dates satisfy, guards included.\<close>

lemma task_dates_facts:
  fixes opt :: schedule_options
  assumes v: "validateBuildPlan plan = []" and t: "t \<in> set (bp_tasks plan)"
  defines "D \<equiv> plan_dates plan opt" and "w \<equiv> working_day opt"
  obtains s0 where "pl_start (D (pt_ref t)) = rollToWorkingDay w s0" "project_start opt \<le> s0"
    "\<forall>p \<in> set (pt_predecessors t). advanceWorkingDays w (pl_end (D p)) (1 + lag_of t) \<le> s0"
    "(s0 = project_start opt \<and> pl_driver (D (pt_ref t)) = None)
      \<or> (\<exists>p \<in> set (pt_predecessors t). pl_driver (D (pt_ref t)) = Some p \<and> s0 = advanceWorkingDays w (pl_end (D p)) (1 + lag_of t))"
    "pl_end (D (pt_ref t)) = (if duration_of opt t \<le> 0 then pl_start (D (pt_ref t))
      else advanceWorkingDays w (pl_start (D (pt_ref t))) (of_int (duration_of opt t - 1)))"
proof -
  obtain ds where ds: "D (pt_ref t) = place_task opt (project_start opt) ds t"
    "\<forall>p \<in> set (pt_predecessors t). map_of ds p = Some (D p)"
    using plan_dates_task [OF v t] unfolding D_def by blast
  obtain s0 dr where b: "bind_start w (lag_of t) ds (pt_predecessors t) (project_start opt, None) = (s0, dr)" by fastforce
  have e: "D (pt_ref t) = \<lparr>pl_start = rollToWorkingDay w s0, pl_end = (if duration_of opt t \<le> 0 then rollToWorkingDay w s0
      else advanceWorkingDays w (rollToWorkingDay w s0) (of_int (duration_of opt t - 1))), pl_driver = dr\<rparr>"
    unfolding ds(1) place_task_def using b by (simp add: Let_def w_def)
  from bind_start_facts [OF b] ds(2) show ?thesis by (intro that [of s0]) (auto simp: e)
qed

text \<open>A timetable that keeps the plan: working start days from the project start on, enough working days for
  each task, and each task the lag and one more working day after every predecessor.\<close>

definition meets_plan :: "schedule_options \<Rightarrow> plan_task list \<Rightarrow> (string \<Rightarrow> day) \<Rightarrow> (string \<Rightarrow> day) \<Rightarrow> bool" where
  "meets_plan opt ts S E \<longleftrightarrow> list_all (\<lambda>t. project_start opt \<le> S (pt_ref t) \<and> working_day opt (S (pt_ref t))
     \<and> S (pt_ref t) \<le> E (pt_ref t)
     \<and> of_int (duration_of opt t - 1) \<le> (of_nat (work_in (working_day opt) (S (pt_ref t)) (E (pt_ref t))) :: rat)
     \<and> list_all (\<lambda>p. 1 + lag_of t \<le> of_nat (work_in (working_day opt) (E p) (S (pt_ref t)))) (pt_predecessors t)) ts"

lemma earliest_task:
  assumes v: "validateBuildPlan plan = []" and m: "meets_plan opt (bp_tasks plan) S E" and t: "t \<in> set (bp_tasks plan)"
    and preds: "\<And>p. p \<in> set (pt_predecessors t) \<Longrightarrow> pl_end (plan_dates plan opt p) \<le> E p"
  shows "pl_start (plan_dates plan opt (pt_ref t)) \<le> S (pt_ref t) \<and> pl_end (plan_dates plan opt (pt_ref t)) \<le> E (pt_ref t)"
proof -
  let ?D = "plan_dates plan opt" and ?w = "working_day opt" and ?r = "pt_ref t"
  have mt: "project_start opt \<le> S ?r" "?w (S ?r)" "S ?r \<le> E ?r"
    "of_int (duration_of opt t - 1) \<le> (of_nat (work_in ?w (S ?r) (E ?r)) :: rat)"
    "\<And>p. p \<in> set (pt_predecessors t) \<Longrightarrow> 1 + lag_of t \<le> of_nat (work_in ?w (E p) (S ?r))"
    using m t by (auto simp: meets_plan_def list_all_iff)
  obtain s0 where f: "pl_start (?D ?r) = rollToWorkingDay ?w s0"
    "(s0 = project_start opt \<and> pl_driver (?D ?r) = None)
      \<or> (\<exists>p \<in> set (pt_predecessors t). pl_driver (?D ?r) = Some p \<and> s0 = advanceWorkingDays ?w (pl_end (?D p)) (1 + lag_of t))"
    "pl_end (?D ?r) = (if duration_of opt t \<le> 0 then pl_start (?D ?r)
      else advanceWorkingDays ?w (pl_start (?D ?r)) (of_int (duration_of opt t - 1)))"
    using task_dates_facts [OF v t] by metis
  have "advanceWorkingDays ?w (pl_end (?D p)) (1 + lag_of t) \<le> S ?r" if p: "p \<in> set (pt_predecessors t)" for p
  proof (rule advance_facts(3))
    have "0 < of_nat (work_in ?w (E p) (S ?r)) + (0 :: rat)" using mt(5) [OF p] by (simp add: lag_of_def)
    then have "E p < S ?r" by (cases "E p < S ?r") auto
    then show "pl_end (?D p) \<le> S ?r" using preds [OF p] by simp
    show "1 + lag_of t \<le> of_nat (work_in ?w (pl_end (?D p)) (S ?r))"
      using mt(5) [OF p] work_in_antimono [OF preds [OF p], of ?w "S ?r"] by (meson of_nat_mono order_trans)
  qed
  then have "s0 \<le> S ?r" using f(2) mt(1) by auto
  then have s: "pl_start (?D ?r) \<le> S ?r" using f(1) mt(2) roll_facts(3) by metis
  have "of_int (duration_of opt t - 1) \<le> (of_nat (work_in ?w (pl_start (?D ?r)) (E ?r)) :: rat)"
    using mt(4) work_in_antimono [OF s, of ?w "E ?r"] by (meson of_nat_mono order_trans)
  then have "pl_end (?D ?r) \<le> E ?r" using f(3) s mt(3) advance_facts(3) [of "pl_start (?D ?r)" "E ?r"] by auto
  then show ?thesis using s by blast
qed

lemma ordered_induct:
  assumes "ordered pre order" "\<And>r. r \<in> set order \<Longrightarrow> (\<And>p. p \<in> set (pre r) \<Longrightarrow> P p) \<Longrightarrow> P r" "r \<in> set order"
  shows "P r"
proof -
  have "P (order ! i)" if "i < length order" for i
    using that
  proof (induction i rule: less_induct)
    case (less i)
    have "P p" if p: "p \<in> set (pre (order ! i))" for p
    proof -
      have "p \<in> set (take i order)" using assms(1) less.prems p by (auto simp: ordered_def)
      then obtain j where "j < i" "p = order ! j" using less.prems by (auto simp: in_set_conv_nth)
      then show ?thesis using less by simp
    qed
    then show ?case using assms(2) less.prems by simp
  qed
  then show ?thesis using assms(3) by (auto simp: in_set_conv_nth)
qed

lemma set_insert_by [simp]: "set (insert_by lt x xs) = insert x (set xs)"
  by (induction xs) auto

lemma length_insert_by [simp]: "length (insert_by lt x xs) = Suc (length xs)"
  by (induction xs) auto

lemma set_sort_by [simp]: "set (sort_by lt xs) = set xs"
  unfolding sort_by_def by (induction xs) simp_all

lemma length_sort_by [simp]: "length (sort_by lt xs) = length xs"
  unfolding sort_by_def by (induction xs) simp_all

lemma dated_fields:
  assumes "finish_of (at_ref (date_tasks opt start ts order [])) order (None, start) = (fin, f)"
  defines "path \<equiv> walk_back (length order + 1) (\<lambda>r. pl_driver (at_ref (date_tasks opt start ts order []) r)) fin []"
  shows "ps_tasks (dated opt ts order start deadline)
      = sort_by before_task (map (\<lambda>r. scheduled opt (date_tasks opt start ts order []) path (the (task_by_ref ts r))) order)"
    "ps_criticalPath (dated opt ts order start deadline) = path"
    "ps_targetCompletionDate (dated opt ts order start deadline) = formatISODate (if ts = [] then start else f)"
  using assms by (simp_all add: dated_def Let_def del: walk_back.simps task_by_ref.simps)

lemma schedule_task_rows:
  assumes "calculateProjectSchedule plan opt = Inr sched"
  shows "validateBuildPlan plan = []" "length (ps_tasks sched) = length (bp_tasks plan)"
    "t \<in> set (bp_tasks plan) \<Longrightarrow> \<exists>x \<in> set (ps_tasks sched). st_ref x = pt_ref t \<and> st_durationDays x = duration_of opt t
       \<and> st_startDate x = formatISODate (pl_start (plan_dates plan opt (pt_ref t)))
       \<and> st_endDate x = formatISODate (pl_end (plan_dates plan opt (pt_ref t)))"
proof -
  let ?ts = "bp_tasks plan"
  obtain order deadline where o: "validateBuildPlan plan = []" "topoOrder ?ts = Some order"
    "sched = dated opt ?ts order (project_start opt) deadline" using schedule_parts [OF assms] by blast
  have g: "task_graph_ok ?ts" using valid_plan_tasks(1) [OF o(1)] .
  have ord: "distinct order" "set order = pt_ref ` set ?ts" using topoOrder_valid [OF g] o(2) by auto
  have d: "distinct (map pt_ref ?ts)" using g by (simp add: task_graph_ok_def)
  let ?ds = "date_tasks opt (project_start opt) ?ts order []"
  obtain path where rows: "ps_tasks sched = sort_by before_task (map (\<lambda>r. scheduled opt ?ds path (the (task_by_ref ?ts r))) order)"
    using dated_fields(1) unfolding o(3) by (metis surj_pair)
  show "validateBuildPlan plan = []" by (rule o(1))
  have "length order = length ?ts" using ord d by (metis distinct_card length_map list.set_map)
  then show "length (ps_tasks sched) = length ?ts" by (simp add: rows)
  assume t: "t \<in> set ?ts"
  have "scheduled opt ?ds path (the (task_by_ref ?ts (pt_ref t))) \<in> set (ps_tasks sched)" using ord(2) t by (auto simp: rows)
  then show "\<exists>x \<in> set (ps_tasks sched). st_ref x = pt_ref t \<and> st_durationDays x = duration_of opt t
       \<and> st_startDate x = formatISODate (pl_start (plan_dates plan opt (pt_ref t)))
       \<and> st_endDate x = formatISODate (pl_end (plan_dates plan opt (pt_ref t)))"
    by (rule rev_bexI) (simp add: task_by_ref_Some [OF d t] scheduled_def plan_dates_def o(2) del: task_by_ref.simps)
qed

lemma dates_are_earliest:
  assumes "validateBuildPlan plan = []" "meets_plan opt (bp_tasks plan) S E" "t \<in> set (bp_tasks plan)"
  shows "pl_start (plan_dates plan opt (pt_ref t)) \<le> S (pt_ref t) \<and> pl_end (plan_dates plan opt (pt_ref t)) \<le> E (pt_ref t)"
proof -
  let ?ts = "bp_tasks plan"
  have g: "task_graph_ok ?ts" using valid_plan_tasks(1) [OF assms(1)] .
  obtain order where o: "set order = pt_ref ` set ?ts" "ordered (pre_of ?ts) order" using topoOrder_valid [OF g] by blast
  have d: "distinct (map pt_ref ?ts)" using g by (simp add: task_graph_ok_def)
  let ?P = "\<lambda>r. pl_start (plan_dates plan opt r) \<le> S r \<and> pl_end (plan_dates plan opt r) \<le> E r"
  have "?P r" if "r \<in> set order" for r
    using o(2) _ that
  proof (rule ordered_induct)
    fix r assume r: "r \<in> set order" and ih: "\<And>p. p \<in> set (pre_of ?ts r) \<Longrightarrow> ?P p"
    obtain u where u: "u \<in> set ?ts" "r = pt_ref u" using r o(1) by auto
    have "set (pt_predecessors u) \<subseteq> set (pre_of ?ts r)"
      using g u pre_of_task [OF d u(1)] by (auto simp: preds_in_def task_graph_ok_def)
    then show "?P r" using earliest_task [OF assms(1,2) u(1)] ih u(2) by blast
  qed
  then show ?thesis using assms(3) o(1) by blast
qed

section \<open>The latest finish and the driving path\<close>

lemma finish_of_facts:
  assumes "finish_of pls rs (fin, ts) = (fin', ts')" "\<And>f. fin = Some f \<Longrightarrow> ts = pl_end (pls f)"
  shows "(fin = None \<or> ts \<le> ts') \<and> (\<forall>r \<in> set rs. pl_end (pls r) \<le> ts')
    \<and> (case fin' of None \<Rightarrow> fin = None \<and> rs = [] \<and> ts' = ts | Some f \<Rightarrow> ts' = pl_end (pls f) \<and> (fin = Some f \<or> f \<in> set rs))"
  using assms
proof (induction rs arbitrary: fin ts)
  case Nil
  then show ?case by (auto split: option.splits)
next
  case (Cons r rs)
  let ?new = "fin = None \<or> pl_end (pls r) > ts \<or> (pl_end (pls r) = ts \<and> pl_start (pls r) > pl_start (pls (the fin)))"
  show ?case
  proof (cases ?new)
    case True
    then have "finish_of pls rs (Some r, pl_end (pls r)) = (fin', ts')" using Cons.prems(1) by (auto simp: Let_def split: option.splits)
    from Cons.IH [OF this] True show ?thesis by (auto split: option.splits)
  next
    case False
    then have "finish_of pls rs (fin, ts) = (fin', ts')" using Cons.prems(1) by (auto simp: Let_def split: option.splits)
    from Cons.IH [OF this Cons.prems(2)] False show ?thesis by (auto split: option.splits)
  qed
qed

text \<open>Walking back along the drivers of an order ends at a task without driver, within the guard.\<close>

definition chain :: "(string \<Rightarrow> string option) \<Rightarrow> string list \<Rightarrow> bool" where
  "chain driver path \<longleftrightarrow> (\<forall>i. Suc i < length path \<longrightarrow> driver (path ! Suc i) = Some (path ! i))"

lemma walk_back_facts:
  assumes "order ! i = c" "i < length order" "i < n" "[] \<notin> set order"
    and drv: "\<And>j p. j < length order \<Longrightarrow> driver (order ! j) = Some p \<Longrightarrow> \<exists>k < j. order ! k = p"
    and "path = [] \<or> driver (hd path) = Some c" "chain driver path"
  shows "\<exists>pre. walk_back n driver (Some c) path = pre @ c # path \<and> chain driver (pre @ c # path)
    \<and> driver (hd (pre @ c # path)) = None \<and> set (pre @ [c]) \<subseteq> set order"
  using assms(1-3,6,7)
proof (induction n arbitrary: i c path)
  case (Suc n)
  have c: "c \<noteq> []" "c \<in> set order" using nth_mem [OF Suc.prems(2)] Suc.prems(1) assms(4) by auto
  have ch: "chain driver (c # path)"
    using Suc.prems(4,5) by (cases path) (auto simp: chain_def nth_Cons split: nat.splits)
  show ?case
  proof (cases "driver c")
    case None
    have "walk_back n driver None (c # path) = c # path" by (cases n) auto
    then show ?thesis using None c ch by (intro exI [of _ "[]"]) simp
  next
    case (Some p)
    then obtain k where k: "k < i" "order ! k = p" using drv [OF Suc.prems(2)] Suc.prems(1) by auto
    have "\<exists>pre. walk_back n driver (Some p) (c # path) = pre @ p # c # path \<and> chain driver (pre @ p # c # path)
      \<and> driver (hd (pre @ p # c # path)) = None \<and> set (pre @ [p]) \<subseteq> set order"
      using k Suc.prems(2,3) Some ch by (intro Suc.IH [of k]) auto
    then obtain pre where "walk_back n driver (Some p) (c # path) = pre @ p # c # path" "chain driver (pre @ p # c # path)"
      "driver (hd (pre @ p # c # path)) = None" "set (pre @ [p]) \<subseteq> set order" by blast
    then show ?thesis using Some c by (intro exI [of _ "pre @ [p]"]) simp
  qed
qed simp

lemma plan_path:
  assumes "calculateProjectSchedule plan opt = Inr sched" "bp_tasks plan \<noteq> []"
  defines "D \<equiv> plan_dates plan opt"
  shows "\<exists>f. f \<in> pt_ref ` set (bp_tasks plan) \<and> ps_targetCompletionDate sched = formatISODate (pl_end (D f))
      \<and> (\<forall>t \<in> set (bp_tasks plan). pl_end (D (pt_ref t)) \<le> pl_end (D f))
      \<and> ps_criticalPath sched \<noteq> [] \<and> last (ps_criticalPath sched) = f \<and> set (ps_criticalPath sched) \<subseteq> pt_ref ` set (bp_tasks plan)
      \<and> pl_driver (D (hd (ps_criticalPath sched))) = None \<and> chain (\<lambda>r. pl_driver (D r)) (ps_criticalPath sched)"
proof -
  let ?ts = "bp_tasks plan"
  obtain order deadline where o: "validateBuildPlan plan = []" "topoOrder ?ts = Some order"
    "sched = dated opt ?ts order (project_start opt) deadline" using schedule_parts [OF assms(1)] by blast
  have g: "task_graph_ok ?ts" using valid_plan_tasks(1) [OF o(1)] .
  have d: "distinct (map pt_ref ?ts)" using g by (simp add: task_graph_ok_def)
  have ord: "distinct order" "set order = pt_ref ` set ?ts" "ordered (pre_of ?ts) order" using topoOrder_valid [OF g] o(2) by auto
  have D: "at_ref (date_tasks opt (project_start opt) ?ts order []) = D" by (simp add: D_def plan_dates_def o(2))
  obtain fin f where f: "finish_of D order (None, project_start opt) = (fin, f)" by fastforce
  note fl = dated_fields [of opt "project_start opt" ?ts order fin f deadline, unfolded D, OF f, folded o(3)]
  have "order \<noteq> []" using ord(2) assms(2) by auto
  then obtain c where c: "fin = Some c" "f = pl_end (D c)" "c \<in> set order" "\<forall>r \<in> set order. pl_end (D r) \<le> f"
    using finish_of_facts [OF f] by (auto split: option.splits)
  then obtain i where i: "order ! i = c" "i < length order" by (auto simp: in_set_conv_nth)
  have ne: "[] \<notin> set order" using valid_plan_tasks(2) [OF o(1)] ord(2) by auto
  have drv: "\<exists>k < j. order ! k = p" if j: "j < length order" and p: "pl_driver (D (order ! j)) = Some p" for j p
  proof -
    obtain t where t: "t \<in> set ?ts" "order ! j = pt_ref t" using ord(2) nth_mem [OF j] by auto
    have "p \<in> set (pt_predecessors t)" using task_dates_facts [OF o(1) t(1), of opt] p t(2) unfolding D_def by (metis option.distinct(1) option.inject)
    then have "p \<in> set (pre_of ?ts (order ! j))"
      using g t pre_of_task [OF d t(1)] by (auto simp: preds_in_def task_graph_ok_def)
    then have "p \<in> set (take j order)" using ord(3) j by (auto simp: ordered_def)
    then show ?thesis using j by (auto simp: in_set_conv_nth)
  qed
  have "i < length order + 1" using i(2) by simp
  from walk_back_facts [where driver = "\<lambda>r. pl_driver (D r)" and path = "[]", OF i this ne drv]
  obtain pre where pre: "walk_back (length order + 1) (\<lambda>r. pl_driver (D r)) (Some c) [] = pre @ [c]" "chain (\<lambda>r. pl_driver (D r)) (pre @ [c])"
    "pl_driver (D (hd (pre @ [c]))) = None" "set (pre @ [c]) \<subseteq> set order"
    by (metis chain_def list.size(3) not_less_zero)
  have path: "ps_criticalPath sched = pre @ [c]" using fl(2) c(1) pre(1) by simp
  show ?thesis using path pre(2-4) c ord(2) fl(3) assms(2) by (intro exI [of _ c]) auto
qed

definition ex_options :: schedule_options where
  "ex_options = \<lparr>so_startDate = ''2026-01-02'', so_hoursPerDay = None, so_defaultCrewSize = None, so_workweek = None,
     so_holidays = None, so_targetCompletionDate = None\<rparr>"

text \<open>A Friday start (day 20455): two days of work, then, after the weekend, one more.\<close>

lemma ex_friday: "project_start ex_options = 20455" "working_day ex_options d = (isoWeekday d \<in> {1, 2, 3, 4, 5})"
  "parseISODate (so_startDate ex_options) = Some 20455"
proof -
  show w: "working_day ex_options d = (isoWeekday d \<in> {1, 2, 3, 4, 5})" for d
    by (simp add: working_day_def makeIsWorkingDay_def ex_options_def or_else_def)
  have "is_iso_date ''2026-01-02''" by code_simp
  then show p: "parseISODate (so_startDate ex_options) = Some 20455"
    by (simp add: parseISODate_def ex_options_def date_parse_def year_of_def month_of_def day_of_def str_to_nat_def digit_val_def
        day_number_def days_to_year_def EPOCH_def days_to_month_def)
  show "project_start ex_options = 20455"
    using roll_facts(1) [of 20455 "working_day ex_options"] roll_facts(3) [of 20455 20455 "working_day ex_options"]
    by (simp add: project_start_def p w isoWeekday_def)
qed

lemma ex_scheduled: "\<exists>sched. calculateProjectSchedule ex_plan ex_options = Inr sched"
proof -
  have "validateBuildPlan ex_plan = []" "check_options ex_options = None" "topoOrder (bp_tasks ex_plan) = Some [''a'', ''b'']"
    by code_simp+
  then show ?thesis by (simp add: calculateProjectSchedule_def ex_friday Let_def) (simp add: ex_options_def)
qed

definition ex_start :: "string \<Rightarrow> day" where
  "ex_start r = (if r = ''a'' then 20455 else 20459)"

definition ex_end :: "string \<Rightarrow> day" where
  "ex_end r = (if r = ''a'' then 20458 else 20459)"

lemma ex_meets: "meets_plan ex_options (bp_tasks ex_plan) ex_start ex_end"
proof -
  have d: "duration_of ex_options (ex_task r h ps) = max 1 \<lceil>h / 8\<rceil>" if "0 < h" for r h ps
    using that by (simp add: duration_of_def durationDaysFor_def ex_task_def ex_options_def crew_of_def or_else_def js_number_def)
  have l: "lag_of (ex_task r h ps) = 0" for r h ps
    by (simp add: lag_of_def ex_task_def js_number_def)
  have w: "work_in (working_day ex_options) 20455 20458 = 1" "work_in (working_day ex_options) 20458 20459 = 1"
    by (simp_all add: work_in_between workingDaysBetween_def ex_friday isoWeekday_def upto_rec1)
  show ?thesis
    unfolding meets_plan_def ex_plan_def using w
    by (simp add: d l ex_friday isoWeekday_def) (simp add: ex_task_def ex_start_def ex_end_def ex_friday isoWeekday_def)
qed

section \<open>Properties\<close>



text \<open>C37. No timetable that keeps the plan (working start days, durations, dependencies with their lag) starts or
  ends any task, or the project, before the computed one.\<close>

theorem schedule_is_earliest:
  assumes sched: "calculateProjectSchedule plan opt = Inr sched" and m: "meets_plan opt (bp_tasks plan) S E"
    and t: "t \<in> set (bp_tasks plan)"
  shows "(\<exists>x \<in> set (ps_tasks sched). st_ref x = pt_ref t \<and> st_startDate x = formatISODate (pl_start (plan_dates plan opt (pt_ref t)))
      \<and> st_endDate x = formatISODate (pl_end (plan_dates plan opt (pt_ref t))))
    \<and> pl_start (plan_dates plan opt (pt_ref t)) \<le> S (pt_ref t) \<and> pl_end (plan_dates plan opt (pt_ref t)) \<le> E (pt_ref t)
    \<and> (\<exists>f. ps_targetCompletionDate sched = formatISODate f \<and> f \<le> Max ((\<lambda>t. E (pt_ref t)) ` set (bp_tasks plan)))"
proof -
  have v: "validateBuildPlan plan = []" using schedule_task_rows(1) [OF sched] .
  have ne: "bp_tasks plan \<noteq> []" using t by auto
  obtain f where f: "f \<in> pt_ref ` set (bp_tasks plan)" "ps_targetCompletionDate sched = formatISODate (pl_end (plan_dates plan opt f))"
    using plan_path [OF sched ne] by blast
  then have "pl_end (plan_dates plan opt f) \<le> E f" using dates_are_earliest [OF v m] by auto
  also have "E f \<le> Max ((\<lambda>t. E (pt_ref t)) ` set (bp_tasks plan))" using f(1) by (auto intro!: Max_ge)
  finally show ?thesis using schedule_task_rows(3) [OF sched t] dates_are_earliest [OF v m t] f(2) by blast
qed

theorem schedule_is_earliest_witness:
  "pl_start (plan_dates ex_plan ex_options ''b'') \<le> 20459 \<and> pl_end (plan_dates ex_plan ex_options ''b'') \<le> 20459"
proof -
  obtain sched where s: "calculateProjectSchedule ex_plan ex_options = Inr sched" using ex_scheduled by blast
  have t: "ex_task ''b'' 8 [''a''] \<in> set (bp_tasks ex_plan)" by (simp add: ex_plan_def)
  from schedule_is_earliest [OF s ex_meets t] show ?thesis by (simp add: ex_task_def ex_start_def ex_end_def)
qed

text \<open>C38. The critical path of a schedule with tasks explains the target completion day: it starts as early as the
  project, each next task is a successor of the one before and starts on the first working day its lag allows, and
  the last one ends on the target day, which no task passes.\<close>

theorem critical_path_has_no_slack:
  assumes sched: "calculateProjectSchedule plan opt = Inr sched" and ne: "bp_tasks plan \<noteq> []"
    and path: "ps_criticalPath sched = path" and D: "D = plan_dates plan opt" and w: "w = working_day opt"
  shows "path \<noteq> [] \<and> set path \<subseteq> pt_ref ` set (bp_tasks plan)
    \<and> pl_start (D (hd path)) = rollToWorkingDay w (project_start opt)
    \<and> (\<forall>i. Suc i < length path \<longrightarrow> (\<exists>t \<in> set (bp_tasks plan). pt_ref t = path ! Suc i \<and> path ! i \<in> set (pt_predecessors t)
        \<and> pl_start (D (pt_ref t)) = rollToWorkingDay w (advanceWorkingDays w (pl_end (D (path ! i))) (1 + lag_of t))))
    \<and> ps_targetCompletionDate sched = formatISODate (pl_end (D (last path)))
    \<and> (\<forall>t \<in> set (bp_tasks plan). pl_end (D (pt_ref t)) \<le> pl_end (D (last path)))"
proof -
  have v: "validateBuildPlan plan = []" using schedule_task_rows(1) [OF sched] .
  have p: "path \<noteq> []" "set path \<subseteq> pt_ref ` set (bp_tasks plan)" "pl_driver (D (hd path)) = None" "chain (\<lambda>r. pl_driver (D r)) path"
    "ps_targetCompletionDate sched = formatISODate (pl_end (D (last path)))"
    "\<forall>t \<in> set (bp_tasks plan). pl_end (D (pt_ref t)) \<le> pl_end (D (last path))"
    using plan_path [OF sched ne] unfolding path D by (blast, blast, blast, blast, metis, metis)
  have hd: "pl_start (D (pt_ref t)) = rollToWorkingDay w (project_start opt)"
    if "t \<in> set (bp_tasks plan)" "pl_driver (D (pt_ref t)) = None" for t
    using task_dates_facts [OF v that(1), of opt] that(2) unfolding D w by (metis option.distinct(1))
  have step: "q \<in> set (pt_predecessors t) \<and> pl_start (D (pt_ref t)) = rollToWorkingDay w (advanceWorkingDays w (pl_end (D q)) (1 + lag_of t))"
    if "t \<in> set (bp_tasks plan)" "pl_driver (D (pt_ref t)) = Some q" for t q
    using task_dates_facts [OF v that(1), of opt] that(2) unfolding D w by (metis option.distinct(1) option.inject)
  have "\<exists>t \<in> set (bp_tasks plan). pt_ref t = path ! Suc i \<and> path ! i \<in> set (pt_predecessors t)
      \<and> pl_start (D (pt_ref t)) = rollToWorkingDay w (advanceWorkingDays w (pl_end (D (path ! i))) (1 + lag_of t))"
    if i: "Suc i < length path" for i
  proof -
    obtain t where t: "t \<in> set (bp_tasks plan)" "path ! Suc i = pt_ref t" using p(2) nth_mem [OF i] by auto
    have "pl_driver (D (pt_ref t)) = Some (path ! i)" using p(4) i t(2) unfolding chain_def by metis
    then show ?thesis using step [OF t(1)] t by metis
  qed
  moreover obtain t where "t \<in> set (bp_tasks plan)" "hd path = pt_ref t" using p(1,2) hd_in_set by blast
  ultimately show ?thesis using p hd by auto
qed

theorem critical_path_has_no_slack_witness:
  "\<exists>sched. calculateProjectSchedule ex_plan ex_options = Inr sched
    \<and> pl_start (plan_dates ex_plan ex_options (hd (ps_criticalPath sched))) = 20455"
proof -
  obtain sched where s: "calculateProjectSchedule ex_plan ex_options = Inr sched" using ex_scheduled by blast
  have ne: "bp_tasks ex_plan \<noteq> []" by (simp add: ex_plan_def)
  have "rollToWorkingDay (working_day ex_options) 20455 = 20455"
    using roll_facts(1) [of 20455 "working_day ex_options"] roll_facts(3) [of 20455 20455 "working_day ex_options"]
    by (simp add: ex_friday isoWeekday_def)
  then show ?thesis using critical_path_has_no_slack [OF s ne refl refl refl] s by (auto simp: ex_friday)
qed

section \<open>Two surprises\<close>

text \<open>A milestone has no duration, but a successor starts only after its day: put between two tasks it delays the
  second by a working day.\<close>

lemma milestone_takes_a_day:
  assumes "calculateProjectSchedule plan opt = Inr sched" "m \<in> set (bp_tasks plan)" "pt_milestone m"
    and "t \<in> set (bp_tasks plan)" "pt_ref m \<in> set (pt_predecessors t)"
  shows "pl_end (plan_dates plan opt (pt_ref m)) = pl_start (plan_dates plan opt (pt_ref m))
    \<and> pl_start (plan_dates plan opt (pt_ref m)) < pl_start (plan_dates plan opt (pt_ref t))"
proof -
  have v: "validateBuildPlan plan = []" using schedule_task_rows(1) [OF assms(1)] .
  have "duration_of opt m = 0" using assms(3) by (simp add: duration_of_def durationDaysFor_def)
  then have e: "pl_end (plan_dates plan opt (pt_ref m)) = pl_start (plan_dates plan opt (pt_ref m))"
    using task_dates_facts [OF v assms(2), of opt] by (metis order_refl)
  obtain s0 where s0: "pl_start (plan_dates plan opt (pt_ref t)) = rollToWorkingDay (working_day opt) s0"
    "\<forall>p \<in> set (pt_predecessors t). advanceWorkingDays (working_day opt) (pl_end (plan_dates plan opt p)) (1 + lag_of t) \<le> s0"
    using task_dates_facts [OF v assms(4), of opt] by metis
  have "pl_end (plan_dates plan opt (pt_ref m)) < advanceWorkingDays (working_day opt) (pl_end (plan_dates plan opt (pt_ref m))) (1 + lag_of t)"
    by (rule advance_moves) (simp add: lag_of_def)
  also have "\<dots> \<le> s0" using s0(2) assms(5) by blast
  also have "s0 \<le> pl_start (plan_dates plan opt (pt_ref t))" using s0(1) roll_facts(1) by simp
  finally show ?thesis using e by simp
qed

text \<open>A fractional weekday passes the check of the options, and then no day is a working day.\<close>

lemma fractional_weekday_accepted:
  assumes "check_options opt = None" "so_workweek opt = None"
  shows "check_options (opt\<lparr>so_workweek := Some [3 / 2]\<rparr>) = None \<and> \<not> working_day (opt\<lparr>so_workweek := Some [3 / 2]\<rparr>) d"
proof -
  have "of_int (isoWeekday d) \<noteq> (3 / 2 :: rat)"
  proof
    assume "of_int (isoWeekday d) = (3 / 2 :: rat)"
    then have "of_int (2 * isoWeekday d) = (of_int 3 :: rat)" by simp
    then have "2 * isoWeekday d = 3" using of_int_eq_iff by blast
    then show False by presburger
  qed
  then show ?thesis using assms
    by (auto simp: check_options_def working_day_def makeIsWorkingDay_def or_else_def uniq_def Let_def split: if_splits)
qed

end
