(* ===== verification/Spec2Isabelle.thy ===== *)
theory Spec2Isabelle
  imports Client_Facts Dispatch_Facts Plan_Facts Merge_Facts Bulk_Facts Pacing_Facts Prepare_Facts Contract_Facts Schedule_Facts
begin

text \<open>
  autotask-mcp: a relay that exposes Autotask PSA as tools of the Model Context Protocol. A tool call
  arrives with a caller context, passes the gates (role, raw request, confirmation, idempotency),
  runs a handler over the Autotask HTTP client, and is logged. Mass changes do not run in the call:
  they are staged as change plans, merge work lists or bulk jobs that a person approves first.

  \<^bold>\<open>Theories, bottom up.\<close>
    \<^item> \<open>Relay_Prelude\<close>, \<open>Js_Values\<close>: JavaScript strings, numbers and JSON values; numbers are rationals,
      \<open>NaN\<close> is \<^const>\<open>None\<close>, strings are ASCII. \<open>Keyed_Store\<close>: the contract (locale) of the bounded
      in-memory stores, interpreted for the read cache and for the replay store.
    \<^item> \<open>Endpoint_Gate\<close>: \<open>acquireEndpointSlot\<close> / \<open>releaseEndpointSlot\<close> (services/autotask-http.ts) as a step
      relation over arriving, waiting and continuing calls, and \<open>mapWithConcurrency\<close> (utils/concurrency.ts).
    \<^item> \<open>Auth_Breaker\<close>, \<open>Http_Send\<close>, \<open>Login_Guard\<close>: the pause after failed logins, its probe, its saved row and
      the 429 cooldown; \<open>sendUngated\<close> with its zone retry and its reading of the answer; what both guarantee.
    \<^item> \<open>Http_Cache\<close>: services/http-cache.ts, a read split into begin and settle so that other calls run in between.
    \<^item> \<open>Http_Client\<close>, \<open>Client_Facts\<close>: \<open>request\<close>, \<open>query\<close>, \<open>queryByIds\<close>, \<open>get\<close>, \<open>getWithRetry\<close>, the writes, \<open>rawRequest\<close>.
    \<^item> \<open>Caller_Context\<close>, \<open>Safety_Gates\<close>, \<open>Company_Guard\<close>, \<open>Idempotency\<close>: types/context.ts, utils/impersonation.ts,
      utils/permissions.ts, utils/risk.ts, utils/raw-gate.ts, utils/company-guard.ts, utils/idempotency.ts and the
      claims of db/operation-store.ts.
    \<^item> \<open>Tool_Dispatch\<close>, \<open>Dispatch_Facts\<close>: \<open>dispatchToolCall\<close> (handlers/tool.handler.ts) with those gates in the
      order of the code; a tool handler is a function on the outside world.
    \<^item> \<open>Change_Plans\<close>, \<open>Plan_Facts\<close>: change-plans/store.ts, execute.ts, revert.ts.
    \<^item> \<open>Merge_Model\<close>, \<open>Merge_Facts\<close>: merge/model.ts, whose rows are change-plan rows.
    \<^item> \<open>Bulk_Schedule\<close>, \<open>Bulk_Jobs\<close>, \<open>Bulk_Service\<close>, \<open>Bulk_Facts\<close>, \<open>Pacing_Facts\<close>: bulk/schedule.ts, store.ts,
      worker.ts, service.ts, patient.ts; the running system is a step relation over requests, preparations,
      worker ticks, answers and restarts.
    \<^item> \<open>Bulk_Prepare\<close>, \<open>Prepare_Facts\<close>: bulk/prepare.ts and prepare-contacts.ts, which decide what a job may touch.
    \<^item> \<open>Js_Date\<close>, \<open>Project_Plan\<close>, \<open>Project_Schedule\<close>, \<open>Project_Facts\<close>, \<open>Schedule_Facts\<close>: utils/project-plan.ts,
      project-build.ts, project-schedule.ts; calendar days are day numbers, \<open>Date.parse\<close> is V8's.
    \<^item> \<open>Contract_Plan\<close>, \<open>Contract_Facts\<close>: vendors/contract-plan.ts, from report rows of a vendor reconciliation
      to change-plan rows.

  \<^bold>\<open>Correspondence.\<close> An interface of the source is a record with the source's field names behind a prefix, a
  union a datatype, a thrown error an \<^const>\<open>Inl\<close> or \<^const>\<open>None\<close>, a \<open>Map\<close> an association list in insertion
  order, a Postgres table a list or a map with one function per SQL statement. Module state is a record
  passed through. Where the code awaits, the model cuts: one definition per part, so that interleavings are
  sequences of steps. The clock is an argument.

  \<^bold>\<open>Parameters.\<close> The fetch and Autotask's answers, the tool handlers, digests, \<open>Intl\<close> time zones, the settings
  and the database's presence are arguments of the definitions; hypotheses on them are in the statements.

  \<^bold>\<open>Loops.\<close> The page walks of \<open>query\<close> and of the preparations and the waits of \<open>patientQuery\<close> may run for ever
  in the code; they are partial functions into \<open>option\<close>, and the properties prove that they return (for \<open>query\<close> against a server
  whose pages run out; \<open>query_walk_unbounded\<close> in \<open>Client_Facts\<close> shows the walk that never ends). The cycle search,
  the phase order and Kahn's loop of a project plan carry fuel (the number of nodes, plus one for the
  searches), and \<open>Project_Facts\<close> proves it enough. Every other loop is structural recursion or has a measure.

  \<^bold>\<open>Groups of lemmas.\<close> The gates: who gets through, what a refusal leaves untouched, at most one effect per
  key. The client: admission and bounds on failed logins, cache soundness as an invariant of the reachable
  states, completeness of reads, invalidation after writes. Plans, merges, jobs: nothing runs unapproved, an
  applied row was read back, a changed target is left alone. Preparations and the contract plan: what may become
  an item or an unblocked row. Project plans: cycles are found, orders exist, dates are the earliest possible. Some theorems exhibit behaviours the code does
  not mean to have; they say so in their text.

  \<^bold>\<open>Not modelled.\<close> services/autotask.service.ts and handlers/tool.definitions.ts (one thin method and one JSON
  schema per operation), the MCP transport, the admin console, the SQL mirror (the client takes it as a
  parameter), message wording, logging and notifications. The comparison behind a reconciliation
  (vendors/reconcile.ts) and the other vendor, commerce and reporting modules are planned, not modelled.
\<close>

end
